(* ===== verification/Fabric_Prelude.thy ===== *)
theory Fabric_Prelude
  imports Main "HOL-Library.Word"
begin

text \<open>
  The prelude of the development: the types and standard-library operations that the
  components of fabricd share.  It holds the machine integers and the clock arithmetic of
  Rust's \<^verbatim>\<open>std\<close> (saturating and checked operations, \<^verbatim>\<open>Duration\<close>, \<^verbatim>\<open>Instant\<close>), the string
  operations the sources use (\<^verbatim>\<open>trim_end_matches\<close>, \<^verbatim>\<open>lines\<close>, \<^verbatim>\<open>contains\<close>, decimal
  \<^verbatim>\<open>Display\<close>), the error monad helpers (\<^verbatim>\<open>map_err\<close>, \<^verbatim>\<open>ok_or\<close>, \<^verbatim>\<open>filter\<close>), and the lemma
  collections used by the component proofs.

  Effects are modelled by explicit state passing over a type variable \<open>'w\<close>, the outside
  world (network peers, drivers, clock, file system).  A driver call is a function
  \<open>'w \<Rightarrow> 'a \<times> 'w\<close>, so every theorem holds for every behaviour of the outside world.
\<close>

section \<open>Collections\<close>

named_theorems fault_defs \<open>the classified fault constants of the drivers\<close>
named_theorems ctor_defs \<open>constructors of error values and their conversions\<close>
named_theorems route_defs \<open>routing functions: dispatch on an action or a name\<close>

lemmas result_splits = sum.splits prod.splits option.splits if_splits

section \<open>Types\<close>

type_synonym u16 = "16 word"
type_synonym i16 = "16 word"
type_synonym i32 = "32 word"
type_synonym i64 = "64 word"
type_synonym u64 = "64 word"
type_synonym f32 = "32 word"
type_synonym f64 = "64 word"

text \<open>Lengths and caps (\<^verbatim>\<open>usize\<close>): natural numbers; where the code adds them it saturates at
  \<open>usize_max\<close> (64-bit targets).\<close>
type_synonym usize = nat

text \<open>An instant and a duration, in nanoseconds.\<close>
type_synonym instant = nat
type_synonym duration = nat

text \<open>An opaque reference to a live object of a driver (a client, a connection, a breaker).\<close>
type_synonym handle = nat

text \<open>\<^verbatim>\<open>Result<A, E>\<close>: \<open>Inl\<close> is \<^verbatim>\<open>Err\<close>, \<open>Inr\<close> is \<^verbatim>\<open>Ok\<close>.\<close>
type_synonym ('e, 'a) result = "'e + 'a"

text \<open>An effectful operation on the outside world.\<close>
type_synonym ('w, 'a) io = "'w \<Rightarrow> 'a \<times> 'w"

text \<open>Reading the monotonic clock (\<^verbatim>\<open>Instant::now\<close>).\<close>
type_synonym 'w clock = "('w, instant) io"

text \<open>What \<^verbatim>\<open>tokio::time::timeout\<close> gives: the value of the future, or that the budget
  elapsed first.  A future raced against a budget is a function of that budget.\<close>
datatype 'a timed = Done 'a | Elapsed

section \<open>Machine arithmetic\<close>

definition usize_max :: usize where
  "usize_max = 2 ^ 64 - 1"

definition usize_saturating_add :: "usize \<Rightarrow> usize \<Rightarrow> usize" where
  "usize_saturating_add a b = min usize_max (a + b)"

definition u64_saturating_add :: "u64 \<Rightarrow> u64 \<Rightarrow> u64" where
  "u64_saturating_add a b = (if unat a + unat b < 2 ^ 64 then a + b else - 1)"

text \<open>\<^verbatim>\<open>Duration::from_millis\<close> and \<^verbatim>\<open>Duration::from_secs\<close>.\<close>
definition duration_from_millis :: "u64 \<Rightarrow> duration" where
  "duration_from_millis ms = unat ms * 1000000"

definition duration_from_secs :: "u64 \<Rightarrow> duration" where
  "duration_from_secs s = unat s * 1000000000"

text \<open>\<^verbatim>\<open>Instant\<close> holds signed 64-bit seconds and nanoseconds; \<^verbatim>\<open>checked_add\<close> is \<open>None\<close> past it.\<close>
definition instant_limit :: nat where
  "instant_limit = 2 ^ 63 * 1000000000"

definition instant_checked_add :: "instant \<Rightarrow> duration \<Rightarrow> instant option" where
  "instant_checked_add t d = (if t + d < instant_limit then Some (t + d) else None)"

text \<open>\<^verbatim>\<open>saturating_duration_since\<close> and \<^verbatim>\<open>elapsed\<close>: zero when the other instant is later.\<close>
definition saturating_duration_since :: "instant \<Rightarrow> instant \<Rightarrow> duration" where
  "saturating_duration_since t s = t - s"

definition as_micros :: "duration \<Rightarrow> nat" where
  "as_micros d = d div 1000"

section \<open>Results and options\<close>

definition ok_or :: "'e \<Rightarrow> 'a option \<Rightarrow> ('e, 'a) result" where
  "ok_or e x = (case x of None \<Rightarrow> Inl e | Some a \<Rightarrow> Inr a)"

definition map_err :: "('e \<Rightarrow> 'f) \<Rightarrow> ('e, 'a) result \<Rightarrow> ('f, 'a) result" where
  "map_err f r = (case r of Inl e \<Rightarrow> Inl (f e) | Inr a \<Rightarrow> Inr a)"

definition map_ok :: "('a \<Rightarrow> 'b) \<Rightarrow> ('e, 'a) result \<Rightarrow> ('e, 'b) result" where
  "map_ok f r = (case r of Inl e \<Rightarrow> Inl e | Inr a \<Rightarrow> Inr (f a))"

definition result_ok :: "('e, 'a) result \<Rightarrow> 'a option" where
  "result_ok r = (case r of Inl _ \<Rightarrow> None | Inr a \<Rightarrow> Some a)"

definition is_ok :: "('e, 'a) result \<Rightarrow> bool" where
  "is_ok r = (case r of Inl _ \<Rightarrow> False | Inr _ \<Rightarrow> True)"

definition is_err :: "('e, 'a) result \<Rightarrow> bool" where
  "is_err r = (\<not> is_ok r)"

text \<open>\<^verbatim>\<open>Option::filter(|s| !s.is_empty())\<close>.\<close>
definition non_empty :: "'a list option \<Rightarrow> 'a list option" where
  "non_empty x = (case x of None \<Rightarrow> None | Some s \<Rightarrow> if s = [] then None else Some s)"

section \<open>Strings\<close>

text \<open>\<^verbatim>\<open>Display\<close> of an unsigned integer: decimal, no leading zero.\<close>
fun show_nat :: "nat \<Rightarrow> string" where
  "show_nat n =
     (if n < 10 then [char_of (48 + n)]
      else show_nat (n div 10) @ [char_of (48 + n mod 10)])"

declare show_nat.simps [simp del]

definition show_int :: "int \<Rightarrow> string" where
  "show_int i = (if i < 0 then ''-'' @ show_nat (nat (- i)) else show_nat (nat i))"

definition show_bool :: "bool \<Rightarrow> string" where
  "show_bool b = (if b then ''true'' else ''false'')"

definition is_digit :: "char \<Rightarrow> bool" where
  "is_digit c = (48 \<le> (of_char c :: nat) \<and> (of_char c :: nat) \<le> 57)"

definition trim_end_matches :: "char \<Rightarrow> string \<Rightarrow> string" where
  "trim_end_matches c s = rev (dropWhile (\<lambda>x. x = c) (rev s))"

definition starts_with :: "string \<Rightarrow> string \<Rightarrow> bool" where
  "starts_with p s = (take (length p) s = p)"

fun contains_str :: "string \<Rightarrow> string \<Rightarrow> bool" where
  "contains_str p [] = (p = [])"
| "contains_str p (c # s) = (starts_with p (c # s) \<or> contains_str p s)"

abbreviation lf :: char where "lf \<equiv> CHR 0x0A"
abbreviation cr :: char where "cr \<equiv> CHR 0x0D"
abbreviation quot :: char where "quot \<equiv> CHR 0x22"

text \<open>\<^verbatim>\<open>str::lines().next()\<close>: the text before the first line feed, without a carriage return
  directly before that line feed; nothing for the empty string.\<close>
definition strip_cr :: "string \<Rightarrow> string" where
  "strip_cr s = (if s \<noteq> [] \<and> last s = cr then butlast s else s)"

definition lines_next :: "string \<Rightarrow> string option" where
  "lines_next s =
     (if s = [] then None
      else if lf \<in> set s then Some (strip_cr (takeWhile (\<lambda>c. c \<noteq> lf) s))
      else Some s)"

text \<open>\<^verbatim>\<open>str::to_uppercase\<close> on ASCII text (the sources apply it to ASCII literals only).\<close>
definition upper_char :: "char \<Rightarrow> char" where
  "upper_char c =
     (let n = (of_char c :: nat) in if 97 \<le> n \<and> n \<le> 122 then char_of (n - 32) else c)"

definition to_uppercase :: "string \<Rightarrow> string" where
  "to_uppercase s = map upper_char s"

text \<open>ASCII case folding: the restriction of \<^verbatim>\<open>str::to_lowercase\<close> to ASCII text.\<close>
definition lower_char :: "char \<Rightarrow> char" where
  "lower_char c =
     (let n = (of_char c :: nat) in if 65 \<le> n \<and> n \<le> 90 then char_of (n + 32) else c)"

definition ascii_lower :: "string \<Rightarrow> string" where
  "ascii_lower s = map lower_char s"

section \<open>Lemmas on arithmetic\<close>

lemma usize_saturating_add_le [simp]: "usize_saturating_add a b \<le> usize_max"
  by (simp add: usize_saturating_add_def)

lemma usize_saturating_add_exact:
  "a + b \<le> usize_max \<Longrightarrow> usize_saturating_add a b = a + b"
  by (simp add: usize_saturating_add_def)

lemma usize_saturating_add_min:
  "usize_saturating_add (min usize_max a) b = min usize_max (a + b)"
  by (simp add: usize_saturating_add_def min_def)

lemma instant_checked_add_Some:
  "instant_checked_add t d = Some u \<Longrightarrow> u = t + d"
  by (simp add: instant_checked_add_def split: if_splits)

lemma unat_of_nat_u64: "n < 2 ^ 64 \<Longrightarrow> unat (of_nat n :: u64) = n"
  by (simp add: unat_of_nat)

section \<open>Lemmas on results\<close>

lemma is_ok_simps [simp]: "is_ok (Inr a)" "\<not> is_ok (Inl e)"
  by (simp_all add: is_ok_def)

lemma is_err_simps [simp]: "is_err (Inl e)" "\<not> is_err (Inr a)"
  by (simp_all add: is_err_def)

lemma is_ok_ex: "is_ok r \<longleftrightarrow> (\<exists>a. r = Inr a)"
  by (cases r) auto

lemma map_err_simps [simp]:
  "map_err f (Inl e) = Inl (f e)" "map_err f (Inr a) = Inr a"
  by (simp_all add: map_err_def)

lemma map_ok_simps [simp]:
  "map_ok f (Inl e) = Inl e" "map_ok f (Inr a) = Inr (f a)"
  by (simp_all add: map_ok_def)

lemma map_ok_Inr_iff: "map_ok f r = Inr b \<longleftrightarrow> (\<exists>a. r = Inr a \<and> b = f a)"
  by (cases r) auto

lemma map_ok_Inl_iff: "map_ok f r = Inl e \<longleftrightarrow> r = Inl e"
  by (cases r) auto

lemma map_err_Inr_iff: "map_err f r = Inr b \<longleftrightarrow> r = Inr b"
  by (cases r) auto

lemma map_err_Inl_iff: "map_err f r = Inl g \<longleftrightarrow> (\<exists>e. r = Inl e \<and> g = f e)"
  by (cases r) auto

lemma result_ok_simps [simp]: "result_ok (Inl e) = None" "result_ok (Inr a) = Some a"
  by (simp_all add: result_ok_def)

lemma ok_or_simps [simp]: "ok_or e None = Inl e" "ok_or e (Some a) = Inr a"
  by (simp_all add: ok_or_def)

lemma ok_or_Inr_iff: "ok_or e x = Inr a \<longleftrightarrow> x = Some a"
  by (cases x) auto

lemma non_empty_simps [simp]:
  "non_empty None = None" "non_empty (Some []) = None"
  "non_empty (Some (c # s)) = Some (c # s)"
  by (simp_all add: non_empty_def)

lemma non_empty_Some_iff: "non_empty x = Some s \<longleftrightarrow> x = Some s \<and> s \<noteq> []"
  by (auto simp: non_empty_def split: option.splits)

section \<open>Lemmas on strings\<close>

lemma is_digit_char_of: "d < 10 \<Longrightarrow> is_digit (char_of (48 + d :: nat))"
  by (simp add: is_digit_def of_char_of)

lemma show_nat_digits: "list_all is_digit (show_nat n)"
proof (induction n rule: show_nat.induct)
  case (1 n)
  show ?case
  proof (cases "n < 10")
    case True
    then show ?thesis
      by (simp add: show_nat.simps [of n] is_digit_char_of)
  next
    case False
    with "1.IH" show ?thesis
      by (simp add: show_nat.simps [of n] is_digit_char_of)
  qed
qed

lemma show_nat_not_Nil [simp]: "show_nat n \<noteq> []"
  by (subst show_nat.simps) simp

lemma starts_with_append [simp]: "starts_with p (p @ s)"
  by (simp add: starts_with_def)

lemma starts_with_Nil [simp]: "starts_with [] s"
  by (simp add: starts_with_def)

lemma starts_with_iff: "starts_with p s \<longleftrightarrow> (\<exists>t. s = p @ t)"
  by (metis append_eq_conv_conj append_take_drop_id starts_with_def)

lemma contains_str_iff: "contains_str p s \<longleftrightarrow> (\<exists>u v. s = u @ p @ v)"
proof (induction s)
  case Nil
  then show ?case by simp
next
  case (Cons c s)
  show ?case
  proof
    assume "contains_str p (c # s)"
    then consider "starts_with p (c # s)" | "contains_str p s" by auto
    then show "\<exists>u v. c # s = u @ p @ v"
    proof cases
      case 1
      then show ?thesis by (auto simp: starts_with_iff intro: exI [of _ "[]"])
    next
      case 2
      then obtain u v where "s = u @ p @ v" using Cons.IH by auto
      then show ?thesis by (auto intro: exI [of _ "c # u"])
    qed
  next
    assume "\<exists>u v. c # s = u @ p @ v"
    then obtain u v where uv: "c # s = u @ p @ v" by auto
    show "contains_str p (c # s)"
    proof (cases u)
      case Nil
      with uv have "starts_with p (c # s)" by (simp add: starts_with_iff)
      then show ?thesis by simp
    next
      case (Cons d u')
      with uv have "s = u' @ p @ v" by simp
      with Cons.IH show ?thesis by auto
    qed
  qed
qed

lemma trim_end_matches_no_suffix:
  "trim_end_matches c s \<noteq> [] \<Longrightarrow> last (trim_end_matches c s) \<noteq> c"
  using hd_dropWhile [of "\<lambda>x. x = c" "rev s"] by (simp add: trim_end_matches_def last_rev)

lemma dropWhile_replicate_append: "dropWhile (\<lambda>x. x = c) (replicate n c @ s) = dropWhile (\<lambda>x. x = c) s"
  by (induction n) simp_all

lemma trim_end_matches_append [simp]:
  "trim_end_matches c (s @ replicate n c) = trim_end_matches c s"
  by (simp add: trim_end_matches_def dropWhile_replicate_append)

section \<open>Percent encoding\<close>

definition is_ascii_alphanumeric :: "char \<Rightarrow> bool" where
  "is_ascii_alphanumeric c =
     (is_digit c \<or> (let n = (of_char c :: nat) in (65 \<le> n \<and> n \<le> 90) \<or> (97 \<le> n \<and> n \<le> 122)))"

text \<open>What \<^verbatim>\<open>percent_encoding\<close> documents for \<^verbatim>\<open>NON_ALPHANUMERIC\<close>: the output has only ASCII letters, digits
  and percent signs.\<close>
definition percent_encode_ok :: "(string \<Rightarrow> string) \<Rightarrow> bool" where
  "percent_encode_ok enc \<longleftrightarrow> (\<forall>s. list_all (\<lambda>c. is_ascii_alphanumeric c \<or> c = CHR ''%'') (enc s))"

lemma percent_encode_free:
  assumes "percent_encode_ok enc" "\<not> is_ascii_alphanumeric c" "c \<noteq> CHR ''%''"
  shows "c \<notin> set (enc s)"
  using assms by (auto simp: percent_encode_ok_def list_all_iff)

text \<open>An encoder with that property: letters and digits stay, every other byte becomes \<^verbatim>\<open>%XX\<close>.\<close>
definition hex_digit :: "nat \<Rightarrow> char" where
  "hex_digit n = (if n < 10 then char_of (48 + n) else char_of (55 + n))"

definition percent_encode_ref :: "string \<Rightarrow> string" where
  "percent_encode_ref s =
     concat (map (\<lambda>c. if is_ascii_alphanumeric c then [c]
                      else (let n = (of_char c :: nat) in [CHR ''%'', hex_digit (n div 16), hex_digit (n mod 16)])) s)"

lemma hex_digit_alphanumeric: "n < 16 \<Longrightarrow> is_ascii_alphanumeric (hex_digit n)"
  by (auto simp: hex_digit_def is_ascii_alphanumeric_def is_digit_def Let_def of_char_of)

lemma percent_encode_ref_ok: "percent_encode_ok percent_encode_ref"
proof -
  have "(of_char c :: nat) div 16 < 16" for c
    using nat_of_char_less_256 [of c] by (simp add: less_mult_imp_div_less)
  then show ?thesis
    by (auto simp: percent_encode_ok_def percent_encode_ref_def list_all_iff Let_def hex_digit_alphanumeric)
qed

end
