(* ===== verification/Wire.thy ===== *)
theory Wire
  imports Fabric_Prelude "HOL-Library.Finite_Map"
begin

text \<open>
  The vocabulary that fabricd shares with the box: the data that crosses the wire and the
  functions of the crates \<^verbatim>\<open>runlet_wire\<close> and \<^verbatim>\<open>serde_json\<close> that the sources call.  Those crates
  are not part of the repository, so their functions are parameters, collected in the records
  \<open>json_lib\<close> and \<open>wire_lib\<close>; a theorem that needs more of them than their types has that as a
  hypothesis.  The data types below are the shapes that the sources build and take apart
  field by field (\<^verbatim>\<open>EgressError {..}\<close>, \<^verbatim>\<open>DbMetric {..}\<close>, \<^verbatim>\<open>WireResponse::InitError {..}\<close>), as
  \<^verbatim>\<open>docs/go-rewrite-wire-contract.md\<close> lists them.
\<close>

section \<open>JSON values\<close>

datatype number = NumInt int | NumFloat f64

datatype json_value =
    VNull
  | VBool bool
  | VNumber number
  | VString string
  | VArray "json_value list"
  | VObject "(string, json_value) fmap"

text \<open>\<^verbatim>\<open>json!({..})\<close> on distinct keys, and \<^verbatim>\<open>Map::insert\<close> (a later value replaces an earlier one).\<close>
definition json_object :: "(string \<times> json_value) list \<Rightarrow> json_value" where
  "json_object kvs = VObject (fmap_of_list kvs)"

definition value_get :: "string \<Rightarrow> json_value \<Rightarrow> json_value option" where
  "value_get k v = (case v of VObject m \<Rightarrow> fmlookup m k | _ \<Rightarrow> None)"

definition value_as_str :: "json_value \<Rightarrow> string option" where
  "value_as_str v = (case v of VString s \<Rightarrow> Some s | _ \<Rightarrow> None)"

definition value_as_bool :: "json_value \<Rightarrow> bool option" where
  "value_as_bool v = (case v of VBool b \<Rightarrow> Some b | _ \<Rightarrow> None)"

definition json_nat :: "nat \<Rightarrow> json_value" where
  "json_nat n = VNumber (NumInt (int n))"

text \<open>The functions of \<^verbatim>\<open>serde_json\<close> the sources call; error values are their \<^verbatim>\<open>Display\<close> text.\<close>
record json_lib =
  from_str :: "string \<Rightarrow> (string, json_value) result"
  from_str_array :: "string \<Rightarrow> (string, json_value list) result"
  to_string :: "json_value \<Rightarrow> (string, string) result"
  value_to_string :: "json_value \<Rightarrow> string"
  number_as_i64 :: "number \<Rightarrow> i64 option"
  number_as_u64 :: "number \<Rightarrow> u64 option"
  number_as_f64 :: "number \<Rightarrow> f64 option"
  number_from_f64 :: "f64 \<Rightarrow> number option"

definition value_as_u64 :: "json_lib \<Rightarrow> json_value \<Rightarrow> u64 option" where
  "value_as_u64 J v = (case v of VNumber n \<Rightarrow> number_as_u64 J n | _ \<Rightarrow> None)"

text \<open>\<^verbatim>\<open>serde_json::Number::from_f64(x).map_or(Value::Null, Value::Number)\<close>.\<close>
definition float_value :: "json_lib \<Rightarrow> f64 \<Rightarrow> json_value" where
  "float_value J x = (case number_from_f64 J x of None \<Rightarrow> VNull | Some n \<Rightarrow> VNumber n)"

text \<open>\<^verbatim>\<open>to_string(v).unwrap_or_else(|_| dflt)\<close>.\<close>
definition to_string_or :: "json_lib \<Rightarrow> string \<Rightarrow> json_value \<Rightarrow> string" where
  "to_string_or J dflt v = (case to_string J v of Inl _ \<Rightarrow> dflt | Inr s \<Rightarrow> s)"

text \<open>JSON that a JavaScript client reads without loss: every integer in it is one that a double holds exactly.\<close>
primrec js_safe :: "json_value \<Rightarrow> bool" where
  "js_safe VNull = True"
| "js_safe (VBool b) = True"
| "js_safe (VNumber n) = (case n of NumInt i \<Rightarrow> \<bar>i\<bar> \<le> 2 ^ 53 | NumFloat _ \<Rightarrow> True)"
| "js_safe (VString s) = True"
| "js_safe (VArray vs) = list_all (\<lambda>b. b) (map js_safe vs)"
| "js_safe (VObject m) = fmpred (\<lambda>_ b. b) (fmmap js_safe m)"

text \<open>\<^verbatim>\<open>Number::from_f64\<close> makes a float or nothing.\<close>
definition floats_ok :: "json_lib \<Rightarrow> bool" where
  "floats_ok J \<longleftrightarrow> (\<forall>x n. number_from_f64 J x = Some n \<longrightarrow> (\<exists>y. n = NumFloat y))"

section \<open>Faults and egress errors\<close>

datatype error_owner = Caller | Developer | Operator

record fault =
  f_code :: string
  f_retryable :: bool
  f_owner :: error_owner

definition mk_fault :: "string \<Rightarrow> bool \<Rightarrow> error_owner \<Rightarrow> fault" where
  "mk_fault c r w = \<lparr>f_code = c, f_retryable = r, f_owner = w\<rparr>"

text \<open>The retry rule of the drivers: a fault is worth retrying exactly when the operator's
  infrastructure, not the request, is to blame.\<close>
definition retry_rule :: "fault \<Rightarrow> bool" where
  "retry_rule f \<longleftrightarrow> (f_retryable f \<longleftrightarrow> f_owner f = Operator)"

record egress_error =
  ee_code :: string
  ee_message :: string
  ee_source :: string
  ee_details :: "json_value option"
  ee_retryable :: bool
  ee_owner :: error_owner

section \<open>Metrics\<close>

record db_metric =
  dbm_action :: string
  dbm_duration_us :: nat
  dbm_rows_returned :: usize
  dbm_rows_affected :: u64
  dbm_truncated :: bool

record mongo_metric =
  mgm_action :: string
  mgm_duration_us :: nat
  mgm_docs_returned :: usize
  mgm_docs_affected :: u64
  mgm_truncated :: bool

record mail_metric =
  mlm_action :: string
  mlm_duration_us :: nat
  mlm_recipients :: usize
  mlm_bytes :: usize
  mlm_accepted :: bool

record redis_metric =
  rdm_action :: string
  rdm_duration_us :: nat
  rdm_bytes :: usize
  rdm_hit :: bool

record amq_metric =
  aqm_action :: string
  aqm_duration_us :: nat
  aqm_messages :: usize
  aqm_bytes :: usize
  aqm_published :: bool

record auth_metric =
  aum_action :: string
  aum_host :: string
  aum_status :: u16
  aum_duration_us :: nat

record backend_metrics =
  bm_db :: "db_metric list"
  bm_mongo :: "mongo_metric list"
  bm_mail :: "mail_metric list"
  bm_redis :: "redis_metric list"
  bm_amq :: "amq_metric list"
  bm_auth :: "auth_metric list"

text \<open>A \<^verbatim>\<open>Collector\<close> is known by its history: the metrics recorded into it, oldest first.\<close>
type_synonym 'm collector = "'m list"

definition collector_record :: "'m collector \<Rightarrow> 'm \<Rightarrow> 'm collector" where
  "collector_record h m = h @ [m]"

section \<open>Frames\<close>

record wire_init =
  wi_db :: "string option"
  wi_mongo :: "string option"
  wi_mail :: "string option"
  wi_redis :: "string option"
  wi_amq :: "string option"
  wi_auth :: "string option"
  wi_timeout_ms :: u64
  wi_tenant :: "string option"
  wi_token :: "string option"

record wire_call =
  wc_name :: string
  wc_action :: string
  wc_payload :: string

datatype wire_request = Init wire_init | Call wire_call | Drain

datatype wire_response =
    Ack
  | InitError string string
  | Reply "(egress_error, string) result"
  | Metrics backend_metrics
  | ProtocolError string

section \<open>Functions of the wire crate\<close>

text \<open>
  \<open>egress_new\<close> and \<open>egress_owner\<close> are \<^verbatim>\<open>EgressError::new\<close> and its builder \<^verbatim>\<open>.owner\<close>; \<open>ct_eq\<close> is
  the constant-time comparison; \<open>op_count\<close> and the \<open>drain_*\<close> functions read a collector's
  history.
\<close>
record wire_lib =
  egress_new :: "string \<Rightarrow> string \<Rightarrow> string \<Rightarrow> egress_error"
  egress_owner :: "egress_error \<Rightarrow> error_owner \<Rightarrow> egress_error"
  ct_eq :: "string \<Rightarrow> string \<Rightarrow> bool"
  op_count :: "mail_metric collector \<Rightarrow> usize"
  drain_db :: "db_metric collector \<Rightarrow> db_metric list"
  drain_mongo :: "mongo_metric collector \<Rightarrow> mongo_metric list"
  drain_mail :: "mail_metric collector \<Rightarrow> mail_metric list"
  drain_redis :: "redis_metric collector \<Rightarrow> redis_metric list"
  drain_amq :: "amq_metric collector \<Rightarrow> amq_metric list"
  drain_auth :: "auth_metric collector \<Rightarrow> auth_metric list"

text \<open>Documented behaviour of the error builder, the comparison and the collectors.\<close>
definition egress_builder_ok :: "wire_lib \<Rightarrow> bool" where
  "egress_builder_ok W \<longleftrightarrow>
     (\<forall>s c m ow. let e = egress_owner W (egress_new W s c m) ow
        in ee_source e = s \<and> ee_code e = c \<and> ee_message e = m \<and> ee_owner e = ow)"

definition ct_eq_ok :: "wire_lib \<Rightarrow> bool" where
  "ct_eq_ok W \<longleftrightarrow> (\<forall>a b. ct_eq W a b \<longleftrightarrow> a = b)"

definition drains_ok :: "wire_lib \<Rightarrow> bool" where
  "drains_ok W \<longleftrightarrow>
     (\<forall>h. drain_db W h = h) \<and> (\<forall>h. drain_mongo W h = h) \<and> (\<forall>h. drain_mail W h = h) \<and>
     (\<forall>h. drain_redis W h = h) \<and> (\<forall>h. drain_amq W h = h) \<and> (\<forall>h. drain_auth W h = h)"

section \<open>Instances for witnesses\<close>

text \<open>A concrete wire library that satisfies the documented behaviour.\<close>
definition wire_ref :: wire_lib where
  "wire_ref =
     \<lparr>egress_new = (\<lambda>s c m. \<lparr>ee_code = c, ee_message = m, ee_source = s, ee_details = None,
                             ee_retryable = False, ee_owner = Operator\<rparr>),
      egress_owner = (\<lambda>e ow. e\<lparr>ee_owner := ow\<rparr>),
      ct_eq = (\<lambda>a b. a = b),
      op_count = length,
      drain_db = (\<lambda>h. h), drain_mongo = (\<lambda>h. h), drain_mail = (\<lambda>h. h),
      drain_redis = (\<lambda>h. h), drain_amq = (\<lambda>h. h), drain_auth = (\<lambda>h. h)\<rparr>"

section \<open>Lemmas\<close>

lemma mk_fault_sel [simp]:
  "f_code (mk_fault c r w) = c" "f_retryable (mk_fault c r w) = r" "f_owner (mk_fault c r w) = w"
  by (simp_all add: mk_fault_def)

lemma mk_fault_eq_iff [simp]:
  "mk_fault c r w = mk_fault c' r' w' \<longleftrightarrow> c = c' \<and> r = r' \<and> w = w'"
  by (auto simp: mk_fault_def)

lemma retry_rule_mk_fault [simp]: "retry_rule (mk_fault c r w) \<longleftrightarrow> (r \<longleftrightarrow> w = Operator)"
  by (simp add: retry_rule_def)

lemma value_get_object [simp]: "value_get k (json_object kvs) = map_of kvs k"
  by (simp add: value_get_def json_object_def fmlookup_of_list)

lemma value_as_simps [simp]:
  "value_as_str (VString s) = Some s" "value_as_bool (VBool b) = Some b"
  "value_as_u64 J (json_nat n) = number_as_u64 J (NumInt (int n))"
  by (simp_all add: value_as_str_def value_as_bool_def value_as_u64_def json_nat_def)

lemma js_safe_float [simp]: "floats_ok J \<Longrightarrow> js_safe (float_value J x)"
  by (fastforce simp: float_value_def floats_ok_def split: option.splits)

lemma js_safe_object: "js_safe (VObject m) \<longleftrightarrow> fmpred (\<lambda>_. js_safe) m"
  by (auto simp: fmpred_iff)

lemma sint_js_safe:
  "js_safe (VNumber (NumInt (sint (v :: 16 word))))" "js_safe (VNumber (NumInt (sint (u :: 32 word))))"
  using sint_range_size [of v] sint_range_size [of u] by (auto simp: word_size)

lemma fmpred_fold_upd:
  "list_all P (map g xs) \<Longrightarrow> fmpred (\<lambda>_. P) m \<Longrightarrow> fmpred (\<lambda>_. P) (fold (\<lambda>x. fmupd (k x) (g x)) xs m)"
  by (induction xs arbitrary: m) auto

lemma length_collector_record [simp]: "length (collector_record h m) = Suc (length h)"
  by (simp add: collector_record_def)

lemma egress_builder_okD:
  assumes "egress_builder_ok W"
  shows "ee_source (egress_owner W (egress_new W s c m) ow) = s"
    and "ee_code (egress_owner W (egress_new W s c m) ow) = c"
    and "ee_message (egress_owner W (egress_new W s c m) ow) = m"
    and "ee_owner (egress_owner W (egress_new W s c m) ow) = ow"
  using assms by (simp_all add: egress_builder_ok_def Let_def)

lemma wire_ref_ok [simp]: "egress_builder_ok wire_ref" "ct_eq_ok wire_ref" "drains_ok wire_ref"
  by (simp_all add: wire_ref_def egress_builder_ok_def ct_eq_ok_def drains_ok_def Let_def)

end
