(* ===== verification/Metering.thy ===== *)
theory Metering
  imports Wire "HOL-Library.Sublist"
begin

text \<open>
  The contract every driver backend keeps towards the session that hosts it: a call appends
  at most one metric, tagged with the action of the call, to the backend's history, and never
  changes what was fixed when the backend was connected (client, deadline, caps).  The locale
  \<open>metered\<close> states that contract, \<open>fully_metered\<close> the stronger one of the backends that record
  exactly one metric per call; the consequences for a whole session are proved once, and each
  backend theory interprets the locale on its own \<^verbatim>\<open>call\<close>.
\<close>

section \<open>Sequences of calls\<close>

text \<open>The calls of one session on one backend, in order: the results and the final state.\<close>
fun run_calls :: "('q \<Rightarrow> 'b \<Rightarrow> 'w \<Rightarrow> 'r \<times> 'b \<times> 'w) \<Rightarrow> 'q list \<Rightarrow> 'b \<Rightarrow> 'w \<Rightarrow> 'r list \<times> 'b \<times> 'w" where
  "run_calls call [] b w = ([], b, w)"
| "run_calls call (q # qs) b w =
     (case call q b w of (r, b', w') \<Rightarrow>
        (case run_calls call qs b' w' of (rs, b'', w'') \<Rightarrow> (r # rs, b'', w'')))"

lemma run_calls_length: "run_calls call qs b w = (rs, b', w') \<Longrightarrow> length rs = length qs"
  by (induction qs arbitrary: b w rs b' w') (auto split: prod.splits)

lemma run_calls_append:
  "run_calls call (ps @ qs) b w =
     (case run_calls call ps b w of (rs, b', w') \<Rightarrow>
        (case run_calls call qs b' w' of (ss, b'', w'') \<Rightarrow> (rs @ ss, b'', w'')))"
  by (induction ps arbitrary: b w) (auto split: prod.splits)

text \<open>What every call of a sequence keeps.\<close>
lemma run_calls_invariant:
  assumes "run_calls call qs b w = (rs, b', w')" "P b w"
    and "\<And>q c v r c' v'. q \<in> set qs \<Longrightarrow> P c v \<Longrightarrow> call q c v = (r, c', v') \<Longrightarrow> P c' v'"
  shows "P b' w'"
  using assms
proof (induction qs arbitrary: b w rs)
  case (Cons q qs)
  obtain r b1 w1 where c: "call q b w = (r, b1, w1)" by (metis prod_cases3)
  with Cons.prems(1) obtain rs1 where "run_calls call qs b1 w1 = (rs1, b', w')" by (auto split: prod.splits)
  moreover have "P b1 w1" using Cons.prems(2,3) c by (metis list.set_intros(1))
  ultimately show ?case by (rule Cons.IH) (rule Cons.prems(3), simp_all)
qed simp

text \<open>Requests that do nothing but return \<open>x\<close>, in the states of an invariant, can be left out of a sequence.\<close>
lemma run_calls_leave_out:
  assumes inert: "\<And>q b v. A q \<Longrightarrow> P b \<Longrightarrow> call q b v = (x, b, v)"
    and keeps: "\<And>q b v r b' v'. \<not> A q \<Longrightarrow> P b \<Longrightarrow> call q b v = (r, b', v') \<Longrightarrow> P b'"
  shows "P b \<Longrightarrow> run_calls call qs b w = (rs, b', w') \<Longrightarrow>
    run_calls call (filter (\<lambda>q. \<not> A q) qs) b w = (map snd (filter (\<lambda>(q, _). \<not> A q) (zip qs rs)), b', w') \<and>
    (\<forall>i < length qs. A (qs ! i) \<longrightarrow> rs ! i = x)"
proof (induction qs arbitrary: b w rs)
  case (Cons q qs)
  obtain r b1 w1 where c: "call q b w = (r, b1, w1)" by (cases "call q b w") auto
  with Cons.prems(2) obtain rs1 where t: "run_calls call qs b1 w1 = (rs1, b', w')" "rs = r # rs1" by (auto split: prod.splits)
  have "P b1" using keeps [OF _ Cons.prems(1) c] inert [OF _ Cons.prems(1), of q w] c Cons.prems(1) by (cases "A q") auto
  from Cons.IH [OF this t(1)] c t(2) inert [OF _ Cons.prems(1), of q w] show ?case by (auto simp: nth_Cons split: nat.split)
qed simp

text \<open>The single call at a position of a sequence.\<close>
lemma run_calls_nth:
  assumes "run_calls call qs b w = (rs, b', w')" "i < length qs"
  obtains b1 w1 b2 w2 where "run_calls call (take i qs) b w = (take i rs, b1, w1)" "call (qs ! i) b1 w1 = (rs ! i, b2, w2)"
proof -
  obtain rs1 b1 w1 where 1: "run_calls call (take i qs) b w = (rs1, b1, w1)" by (metis prod_cases3)
  obtain r b2 w2 where 2: "call (qs ! i) b1 w1 = (r, b2, w2)" by (metis prod_cases3)
  obtain rs2 b3 w3 where 3: "run_calls call (drop (Suc i) qs) b2 w2 = (rs2, b3, w3)" by (metis prod_cases3)
  have "run_calls call (take i qs @ qs ! i # drop (Suc i) qs) b w = (rs1 @ r # rs2, b3, w3)"
    by (simp add: run_calls_append 1 2 3)
  with assms have "rs = rs1 @ r # rs2" by (simp add: id_take_nth_drop [symmetric])
  moreover have "length rs1 = i" using run_calls_length [OF 1] assms(2) by simp
  ultimately have "take i rs = rs1" "rs ! i = r" by auto
  with 1 2 show ?thesis by (intro that [of b1 w1 b2 w2]) simp_all
qed

section \<open>Recording what was asked\<close>

text \<open>A state that keeps a list of recorded actions and adds to it at most the action of the request it just handled,
  and only when the request concerns it.\<close>
locale recorder =
  fixes step :: "'q \<Rightarrow> 's \<Rightarrow> 'w \<Rightarrow> 'r \<times> 's \<times> 'w"
    and recorded :: "'s \<Rightarrow> string list"
    and concerns :: "'q \<Rightarrow> string option"
  assumes step_records: "step q s w = (r, s', w') \<Longrightarrow>
      recorded s' = recorded s \<or> (\<exists>a. concerns q = Some a \<and> recorded s' = recorded s @ [a])"
begin

lemma run_recorded:
  "run_calls step qs s w = (rs, s', w') \<Longrightarrow> \<exists>as. recorded s' = recorded s @ as \<and> subseq as (List.map_filter concerns qs)"
proof (induction qs arbitrary: s w rs)
  case (Cons q qs)
  obtain r s1 w1 where c: "step q s w = (r, s1, w1)" by (cases "step q s w") auto
  with Cons.prems obtain rs1 where "run_calls step qs s1 w1 = (rs1, s', w')" by (auto split: prod.splits)
  from Cons.IH [OF this] obtain as where as: "recorded s' = recorded s1 @ as" "subseq as (List.map_filter concerns qs)" by blast
  from step_records [OF c] show ?case
  proof (elim disjE exE conjE)
    assume "recorded s1 = recorded s"
    with as show ?thesis by (auto simp: map_filter_simps split: option.splits)
  next
    fix a assume "concerns q = Some a" "recorded s1 = recorded s @ [a]"
    with as show ?thesis by (intro exI [of _ "a # as"]) (auto simp: map_filter_simps)
  qed
qed (simp add: map_filter_simps)

end

section \<open>Implementing an abstract service\<close>

text \<open>A run of an abstract service: from one state to another, with the replies that it allows.\<close>
fun spec_run :: "('a \<Rightarrow> 'q \<Rightarrow> 'r \<Rightarrow> 'a \<Rightarrow> bool) \<Rightarrow> 'a \<Rightarrow> 'q list \<Rightarrow> 'r list \<Rightarrow> 'a \<Rightarrow> bool" where
  "spec_run spec a [] [] a' \<longleftrightarrow> a' = a"
| "spec_run spec a (q # qs) (r # rs) a' \<longleftrightarrow> (\<exists>a1. spec a q r a1 \<and> spec_run spec a1 qs rs a')"
| "spec_run spec a _ _ a' \<longleftrightarrow> False"

lemma spec_run_nth:
  assumes "spec_run spec a qs rs a'" "i < length qs"
  shows "\<exists>a1 a2. spec_run spec a (take i qs) (take i rs) a1 \<and> spec a1 (qs ! i) (rs ! i) a2"
  using assms
proof (induction spec a qs rs a' arbitrary: i rule: spec_run.induct)
  case (2 spec a q qs r rs a')
  then show ?case by (cases i) fastforce+
qed simp_all

text \<open>Calls that act on the part of the state and the world given by \<open>view\<close> as the abstract service allows, for the requests that
  it serves and in the states that \<open>invar\<close> describes.\<close>
locale simulation =
  fixes call :: "'q \<Rightarrow> 'b \<Rightarrow> 'w \<Rightarrow> 'r \<times> 'b \<times> 'w"
    and view :: "'b \<Rightarrow> 'w \<Rightarrow> 'a"
    and spec :: "'a \<Rightarrow> 'q \<Rightarrow> 'r \<Rightarrow> 'a \<Rightarrow> bool"
    and served :: "'q \<Rightarrow> bool"
    and invar :: "'b \<Rightarrow> bool"
  assumes call_simulated: "invar b \<Longrightarrow> served q \<Longrightarrow> call q b w = (r, b', w') \<Longrightarrow> spec (view b w) q r (view b' w') \<and> invar b'"
begin

lemma run_simulated:
  "run_calls call qs b w = (rs, b', w') \<Longrightarrow> list_all served qs \<Longrightarrow> invar b \<Longrightarrow> spec_run spec (view b w) qs rs (view b' w')"
proof (induction qs arbitrary: b w rs)
  case (Cons q qs)
  obtain r b1 w1 where c: "call q b w = (r, b1, w1)" by (cases "call q b w") auto
  with Cons.prems obtain rs1 where t: "run_calls call qs b1 w1 = (rs1, b', w')" "rs = r # rs1" by (auto split: prod.splits)
  with Cons.IH [OF t(1)] call_simulated [OF _ _ c] Cons.prems(2,3) show ?case by auto
qed simp

end

section \<open>The contract\<close>

locale metered =
  fixes call :: "'q \<Rightarrow> 'b \<Rightarrow> 'w \<Rightarrow> 'r \<times> 'b \<times> 'w"
    and history :: "'b \<Rightarrow> 'm list"
    and fixed :: "'b \<Rightarrow> 'c"
    and metric_action :: "'m \<Rightarrow> string"
    and query_action :: "'q \<Rightarrow> string"
  assumes call_fixed: "call q b w = (r, b', w') \<Longrightarrow> fixed b' = fixed b"
    and call_history: "call q b w = (r, b', w') \<Longrightarrow>
      history b' = history b \<or> (\<exists>m. history b' = history b @ [m] \<and> metric_action m = query_action q)"
begin

lemma run_fixed: "run_calls call qs b w = (rs, b', w') \<Longrightarrow> fixed b' = fixed b"
  by (induction qs arbitrary: b w rs) (auto split: prod.splits dest: call_fixed)

lemma run_history_prefix:
  "run_calls call qs b w = (rs, b', w') \<Longrightarrow>
     \<exists>ms. history b' = history b @ ms \<and> length ms \<le> length qs \<and>
          set (map metric_action ms) \<subseteq> set (map query_action qs)"
proof (induction qs arbitrary: b w rs)
  case Nil
  then show ?case by simp
next
  case (Cons q qs)
  obtain r b1 w1 where c: "call q b w = (r, b1, w1)" by (cases "call q b w") auto
  with Cons.prems obtain rs1 where "run_calls call qs b1 w1 = (rs1, b', w')"
    by (auto split: prod.splits)
  from Cons.IH [OF this] obtain ms where ms: "history b' = history b1 @ ms"
      "length ms \<le> length qs" "set (map metric_action ms) \<subseteq> set (map query_action qs)" by blast
  from call_history [OF c] show ?case
  proof (elim disjE exE conjE)
    assume "history b1 = history b"
    with ms show ?thesis by (intro exI [of _ ms]) auto
  next
    fix m assume "history b1 = history b @ [m]" "metric_action m = query_action q"
    with ms show ?thesis by (intro exI [of _ "m # ms"]) auto
  qed
qed

end

text \<open>A metered backend records the actions of its own calls.\<close>
sublocale metered \<subseteq> actions: recorder call "\<lambda>b. map metric_action (history b)" "\<lambda>q. Some (query_action q)"
  by unfold_locales (use call_history in fastforce)

locale fully_metered = metered +
  assumes call_records: "call q b w = (r, b', w') \<Longrightarrow> history b' \<noteq> history b"
begin

lemma call_one_metric:
  "call q b w = (r, b', w') \<Longrightarrow> \<exists>m. history b' = history b @ [m] \<and> metric_action m = query_action q"
  using call_history call_records by blast

lemma run_history_actions:
  "run_calls call qs b w = (rs, b', w') \<Longrightarrow>
     map metric_action (history b') = map metric_action (history b) @ map query_action qs"
proof (induction qs arbitrary: b w rs)
  case Nil
  then show ?case by simp
next
  case (Cons q qs)
  obtain r b1 w1 where c: "call q b w = (r, b1, w1)" by (cases "call q b w") auto
  with Cons.prems obtain rs1 where "run_calls call qs b1 w1 = (rs1, b', w')"
    by (auto split: prod.splits)
  from Cons.IH [OF this] call_one_metric [OF c] show ?case by auto
qed

end

end
