(* ===== verification/Db.thy ===== *)
theory Db
  imports Metering
begin

text \<open>
  The PostgreSQL backend, \<^verbatim>\<open>crates/fabric-backends/src/db.rs\<close>: fault classification by SQLSTATE,
  the breaker-guarded connect, the client-side deadline, the action dispatch with its result
  and parameter conversions, and the per-operation metric.  The functions of \<^verbatim>\<open>tokio_postgres\<close>,
  \<^verbatim>\<open>chrono\<close>, \<^verbatim>\<open>rust_decimal\<close>, \<^verbatim>\<open>base64\<close> and the circuit breaker of \<^verbatim>\<open>runlet_wire\<close> are the fields of
  \<open>pg_lib\<close>.
\<close>

section \<open>Data\<close>

definition DB_FALLBACK :: fault where
  [fault_defs]: "DB_FALLBACK = mk_fault ''DB_ERROR'' True Operator"

definition DB_CONNECTION_FAULT :: fault where
  [fault_defs]: "DB_CONNECTION_FAULT = mk_fault ''DB_CONNECTION'' True Operator"

definition DB_TIMEOUT :: fault where
  [fault_defs]: "DB_TIMEOUT = mk_fault ''DB_TIMEOUT'' True Operator"

definition DB_CIRCUIT_OPEN_FAULT :: fault where
  [fault_defs]: "DB_CIRCUIT_OPEN_FAULT = mk_fault ''DB_CIRCUIT_OPEN'' True Operator"

record db_config =
  dbc_host :: string
  dbc_port :: u16
  dbc_user :: string
  dbc_password :: string
  dbc_database :: string
  dbc_ssl :: bool
  dbc_statement_timeout_ms :: u64
  dbc_max_rows :: usize

definition db_default_port :: u16 where "db_default_port = 5432"
definition db_default_statement_timeout :: u64 where "db_default_statement_timeout = 5000"
definition db_default_max_rows :: usize where "db_default_max_rows = 1000"

text \<open>A driver error: its SQLSTATE, if the server sent one, and its text.\<close>
record pg_error =
  pge_code :: "string option"
  pge_text :: string

text \<open>A boxed connect error: the breaker's marker or a driver error.\<close>
datatype db_connect_error = CircuitOpen | ConnectFailed pg_error

record db_error =
  dbe_fault :: fault
  dbe_message :: string
  dbe_details :: "json_value option"

datatype param_value =
    PNull
  | PBool bool
  | PInt4 i32
  | PInt8 i64
  | PFloat8 f64
  | PText string

datatype pg_type =
    INT2 | INT4 | OID | INT8 | FLOAT4 | FLOAT8 | BOOL | TEXT | VARCHAR | BPCHAR | NAME
  | JSON | JSONB | UUID | TIMESTAMP | TIMESTAMPTZ | DATE | TIME | NUMERIC | BYTEA
  | OTHER_TYPE nat

text \<open>A result row: its columns and the raw value of each (\<open>None\<close> is SQL NULL).\<close>
record pg_row =
  row_columns :: "(string \<times> pg_type) list"
  row_cells :: "string option list"

record pg_config =
  pg_host :: string
  pg_port :: u16
  pg_user :: string
  pg_password :: string
  pg_dbname :: string
  pg_connect_timeout :: duration

datatype is_null = IsNullYes | IsNullNo

text \<open>The outside of this component.  \<open>pg_query\<close>, \<open>pg_execute\<close> and \<open>pg_batch\<close> are driver futures
  raced against a budget; a decoded \<^verbatim>\<open>uuid\<close>, \<^verbatim>\<open>chrono\<close> or decimal value is opaque (a number).\<close>
record 'w pg_lib =
  pg_json :: json_lib
  pg_clock :: "'w clock"
  pg_connect_tls :: "pg_config \<Rightarrow> ('w, (pg_error, handle \<times> handle) result) io"
  pg_connect_notls :: "pg_config \<Rightarrow> ('w, (pg_error, handle \<times> handle) result) io"
  pg_spawn_connection :: "handle \<Rightarrow> 'w \<Rightarrow> 'w"
  pg_batch_execute :: "handle \<Rightarrow> string \<Rightarrow> ('w, (pg_error, unit) result) io"
  pg_query :: "handle \<Rightarrow> string \<Rightarrow> param_value list \<Rightarrow> duration \<Rightarrow> ('w, (pg_error, pg_row list) result timed) io"
  pg_execute :: "handle \<Rightarrow> string \<Rightarrow> param_value list \<Rightarrow> duration \<Rightarrow> ('w, (pg_error, u64) result timed) io"
  pg_batch :: "handle \<Rightarrow> string \<Rightarrow> duration \<Rightarrow> ('w, (pg_error, unit) result timed) io"
  breaker_allow :: "handle \<Rightarrow> string \<Rightarrow> ('w, bool) io"
  breaker_record :: "handle \<Rightarrow> string \<Rightarrow> bool \<Rightarrow> 'w \<Rightarrow> 'w"
  try_i16 :: "pg_row \<Rightarrow> nat \<Rightarrow> (string, i16 option) result"
  try_i32 :: "pg_row \<Rightarrow> nat \<Rightarrow> (string, i32 option) result"
  try_i64 :: "pg_row \<Rightarrow> nat \<Rightarrow> (string, i64 option) result"
  try_f32 :: "pg_row \<Rightarrow> nat \<Rightarrow> (string, f32 option) result"
  try_f64 :: "pg_row \<Rightarrow> nat \<Rightarrow> (string, f64 option) result"
  try_bool :: "pg_row \<Rightarrow> nat \<Rightarrow> (string, bool option) result"
  try_string :: "pg_row \<Rightarrow> nat \<Rightarrow> (string, string option) result"
  try_json :: "pg_row \<Rightarrow> nat \<Rightarrow> (string, json_value option) result"
  try_uuid :: "pg_row \<Rightarrow> nat \<Rightarrow> (string, nat option) result"
  try_naive_date_time :: "pg_row \<Rightarrow> nat \<Rightarrow> (string, nat option) result"
  try_date_time_utc :: "pg_row \<Rightarrow> nat \<Rightarrow> (string, nat option) result"
  try_naive_date :: "pg_row \<Rightarrow> nat \<Rightarrow> (string, nat option) result"
  try_naive_time :: "pg_row \<Rightarrow> nat \<Rightarrow> (string, nat option) result"
  try_decimal :: "pg_row \<Rightarrow> nat \<Rightarrow> (string, nat option) result"
  try_bytes :: "pg_row \<Rightarrow> nat \<Rightarrow> (string, string option) result"
  f64_from_f32 :: "f32 \<Rightarrow> f64"
  uuid_to_string :: "nat \<Rightarrow> string"
  naive_date_time_format :: "string \<Rightarrow> nat \<Rightarrow> string"
  date_time_to_rfc3339 :: "nat \<Rightarrow> string"
  naive_date_to_string :: "nat \<Rightarrow> string"
  naive_time_format :: "string \<Rightarrow> nat \<Rightarrow> string"
  decimal_to_string :: "nat \<Rightarrow> string"
  base64_encode :: "string \<Rightarrow> string"

text \<open>The per-request dependencies; the runtime handle carries no state of its own.\<close>
record db_deps =
  dd_timeout :: duration
  dd_breaker :: "handle option"

record db_backend =
  db_client :: handle
  db_deadline :: instant
  db_max_rows :: usize
  db_history :: "db_metric collector"

record db_call_ctx =
  dcc_client :: handle
  dcc_deadline :: instant

section \<open>Errors and their classification\<close>

definition circuit_open_text :: string where
  "circuit_open_text = ''db circuit breaker open''"

definition is_circuit_open :: "db_connect_error \<Rightarrow> bool" where
  "is_circuit_open e = (case e of CircuitOpen \<Rightarrow> True | ConnectFailed _ \<Rightarrow> False)"

text \<open>\<^verbatim>\<open>to_string\<close> of the boxed connect error.\<close>
definition db_connect_error_text :: "db_connect_error \<Rightarrow> string" where
  "db_connect_error_text e = (case e of CircuitOpen \<Rightarrow> circuit_open_text | ConnectFailed d \<Rightarrow> pge_text d)"

text \<open>\<^verbatim>\<open>code.get(..2)\<close> is \<open>None\<close> for text of fewer than two bytes.\<close>
definition db_classify_by_class :: "string \<Rightarrow> fault" where
  "db_classify_by_class code =
     (let cls = (if length code < 2 then None else Some (take 2 code))
      in if cls = Some ''08'' then DB_CONNECTION_FAULT
         else if cls = Some ''23'' then mk_fault ''DB_CONSTRAINT'' False Developer
         else if cls = Some ''42'' then mk_fault ''DB_QUERY'' False Developer
         else DB_FALLBACK)"

definition db_classify :: "pg_error \<Rightarrow> fault" where
  "db_classify err =
     (case pge_code err of
        None \<Rightarrow> DB_FALLBACK
      | Some state \<Rightarrow>
          if state = ''40001'' then mk_fault ''DB_SERIALIZATION'' True Operator
          else if state = ''40P01'' then mk_fault ''DB_DEADLOCK'' True Operator
          else if state = ''57014'' then mk_fault ''DB_CANCELED'' True Operator
          else db_classify_by_class state)"

definition db_fallback :: "string \<Rightarrow> db_error" where
  [ctor_defs]: "db_fallback message = \<lparr>dbe_fault = DB_FALLBACK, dbe_message = message, dbe_details = None\<rparr>"

definition db_from_driver :: "pg_error \<Rightarrow> db_error" where
  [ctor_defs]: "db_from_driver err =
     \<lparr>dbe_fault = db_classify err, dbe_message = pge_text err,
      dbe_details = map_option (\<lambda>state. json_object [(''sqlstate'', VString state)]) (pge_code err)\<rparr>"

definition db_timeout :: db_error where
  [ctor_defs]: "db_timeout =
     \<lparr>dbe_fault = DB_TIMEOUT, dbe_message = ''database query exceeded the execution deadline'',
      dbe_details = None\<rparr>"

definition db_into_resource_error :: "db_error \<Rightarrow> egress_error" where
  [ctor_defs]: "db_into_resource_error e =
     \<lparr>ee_code = f_code (dbe_fault e), ee_message = dbe_message e, ee_source = ''db'',
      ee_details = dbe_details e, ee_retryable = f_retryable (dbe_fault e),
      ee_owner = f_owner (dbe_fault e)\<rparr>"

definition db_connect_error_to_resource :: "db_connect_error \<Rightarrow> egress_error" where
  [ctor_defs]: "db_connect_error_to_resource err =
     (let f = (if is_circuit_open err then DB_CIRCUIT_OPEN_FAULT else DB_CONNECTION_FAULT)
      in \<lparr>ee_code = f_code f, ee_message = db_connect_error_text err, ee_source = ''db'',
          ee_details = None, ee_retryable = f_retryable f, ee_owner = f_owner f\<rparr>)"

section \<open>Connecting\<close>

definition db_statement_timeout_cmd :: "db_config \<Rightarrow> string" where
  "db_statement_timeout_cmd c =
     ''SET statement_timeout = '' @ [CHR 0x27] @ show_nat (unat (dbc_statement_timeout_ms c)) @ [CHR 0x27]"

definition db_pg_config :: "db_config \<Rightarrow> pg_config" where
  "db_pg_config c =
     \<lparr>pg_host = dbc_host c, pg_port = dbc_port c, pg_user = dbc_user c,
      pg_password = dbc_password c, pg_dbname = dbc_database c,
      pg_connect_timeout = duration_from_secs 5\<rparr>"

text \<open>\<^verbatim>\<open>connect\<close>: open (with or without TLS), spawn the connection task, apply the timeout.\<close>
definition db_connect_raw :: "'w pg_lib \<Rightarrow> db_config \<Rightarrow> ('w, (pg_error, handle) result) io" where
  "db_connect_raw E c w =
     (case (if dbc_ssl c then pg_connect_tls E else pg_connect_notls E) (db_pg_config c) w of
        (Inl e, w1) \<Rightarrow> (Inl e, w1)
      | (Inr (client, connection), w1) \<Rightarrow>
          (let w2 = pg_spawn_connection E connection w1
           in case pg_batch_execute E client (db_statement_timeout_cmd c) w2 of
                (Inl e, w3) \<Rightarrow> (Inl e, w3)
              | (Inr _, w3) \<Rightarrow> (Inr client, w3)))"

definition db_breaker_target :: "db_config \<Rightarrow> string" where
  "db_breaker_target c = dbc_host c @ '':'' @ show_nat (unat (dbc_port c))"

definition connect_through_breaker ::
    "'w pg_lib \<Rightarrow> db_config \<Rightarrow> handle option \<Rightarrow> ('w, (db_connect_error, handle) result) io" where
  "connect_through_breaker E c breaker w =
     (case breaker of
        None \<Rightarrow> (case db_connect_raw E c w of (r, w1) \<Rightarrow> (map_err ConnectFailed r, w1))
      | Some guard \<Rightarrow>
          (let target = db_breaker_target c
           in case breaker_allow E guard target w of
                (False, w1) \<Rightarrow> (Inl CircuitOpen, w1)
              | (True, w1) \<Rightarrow>
                  (case db_connect_raw E c w1 of
                     (r, w2) \<Rightarrow> (map_err ConnectFailed r, breaker_record E guard target (is_ok r) w2))))"

text \<open>The deadline: now plus the budget, or a second reading of the clock on overflow.\<close>
definition deadline_after :: "'w clock \<Rightarrow> duration \<Rightarrow> ('w, instant) io" where
  "deadline_after clk budget w =
     (case clk w of (t, w1) \<Rightarrow>
        (case instant_checked_add t budget of
           Some d \<Rightarrow> (d, w1)
         | None \<Rightarrow> clk w1))"

definition db_connect :: "'w pg_lib \<Rightarrow> db_config \<Rightarrow> db_deps \<Rightarrow> ('w, (db_connect_error, db_backend) result) io" where
  "db_connect E c deps w =
     (case connect_through_breaker E c (dd_breaker deps) w of
        (Inl e, w1) \<Rightarrow> (Inl e, w1)
      | (Inr client, w1) \<Rightarrow>
          (case deadline_after (pg_clock E) (dd_timeout deps) w1 of
             (d, w2) \<Rightarrow>
               (Inr \<lparr>db_client = client, db_deadline = d, db_max_rows = dbc_max_rows c, db_history = []\<rparr>, w2)))"

definition db_connect_resource :: "'w pg_lib \<Rightarrow> db_config \<Rightarrow> db_deps \<Rightarrow> ('w, (egress_error, db_backend) result) io" where
  "db_connect_resource E c deps w =
     (case db_connect E c deps w of (r, w1) \<Rightarrow> (map_err db_connect_error_to_resource r, w1))"

section \<open>Rows and columns\<close>

definition extract_columns :: "pg_row list \<Rightarrow> string list" where
  "extract_columns rows = (case rows of [] \<Rightarrow> [] | first # _ \<Rightarrow> map fst (row_columns first))"

definition get_or_null ::
    "(pg_row \<Rightarrow> nat \<Rightarrow> (string, 't option) result) \<Rightarrow> (pg_row \<Rightarrow> nat \<Rightarrow> (string, string option) result) \<Rightarrow>
     pg_row \<Rightarrow> nat \<Rightarrow> ('t \<Rightarrow> json_value) \<Rightarrow> json_value" where
  "get_or_null try_get try_text row idx convert =
     (case try_get row idx of
        Inr (Some val) \<Rightarrow> convert val
      | Inr None \<Rightarrow> VNull
      | Inl _ \<Rightarrow>
          (case try_text row idx of
             Inr (Some text) \<Rightarrow> VString text
           | _ \<Rightarrow> VNull))"

definition column_to_json :: "'w pg_lib \<Rightarrow> pg_row \<Rightarrow> nat \<Rightarrow> pg_type \<Rightarrow> json_value" where
  "column_to_json E row idx ty =
     (let txt = try_string E; J = pg_json E
      in case ty of
        INT2 \<Rightarrow> get_or_null (try_i16 E) txt row idx (\<lambda>v. VNumber (NumInt (sint v)))
      | INT4 \<Rightarrow> get_or_null (try_i32 E) txt row idx (\<lambda>v. VNumber (NumInt (sint v)))
      | OID \<Rightarrow> get_or_null (try_i32 E) txt row idx (\<lambda>v. VNumber (NumInt (sint v)))
      | INT8 \<Rightarrow> get_or_null (try_i64 E) txt row idx (\<lambda>v. VString (show_int (sint v)))
      | FLOAT4 \<Rightarrow> get_or_null (try_f32 E) txt row idx (\<lambda>v. float_value J (f64_from_f32 E v))
      | FLOAT8 \<Rightarrow> get_or_null (try_f64 E) txt row idx (\<lambda>v. float_value J v)
      | BOOL \<Rightarrow> get_or_null (try_bool E) txt row idx VBool
      | TEXT \<Rightarrow> get_or_null txt txt row idx VString
      | VARCHAR \<Rightarrow> get_or_null txt txt row idx VString
      | BPCHAR \<Rightarrow> get_or_null txt txt row idx VString
      | NAME \<Rightarrow> get_or_null txt txt row idx VString
      | JSON \<Rightarrow> get_or_null (try_json E) txt row idx (\<lambda>v. v)
      | JSONB \<Rightarrow> get_or_null (try_json E) txt row idx (\<lambda>v. v)
      | UUID \<Rightarrow> get_or_null (try_uuid E) txt row idx (\<lambda>v. VString (uuid_to_string E v))
      | TIMESTAMP \<Rightarrow> get_or_null (try_naive_date_time E) txt row idx
          (\<lambda>v. VString (naive_date_time_format E ''%Y-%m-%dT%H:%M:%S%.f'' v))
      | TIMESTAMPTZ \<Rightarrow> get_or_null (try_date_time_utc E) txt row idx
          (\<lambda>v. VString (date_time_to_rfc3339 E v))
      | DATE \<Rightarrow> get_or_null (try_naive_date E) txt row idx (\<lambda>v. VString (naive_date_to_string E v))
      | TIME \<Rightarrow> get_or_null (try_naive_time E) txt row idx
          (\<lambda>v. VString (naive_time_format E ''%H:%M:%S%.f'' v))
      | NUMERIC \<Rightarrow> get_or_null (try_decimal E) txt row idx (\<lambda>v. VString (decimal_to_string E v))
      | BYTEA \<Rightarrow> get_or_null (try_bytes E) txt row idx (\<lambda>v. VString (base64_encode E v))
      | OTHER_TYPE _ \<Rightarrow> get_or_null txt txt row idx VString)"

text \<open>\<^verbatim>\<open>row_to_json\<close>: columns inserted left to right, so a later duplicate name wins.\<close>
definition row_to_json :: "'w pg_lib \<Rightarrow> pg_row \<Rightarrow> json_value" where
  "row_to_json E row =
     VObject (fold (\<lambda>(idx, name, ty). fmupd name (column_to_json E row idx ty))
        (enumerate 0 (row_columns row)) fmempty)"

definition rows_to_json :: "'w pg_lib \<Rightarrow> pg_row list \<Rightarrow> usize \<Rightarrow> json_value list \<times> bool" where
  "rows_to_json E rows max_rows =
     (let truncated = length rows > max_rows;
          limit = (if truncated then max_rows else length rows)
      in (map (row_to_json E) (take limit rows), truncated))"

section \<open>Parameters\<close>

definition param_from_value :: "json_lib \<Rightarrow> json_value \<Rightarrow> param_value" where
  "param_from_value J v =
     (case v of
        VNull \<Rightarrow> PNull
      | VBool flag \<Rightarrow> PBool flag
      | VNumber num \<Rightarrow>
          (case number_as_i64 J num of
             None \<Rightarrow> PFloat8 (case number_as_f64 J num of None \<Rightarrow> 0 | Some x \<Rightarrow> x)
           | Some i \<Rightarrow> if - (2 ^ 31) \<le> sint i \<and> sint i < 2 ^ 31
                       then PInt4 (word_of_int (sint i)) else PInt8 i)
      | VString text \<Rightarrow> PText text
      | VArray arr \<Rightarrow> PText (to_string_or J ''[]'' (VArray arr))
      | VObject obj \<Rightarrow> PText (to_string_or J ''{}'' (VObject obj)))"

definition parse_params :: "json_lib \<Rightarrow> string \<Rightarrow> (string, param_value list) result" where
  "parse_params J params_json =
     (case from_str_array J params_json of
        Inl err \<Rightarrow> Inl (''invalid params JSON: '' @ err)
      | Inr values \<Rightarrow> Inr (map (param_from_value J) values))"

text \<open>The encoders of the driver for the five primitive types; the output buffer is passed on.\<close>
record sql_encode =
  enc_bool :: "bool \<Rightarrow> pg_type \<Rightarrow> string \<Rightarrow> (string, is_null) result \<times> string"
  enc_i32 :: "i32 \<Rightarrow> pg_type \<Rightarrow> string \<Rightarrow> (string, is_null) result \<times> string"
  enc_i64 :: "i64 \<Rightarrow> pg_type \<Rightarrow> string \<Rightarrow> (string, is_null) result \<times> string"
  enc_f64 :: "f64 \<Rightarrow> pg_type \<Rightarrow> string \<Rightarrow> (string, is_null) result \<times> string"
  enc_text :: "string \<Rightarrow> pg_type \<Rightarrow> string \<Rightarrow> (string, is_null) result \<times> string"

fun param_to_sql :: "sql_encode \<Rightarrow> param_value \<Rightarrow> pg_type \<Rightarrow> string \<Rightarrow> (string, is_null) result \<times> string" where
  "param_to_sql X PNull ty out = (Inr IsNullYes, out)"
| "param_to_sql X (PBool val) ty out = enc_bool X val ty out"
| "param_to_sql X (PInt4 val) ty out = enc_i32 X val ty out"
| "param_to_sql X (PInt8 val) ty out = enc_i64 X val ty out"
| "param_to_sql X (PFloat8 val) ty out = enc_f64 X val ty out"
| "param_to_sql X (PText val) ty out = enc_text X val ty out"

section \<open>Dispatch\<close>

definition block_on_db ::
    "'w pg_lib \<Rightarrow> db_call_ctx \<Rightarrow> (duration \<Rightarrow> ('w, (pg_error, 'a) result timed) io) \<Rightarrow> ('w, (db_error, 'a) result) io" where
  "block_on_db E call fut w =
     (case pg_clock E w of (t, w1) \<Rightarrow>
        (let remaining = saturating_duration_since (dcc_deadline call) t
         in case fut remaining w1 of
              (Done (Inr v), w2) \<Rightarrow> (Inr v, w2)
            | (Done (Inl driver), w2) \<Rightarrow> (Inl (db_from_driver driver), w2)
            | (Elapsed, w2) \<Rightarrow> (Inl db_timeout, w2)))"

definition db_query_result :: "'w pg_lib \<Rightarrow> pg_row list \<Rightarrow> usize \<Rightarrow> json_value" where
  "db_query_result E rows max_rows =
     (case rows_to_json E rows max_rows of (json_rows, truncated) \<Rightarrow>
        json_object
          [(''columns'', VArray (map VString (extract_columns rows))),
           (''rows'', VArray json_rows),
           (''row_count'', json_nat (length json_rows)),
           (''truncated'', VBool truncated)])"

definition db_do_query ::
    "'w pg_lib \<Rightarrow> db_call_ctx \<Rightarrow> string \<Rightarrow> string \<Rightarrow> usize \<Rightarrow> ('w, (db_error, string) result) io" where
  "db_do_query E call sql params_json max_rows w =
     (case parse_params (pg_json E) params_json of
        Inl m \<Rightarrow> (Inl (db_fallback m), w)
      | Inr params \<Rightarrow>
          (case block_on_db E call (pg_query E (dcc_client call) sql params) w of
             (Inl e, w1) \<Rightarrow> (Inl e, w1)
           | (Inr rows, w1) \<Rightarrow>
               (map_err (\<lambda>err. db_fallback (''serialize error: '' @ err))
                  (to_string (pg_json E) (db_query_result E rows max_rows)), w1)))"

definition rows_affected_json :: "u64 \<Rightarrow> string" where
  "rows_affected_json n = ''{'' @ [quot] @ ''rows_affected'' @ [quot] @ '':'' @ show_nat (unat n) @ ''}''"

definition db_do_execute ::
    "'w pg_lib \<Rightarrow> db_call_ctx \<Rightarrow> string \<Rightarrow> string \<Rightarrow> ('w, (db_error, string) result) io" where
  "db_do_execute E call sql params_json w =
     (case parse_params (pg_json E) params_json of
        Inl m \<Rightarrow> (Inl (db_fallback m), w)
      | Inr params \<Rightarrow>
          (case block_on_db E call (pg_execute E (dcc_client call) sql params) w of
             (Inl e, w1) \<Rightarrow> (Inl e, w1)
           | (Inr affected, w1) \<Rightarrow> (Inr (rows_affected_json affected), w1)))"

definition ok_true_json :: string where
  "ok_true_json = ''{'' @ [quot] @ ''ok'' @ [quot] @ '':true}''"

definition db_do_simple :: "'w pg_lib \<Rightarrow> db_call_ctx \<Rightarrow> string \<Rightarrow> ('w, (db_error, string) result) io" where
  "db_do_simple E call cmd w =
     (case block_on_db E call (pg_batch E (dcc_client call) cmd) w of
        (Inl e, w1) \<Rightarrow> (Inl e, w1)
      | (Inr _, w1) \<Rightarrow> (Inr ok_true_json, w1))"

definition db_dispatch ::
    "'w pg_lib \<Rightarrow> db_call_ctx \<Rightarrow> string \<Rightarrow> string \<Rightarrow> string \<Rightarrow> usize \<Rightarrow> ('w, (db_error, string) result) io" where
  [route_defs]: "db_dispatch E call action query params_json max_rows w =
     (if action = ''query'' then db_do_query E call query params_json max_rows w
      else if action = ''execute'' then db_do_execute E call query params_json w
      else if action = ''begin'' then db_do_simple E call ''BEGIN'' w
      else if action = ''commit'' then db_do_simple E call ''COMMIT'' w
      else if action = ''rollback'' then db_do_simple E call ''ROLLBACK'' w
      else (Inl (db_fallback (''unknown db action: '' @ action)), w))"

section \<open>Metrics and the call entry point\<close>

definition db_extract_metric_info :: "json_lib \<Rightarrow> string \<Rightarrow> string \<Rightarrow> usize \<times> u64 \<times> bool" where
  "db_extract_metric_info J action json =
     (let parsed = (case from_str J json of Inl _ \<Rightarrow> VNull | Inr v \<Rightarrow> v)
      in if action = ''query'' then
           (let rows = (case Option.bind (value_get ''row_count'' parsed) (value_as_u64 J) of None \<Rightarrow> 0 | Some n \<Rightarrow> n);
                trunc = (case Option.bind (value_get ''truncated'' parsed) value_as_bool of None \<Rightarrow> False | Some b \<Rightarrow> b)
            in (unat rows, 0, trunc))
         else if action = ''execute'' then
           (let affected = (case Option.bind (value_get ''rows_affected'' parsed) (value_as_u64 J) of None \<Rightarrow> 0 | Some n \<Rightarrow> n)
            in (0, affected, False))
         else (0, 0, False))"

definition db_build_metric ::
    "'w pg_lib \<Rightarrow> string \<Rightarrow> (db_error, string) result \<Rightarrow> instant \<Rightarrow> ('w, db_metric) io" where
  "db_build_metric E action result start w =
     (case (case result of Inl _ \<Rightarrow> (0, 0, False) | Inr json \<Rightarrow> db_extract_metric_info (pg_json E) action json) of
        (rows_ret, rows_aff, trunc) \<Rightarrow>
          (case pg_clock E w of (t, w1) \<Rightarrow>
             (\<lparr>dbm_action = action, dbm_duration_us = as_micros (saturating_duration_since t start),
               dbm_rows_returned = rows_ret, dbm_rows_affected = rows_aff, dbm_truncated = trunc\<rparr>, w1)))"

definition db_call ::
    "'w pg_lib \<Rightarrow> string \<times> string \<times> string \<Rightarrow> db_backend \<Rightarrow> 'w \<Rightarrow> (db_error, string) result \<times> db_backend \<times> 'w" where
  "db_call E q b w =
     (case q of (action, query, params_json) \<Rightarrow>
        (case pg_clock E w of (start, w1) \<Rightarrow>
           (let ctx = \<lparr>dcc_client = db_client b, dcc_deadline = db_deadline b\<rparr>
            in case db_dispatch E ctx action query params_json (db_max_rows b) w1 of
                 (result, w2) \<Rightarrow>
                   (case db_build_metric E action result start w2 of
                      (m, w3) \<Rightarrow> (result, b\<lparr>db_history := collector_record (db_history b) m\<rparr>, w3)))))"

definition db_drain_metrics :: "wire_lib \<Rightarrow> db_backend \<Rightarrow> db_metric list" where
  "db_drain_metrics W b = drain_db W (db_history b)"

section \<open>The faults of the component\<close>

definition db_faults :: "fault list" where
  "db_faults =
     [DB_FALLBACK, DB_CONNECTION_FAULT, DB_TIMEOUT, DB_CIRCUIT_OPEN_FAULT,
      mk_fault ''DB_SERIALIZATION'' True Operator, mk_fault ''DB_DEADLOCK'' True Operator,
      mk_fault ''DB_CANCELED'' True Operator, mk_fault ''DB_CONSTRAINT'' False Developer,
      mk_fault ''DB_QUERY'' False Developer]"

lemma db_faults_retry_rule: "f \<in> set db_faults \<Longrightarrow> retry_rule f"
  by (auto simp: db_faults_def fault_defs)

lemma db_classify_by_class_in: "db_classify_by_class code \<in> set db_faults"
  by (simp add: db_classify_by_class_def db_faults_def Let_def)

lemma db_classify_in: "db_classify err \<in> set db_faults"
  using db_classify_by_class_in
  by (auto simp: db_classify_def db_faults_def split: option.splits)

lemma db_error_faults [simp]:
  "dbe_fault (db_fallback m) \<in> set db_faults" "dbe_fault db_timeout \<in> set db_faults"
  "dbe_fault (db_from_driver err) \<in> set db_faults"
  by (simp_all add: ctor_defs db_classify_in) (simp_all add: db_faults_def)

lemma block_on_db_fault:
  "block_on_db E call fut w = (Inl e, w') \<Longrightarrow> dbe_fault e \<in> set db_faults"
  by (auto simp: block_on_db_def Let_def split: result_splits timed.splits)

lemma db_do_query_fault: "db_do_query E call sql ps n w = (Inl e, w') \<Longrightarrow> dbe_fault e \<in> set db_faults"
  by (auto simp: db_do_query_def map_err_Inl_iff dest: block_on_db_fault split: result_splits)

lemma db_do_execute_fault: "db_do_execute E call sql ps w = (Inl e, w') \<Longrightarrow> dbe_fault e \<in> set db_faults"
  by (auto simp: db_do_execute_def dest: block_on_db_fault split: result_splits)

lemma db_do_simple_fault: "db_do_simple E call cmd w = (Inl e, w') \<Longrightarrow> dbe_fault e \<in> set db_faults"
  by (auto simp: db_do_simple_def dest: block_on_db_fault split: result_splits)

lemma db_dispatch_fault:
  "db_dispatch E call action sql ps n w = (Inl e, w') \<Longrightarrow> dbe_fault e \<in> set db_faults"
  by (auto simp: db_dispatch_def dest: db_do_query_fault db_do_execute_fault db_do_simple_fault
      split: if_splits)

section \<open>The metering contract\<close>

abbreviation db_fixed :: "db_backend \<Rightarrow> handle \<times> instant \<times> usize" where
  "db_fixed b \<equiv> (db_client b, db_deadline b, db_max_rows b)"

lemma db_call_unfold:
  assumes "db_call E (action, sql, ps) b w = (r, b', w')"
  obtains start w1 w2 m where
    "pg_clock E w = (start, w1)"
    "db_dispatch E \<lparr>dcc_client = db_client b, dcc_deadline = db_deadline b\<rparr> action sql ps (db_max_rows b) w1 = (r, w2)"
    "db_build_metric E action r start w2 = (m, w')"
    "b' = b\<lparr>db_history := db_history b @ [m]\<rparr>"
  using assms by (auto simp: db_call_def Let_def collector_record_def split: prod.splits)

lemma db_call_fault:
  assumes "db_call E (action, sql, ps) b w = (Inl e, b', w')"
  shows "dbe_fault e \<in> set db_faults"
proof -
  from assms obtain w1 w2 where
    "db_dispatch E \<lparr>dcc_client = db_client b, dcc_deadline = db_deadline b\<rparr> action sql ps (db_max_rows b) w1 = (Inl e, w2)"
    by (rule db_call_unfold)
  then show ?thesis by (rule db_dispatch_fault)
qed

lemma db_build_metric_action: "db_build_metric E action r start w = (m, w') \<Longrightarrow> dbm_action m = action"
  by (auto simp: db_build_metric_def split: prod.splits)

interpretation db: fully_metered "db_call E" db_history db_fixed dbm_action fst
  for E :: "'w pg_lib"
proof unfold_locales
  fix q b and w :: 'w and r b' w'
  assume c: "db_call E q b w = (r, b', w')"
  obtain action sql ps where q: "q = (action, sql, ps)" by (cases q)
  from c [unfolded q] obtain start w2 m where m: "db_build_metric E action r start w2 = (m, w')"
    "b' = b\<lparr>db_history := db_history b @ [m]\<rparr>" by (rule db_call_unfold)
  show "db_fixed b' = db_fixed b" using m by simp
  show "db_history b' = db_history b \<or>
      (\<exists>m. db_history b' = db_history b @ [m] \<and> dbm_action m = fst q)"
    using m q by (auto dest: db_build_metric_action)
  show "db_history b' \<noteq> db_history b" using m by simp
qed

section \<open>Lemmas on rows and metrics\<close>

lemma rows_to_json_length: "length (fst (rows_to_json E rows n)) = min n (length rows)"
  by (simp add: rows_to_json_def Let_def)

lemma rows_to_json_truncated: "snd (rows_to_json E rows n) \<longleftrightarrow> n < length rows"
  by (simp add: rows_to_json_def Let_def)

lemma db_query_result_get:
  "value_get ''row_count'' (db_query_result E rows n) = Some (json_nat (min n (length rows)))"
  "value_get ''truncated'' (db_query_result E rows n) = Some (VBool (n < length rows))"
  by (simp_all add: db_query_result_def case_prod_beta rows_to_json_length rows_to_json_truncated)

lemma block_on_db_Done:
  assumes "pg_clock E w = (t, w1)" "fut (dcc_deadline call - t) w1 = (Done (Inr v), w2)"
  shows "block_on_db E call fut w = (Inr v, w2)"
  using assms by (simp add: block_on_db_def saturating_duration_since_def)

lemma fold_fmupd_lookup_other:
  "k \<notin> set (map (fst \<circ> snd) xs) \<Longrightarrow>
     fmlookup (fold (\<lambda>(i, n, t). fmupd n (f i t)) xs m) k = fmlookup m k"
  by (induction xs arbitrary: m) (auto split: prod.splits)

lemma enumerate_append: "enumerate n (xs @ ys) = enumerate n xs @ enumerate (n + length xs) ys"
  by (induction xs arbitrary: n) simp_all

lemma names_enumerate: "map (fst \<circ> snd) (enumerate n xs) = map fst xs"
  by (induction xs arbitrary: n) simp_all

text \<open>A column's value in the row object: the last column of that name decides.\<close>
lemma row_to_json_lookup:
  assumes "row_columns row = pre @ (name, ty) # post" and "name \<notin> set (map fst post)"
  shows "value_get name (row_to_json E row) = Some (column_to_json E row (length pre) ty)"
proof -
  have "name \<notin> set (map (fst \<circ> snd) (enumerate (Suc (length pre)) post))"
    unfolding names_enumerate by (rule assms(2))
  then show ?thesis
    by (simp add: row_to_json_def value_get_def assms(1) enumerate_append fold_fmupd_lookup_other)
qed

lemma get_or_null_safe:
  "(\<And>v. js_safe (convert v)) \<Longrightarrow> js_safe (get_or_null try_get txt row idx convert)"
  by (simp add: get_or_null_def split: sum.splits option.splits)

text \<open>Only JSON columns, which pass through as they are, can hold a wide integer.\<close>
lemma column_to_json_safe:
  assumes "floats_ok (pg_json E)" "ty \<notin> {JSON, JSONB}"
  shows "js_safe (column_to_json E row idx ty)"
  using assms sint_js_safe
  by (cases ty) (simp_all add: column_to_json_def get_or_null_safe Let_def del: js_safe.simps(3))

lemma row_to_json_safe:
  assumes "floats_ok (pg_json E)" "\<forall>(name, ty) \<in> set (row_columns row). ty \<notin> {JSON, JSONB}"
  shows "js_safe (row_to_json E row)"
proof -
  have "list_all js_safe (map (\<lambda>(idx, name, ty). column_to_json E row idx ty) (enumerate 0 (row_columns row)))"
  proof -
    have "js_safe (column_to_json E row idx ty)" if "(idx, name, ty) \<in> set (enumerate 0 (row_columns row))" for idx name ty
    proof (rule column_to_json_safe [OF assms(1)])
      from that have "snd (idx, name, ty) \<in> set (map snd (enumerate 0 (row_columns row)))" unfolding set_map by (rule imageI)
      then have "(name, ty) \<in> set (row_columns row)" by simp
      with assms(2) show "ty \<notin> {JSON, JSONB}" by blast
    qed
    then show ?thesis unfolding list_all_iff by auto
  qed
  from fmpred_fold_upd [OF this, of fmempty "\<lambda>(idx, name, ty). name"] show ?thesis
    by (simp add: row_to_json_def js_safe_object case_prod_beta' del: js_safe.simps)
qed

lemma connect_through_breaker_cases:
  "connect_through_breaker E c (Some g) w =
     (if fst (breaker_allow E g (db_breaker_target c) w)
      then (map_err ConnectFailed (fst (db_connect_raw E c (snd (breaker_allow E g (db_breaker_target c) w)))),
            breaker_record E g (db_breaker_target c)
              (is_ok (fst (db_connect_raw E c (snd (breaker_allow E g (db_breaker_target c) w)))))
              (snd (db_connect_raw E c (snd (breaker_allow E g (db_breaker_target c) w)))))
      else (Inl CircuitOpen, snd (breaker_allow E g (db_breaker_target c) w)))"
  by (auto simp: connect_through_breaker_def Let_def case_prod_beta split: bool.splits)

section \<open>A concrete outside for witnesses\<close>

text \<open>The world is a clock that every reading advances by one second; the breaker refuses
  handle 0 and allows every other, counting an outcome as one more tick of the clock; queries
  return one row with a single INT4 column.\<close>

definition json_ref :: json_lib where
  "json_ref =
     \<lparr>from_str = (\<lambda>_. Inl ''json''), from_str_array = (\<lambda>s. if s = ''[]'' then Inr [] else Inl ''json''),
      to_string = (\<lambda>_. Inr ''json''), value_to_string = (\<lambda>_. ''json''),
      number_as_i64 = (\<lambda>n. case n of NumInt i \<Rightarrow> Some (word_of_int i) | NumFloat _ \<Rightarrow> None),
      number_as_u64 = (\<lambda>n. case n of NumInt i \<Rightarrow> Some (word_of_int i) | NumFloat _ \<Rightarrow> None),
      number_as_f64 = (\<lambda>n. case n of NumInt _ \<Rightarrow> None | NumFloat x \<Rightarrow> Some x),
      number_from_f64 = (\<lambda>x. Some (NumFloat x))\<rparr>"

definition pg_ref :: "nat pg_lib" where
  "pg_ref =
     \<lparr>pg_json = json_ref,
      pg_clock = (\<lambda>w. (w, w + 1000000000)),
      pg_connect_tls = (\<lambda>_ w. (Inr (1, 2), w)), pg_connect_notls = (\<lambda>_ w. (Inr (1, 2), w)),
      pg_spawn_connection = (\<lambda>_ w. w), pg_batch_execute = (\<lambda>_ _ w. (Inr (), w)),
      pg_query = (\<lambda>_ _ _ _ w. (Done (Inr [\<lparr>row_columns = [(''n'', INT4)], row_cells = [Some ''7'']\<rparr>]), w)),
      pg_execute = (\<lambda>_ _ _ _ w. (Done (Inr 1), w)), pg_batch = (\<lambda>_ _ _ w. (Elapsed, w)),
      breaker_allow = (\<lambda>h _ w. (h \<noteq> 0, w)), breaker_record = (\<lambda>_ _ _ w. w + 1),
      try_i16 = (\<lambda>_ _. Inl ''type''),
      try_i32 = (\<lambda>row i. if snd (row_columns row ! i) = INT4 then Inr (Some 7) else Inl ''type''),
      try_i64 = (\<lambda>_ _. Inr (Some (- 1))), try_f32 = (\<lambda>_ _. Inl ''type''), try_f64 = (\<lambda>_ _. Inl ''type''),
      try_bool = (\<lambda>_ _. Inl ''type''), try_string = (\<lambda>_ _. Inl ''type''), try_json = (\<lambda>_ _. Inl ''type''),
      try_uuid = (\<lambda>_ _. Inl ''type''), try_naive_date_time = (\<lambda>_ _. Inl ''type''),
      try_date_time_utc = (\<lambda>_ _. Inl ''type''), try_naive_date = (\<lambda>_ _. Inl ''type''),
      try_naive_time = (\<lambda>_ _. Inl ''type''), try_decimal = (\<lambda>_ _. Inl ''type''), try_bytes = (\<lambda>_ _. Inl ''type''),
      f64_from_f32 = ucast, uuid_to_string = show_nat, naive_date_time_format = (\<lambda>_. show_nat),
      date_time_to_rfc3339 = show_nat, naive_date_to_string = show_nat, naive_time_format = (\<lambda>_. show_nat),
      decimal_to_string = show_nat, base64_encode = (\<lambda>s. s)\<rparr>"

definition db_config_ref :: db_config where
  "db_config_ref =
     \<lparr>dbc_host = ''h'', dbc_port = db_default_port, dbc_user = ''u'', dbc_password = ''p'',
      dbc_database = ''d'', dbc_ssl = False,
      dbc_statement_timeout_ms = db_default_statement_timeout, dbc_max_rows = db_default_max_rows\<rparr>"

section \<open>Properties\<close>

text \<open>Every error a \<^verbatim>\<open>db\<close> call returns is one of the nine classified faults, keeps its code,
  retry hint and owner through \<^verbatim>\<open>into_resource_error\<close> under source \<^verbatim>\<open>db\<close>, and is retryable exactly
  when the operator owns it.\<close>
theorem db_call_error_taxonomy:
  assumes "db_call E (action, sql, ps) b w = (Inl e, b', w')"
  shows "dbe_fault e \<in> set db_faults \<and> ee_source (db_into_resource_error e) = ''db'' \<and>
    ee_code (db_into_resource_error e) = f_code (dbe_fault e) \<and>
    (ee_retryable (db_into_resource_error e) \<longleftrightarrow> ee_owner (db_into_resource_error e) = Operator)"
  using db_call_fault [OF assms] db_faults_retry_rule
  by (simp add: db_into_resource_error_def retry_rule_def)

definition db_backend_ref :: db_backend where
  "db_backend_ref = \<lparr>db_client = 1, db_deadline = 5, db_max_rows = 1, db_history = []\<rparr>"

theorem db_call_error_taxonomy_witness:
  "db_call pg_ref (''begin'', [], []) db_backend_ref 0 =
     (Inl db_timeout, db_backend_ref\<lparr>db_history := [\<lparr>dbm_action = ''begin'', dbm_duration_us = 2000000,
        dbm_rows_returned = 0, dbm_rows_affected = 0, dbm_truncated = False\<rparr>]\<rparr>, 3000000000) \<and>
   dbe_fault db_timeout \<in> set db_faults"
proof -
  have c: "db_call pg_ref (''begin'', [], []) db_backend_ref 0 =
     (Inl db_timeout, db_backend_ref\<lparr>db_history := [\<lparr>dbm_action = ''begin'', dbm_duration_us = 2000000,
        dbm_rows_returned = 0, dbm_rows_affected = 0, dbm_truncated = False\<rparr>]\<rparr>, 3000000000)"
    by (simp add: db_call_def db_dispatch_def db_do_simple_def block_on_db_def pg_ref_def db_backend_ref_def
        db_build_metric_def saturating_duration_since_def as_micros_def collector_record_def)
  show ?thesis using db_call_error_taxonomy [OF c] c by simp
qed



text \<open>While the breaker is open a \<^verbatim>\<open>db\<close> session fails fast: no connection is attempted (the world
  changes only by asking the breaker) and the error is the retryable, operator-owned
  \<^verbatim>\<open>DB_CIRCUIT_OPEN\<close>.\<close>
theorem db_breaker_open_fails_fast:
  assumes "dd_breaker deps = Some g" and "breaker_allow E g (db_breaker_target c) w = (False, w1)"
  shows "\<exists>e. db_connect_resource E c deps w = (Inl e, w1) \<and> ee_code e = ''DB_CIRCUIT_OPEN'' \<and>
    ee_source e = ''db'' \<and> ee_retryable e \<and> ee_owner e = Operator"
  using assms
  by (simp add: db_connect_resource_def db_connect_def connect_through_breaker_cases ctor_defs
      is_circuit_open_def fault_defs)

theorem db_breaker_open_fails_fast_witness:
  "\<exists>e. db_connect_resource pg_ref db_config_ref \<lparr>dd_timeout = 1, dd_breaker = Some 0\<rparr> 4 = (Inl e, 4) \<and>
     ee_code e = ''DB_CIRCUIT_OPEN''"
  using db_breaker_open_fails_fast
    [of "\<lparr>dd_timeout = 1, dd_breaker = Some 0\<rparr>" 0 pg_ref db_config_ref 4 4]
  by (auto simp: pg_ref_def)

text \<open>An allowed connect attempt is reported to the breaker exactly once, under the target
  \<^verbatim>\<open>host:port\<close> and with its outcome, after the attempt ended; a failed one surfaces as the
  retryable \<^verbatim>\<open>DB_CONNECTION\<close>.\<close>
theorem db_breaker_records_outcome:
  assumes "dd_breaker deps = Some g" and "breaker_allow E g (db_breaker_target c) w = (True, w1)"
    and "db_connect_raw E c w1 = (r, w2)"
  shows "connect_through_breaker E c (dd_breaker deps) w =
      (map_err ConnectFailed r, breaker_record E g (dbc_host c @ '':'' @ show_nat (unat (dbc_port c))) (is_ok r) w2) \<and>
    (\<forall>err. r = Inl err \<longrightarrow> (\<exists>e. db_connect_resource E c deps w =
        (Inl e, breaker_record E g (db_breaker_target c) False w2) \<and>
        ee_code e = ''DB_CONNECTION'' \<and> ee_retryable e \<and> ee_message e = pge_text err))"
  using assms
  by (auto simp: db_connect_resource_def db_connect_def connect_through_breaker_cases ctor_defs
      is_circuit_open_def fault_defs db_connect_error_text_def db_breaker_target_def)

theorem db_breaker_records_outcome_witness:
  "connect_through_breaker pg_ref db_config_ref (Some 3) 4 = (Inr 1, 5)"
proof -
  have a: "breaker_allow pg_ref 3 (db_breaker_target db_config_ref) 4 = (True, 4)" by (simp add: pg_ref_def)
  have r: "db_connect_raw pg_ref db_config_ref 4 = (Inr 1, 4)"
    by (simp add: db_connect_raw_def pg_ref_def db_config_ref_def)
  show ?thesis
    using db_breaker_records_outcome [of "\<lparr>dd_timeout = 1, dd_breaker = Some 3\<rparr>" 3 pg_ref db_config_ref 4 4, OF _ a r]
    by (simp add: pg_ref_def)
qed

text \<open>C27: a successful \<^verbatim>\<open>query\<close> returns at most \<open>max_rows\<close> rows, and the metric it records says how
  many were returned and whether the result was cut, provided the JSON library reads back the
  text it printed for this result.\<close>
theorem db_query_result_and_metric:
  assumes params: "parse_params (pg_json E) ps = Inr params"
    and clocks: "pg_clock E w = (t0, w1)" "pg_clock E w1 = (t1, w2)"
    and rows: "pg_query E (db_client b) sql params (db_deadline b - t1) w2 = (Done (Inr rows), w3)"
    and printed: "to_string (pg_json E) (db_query_result E rows (db_max_rows b)) = Inr text"
      "from_str (pg_json E) text = Inr (db_query_result E rows (db_max_rows b))"
    and num: "number_as_u64 (pg_json E) (NumInt (int (min (db_max_rows b) (length rows)))) =
        Some (of_nat (min (db_max_rows b) (length rows)))"
    and len: "length rows < 2 ^ 64"
    and call: "db_call E (''query'', sql, ps) b w = (r, b', w')"
  shows "r = Inr text \<and> length (fst (rows_to_json E rows (db_max_rows b))) \<le> db_max_rows b \<and>
    (\<exists>m. db_history b' = db_history b @ [m] \<and> dbm_action m = ''query'' \<and>
       dbm_rows_returned m = min (db_max_rows b) (length rows) \<and> dbm_rows_affected m = 0 \<and>
       dbm_truncated m = (db_max_rows b < length rows))"
proof -
  let ?ctx = "\<lparr>dcc_client = db_client b, dcc_deadline = db_deadline b\<rparr>"
  have "block_on_db E ?ctx (pg_query E (db_client b) sql params) w1 = (Inr rows, w3)"
    using clocks(2) rows by (intro block_on_db_Done) auto
  then have d: "db_dispatch E ?ctx ''query'' sql ps (db_max_rows b) w1 = (Inr text, w3)"
    by (simp add: db_dispatch_def db_do_query_def params printed)
  have "min (db_max_rows b) (length rows) < 2 ^ 64" using len by simp
  then have "unat (of_nat (min (db_max_rows b) (length rows)) :: u64) = min (db_max_rows b) (length rows)"
    by (rule unat_of_nat_u64)
  then have info: "db_extract_metric_info (pg_json E) ''query'' text =
      (min (db_max_rows b) (length rows), 0, db_max_rows b < length rows)"
    by (simp add: db_extract_metric_info_def printed db_query_result_get num Let_def)
  from call obtain start w1' w2' m where u: "pg_clock E w = (start, w1')"
      "db_dispatch E ?ctx ''query'' sql ps (db_max_rows b) w1' = (r, w2')"
      "db_build_metric E ''query'' r start w2' = (m, w')" "b' = b\<lparr>db_history := db_history b @ [m]\<rparr>"
    by (rule db_call_unfold)
  then have m: "db_build_metric E ''query'' r t0 w3 = (m, w')" "r = Inr text"
      "b' = b\<lparr>db_history := db_history b @ [m]\<rparr>"
    using d clocks(1) by simp_all
  from m(1,2) info have "dbm_action m = ''query'' \<and> dbm_rows_affected m = 0 \<and>
      dbm_rows_returned m = min (db_max_rows b) (length rows) \<and> dbm_truncated m = (db_max_rows b < length rows)"
    by (auto simp: db_build_metric_def split: prod.splits)
  with m(2,3) show ?thesis by (simp add: rows_to_json_length)
qed

text \<open>For the witness: a JSON library that prints the result of the reference query as \<^verbatim>\<open>json\<close>
  and reads it back.\<close>
definition pg_ref_rows :: "pg_row list" where
  "pg_ref_rows = [\<lparr>row_columns = [(''n'', INT4)], row_cells = [Some ''7'']\<rparr>]"

definition pg_ref_query :: "nat pg_lib" where
  "pg_ref_query = pg_ref\<lparr>pg_json := json_ref\<lparr>from_str := (\<lambda>_. Inr (db_query_result pg_ref pg_ref_rows 1))\<rparr>\<rparr>"

lemma pg_ref_query_result: "db_query_result pg_ref_query pg_ref_rows 1 = db_query_result pg_ref pg_ref_rows 1"
  by (simp add: db_query_result_def rows_to_json_def row_to_json_def column_to_json_def pg_ref_query_def
      pg_ref_def pg_ref_rows_def)

theorem db_query_result_and_metric_witness:
  "fst (db_call pg_ref_query (''query'', ''SELECT 7'', ''[]'') db_backend_ref 0) = Inr ''json'' \<and>
   (\<exists>m. db_history (fst (snd (db_call pg_ref_query (''query'', ''SELECT 7'', ''[]'') db_backend_ref 0))) = [m] \<and>
        dbm_rows_returned m = 1 \<and> \<not> dbm_truncated m)"
proof -
  obtain r b' w' where c: "db_call pg_ref_query (''query'', ''SELECT 7'', ''[]'') db_backend_ref 0 = (r, b', w')"
    by (cases "db_call pg_ref_query (''query'', ''SELECT 7'', ''[]'') db_backend_ref 0") auto
  have params: "parse_params (pg_json pg_ref_query) ''[]'' = Inr []"
    by (simp add: parse_params_def pg_ref_query_def json_ref_def)
  have clk: "pg_clock pg_ref_query 0 = (0, 1000000000)"
    "pg_clock pg_ref_query 1000000000 = (1000000000, 2000000000)"
    by (simp_all add: pg_ref_query_def pg_ref_def)
  have rows: "pg_query pg_ref_query (db_client db_backend_ref) ''SELECT 7'' []
      (db_deadline db_backend_ref - 1000000000) 2000000000 = (Done (Inr pg_ref_rows), 2000000000)"
    by (simp add: pg_ref_query_def pg_ref_def pg_ref_rows_def)
  have one: "db_max_rows db_backend_ref = 1" "length pg_ref_rows = 1"
    by (simp_all add: db_backend_ref_def pg_ref_rows_def)
  have printed: "to_string (pg_json pg_ref_query) (db_query_result pg_ref_query pg_ref_rows (db_max_rows db_backend_ref)) = Inr ''json''"
    "from_str (pg_json pg_ref_query) ''json'' = Inr (db_query_result pg_ref_query pg_ref_rows (db_max_rows db_backend_ref))"
    unfolding one pg_ref_query_result by (simp_all add: pg_ref_query_def json_ref_def)
  have num: "number_as_u64 (pg_json pg_ref_query) (NumInt (int (min (db_max_rows db_backend_ref) (length pg_ref_rows)))) =
      Some (of_nat (min (db_max_rows db_backend_ref) (length pg_ref_rows)))"
    unfolding one by (simp add: pg_ref_query_def json_ref_def)
  show ?thesis
    using db_query_result_and_metric [OF params clk rows printed num _ c] one c
    by (auto simp: db_backend_ref_def)
qed

text \<open>64-bit and arbitrary-precision columns never reach the box as JSON numbers: in the object
  built for a row, an \<^verbatim>\<open>INT8\<close> or \<^verbatim>\<open>NUMERIC\<close> column is a string or null whatever the driver decodes,
  and a decoded \<^verbatim>\<open>INT8\<close> is the decimal text of its value.\<close>
theorem db_wide_integers_are_text:
  assumes "row_columns row = pre @ (name, ty) # post" and "name \<notin> set (map fst post)"
    and "ty = INT8 \<or> ty = NUMERIC"
  shows "\<exists>v. value_get name (row_to_json E row) = Some v \<and> (\<forall>n. v \<noteq> VNumber n) \<and>
    (\<forall>i. ty = INT8 \<and> try_i64 E row (length pre) = Inr (Some i) \<longrightarrow> v = VString (show_int (sint i)))"
proof -
  have "column_to_json E row (length pre) ty \<noteq> VNumber n" for n
    using assms(3) by (auto simp: column_to_json_def get_or_null_def split: result_splits)
  with row_to_json_lookup [OF assms(1,2), of E] show ?thesis
    by (auto simp: column_to_json_def get_or_null_def)
qed

theorem db_wide_integers_are_text_witness:
  "value_get ''n'' (row_to_json pg_ref \<lparr>row_columns = [(''n'', INT8)], row_cells = [Some ''x'']\<rparr>) =
     Some (VString (show_int (- 1)))"
  using db_wide_integers_are_text
    [of "\<lparr>row_columns = [(''n'', INT8)], row_cells = [Some ''x'']\<rparr>" "[]" "''n''" INT8 "[]" pg_ref]
  by (auto simp: pg_ref_def)

text \<open>The \<^verbatim>\<open>SET statement_timeout\<close> command cannot carry SQL: whatever the configured value, the
  text between its two quotes consists of decimal digits only.\<close>
theorem db_statement_timeout_no_injection:
  "\<exists>ds. db_statement_timeout_cmd c = ''SET statement_timeout = '' @ [CHR 0x27] @ ds @ [CHR 0x27] \<and>
     ds \<noteq> [] \<and> (\<forall>d \<in> set ds. is_digit d)"
  using show_nat_digits [of "unat (dbc_statement_timeout_ms c)"]
  by (auto simp: db_statement_timeout_cmd_def list_all_iff)

theorem db_statement_timeout_no_injection_witness:
  "\<exists>ds. db_statement_timeout_cmd db_config_ref = ''SET statement_timeout = '' @ [CHR 0x27] @ ds @ [CHR 0x27] \<and>
     ds \<noteq> []"
  using db_statement_timeout_no_injection [of db_config_ref] by blast

text \<open>An integer parameter reaches Postgres with its exact value: as \<^verbatim>\<open>int4\<close> when it fits 32 bits and
  as \<^verbatim>\<open>int8\<close> otherwise, never through a float.\<close>
theorem db_integer_params_exact:
  assumes "number_as_i64 J num = Some i"
  shows "(\<exists>v. param_from_value J (VNumber num) = PInt4 v \<and> sint v = sint i) \<or>
    (param_from_value J (VNumber num) = PInt8 i \<and> \<not> (- (2 ^ 31) \<le> sint i \<and> sint i < 2 ^ 31))"
proof (cases "- (2 ^ 31) \<le> sint i \<and> sint i < 2 ^ 31")
  case True
  then have "sint (word_of_int (sint i) :: i32) = sint i"
    unfolding sint_sbintrunc' by (intro signed_take_bit_int_eq_self) simp_all
  with True assms show ?thesis by (simp add: param_from_value_def)
next
  case False
  with assms show ?thesis by (auto simp: param_from_value_def)
qed

theorem db_integer_params_exact_witness:
  "param_from_value json_ref (VNumber (NumInt 7)) = PInt4 7"
proof -
  have "number_as_i64 json_ref (NumInt 7) = Some 7" by (simp add: json_ref_def)
  from db_integer_params_exact [OF this] show ?thesis
    by (auto simp: param_from_value_def json_ref_def)
qed

text \<open>The documented type table of the driver's \<^verbatim>\<open>FromSql\<close>: \<^verbatim>\<open>i32\<close> is decoded from \<^verbatim>\<open>INT4\<close> columns only (an
  \<^verbatim>\<open>OID\<close> is \<^verbatim>\<open>u32\<close>), and a built-in non-text type is not decoded as a string.\<close>
definition from_sql_checks_types :: "'w pg_lib \<Rightarrow> bool" where
  "from_sql_checks_types E \<longleftrightarrow>
     (\<forall>row idx. idx < length (row_columns row) \<longrightarrow>
        (snd (row_columns row ! idx) \<noteq> INT4 \<longrightarrow> is_err (try_i32 E row idx)) \<and>
        (snd (row_columns row ! idx) \<in> {INT2, INT4, OID, INT8, FLOAT4, FLOAT8, BOOL, BYTEA} \<longrightarrow>
           is_err (try_string E row idx)))"

text \<open>C29: An \<^verbatim>\<open>OID\<close> column is always returned as null, although the conversion table groups it with
  \<^verbatim>\<open>INT4\<close>: it is decoded as \<^verbatim>\<open>i32\<close>, which the driver refuses for that type, and so is the fallback to
  a string.\<close>
theorem db_oid_columns_are_null:
  assumes "from_sql_checks_types E"
    and "row_columns row = pre @ (name, OID) # post" and "name \<notin> set (map fst post)"
  shows "value_get name (row_to_json E row) = Some VNull"
proof -
  have "length pre < length (row_columns row)" "snd (row_columns row ! length pre) = OID"
    using assms(2) by simp_all
  with assms(1) have "is_err (try_i32 E row (length pre))" "is_err (try_string E row (length pre))"
    by (auto simp: from_sql_checks_types_def)
  with row_to_json_lookup [OF assms(2,3), of E] show ?thesis
    by (auto simp: column_to_json_def get_or_null_def is_err_def is_ok_def split: result_splits)
qed

theorem db_oid_columns_are_null_witness:
  "value_get ''o'' (row_to_json pg_ref \<lparr>row_columns = [(''o'', OID)], row_cells = [Some ''1234'']\<rparr>) = Some VNull"
proof -
  have "from_sql_checks_types pg_ref" by (simp add: from_sql_checks_types_def pg_ref_def)
  then show ?thesis
    by (rule db_oid_columns_are_null [where pre = "[]" and post = "[]"]) simp_all
qed

end
