(* ===== verification/Mongo.thy ===== *)
theory Mongo
  imports Db
begin

text \<open>
  The document-database backend, \<^verbatim>\<open>crates/fabric-backends/src/mongo.rs\<close>: the connection URI, error
  classification, the deadline around every operation, the ten actions with their payloads, the capped
  cursor, the conversion of BSON to JSON and the metric.  The functions of the \<^verbatim>\<open>mongodb\<close> and \<^verbatim>\<open>bson\<close>
  crates are the fields of \<open>mongo_lib\<close>.
\<close>

section \<open>Data\<close>

definition MONGO_FALLBACK :: fault where
  [fault_defs]: "MONGO_FALLBACK = mk_fault ''MONGO_ERROR'' True Operator"

definition MONGO_CONNECTION :: fault where
  [fault_defs]: "MONGO_CONNECTION = mk_fault ''MONGO_CONNECTION'' True Operator"

definition MONGO_TIMEOUT :: fault where
  [fault_defs]: "MONGO_TIMEOUT = mk_fault ''MONGO_TIMEOUT'' True Operator"

definition MONGO_WRITE :: fault where
  [fault_defs]: "MONGO_WRITE = mk_fault ''MONGO_WRITE'' False Developer"

definition MONGO_QUERY :: fault where
  [fault_defs]: "MONGO_QUERY = mk_fault ''MONGO_QUERY'' False Developer"

definition mongo_default_port :: u16 where "mongo_default_port = 27017"
definition mongo_default_auth_source :: string where "mongo_default_auth_source = ''admin''"
definition mongo_default_op_timeout :: u64 where "mongo_default_op_timeout = 5000"
definition mongo_default_max_docs :: usize where "mongo_default_max_docs = 1000"

record mongo_config =
  mgc_host :: string
  mgc_port :: u16
  mgc_username :: "string option"
  mgc_password :: "string option"
  mgc_database :: string
  mgc_auth_source :: string
  mgc_tls :: bool
  mgc_ca_cert :: "string option"
  mgc_op_timeout_ms :: u64
  mgc_max_docs :: usize

record mongo_error =
  mge_fault :: fault
  mge_message :: string
  mge_details :: "json_value option"

text \<open>The kinds of driver error that the sources tell apart; \<open>KOther\<close> is every other kind.\<close>
datatype mongo_error_kind =
    KAuthentication
  | KIo
  | KServerSelection
  | KWrite
  | KBulkWrite
  | KCommand i32
  | KInvalidArgument
  | KOther

record mongo_driver_error =
  mde_kind :: mongo_error_kind
  mde_text :: string

text \<open>BSON values; a document is a sequence of fields, \<open>BOther\<close> every type without an arm of its own.\<close>
datatype bson =
    BDouble f64
  | BString string
  | BBoolean bool
  | BNull
  | BInt32 i32
  | BInt64 i64
  | BObjectId string
  | BDecimal128 string
  | BDateTime i64
  | BBinary string
  | BArray "bson list"
  | BDocument "(string \<times> bson) list"
  | BOther nat

type_synonym bson_doc = "(string \<times> bson) list"

record find_opts =
  fo_limit :: "i64 option"
  fo_skip :: "u64 option"
  fo_sort :: "json_value option"
  fo_projection :: "json_value option"

record mongo_payload =
  mgp_filter :: json_value
  mgp_update :: json_value
  mgp_doc :: json_value
  mgp_docs :: json_value
  mgp_pipeline :: json_value
  mgp_options :: find_opts

text \<open>The \<^verbatim>\<open>find\<close> action as the builder collects it.\<close>
record find_action =
  fa_filter :: bson_doc
  fa_max_time :: duration
  fa_limit :: "i64 option"
  fa_skip :: "u64 option"
  fa_sort :: "bson_doc option"
  fa_projection :: "bson_doc option"

record mongo_outcome =
  mgo_json :: string
  mgo_docs_returned :: usize
  mgo_docs_affected :: u64
  mgo_truncated :: bool

type_synonym mongo_result = "(mongo_error, mongo_outcome) result"

text \<open>The deadline of \<^verbatim>\<open>tokio::time::timeout\<close> is \<open>mg_timeout\<close>; the rest are the calls of the driver and of
  the BSON library.\<close>
record 'w mongo_lib =
  mg_json :: json_lib
  mg_clock :: "'w clock"
  mg_timeout :: "duration \<Rightarrow> ('w, mongo_result) io \<Rightarrow> ('w, mongo_result timed) io"
  mg_percent_encode :: "string \<Rightarrow> string"
  mg_parse_options :: "string \<Rightarrow> ('w, (mongo_driver_error, handle) result) io"
  mg_with_options :: "handle \<Rightarrow> ('w, (mongo_driver_error, handle) result) io"
  mg_database :: "handle \<Rightarrow> string \<Rightarrow> handle"
  mg_collection :: "handle \<Rightarrow> string \<Rightarrow> handle"
  mg_find :: "handle \<Rightarrow> find_action \<Rightarrow> ('w, (mongo_driver_error, handle) result) io"
  mg_find_one :: "handle \<Rightarrow> bson_doc \<Rightarrow> ('w, (mongo_driver_error, bson_doc option) result) io"
  mg_count :: "handle \<Rightarrow> bson_doc \<Rightarrow> duration \<Rightarrow> ('w, (mongo_driver_error, u64) result) io"
  mg_aggregate :: "handle \<Rightarrow> bson_doc list \<Rightarrow> duration \<Rightarrow> ('w, (mongo_driver_error, handle) result) io"
  mg_advance :: "handle \<Rightarrow> ('w, (mongo_driver_error, bool) result) io"
  mg_current :: "handle \<Rightarrow> 'w \<Rightarrow> (mongo_driver_error, bson_doc) result"
  mg_insert_one :: "handle \<Rightarrow> bson_doc \<Rightarrow> ('w, (mongo_driver_error, bson) result) io"
  mg_insert_many :: "handle \<Rightarrow> bson_doc list \<Rightarrow> ('w, (mongo_driver_error, usize) result) io"
  mg_update_one :: "handle \<Rightarrow> bson_doc \<Rightarrow> bson_doc \<Rightarrow> ('w, (mongo_driver_error, u64 \<times> u64) result) io"
  mg_update_many :: "handle \<Rightarrow> bson_doc \<Rightarrow> bson_doc \<Rightarrow> ('w, (mongo_driver_error, u64 \<times> u64) result) io"
  mg_delete_one :: "handle \<Rightarrow> bson_doc \<Rightarrow> ('w, (mongo_driver_error, u64) result) io"
  mg_delete_many :: "handle \<Rightarrow> bson_doc \<Rightarrow> ('w, (mongo_driver_error, u64) result) io"
  mg_to_bson :: "json_value \<Rightarrow> (string, bson) result"
  mg_oid_hex :: "string \<Rightarrow> string"
  mg_decimal_text :: "string \<Rightarrow> string"
  mg_rfc3339 :: "i64 \<Rightarrow> (string, string) result"
  mg_base64 :: "string \<Rightarrow> string"
  mg_other_text :: "bson \<Rightarrow> string"
  de_mongo_payload :: "string \<Rightarrow> (string, mongo_payload) result"

record mongo_deps =
  mgd_timeout :: duration

record mongo_backend =
  mgb_database :: handle
  mgb_deadline :: instant
  mgb_max_docs :: usize
  mgb_op_timeout :: duration
  mgb_history :: "mongo_metric collector"

text \<open>The context of one call.\<close>
record mongo_call_ctx =
  mcc_database :: handle
  mcc_deadline :: instant
  mcc_max_docs :: usize
  mcc_op_timeout :: duration

section \<open>Errors\<close>

definition classify_command :: "i32 \<Rightarrow> fault" where
  "classify_command code =
     (if code = 11000 \<or> code = 11001 then MONGO_WRITE
      else if code = 13 \<or> code = 18 then MONGO_CONNECTION
      else if code = 2 \<or> code = 4 \<or> code = 9 \<or> code = 14 \<or> code = 40 \<or> code = 51 \<or> code = 52 \<or> code = 168
      then MONGO_QUERY
      else MONGO_FALLBACK)"

definition mongo_classify :: "mongo_driver_error \<Rightarrow> fault" where
  "mongo_classify err =
     (case mde_kind err of
        KAuthentication \<Rightarrow> MONGO_CONNECTION
      | KIo \<Rightarrow> MONGO_CONNECTION
      | KServerSelection \<Rightarrow> MONGO_CONNECTION
      | KWrite \<Rightarrow> MONGO_WRITE
      | KBulkWrite \<Rightarrow> MONGO_WRITE
      | KCommand code \<Rightarrow> classify_command code
      | KInvalidArgument \<Rightarrow> MONGO_QUERY
      | KOther \<Rightarrow> MONGO_FALLBACK)"

definition mongo_query_error :: "string \<Rightarrow> mongo_error" where
  [ctor_defs]: "mongo_query_error message = \<lparr>mge_fault = MONGO_QUERY, mge_message = message, mge_details = None\<rparr>"

definition mongo_timeout_error :: mongo_error where
  [ctor_defs]: "mongo_timeout_error =
     \<lparr>mge_fault = MONGO_TIMEOUT, mge_message = ''mongo operation exceeded the execution deadline'', mge_details = None\<rparr>"

definition mongo_from_driver :: "mongo_driver_error \<Rightarrow> mongo_error" where
  [ctor_defs]: "mongo_from_driver err =
     \<lparr>mge_fault = mongo_classify err, mge_message = mde_text err, mge_details = None\<rparr>"

definition mongo_into_resource_error :: "mongo_error \<Rightarrow> egress_error" where
  [ctor_defs]: "mongo_into_resource_error e =
     \<lparr>ee_code = f_code (mge_fault e), ee_message = mge_message e, ee_source = ''mongo'',
      ee_details = mge_details e, ee_retryable = f_retryable (mge_fault e), ee_owner = f_owner (mge_fault e)\<rparr>"

section \<open>Connecting\<close>

definition mongo_userinfo :: "(string \<Rightarrow> string) \<Rightarrow> mongo_config \<Rightarrow> string" where
  "mongo_userinfo enc c =
     (case mgc_username c of
        None \<Rightarrow> []
      | Some username \<Rightarrow>
          enc username @ (case mgc_password c of None \<Rightarrow> [] | Some password \<Rightarrow> '':'' @ enc password) @ ''@'')"

definition mongo_uri_options :: "(string \<Rightarrow> string) \<Rightarrow> mongo_config \<Rightarrow> string" where
  "mongo_uri_options enc c =
     (case mgc_username c of None \<Rightarrow> [] | Some _ \<Rightarrow> ''&authSource='' @ enc (mgc_auth_source c)) @
     (if mgc_tls c
      then ''&tls=true'' @ (case mgc_ca_cert c of None \<Rightarrow> [] | Some ca \<Rightarrow> ''&tlsCAFile='' @ enc ca)
      else [])"

definition build_uri :: "(string \<Rightarrow> string) \<Rightarrow> mongo_config \<Rightarrow> string" where
  "build_uri enc c =
     ''mongodb://'' @ mongo_userinfo enc c @ mgc_host c @ '':'' @ show_nat (unat (mgc_port c)) @
     ''/?directConnection=true&appName=runlet'' @ ''&connectTimeoutMS=5000&serverSelectionTimeoutMS=5000'' @
     mongo_uri_options enc c"

definition mongo_connect_resource ::
    "'w mongo_lib \<Rightarrow> mongo_config \<Rightarrow> mongo_deps \<Rightarrow> ('w, (egress_error, mongo_backend) result) io" where
  "mongo_connect_resource E c deps w =
     (case (case mg_parse_options E (build_uri (mg_percent_encode E) c) w of
              (Inl err, w1) \<Rightarrow> (Inl err, w1)
            | (Inr options, w1) \<Rightarrow> mg_with_options E options w1) of
        (Inl err, w2) \<Rightarrow> (Inl (mongo_into_resource_error (mongo_from_driver err)), w2)
      | (Inr client, w2) \<Rightarrow>
          (case deadline_after (mg_clock E) (mgd_timeout deps) w2 of
             (deadline, w3) \<Rightarrow>
               (Inr \<lparr>mgb_database = mg_database E client (mgc_database c), mgb_deadline = deadline,
                     mgb_max_docs = mgc_max_docs c, mgb_op_timeout = duration_from_millis (mgc_op_timeout_ms c),
                     mgb_history = []\<rparr>, w3)))"

section \<open>JSON to BSON and back\<close>

definition json_to_doc :: "'w mongo_lib \<Rightarrow> json_value \<Rightarrow> (mongo_error, bson_doc) result" where
  "json_to_doc E v =
     (if v = VNull then Inr []
      else case mg_to_bson E v of
             Inr (BDocument doc) \<Rightarrow> Inr doc
           | Inr _ \<Rightarrow> Inl (mongo_query_error ''expected a JSON object'')
           | Inl err \<Rightarrow> Inl (mongo_query_error (''invalid document: '' @ err)))"

text \<open>\<^verbatim>\<open>iter().map(json_to_doc).collect()\<close>: the first error wins.\<close>
fun collect_docs :: "'w mongo_lib \<Rightarrow> json_value list \<Rightarrow> (mongo_error, bson_doc list) result" where
  "collect_docs E [] = Inr []"
| "collect_docs E (v # vs) =
     (case json_to_doc E v of Inl e \<Rightarrow> Inl e | Inr d \<Rightarrow> map_ok (Cons d) (collect_docs E vs))"

definition docs_to_docs :: "'w mongo_lib \<Rightarrow> json_value \<Rightarrow> (mongo_error, bson_doc list) result" where
  "docs_to_docs E v =
     (case v of
        VNull \<Rightarrow> Inr []
      | VArray items \<Rightarrow> collect_docs E items
      | _ \<Rightarrow> Inl (mongo_query_error ''expected a JSON array''))"

definition pipeline_to_docs :: "'w mongo_lib \<Rightarrow> json_value \<Rightarrow> (mongo_error, bson_doc list) result" where
  "pipeline_to_docs E v = docs_to_docs E v"

definition obj_of_fields :: "(string \<times> json_value) list \<Rightarrow> json_value" where
  "obj_of_fields kvs = VObject (fold (\<lambda>(k, v) m. fmupd k v m) kvs fmempty)"

primrec bson_to_json :: "'w mongo_lib \<Rightarrow> bson \<Rightarrow> json_value" where
  "bson_to_json E (BDouble num) = float_value (mg_json E) num"
| "bson_to_json E (BString s) = VString s"
| "bson_to_json E (BBoolean flag) = VBool flag"
| "bson_to_json E BNull = VNull"
| "bson_to_json E (BInt32 i) = VNumber (NumInt (sint i))"
| "bson_to_json E (BInt64 i) = VString (show_int (sint i))"
| "bson_to_json E (BObjectId oid) = VString (mg_oid_hex E oid)"
| "bson_to_json E (BDecimal128 dec) = VString (mg_decimal_text E dec)"
| "bson_to_json E (BDateTime date) =
     VString (case mg_rfc3339 E date of Inl _ \<Rightarrow> show_int (sint date) | Inr s \<Rightarrow> s)"
| "bson_to_json E (BBinary bytes) = VString (mg_base64 E bytes)"
| "bson_to_json E (BArray items) = VArray (map (bson_to_json E) items)"
| "bson_to_json E (BDocument doc) = obj_of_fields (map (map_prod id (bson_to_json E)) doc)"
| "bson_to_json E (BOther n) = VString (mg_other_text E (BOther n))"

definition document_to_json :: "'w mongo_lib \<Rightarrow> bson_doc \<Rightarrow> json_value" where
  "document_to_json E doc = obj_of_fields (map (map_prod id (bson_to_json E)) doc)"

definition id_to_string :: "'w mongo_lib \<Rightarrow> bson \<Rightarrow> string" where
  "id_to_string E i =
     (case i of
        BObjectId oid \<Rightarrow> mg_oid_hex E oid
      | BString s \<Rightarrow> s
      | other \<Rightarrow> value_to_string (mg_json E) (bson_to_json E other))"

section \<open>Reads\<close>

definition json_key :: "string \<Rightarrow> string" where
  "json_key k = [quot] @ k @ [quot] @ '':''"

text \<open>The cursor loop.  It ends after at most \<open>max_docs + 1\<close> advances, whatever the server sends.\<close>
function drain_loop ::
    "'w mongo_lib \<Rightarrow> handle \<Rightarrow> usize \<Rightarrow> json_value list \<Rightarrow> ('w, (mongo_error, json_value list \<times> bool) result) io" where
  "drain_loop E cursor max_docs docs w =
     (case mg_advance E cursor w of
        (Inl err, w1) \<Rightarrow> (Inl (mongo_from_driver err), w1)
      | (Inr False, w1) \<Rightarrow> (Inr (docs, False), w1)
      | (Inr True, w1) \<Rightarrow>
          (if max_docs \<le> length docs then (Inr (docs, True), w1)
           else (case mg_current E cursor w1 of
                   Inl err \<Rightarrow> (Inl (mongo_from_driver err), w1)
                 | Inr doc \<Rightarrow> drain_loop E cursor max_docs (docs @ [document_to_json E doc]) w1)))"
  by pat_completeness auto
termination by (relation "measure (\<lambda>(E, cursor, max_docs, docs, w). max_docs - length docs)") auto

declare drain_loop.simps [simp del]

definition docs_object :: "json_value list \<Rightarrow> bool \<Rightarrow> json_value" where
  "docs_object docs truncated =
     json_object [(''docs'', VArray docs), (''count'', json_nat (length docs)), (''truncated'', VBool truncated)]"

definition drain_cursor :: "'w mongo_lib \<Rightarrow> handle \<Rightarrow> usize \<Rightarrow> ('w, mongo_result) io" where
  "drain_cursor E cursor max_docs w =
     (case drain_loop E cursor max_docs [] w of
        (Inl e, w1) \<Rightarrow> (Inl e, w1)
      | (Inr (docs, truncated), w1) \<Rightarrow>
          (Inr \<lparr>mgo_json = value_to_string (mg_json E) (docs_object docs truncated),
                mgo_docs_returned = length docs, mgo_docs_affected = 0, mgo_truncated = truncated\<rparr>, w1))"

definition opt_doc :: "'w mongo_lib \<Rightarrow> json_value option \<Rightarrow> (mongo_error, bson_doc option) result" where
  "opt_doc E v = (case v of None \<Rightarrow> Inr None | Some x \<Rightarrow> map_ok Some (json_to_doc E x))"

text \<open>The \<^verbatim>\<open>find\<close> builder: filter, sort and projection are converted in this order.\<close>
definition find_action_of :: "'w mongo_lib \<Rightarrow> duration \<Rightarrow> mongo_payload \<Rightarrow> (mongo_error, find_action) result" where
  "find_action_of E op_timeout p =
     (case json_to_doc E (mgp_filter p) of
        Inl e \<Rightarrow> Inl e
      | Inr f \<Rightarrow>
          (case opt_doc E (fo_sort (mgp_options p)) of
             Inl e \<Rightarrow> Inl e
           | Inr sort1 \<Rightarrow>
               (case opt_doc E (fo_projection (mgp_options p)) of
                  Inl e \<Rightarrow> Inl e
                | Inr projection \<Rightarrow>
                    Inr \<lparr>fa_filter = f, fa_max_time = op_timeout, fa_limit = fo_limit (mgp_options p),
                         fa_skip = fo_skip (mgp_options p), fa_sort = sort1, fa_projection = projection\<rparr>)))"

definition mongo_do_find :: "'w mongo_lib \<Rightarrow> mongo_call_ctx \<Rightarrow> handle \<Rightarrow> mongo_payload \<Rightarrow> ('w, mongo_result) io" where
  "mongo_do_find E call coll p w =
     (case find_action_of E (mcc_op_timeout call) p of
        Inl e \<Rightarrow> (Inl e, w)
      | Inr action \<Rightarrow>
          (case mg_find E coll action w of
             (Inl err, w1) \<Rightarrow> (Inl (mongo_from_driver err), w1)
           | (Inr cursor, w1) \<Rightarrow> drain_cursor E cursor (mcc_max_docs call) w1))"

definition mongo_do_find_one :: "'w mongo_lib \<Rightarrow> handle \<Rightarrow> mongo_payload \<Rightarrow> ('w, mongo_result) io" where
  "mongo_do_find_one E coll p w =
     (case json_to_doc E (mgp_filter p) of
        Inl e \<Rightarrow> (Inl e, w)
      | Inr f \<Rightarrow>
          (case mg_find_one E coll f w of
             (Inl err, w1) \<Rightarrow> (Inl (mongo_from_driver err), w1)
           | (Inr found, w1) \<Rightarrow>
               (Inr \<lparr>mgo_json = (case found of None \<Rightarrow> ''null''
                                  | Some doc \<Rightarrow> value_to_string (mg_json E) (document_to_json E doc)),
                     mgo_docs_returned = (if found = None then 0 else 1), mgo_docs_affected = 0,
                     mgo_truncated = False\<rparr>, w1)))"

definition mongo_do_count :: "'w mongo_lib \<Rightarrow> mongo_call_ctx \<Rightarrow> handle \<Rightarrow> mongo_payload \<Rightarrow> ('w, mongo_result) io" where
  "mongo_do_count E call coll p w =
     (case json_to_doc E (mgp_filter p) of
        Inl e \<Rightarrow> (Inl e, w)
      | Inr f \<Rightarrow>
          (case mg_count E coll f (mcc_op_timeout call) w of
             (Inl err, w1) \<Rightarrow> (Inl (mongo_from_driver err), w1)
           | (Inr count, w1) \<Rightarrow>
               (Inr \<lparr>mgo_json = ''{'' @ json_key ''count'' @ show_nat (unat count) @ ''}'', mgo_docs_returned = 0,
                     mgo_docs_affected = 0, mgo_truncated = False\<rparr>, w1)))"

definition mongo_do_aggregate :: "'w mongo_lib \<Rightarrow> mongo_call_ctx \<Rightarrow> handle \<Rightarrow> mongo_payload \<Rightarrow> ('w, mongo_result) io" where
  "mongo_do_aggregate E call coll p w =
     (case pipeline_to_docs E (mgp_pipeline p) of
        Inl e \<Rightarrow> (Inl e, w)
      | Inr pipeline \<Rightarrow>
          (case mg_aggregate E coll pipeline (mcc_op_timeout call) w of
             (Inl err, w1) \<Rightarrow> (Inl (mongo_from_driver err), w1)
           | (Inr cursor, w1) \<Rightarrow> drain_cursor E cursor (mcc_max_docs call) w1))"

section \<open>Writes\<close>

definition write_outcome :: "string \<Rightarrow> u64 \<Rightarrow> mongo_outcome" where
  "write_outcome json affected =
     \<lparr>mgo_json = json, mgo_docs_returned = 0, mgo_docs_affected = affected, mgo_truncated = False\<rparr>"

definition mongo_do_insert_one :: "'w mongo_lib \<Rightarrow> handle \<Rightarrow> mongo_payload \<Rightarrow> ('w, mongo_result) io" where
  "mongo_do_insert_one E coll p w =
     (case json_to_doc E (mgp_doc p) of
        Inl e \<Rightarrow> (Inl e, w)
      | Inr doc \<Rightarrow>
          (case mg_insert_one E coll doc w of
             (Inl err, w1) \<Rightarrow> (Inl (mongo_from_driver err), w1)
           | (Inr inserted_id, w1) \<Rightarrow>
               (let encoded = to_string_or (mg_json E) [quot, quot] (VString (id_to_string E inserted_id))
                in (Inr (write_outcome (''{'' @ json_key ''inserted_id'' @ encoded @ ''}'') 1), w1))))"

definition u64_of_usize :: "usize \<Rightarrow> u64" where
  "u64_of_usize n = (if n < 2 ^ 64 then of_nat n else - 1)"

definition mongo_do_insert_many :: "'w mongo_lib \<Rightarrow> handle \<Rightarrow> mongo_payload \<Rightarrow> ('w, mongo_result) io" where
  "mongo_do_insert_many E coll p w =
     (case docs_to_docs E (mgp_docs p) of
        Inl e \<Rightarrow> (Inl e, w)
      | Inr docs \<Rightarrow>
          (if docs = [] then (Inl (mongo_query_error ''mongo.insert_many requires at least one document''), w)
           else (case mg_insert_many E coll docs w of
                   (Inl err, w1) \<Rightarrow> (Inl (mongo_from_driver err), w1)
                 | (Inr inserted, w1) \<Rightarrow>
                     (let count = u64_of_usize inserted
                      in (Inr (write_outcome (''{'' @ json_key ''inserted_count'' @ show_nat (unat count) @ ''}'') count), w1)))))"

definition mongo_do_update :: "'w mongo_lib \<Rightarrow> handle \<Rightarrow> mongo_payload \<Rightarrow> bool \<Rightarrow> ('w, mongo_result) io" where
  "mongo_do_update E coll p many w =
     (case json_to_doc E (mgp_filter p) of
        Inl e \<Rightarrow> (Inl e, w)
      | Inr f \<Rightarrow>
          (case json_to_doc E (mgp_update p) of
             Inl e \<Rightarrow> (Inl e, w)
           | Inr update \<Rightarrow>
               (case (if many then mg_update_many E coll f update w else mg_update_one E coll f update w) of
                  (Inl err, w1) \<Rightarrow> (Inl (mongo_from_driver err), w1)
                | (Inr (matched, modified), w1) \<Rightarrow>
                    (Inr (write_outcome
                       (''{'' @ json_key ''matched'' @ show_nat (unat matched) @ '','' @ json_key ''modified'' @
                        show_nat (unat modified) @ ''}'') modified), w1))))"

definition mongo_do_delete :: "'w mongo_lib \<Rightarrow> handle \<Rightarrow> mongo_payload \<Rightarrow> bool \<Rightarrow> ('w, mongo_result) io" where
  "mongo_do_delete E coll p many w =
     (case json_to_doc E (mgp_filter p) of
        Inl e \<Rightarrow> (Inl e, w)
      | Inr f \<Rightarrow>
          (case (if many then mg_delete_many E coll f w else mg_delete_one E coll f w) of
             (Inl err, w1) \<Rightarrow> (Inl (mongo_from_driver err), w1)
           | (Inr deleted, w1) \<Rightarrow>
               (Inr (write_outcome (''{'' @ json_key ''deleted'' @ show_nat (unat deleted) @ ''}'') deleted), w1)))"

section \<open>Dispatch, metrics and the call entry point\<close>

definition mongo_run :: "'w mongo_lib \<Rightarrow> mongo_call_ctx \<Rightarrow> handle \<Rightarrow> string \<Rightarrow> mongo_payload \<Rightarrow> ('w, mongo_result) io" where
  [route_defs]: "mongo_run E call coll action p w =
     (if action = ''find'' then mongo_do_find E call coll p w
      else if action = ''find_one'' then mongo_do_find_one E coll p w
      else if action = ''count'' then mongo_do_count E call coll p w
      else if action = ''aggregate'' then mongo_do_aggregate E call coll p w
      else if action = ''insert_one'' then mongo_do_insert_one E coll p w
      else if action = ''insert_many'' then mongo_do_insert_many E coll p w
      else if action = ''update_one'' then mongo_do_update E coll p False w
      else if action = ''update_many'' then mongo_do_update E coll p True w
      else if action = ''delete_one'' then mongo_do_delete E coll p False w
      else if action = ''delete_many'' then mongo_do_delete E coll p True w
      else (Inl (mongo_query_error (''unknown mongo action: '' @ action)), w))"

definition mongo_dispatch :: "'w mongo_lib \<Rightarrow> mongo_call_ctx \<Rightarrow> string \<Rightarrow> string \<Rightarrow> string \<Rightarrow> ('w, mongo_result) io" where
  "mongo_dispatch E call action name payload_json w =
     (case de_mongo_payload E payload_json of
        Inl err \<Rightarrow> (Inl (mongo_query_error (''invalid mongo payload: '' @ err)), w)
      | Inr payload \<Rightarrow>
          (case mg_clock E w of
             (now, w1) \<Rightarrow>
               (case mg_timeout E (saturating_duration_since (mcc_deadline call) now)
                       (mongo_run E call (mg_collection E (mcc_database call) name) action payload) w1 of
                  (Done result, w2) \<Rightarrow> (result, w2)
                | (Elapsed, w2) \<Rightarrow> (Inl mongo_timeout_error, w2))))"

definition mongo_build_metric :: "'w mongo_lib \<Rightarrow> string \<Rightarrow> mongo_outcome option \<Rightarrow> instant \<Rightarrow> ('w, mongo_metric) io" where
  "mongo_build_metric E action outcome start w =
     (let (returned, affected, truncated) =
            (case outcome of None \<Rightarrow> (0, 0, False)
             | Some out \<Rightarrow> (mgo_docs_returned out, mgo_docs_affected out, mgo_truncated out))
      in case mg_clock E w of
           (now, w1) \<Rightarrow>
             (\<lparr>mgm_action = action, mgm_duration_us = as_micros (saturating_duration_since now start),
               mgm_docs_returned = returned, mgm_docs_affected = affected, mgm_truncated = truncated\<rparr>, w1))"

definition mongo_call_ctx_of :: "mongo_backend \<Rightarrow> mongo_call_ctx" where
  "mongo_call_ctx_of b =
     \<lparr>mcc_database = mgb_database b, mcc_deadline = mgb_deadline b, mcc_max_docs = mgb_max_docs b,
      mcc_op_timeout = mgb_op_timeout b\<rparr>"

definition mongo_call ::
    "'w mongo_lib \<Rightarrow> string \<times> string \<times> string \<Rightarrow> mongo_backend \<Rightarrow> 'w \<Rightarrow>
     (mongo_error, string) result \<times> mongo_backend \<times> 'w" where
  "mongo_call E q b w =
     (let (action, collection, payload_json) = q
      in case mg_clock E w of
           (start, w1) \<Rightarrow>
             (case mongo_dispatch E (mongo_call_ctx_of b) action collection payload_json w1 of
                (result, w2) \<Rightarrow>
                  (case mongo_build_metric E action (result_ok result) start w2 of
                     (m, w3) \<Rightarrow>
                       (map_ok mgo_json result, b\<lparr>mgb_history := collector_record (mgb_history b) m\<rparr>, w3))))"

definition mongo_drain_metrics :: "wire_lib \<Rightarrow> mongo_backend \<Rightarrow> mongo_metric list" where
  "mongo_drain_metrics W b = drain_mongo W (mgb_history b)"

section \<open>The faults of the component\<close>

definition mongo_faults :: "fault list" where
  "mongo_faults = [MONGO_FALLBACK, MONGO_CONNECTION, MONGO_TIMEOUT, MONGO_WRITE, MONGO_QUERY]"

lemma mongo_error_faults [simp]:
  "mge_fault (mongo_query_error m) \<in> set mongo_faults" "mge_fault mongo_timeout_error \<in> set mongo_faults"
  "mge_fault (mongo_from_driver d) \<in> set mongo_faults"
  by (auto simp: ctor_defs mongo_faults_def mongo_classify_def classify_command_def split: mongo_error_kind.splits)

text \<open>What \<^verbatim>\<open>tokio\<close> documents of \<^verbatim>\<open>timeout\<close>: the future's own value, or that the budget elapsed.\<close>
definition timeout_ok :: "'w mongo_lib \<Rightarrow> bool" where
  "timeout_ok E \<longleftrightarrow> (\<forall>d fut w. mg_timeout E d fut w = (Done (fst (fut w)), snd (fut w)) \<or> fst (mg_timeout E d fut w) = Elapsed)"

lemma json_to_doc_fault: "json_to_doc E v = Inl e \<Longrightarrow> mge_fault e \<in> set mongo_faults"
  by (auto simp: json_to_doc_def split: if_splits sum.splits bson.splits)

lemma collect_docs_fault: "collect_docs E vs = Inl e \<Longrightarrow> mge_fault e \<in> set mongo_faults"
  by (induction vs) (auto split: sum.splits dest: json_to_doc_fault simp: map_ok_def)

lemma docs_to_docs_fault: "docs_to_docs E v = Inl e \<Longrightarrow> mge_fault e \<in> set mongo_faults"
  by (auto simp: docs_to_docs_def split: json_value.splits dest: collect_docs_fault)

lemma drain_loop_fault: "drain_loop E cur n docs w = (Inl e, w') \<Longrightarrow> mge_fault e \<in> set mongo_faults"
  by (induction E cur n docs w rule: drain_loop.induct)
    (subst (asm) (2) drain_loop.simps, auto split: result_splits bool.splits)

lemma drain_cursor_fault: "drain_cursor E cur n w = (Inl e, w') \<Longrightarrow> mge_fault e \<in> set mongo_faults"
  by (auto simp: drain_cursor_def split: result_splits dest: drain_loop_fault)

lemma find_action_of_fault: "find_action_of E d p = Inl e \<Longrightarrow> mge_fault e \<in> set mongo_faults"
  by (auto simp: find_action_of_def opt_doc_def map_ok_def split: result_splits dest: json_to_doc_fault)

lemma mongo_read_fault:
  "mongo_do_find E c h p w = (Inl e, w') \<Longrightarrow> mge_fault e \<in> set mongo_faults"
  "mongo_do_find_one E h p w = (Inl e, w') \<Longrightarrow> mge_fault e \<in> set mongo_faults"
  "mongo_do_count E c h p w = (Inl e, w') \<Longrightarrow> mge_fault e \<in> set mongo_faults"
  "mongo_do_aggregate E c h p w = (Inl e, w') \<Longrightarrow> mge_fault e \<in> set mongo_faults"
  by (auto simp: mongo_do_find_def mongo_do_find_one_def mongo_do_count_def mongo_do_aggregate_def pipeline_to_docs_def
      split: result_splits dest: drain_cursor_fault find_action_of_fault json_to_doc_fault docs_to_docs_fault)

lemma mongo_write_fault:
  "mongo_do_insert_one E h p w = (Inl e, w') \<Longrightarrow> mge_fault e \<in> set mongo_faults"
  "mongo_do_insert_many E h p w = (Inl e, w') \<Longrightarrow> mge_fault e \<in> set mongo_faults"
  "mongo_do_update E h p many w = (Inl e, w') \<Longrightarrow> mge_fault e \<in> set mongo_faults"
  "mongo_do_delete E h p many w = (Inl e, w') \<Longrightarrow> mge_fault e \<in> set mongo_faults"
  by (auto simp: mongo_do_insert_one_def mongo_do_insert_many_def mongo_do_update_def mongo_do_delete_def Let_def
      split: result_splits dest: json_to_doc_fault docs_to_docs_fault)

lemma mongo_run_fault: "mongo_run E c h action p w = (Inl e, w') \<Longrightarrow> mge_fault e \<in> set mongo_faults"
  by (auto simp: mongo_run_def split: if_splits dest: mongo_read_fault mongo_write_fault)

text \<open>A dispatch either timed out, or is the run of its action after one reading of the clock.\<close>
lemma mongo_dispatch_cases:
  assumes "timeout_ok E" "mongo_dispatch E c action name pj w = (r, w')"
  obtains (payload) err where "de_mongo_payload E pj = Inl err" "r = Inl (mongo_query_error (''invalid mongo payload: '' @ err))"
  | (elapsed) "r = Inl mongo_timeout_error"
  | (ran) p w1 where "de_mongo_payload E pj = Inr p" "snd (mg_clock E w) = w1"
      "mongo_run E c (mg_collection E (mcc_database c) name) action p w1 = (r, w')"
proof (cases "de_mongo_payload E pj")
  case (Inl err)
  with assms(2) payload show ?thesis by (simp add: mongo_dispatch_def)
next
  case (Inr p)
  obtain now w1 where clk: "mg_clock E w = (now, w1)" by (cases "mg_clock E w")
  let ?d = "saturating_duration_since (mcc_deadline c) now"
  let ?f = "mongo_run E c (mg_collection E (mcc_database c) name) action p"
  consider "mg_timeout E ?d ?f w1 = (Done (fst (?f w1)), snd (?f w1))" | "fst (mg_timeout E ?d ?f w1) = Elapsed"
    using assms(1) unfolding timeout_ok_def by blast
  then show ?thesis
  proof cases
    case 1
    with assms(2) Inr clk ran [of p w1] show ?thesis by (auto simp: mongo_dispatch_def prod_eq_iff)
  next
    case 2
    then obtain w2 where "mg_timeout E ?d ?f w1 = (Elapsed, w2)" by (cases "mg_timeout E ?d ?f w1") auto
    with assms(2) Inr clk elapsed show ?thesis by (auto simp: mongo_dispatch_def)
  qed
qed

lemma mongo_dispatch_fault:
  assumes "timeout_ok E" "mongo_dispatch E c action name pj w = (Inl e, w')"
  shows "mge_fault e \<in> set mongo_faults"
  using assms by (cases rule: mongo_dispatch_cases) (auto dest: mongo_run_fault)

lemma mongo_faults_retry_rule: "f \<in> set mongo_faults \<Longrightarrow> retry_rule f"
  by (auto simp: mongo_faults_def fault_defs)

section \<open>The metering contract\<close>

abbreviation mongo_fixed :: "mongo_backend \<Rightarrow> handle \<times> instant \<times> usize \<times> duration" where
  "mongo_fixed b \<equiv> (mgb_database b, mgb_deadline b, mgb_max_docs b, mgb_op_timeout b)"

lemma mongo_call_unfold:
  assumes "mongo_call E (action, name, pj) b w = (r, b', w')"
  obtains start w1 res w2 m where
    "mg_clock E w = (start, w1)" "mongo_dispatch E (mongo_call_ctx_of b) action name pj w1 = (res, w2)"
    "mongo_build_metric E action (result_ok res) start w2 = (m, w')" "r = map_ok mgo_json res"
    "b' = b\<lparr>mgb_history := mgb_history b @ [m]\<rparr>"
  using assms by (auto simp: mongo_call_def collector_record_def split: prod.splits)

lemma mongo_build_metric_action: "mongo_build_metric E action r start w = (m, w') \<Longrightarrow> mgm_action m = action"
  by (auto simp: mongo_build_metric_def split: prod.splits)

interpretation mongo: fully_metered "mongo_call E" mgb_history mongo_fixed mgm_action fst
  for E :: "'w mongo_lib"
proof unfold_locales
  fix q b and w :: 'w and r b' w'
  assume c: "mongo_call E q b w = (r, b', w')"
  obtain action name pj where q: "q = (action, name, pj)" by (cases q)
  from c [unfolded q] obtain start w2 m and res :: mongo_result
    where m: "mongo_build_metric E action (result_ok res) start w2 = (m, w')"
    "b' = b\<lparr>mgb_history := mgb_history b @ [m]\<rparr>" by (rule mongo_call_unfold) blast
  show "mongo_fixed b' = mongo_fixed b" using m by simp
  show "mgb_history b' = mgb_history b \<or> (\<exists>m. mgb_history b' = mgb_history b @ [m] \<and> mgm_action m = fst q)"
    using m q by (auto dest: mongo_build_metric_action)
  show "mgb_history b' \<noteq> mgb_history b" using m by simp
qed

lemma mongo_call_fault:
  assumes "timeout_ok E" "mongo_call E (action, name, pj) b w = (Inl e, b', w')"
  shows "mge_fault e \<in> set mongo_faults"
proof -
  from assms(2) obtain w1 res w2 where "mongo_dispatch E (mongo_call_ctx_of b) action name pj w1 = (res, w2)"
      "Inl e = map_ok mgo_json res" by (rule mongo_call_unfold) blast
  with assms(1) show ?thesis by (cases res) (auto dest: mongo_dispatch_fault)
qed

section \<open>The cursor\<close>

text \<open>A cursor seen as the documents it has yet to give: advancing succeeds while there is one, which
  \<^verbatim>\<open>deserialize_current\<close> then reads.\<close>
definition cursor_is_stream :: "'w mongo_lib \<Rightarrow> handle \<Rightarrow> ('w \<Rightarrow> bson_doc list) \<Rightarrow> bool" where
  "cursor_is_stream E cursor rest \<longleftrightarrow>
     (\<forall>w. (rest w = [] \<longrightarrow> (\<exists>w1. mg_advance E cursor w = (Inr False, w1))) \<and>
          (\<forall>d ds. rest w = d # ds \<longrightarrow>
             (\<exists>w1. mg_advance E cursor w = (Inr True, w1) \<and> mg_current E cursor w1 = Inr d \<and> rest w1 = ds)))"

text \<open>The loop takes documents up to the cap, and reports whether one was left.\<close>
lemma drain_loop_stream:
  assumes law: "cursor_is_stream E cursor rest" and len: "length docs \<le> n"
  shows "\<exists>w'. drain_loop E cursor n docs w =
     (Inr (docs @ map (document_to_json E) (take (n - length docs) (rest w)), n < length docs + length (rest w)), w')"
  using len
proof (induction "rest w" arbitrary: docs w)
  case Nil
  then obtain w1 where "mg_advance E cursor w = (Inr False, w1)"
    using law unfolding cursor_is_stream_def by metis
  with Nil show ?case by (subst drain_loop.simps) (simp add: Nil.hyps [symmetric])
next
  case (Cons d ds)
  then obtain w1 where w1: "mg_advance E cursor w = (Inr True, w1)" "mg_current E cursor w1 = Inr d" "rest w1 = ds"
    using law unfolding cursor_is_stream_def by metis
  show ?case
  proof (cases "length docs = n")
    case True
    with w1 show ?thesis by (subst drain_loop.simps) (simp add: Cons.hyps(2) [symmetric])
  next
    case False
    with Cons.prems have lt: "length (docs @ [document_to_json E d]) \<le> n" by simp
    from Cons.hyps(1) [OF w1(3) [symmetric] this] obtain w' where
      "drain_loop E cursor n (docs @ [document_to_json E d]) w1 =
        (Inr ((docs @ [document_to_json E d]) @ map (document_to_json E) (take (n - Suc (length docs)) ds),
              n < Suc (length docs) + length ds), w')" using w1(3) by auto
    moreover have "take (n - length docs) (d # ds) = d # take (n - Suc (length docs)) ds"
      using lt by (simp add: Suc_diff_Suc [symmetric] Suc_le_eq del: Suc_diff_Suc)
    ultimately show ?thesis using w1 lt
      by (subst drain_loop.simps) (simp add: Cons.hyps(2) [symmetric])
  qed
qed

text \<open>Whatever the server sends, the cap holds, and a truncated result is full.\<close>
lemma drain_loop_cap:
  assumes "drain_loop E cursor n docs w = (Inr (out, truncated), w')" "length docs \<le> n"
  shows "length out \<le> n \<and> (truncated \<longrightarrow> length out = n)"
  using assms
proof (induction "n - length docs" arbitrary: docs w)
  case 0
  then show ?case by (subst (asm) drain_loop.simps) (auto split: result_splits bool.splits)
next
  case (Suc k)
  have step: "length out \<le> n \<and> (truncated \<longrightarrow> length out = n)"
    if "drain_loop E cursor n (docs @ [d]) w1 = (Inr (out, truncated), w')" for d w1
    by (rule Suc.hyps(1) [OF _ that]) (use Suc.hyps(2) in auto)
  from Suc.prems Suc.hyps(2) show ?case
    by (subst (asm) drain_loop.simps) (auto split: result_splits bool.splits dest: step)
qed

text \<open>The loop with a bound on the number of advances; \<open>None\<close> when the bound is used up.\<close>
primrec drain_fuel ::
    "nat \<Rightarrow> 'w mongo_lib \<Rightarrow> handle \<Rightarrow> usize \<Rightarrow> json_value list \<Rightarrow> 'w \<Rightarrow>
     ((mongo_error, json_value list \<times> bool) result \<times> 'w) option" where
  "drain_fuel 0 E cursor max_docs docs w = None"
| "drain_fuel (Suc k) E cursor max_docs docs w =
     (case mg_advance E cursor w of
        (Inl err, w1) \<Rightarrow> Some (Inl (mongo_from_driver err), w1)
      | (Inr False, w1) \<Rightarrow> Some (Inr (docs, False), w1)
      | (Inr True, w1) \<Rightarrow>
          (if max_docs \<le> length docs then Some (Inr (docs, True), w1)
           else (case mg_current E cursor w1 of
                   Inl err \<Rightarrow> Some (Inl (mongo_from_driver err), w1)
                 | Inr doc \<Rightarrow> drain_fuel k E cursor max_docs (docs @ [document_to_json E doc]) w1)))"

lemma drain_fuel_enough:
  "n - length docs < k \<Longrightarrow> drain_fuel k E cursor n docs w = Some (drain_loop E cursor n docs w)"
proof (induction k arbitrary: docs w)
  case (Suc k)
  have "drain_fuel k E cursor n (docs @ [d]) v = Some (drain_loop E cursor n (docs @ [d]) v)" if "\<not> n \<le> length docs" for d v
    by (rule Suc.IH) (use Suc.prems that in simp)
  then show ?case by (subst drain_loop.simps) (auto split: result_splits bool.splits)
qed simp

section \<open>Documents as JSON\<close>

lemma obj_of_fields_safe: "list_all js_safe (map snd kvs) \<Longrightarrow> js_safe (obj_of_fields kvs)"
  using fmpred_fold_upd [of js_safe snd kvs fmempty fst]
  by (simp add: obj_of_fields_def js_safe_object case_prod_beta' del: js_safe.simps)

lemma bson_to_json_safe: "floats_ok (mg_json E) \<Longrightarrow> js_safe (bson_to_json E b)"
proof (induction b)
  case (BInt32 i)
  show ?case unfolding bson_to_json.simps by (rule sint_js_safe)
next
  case (BArray items)
  then show ?case by (simp add: list_all_iff)
next
  case (BDocument doc)
  have "list_all js_safe (map snd (map (map_prod id (bson_to_json E)) doc))"
    using BDocument by (fastforce simp: list_all_iff)
  then show ?case unfolding bson_to_json.simps by (rule obj_of_fields_safe)
qed simp_all

lemma document_to_json_safe: "floats_ok (mg_json E) \<Longrightarrow> js_safe (document_to_json E doc)"
  using bson_to_json_safe [of E "BDocument doc"] by (simp add: document_to_json_def)

lemma drain_loop_safe:
  assumes "floats_ok (mg_json E)" "drain_loop E cursor n docs w = (Inr (out, truncated), w')" "list_all js_safe docs"
  shows "list_all js_safe out"
  using assms
proof (induction E cursor n docs w rule: drain_loop.induct)
  case (1 E cursor n docs w)
  have "list_all js_safe out"
    if "mg_advance E cursor w = (Inr True, w1)" "\<not> n \<le> length docs" "mg_current E cursor w1 = Inr d"
      "drain_loop E cursor n (docs @ [document_to_json E d]) w1 = (Inr (out, truncated), w')" for w1 d
    using "1.IH" [OF that(1) [symmetric] refl refl that(2,3) "1.prems"(1) that(4)] "1.prems"
    by (simp add: document_to_json_safe)
  with "1.prems"(2,3) show ?case
    by (subst (asm) drain_loop.simps) (auto split: result_splits bool.splits if_splits)
qed

section \<open>A concrete outside for witnesses\<close>

text \<open>The world is the cursor: the current document and those that follow.\<close>
definition mongo_ref :: "(bson_doc option \<times> bson_doc list) mongo_lib" where
  "mongo_ref =
     \<lparr>mg_json = \<lparr>from_str = (\<lambda>s. Inl s), from_str_array = (\<lambda>_. Inl ''json''), to_string = (\<lambda>_. Inr ''json''),
        value_to_string = (\<lambda>v. if value_get ''truncated'' v = Some (VBool True) then ''more'' else ''all''),
        number_as_i64 = (\<lambda>_. None), number_as_u64 = (\<lambda>_. None), number_as_f64 = (\<lambda>_. None),
        number_from_f64 = (\<lambda>_. None)\<rparr>,
      mg_clock = (\<lambda>w. (0, w)),
      mg_timeout = (\<lambda>d fut w. if d = 0 then (Elapsed, w) else case fut w of (r, w1) \<Rightarrow> (Done r, w1)),
      mg_percent_encode = percent_encode_ref,
      mg_parse_options = (\<lambda>_ w. (Inr 1, w)), mg_with_options = (\<lambda>_ w. (Inr 2, w)),
      mg_database = (\<lambda>_ _. 3), mg_collection = (\<lambda>_ _. 4), mg_find = (\<lambda>_ _ w. (Inr 5, w)),
      mg_find_one = (\<lambda>_ _ w. (Inr None, w)), mg_count = (\<lambda>_ _ _ w. (Inr 0, w)),
      mg_aggregate = (\<lambda>_ _ _ w. (Inr 5, w)),
      mg_advance = (\<lambda>_ w. case snd w of [] \<Rightarrow> (Inr False, (None, [])) | d # ds \<Rightarrow> (Inr True, (Some d, ds))),
      mg_current = (\<lambda>_ w. case fst w of None \<Rightarrow> Inl \<lparr>mde_kind = KOther, mde_text = ''none''\<rparr> | Some d \<Rightarrow> Inr d),
      mg_insert_one = (\<lambda>_ _ w. (Inr BNull, w)), mg_insert_many = (\<lambda>_ ds w. (Inr (length ds), w)),
      mg_update_one = (\<lambda>_ _ _ w. (Inr (0, 0), w)), mg_update_many = (\<lambda>_ _ _ w. (Inr (0, 0), w)),
      mg_delete_one = (\<lambda>_ _ w. (Inr 0, w)), mg_delete_many = (\<lambda>_ _ w. (Inr 0, w)),
      mg_to_bson = (\<lambda>_. Inr BNull), mg_oid_hex = (\<lambda>s. s), mg_decimal_text = (\<lambda>s. s), mg_rfc3339 = (\<lambda>_. Inl ''date''),
      mg_base64 = (\<lambda>s. s), mg_other_text = (\<lambda>_. ''other''),
      de_mongo_payload = (\<lambda>_. Inr \<lparr>mgp_filter = VNull, mgp_update = VNull, mgp_doc = VNull, mgp_docs = VNull,
         mgp_pipeline = VNull, mgp_options = \<lparr>fo_limit = None, fo_skip = None, fo_sort = None, fo_projection = None\<rparr>\<rparr>)\<rparr>"

definition mongo_backend_ref :: mongo_backend where
  "mongo_backend_ref = \<lparr>mgb_database = 3, mgb_deadline = 9, mgb_max_docs = 1, mgb_op_timeout = 5, mgb_history = []\<rparr>"

definition mongo_config_ref :: mongo_config where
  "mongo_config_ref =
     \<lparr>mgc_host = ''mongo'', mgc_port = mongo_default_port, mgc_username = Some ''a@evil/?x='', mgc_password = Some ''p:w'',
      mgc_database = ''d'', mgc_auth_source = mongo_default_auth_source, mgc_tls = True, mgc_ca_cert = Some ''/ca&b'',
      mgc_op_timeout_ms = mongo_default_op_timeout, mgc_max_docs = mongo_default_max_docs\<rparr>"

lemma mongo_ref_timeout_ok: "timeout_ok mongo_ref"
  by (auto simp: timeout_ok_def mongo_ref_def split: prod.splits)

lemma mongo_ref_stream: "cursor_is_stream mongo_ref c snd"
  by (auto simp: cursor_is_stream_def mongo_ref_def)

lemma mongo_ref_find:
  "\<exists>b' w'. mongo_call mongo_ref (''find'', ''c'', []) mongo_backend_ref (None, [[], []]) = (Inr ''more'', b', w')"
proof -
  have "fst (mongo_call mongo_ref (''find'', ''c'', []) mongo_backend_ref (None, [[], []])) = Inr ''more''"
    by (simp add: mongo_call_def mongo_dispatch_def mongo_run_def mongo_do_find_def find_action_of_def json_to_doc_def
        opt_doc_def drain_cursor_def drain_loop.simps docs_object_def mongo_build_metric_def mongo_ref_def
        mongo_backend_ref_def mongo_call_ctx_of_def saturating_duration_since_def)
  then show ?thesis
    by (cases "mongo_call mongo_ref (''find'', ''c'', []) mongo_backend_ref (None, [[], []])") auto
qed

section \<open>Properties\<close>



text \<open>Whatever the server streams, a read ends and its result is capped: a successful \<^verbatim>\<open>find\<close> or
  \<^verbatim>\<open>aggregate\<close> reports at most \<^verbatim>\<open>max_docs\<close> documents, and exactly that many when it says \<^verbatim>\<open>truncated\<close>.\<close>
theorem mongo_read_cap:
  assumes tmo: "timeout_ok E" and action: "action = ''find'' \<or> action = ''aggregate''"
    and call: "mongo_call E (action, name, pj) b w = (Inr reply, b', w')"
  shows "\<exists>m. mgb_history b' = mgb_history b @ [m] \<and> mgm_docs_returned m \<le> mgb_max_docs b \<and>
    (mgm_truncated m \<longrightarrow> mgm_docs_returned m = mgb_max_docs b)"
proof -
  from call obtain start w1 res w2 m where u: "mongo_dispatch E (mongo_call_ctx_of b) action name pj w1 = (res, w2)"
      "mongo_build_metric E action (result_ok res) start w2 = (m, w')" "Inr reply = map_ok mgo_json res"
      "b' = b\<lparr>mgb_history := mgb_history b @ [m]\<rparr>" by (rule mongo_call_unfold) blast
  from u(3) obtain out where out: "res = Inr out" by (cases res) auto
  from tmo u(1) [unfolded out] obtain coll p v1 where
      "mongo_run E (mongo_call_ctx_of b) coll action p v1 = (Inr out, w2)"
    by (cases rule: mongo_dispatch_cases) auto
  with action obtain c v2 where "drain_cursor E c (mgb_max_docs b) v2 = (Inr out, w2)"
    by (auto simp: mongo_run_def mongo_do_find_def mongo_do_aggregate_def mongo_call_ctx_of_def split: result_splits)
  then have "mgo_docs_returned out \<le> mgb_max_docs b \<and> (mgo_truncated out \<longrightarrow> mgo_docs_returned out = mgb_max_docs b)"
    by (auto simp: drain_cursor_def split: result_splits dest: drain_loop_cap)
  with u out show ?thesis by (auto simp: mongo_build_metric_def split: prod.splits)
qed

theorem mongo_read_cap_witness:
  "\<exists>b' w'. mongo_call mongo_ref (''find'', ''c'', []) mongo_backend_ref (None, [[], []]) = (Inr ''more'', b', w') \<and>
     list_all (\<lambda>m. mgm_docs_returned m \<le> 1) (mgb_history b')"
proof -
  from mongo_ref_find obtain b' w' where
    c: "mongo_call mongo_ref (''find'', ''c'', []) mongo_backend_ref (None, [[], []]) = (Inr ''more'', b', w')" by blast
  from mongo_read_cap [OF mongo_ref_timeout_ok _ c] c show ?thesis by (auto simp: mongo_backend_ref_def)
qed

text \<open>C32: reading a cursor terminates, whatever the server streams: the loop ends by itself after at most
  \<^verbatim>\<open>max_docs + 1\<close> advances, with the result that the unbounded loop defines.\<close>
theorem mongo_cursor_loop_ends:
  "drain_fuel (max_docs + 1) E cursor max_docs [] w = Some (drain_loop E cursor max_docs [] w)"
  by (rule drain_fuel_enough) simp

end
