(* ===== verification/Mail.thy ===== *)
theory Mail
  imports Metering
begin

text \<open>
  The SMTP backend, \<^verbatim>\<open>crates/fabric-backends/src/mail.rs\<close>: transport construction, the send policy
  (recipient count, recipient-domain allowlist, per-execution send cap), message building and
  the metric.  The functions of \<^verbatim>\<open>lettre\<close>, the payload parser and Unicode lower-casing are the
  fields of \<open>mail_lib\<close>; a parsed mailbox is known by its address and domain, a built message and
  a base transport by a handle.
\<close>

section \<open>Data\<close>

definition MAIL_FALLBACK :: fault where
  [fault_defs]: "MAIL_FALLBACK = mk_fault ''MAIL_ERROR'' True Operator"

definition MAIL_OP_LIMIT :: fault where
  [fault_defs]: "MAIL_OP_LIMIT = mk_fault ''MAIL_OP_LIMIT'' False Developer"

record mail_error =
  mle_fault :: fault
  mle_message :: string

text \<open>An SMTP driver error: its two predicates and its text.\<close>
record smtp_error =
  sme_is_transient :: bool
  sme_is_permanent :: bool
  sme_text :: string

datatype tls_mode = Starttls | Wrapper | NoTls

record mail_config =
  mlc_host :: string
  mlc_port :: u16
  mlc_user :: string
  mlc_password :: string
  mlc_tls :: tls_mode
  mlc_from :: string
  mlc_max_recipients :: usize
  mlc_allowed_recipient_domains :: "string list"
  mlc_max_sends :: usize
  mlc_timeout_ms :: u64

definition mail_default_port :: u16 where "mail_default_port = 587"
definition mail_default_max_recipients :: usize where "mail_default_max_recipients = 50"
definition mail_default_timeout :: u64 where "mail_default_timeout = 10000"

record send_payload =
  snd_from :: string
  snd_to :: "string list"
  snd_cc :: "string list"
  snd_bcc :: "string list"
  snd_reply_to :: string
  snd_subject :: string
  snd_text :: string
  snd_html :: string

record send_outcome =
  so_json :: string
  so_recipients :: usize
  so_bytes :: usize
  so_accepted :: bool

record mailbox =
  mb_address :: string
  mb_domain :: string

text \<open>A message builder: the headers given to it, in the order of the calls.\<close>
record mail_draft =
  md_from :: mailbox
  md_to :: "mailbox list"
  md_cc :: "mailbox list"
  md_bcc :: "mailbox list"
  md_reply_to :: "mailbox option"
  md_subject :: string

record smtp_response =
  sr_is_positive :: bool
  sr_first_line :: "string option"

text \<open>A transport: the base builder with the settings applied to it.\<close>
record smtp_transport =
  st_base :: handle
  st_port :: u16
  st_timeout :: "duration option"
  st_credentials :: "(string \<times> string) option"

record 'w mail_lib =
  ml_json_string :: "string \<Rightarrow> (string, string) result"
  ml_clock :: "'w clock"
  ml_starttls_relay :: "string \<Rightarrow> (string, handle) result"
  ml_relay :: "string \<Rightarrow> (string, handle) result"
  ml_builder_dangerous :: "string \<Rightarrow> handle"
  ml_parse_mailbox :: "string \<Rightarrow> (string, mailbox) result"
  ml_lowercase :: "string \<Rightarrow> string"
  ml_multipart :: "mail_draft \<Rightarrow> string \<Rightarrow> string \<Rightarrow> (string, handle) result"
  ml_html_part :: "mail_draft \<Rightarrow> string \<Rightarrow> (string, handle) result"
  ml_plain_body :: "mail_draft \<Rightarrow> string \<Rightarrow> (string, handle) result"
  ml_formatted :: "handle \<Rightarrow> string"
  ml_send :: "smtp_transport \<Rightarrow> handle \<Rightarrow> ('w, (smtp_error, smtp_response) result) io"
  de_send_payload :: "string \<Rightarrow> (string, send_payload) result"

record mail_backend =
  mlb_transport :: smtp_transport
  mlb_default_from :: string
  mlb_max_recipients :: usize
  mlb_allowed_domains :: "string list"
  mlb_max_sends :: usize
  mlb_history :: "mail_metric collector"

record send_ctx =
  sc_transport :: smtp_transport
  sc_default_from :: string
  sc_max_recipients :: usize
  sc_allowed_domains :: "string list"

section \<open>Errors\<close>

definition mail_classify :: "smtp_error \<Rightarrow> fault" where
  "mail_classify err =
     (if sme_is_transient err then mk_fault ''MAIL_TRANSIENT'' True Operator
      else if sme_is_permanent err then mk_fault ''MAIL_PERMANENT'' False Developer
      else MAIL_FALLBACK)"

definition mail_fallback :: "string \<Rightarrow> mail_error" where
  [ctor_defs]: "mail_fallback message = \<lparr>mle_fault = MAIL_FALLBACK, mle_message = message\<rparr>"

definition mail_from_driver :: "smtp_error \<Rightarrow> mail_error" where
  [ctor_defs]: "mail_from_driver err = \<lparr>mle_fault = mail_classify err, mle_message = sme_text err\<rparr>"

definition mail_into_resource_error :: "mail_error \<Rightarrow> egress_error" where
  [ctor_defs]: "mail_into_resource_error e =
     \<lparr>ee_code = f_code (mle_fault e), ee_message = mle_message e, ee_source = ''mail'',
      ee_details = None, ee_retryable = f_retryable (mle_fault e), ee_owner = f_owner (mle_fault e)\<rparr>"

section \<open>Transport\<close>

definition mail_build_transport :: "'w mail_lib \<Rightarrow> mail_config \<Rightarrow> (string, smtp_transport) result" where
  "mail_build_transport E c =
     (let base = (case mlc_tls c of
          Starttls \<Rightarrow> ml_starttls_relay E (mlc_host c)
        | Wrapper \<Rightarrow> ml_relay E (mlc_host c)
        | NoTls \<Rightarrow> Inr (ml_builder_dangerous E (mlc_host c)))
      in case base of
           Inl err \<Rightarrow> Inl err
         | Inr h \<Rightarrow>
             Inr \<lparr>st_base = h, st_port = mlc_port c,
                  st_timeout = Some (duration_from_millis (mlc_timeout_ms c)),
                  st_credentials = (if mlc_user c \<noteq> [] then Some (mlc_user c, mlc_password c) else None)\<rparr>)"

definition mail_connect_resource :: "'w mail_lib \<Rightarrow> mail_config \<Rightarrow> (egress_error, mail_backend) result" where
  "mail_connect_resource E c =
     (case mail_build_transport E c of
        Inl err \<Rightarrow>
          Inl \<lparr>ee_code = f_code MAIL_FALLBACK, ee_message = err, ee_source = ''mail'', ee_details = None,
               ee_retryable = f_retryable MAIL_FALLBACK, ee_owner = f_owner MAIL_FALLBACK\<rparr>
      | Inr transport \<Rightarrow>
          Inr \<lparr>mlb_transport = transport, mlb_default_from = mlc_from c,
               mlb_max_recipients = mlc_max_recipients c,
               mlb_allowed_domains = mlc_allowed_recipient_domains c,
               mlb_max_sends = mlc_max_sends c, mlb_history = []\<rparr>)"

section \<open>Sending\<close>

definition count_recipients :: "send_payload \<Rightarrow> usize" where
  "count_recipients p =
     usize_saturating_add (usize_saturating_add (length (snd_to p)) (length (snd_cc p))) (length (snd_bcc p))"

definition parse_mailbox :: "'w mail_lib \<Rightarrow> string \<Rightarrow> string \<Rightarrow> (string, mailbox) result" where
  "parse_mailbox E addr fld =
     map_err (\<lambda>err. ''invalid '' @ fld @ '' address '' @ [CHR 0x27] @ addr @ [CHR 0x27] @ '': '' @ err)
       (ml_parse_mailbox E addr)"

text \<open>The loop over the recipients of \<^verbatim>\<open>enforce_recipient_domains\<close>.\<close>
fun enforce_domains_loop :: "'w mail_lib \<Rightarrow> string list \<Rightarrow> string list \<Rightarrow> (mail_error, unit) result" where
  "enforce_domains_loop E allowed [] = Inr ()"
| "enforce_domains_loop E allowed (addr # addrs) =
     (case parse_mailbox E addr ''recipient'' of
        Inl m \<Rightarrow> Inl (mail_fallback m)
      | Inr mb \<Rightarrow>
          (let domain = ml_lowercase E (mb_domain mb)
           in if \<not> list_ex (\<lambda>allow. ml_lowercase E allow = domain) allowed
              then Inl (mail_fallback (''recipient domain '' @ [CHR 0x27] @ domain @ [CHR 0x27] @
                     '' is not in allowed_recipient_domains''))
              else enforce_domains_loop E allowed addrs))"

definition enforce_recipient_domains :: "'w mail_lib \<Rightarrow> send_payload \<Rightarrow> string list \<Rightarrow> (mail_error, unit) result" where
  "enforce_recipient_domains E p allowed =
     (if allowed = [] then Inr ()
      else enforce_domains_loop E allowed (snd_to p @ snd_cc p @ snd_bcc p))"

text \<open>The three loops that add the recipients to the builder: the first address that does not
  parse ends the building.\<close>
fun parse_mailboxes :: "'w mail_lib \<Rightarrow> string \<Rightarrow> string list \<Rightarrow> (string, mailbox list) result" where
  "parse_mailboxes E fld [] = Inr []"
| "parse_mailboxes E fld (addr # addrs) =
     (case parse_mailbox E addr fld of
        Inl m \<Rightarrow> Inl m
      | Inr mb \<Rightarrow> map_ok (\<lambda>mbs. mb # mbs) (parse_mailboxes E fld addrs))"

definition mail_build_body :: "'w mail_lib \<Rightarrow> mail_draft \<Rightarrow> send_payload \<Rightarrow> (string, handle) result" where
  "mail_build_body E d p =
     (let has_text = snd_text p \<noteq> []; has_html = snd_html p \<noteq> [];
          built = (if has_text \<and> has_html then ml_multipart E d (snd_text p) (snd_html p)
                   else if has_html then ml_html_part E d (snd_html p)
                   else ml_plain_body E d (snd_text p))
      in map_err (\<lambda>err. ''failed to build message: '' @ err) built)"

text \<open>The headers, in the order in which the code adds them.\<close>
definition mail_build_draft :: "'w mail_lib \<Rightarrow> send_payload \<Rightarrow> string \<Rightarrow> (string, mail_draft) result" where
  "mail_build_draft E p default_from =
     (let from_str = (if snd_from p = [] then default_from else snd_from p)
      in case parse_mailbox E from_str ''from'' of
        Inl m \<Rightarrow> Inl m
      | Inr from_mb \<Rightarrow>
      (case parse_mailboxes E ''to'' (snd_to p) of
        Inl m \<Rightarrow> Inl m
      | Inr tos \<Rightarrow>
      (case parse_mailboxes E ''cc'' (snd_cc p) of
        Inl m \<Rightarrow> Inl m
      | Inr ccs \<Rightarrow>
      (case parse_mailboxes E ''bcc'' (snd_bcc p) of
        Inl m \<Rightarrow> Inl m
      | Inr bccs \<Rightarrow>
      (case (if snd_reply_to p = [] then Inr None
             else map_ok Some (parse_mailbox E (snd_reply_to p) ''reply_to'')) of
        Inl m \<Rightarrow> Inl m
      | Inr reply \<Rightarrow>
          Inr \<lparr>md_from = from_mb, md_to = tos, md_cc = ccs, md_bcc = bccs, md_reply_to = reply,
               md_subject = snd_subject p\<rparr>)))))"

definition mail_build_message :: "'w mail_lib \<Rightarrow> send_payload \<Rightarrow> string \<Rightarrow> (string, handle) result" where
  "mail_build_message E p default_from =
     (case mail_build_draft E p default_from of
        Inl m \<Rightarrow> Inl m
      | Inr d \<Rightarrow> mail_build_body E d p)"

definition mail_accepted_json :: "bool \<Rightarrow> string \<Rightarrow> string" where
  "mail_accepted_json accepted escaped =
     ''{'' @ [quot] @ ''accepted'' @ [quot] @ '':'' @ show_bool accepted @ '','' @
     [quot] @ ''response'' @ [quot] @ '':'' @ escaped @ ''}''"

definition mail_do_send :: "'w mail_lib \<Rightarrow> send_ctx \<Rightarrow> string \<Rightarrow> ('w, (mail_error, send_outcome) result) io" where
  "mail_do_send E ctx payload_json w =
     (case de_send_payload E payload_json of
        Inl err \<Rightarrow> (Inl (mail_fallback (''invalid mail payload: '' @ err)), w)
      | Inr p \<Rightarrow>
      (let recipients = count_recipients p
       in if recipients = 0
          then (Inl (mail_fallback ''at least one recipient (to/cc/bcc) is required''), w)
          else if recipients > sc_max_recipients ctx
          then (Inl (mail_fallback (''too many recipients: '' @ show_nat recipients @ '' (max '' @
                  show_nat (sc_max_recipients ctx) @ '')'')), w)
          else
            (case enforce_recipient_domains E p (sc_allowed_domains ctx) of
               Inl e \<Rightarrow> (Inl e, w)
             | Inr _ \<Rightarrow>
             (case mail_build_message E p (sc_default_from ctx) of
               Inl m \<Rightarrow> (Inl (mail_fallback m), w)
             | Inr message \<Rightarrow>
               (let bytes = length (ml_formatted E message)
                in case ml_send E (sc_transport ctx) message w of
                  (Inr response, w1) \<Rightarrow>
                    (let accepted = sr_is_positive response;
                         line = (case sr_first_line response of None \<Rightarrow> [] | Some l \<Rightarrow> l);
                         escaped = (case ml_json_string E line of Inl _ \<Rightarrow> [quot, quot] | Inr s \<Rightarrow> s)
                     in (Inr \<lparr>so_json = mail_accepted_json accepted escaped, so_recipients = recipients,
                              so_bytes = bytes, so_accepted = accepted\<rparr>, w1))
                | (Inl err, w1) \<Rightarrow> (Inl (mail_from_driver err), w1))))))"

definition mail_dispatch :: "'w mail_lib \<Rightarrow> send_ctx \<Rightarrow> string \<Rightarrow> string \<Rightarrow> ('w, (mail_error, send_outcome) result) io" where
  [route_defs]: "mail_dispatch E ctx action payload_json w =
     (if action = ''send'' then mail_do_send E ctx payload_json w
      else (Inl (mail_fallback (''unknown mail action: '' @ action)), w))"

section \<open>Metrics and the call entry point\<close>

definition mail_build_metric ::
    "'w mail_lib \<Rightarrow> string \<Rightarrow> send_outcome option \<Rightarrow> instant \<Rightarrow> ('w, mail_metric) io" where
  "mail_build_metric E action outcome start w =
     (case (case outcome of None \<Rightarrow> (0, 0, False) | Some out \<Rightarrow> (so_recipients out, so_bytes out, so_accepted out)) of
        (recipients, bytes, accepted) \<Rightarrow>
          (case ml_clock E w of (t, w1) \<Rightarrow>
             (\<lparr>mlm_action = action, mlm_duration_us = as_micros (saturating_duration_since t start),
               mlm_recipients = recipients, mlm_bytes = bytes, mlm_accepted = accepted\<rparr>, w1)))"

definition mail_send_ctx :: "mail_backend \<Rightarrow> send_ctx" where
  "mail_send_ctx b =
     \<lparr>sc_transport = mlb_transport b, sc_default_from = mlb_default_from b,
      sc_max_recipients = mlb_max_recipients b, sc_allowed_domains = mlb_allowed_domains b\<rparr>"

definition mail_limit_error :: "mail_backend \<Rightarrow> mail_error" where
  [ctor_defs]: "mail_limit_error b =
     \<lparr>mle_fault = MAIL_OP_LIMIT, mle_message = ''too many mail.send calls: limit is '' @ show_nat (mlb_max_sends b)\<rparr>"

definition mail_call ::
    "wire_lib \<Rightarrow> 'w mail_lib \<Rightarrow> string \<times> string \<Rightarrow> mail_backend \<Rightarrow> 'w \<Rightarrow> (mail_error, string) result \<times> mail_backend \<times> 'w" where
  "mail_call W E q b w =
     (case q of (action, payload_json) \<Rightarrow>
        (if mlb_max_sends b \<noteq> 0 \<and> op_count W (mlb_history b) \<ge> mlb_max_sends b
         then (Inl (mail_limit_error b), b, w)
         else
           (case ml_clock E w of (start, w1) \<Rightarrow>
             (case mail_dispatch E (mail_send_ctx b) action payload_json w1 of (result, w2) \<Rightarrow>
               (case mail_build_metric E action (result_ok result) start w2 of
                  (m, w3) \<Rightarrow>
                    (map_ok so_json result, b\<lparr>mlb_history := collector_record (mlb_history b) m\<rparr>, w3))))))"

definition mail_drain_metrics :: "wire_lib \<Rightarrow> mail_backend \<Rightarrow> mail_metric list" where
  "mail_drain_metrics W b = drain_mail W (mlb_history b)"

section \<open>The faults of the component\<close>

definition mail_faults :: "fault list" where
  "mail_faults =
     [MAIL_FALLBACK, MAIL_OP_LIMIT, mk_fault ''MAIL_TRANSIENT'' True Operator,
      mk_fault ''MAIL_PERMANENT'' False Developer]"

lemma mail_error_faults [simp]:
  "mle_fault (mail_fallback m) \<in> set mail_faults" "mle_fault (mail_from_driver d) \<in> set mail_faults"
  "mle_fault (mail_limit_error b) \<in> set mail_faults"
  by (simp_all add: ctor_defs mail_faults_def mail_classify_def)

lemma mail_faults_retry_rule: "f \<in> set mail_faults \<Longrightarrow> retry_rule f"
  by (auto simp: mail_faults_def fault_defs)

lemma enforce_domains_loop_fault:
  "enforce_domains_loop E allowed as = Inl e \<Longrightarrow> mle_fault e \<in> set mail_faults"
  by (induction as) (auto simp: Let_def split: result_splits)

lemma enforce_recipient_domains_fault:
  "enforce_recipient_domains E p allowed = Inl e \<Longrightarrow> mle_fault e \<in> set mail_faults"
  by (auto simp: enforce_recipient_domains_def dest: enforce_domains_loop_fault split: if_splits)

lemma mail_dispatch_fault:
  "mail_dispatch E ctx action pj w = (Inl e, w') \<Longrightarrow> mle_fault e \<in> set mail_faults"
  by (auto simp: mail_dispatch_def mail_do_send_def Let_def dest: enforce_recipient_domains_fault
      split: result_splits)

section \<open>The metering contract\<close>

abbreviation mail_fixed :: "mail_backend \<Rightarrow> smtp_transport \<times> string \<times> usize \<times> string list \<times> usize" where
  "mail_fixed b \<equiv> (mlb_transport b, mlb_default_from b, mlb_max_recipients b, mlb_allowed_domains b, mlb_max_sends b)"

abbreviation mail_limit_reached :: "wire_lib \<Rightarrow> mail_backend \<Rightarrow> bool" where
  "mail_limit_reached W b \<equiv> mlb_max_sends b \<noteq> 0 \<and> op_count W (mlb_history b) \<ge> mlb_max_sends b"

lemma mail_call_limit: "mail_limit_reached W b \<Longrightarrow> mail_call W E q b w = (Inl (mail_limit_error b), b, w)"
  by (simp add: mail_call_def split: prod.splits)

lemma mail_call_unfold:
  assumes "mail_call W E (action, pj) b w = (r, b', w')" and "\<not> mail_limit_reached W b"
  obtains start w1 res w2 m where
    "ml_clock E w = (start, w1)" "mail_dispatch E (mail_send_ctx b) action pj w1 = (res, w2)"
    "mail_build_metric E action (result_ok res) start w2 = (m, w')" "r = map_ok so_json res"
    "b' = b\<lparr>mlb_history := mlb_history b @ [m]\<rparr>"
  using assms by (auto simp: mail_call_def collector_record_def split: prod.splits if_splits)

lemma mail_build_metric_action: "mail_build_metric E action out start w = (m, w') \<Longrightarrow> mlm_action m = action"
  by (auto simp: mail_build_metric_def split: prod.splits)

interpretation mail: metered "mail_call W E" mlb_history mail_fixed mlm_action fst
  for W and E :: "'w mail_lib"
proof unfold_locales
  fix q b and w :: 'w and r b' w'
  assume c: "mail_call W E q b w = (r, b', w')"
  obtain action pj where q: "q = (action, pj)" by (cases q)
  consider "mail_limit_reached W b" | "\<not> mail_limit_reached W b" by blast
  then have "b' = b \<or> (\<exists>m. b' = b\<lparr>mlb_history := mlb_history b @ [m]\<rparr> \<and> mlm_action m = action)"
  proof cases
    case 1
    with c mail_call_limit [OF 1, of E q w] show ?thesis by simp
  next
    case 2
    from c [unfolded q] 2 show ?thesis
      by (rule mail_call_unfold) (auto dest: mail_build_metric_action)
  qed
  with q show "mail_fixed b' = mail_fixed b" and "mlb_history b' = mlb_history b \<or>
      (\<exists>m. mlb_history b' = mlb_history b @ [m] \<and> mlm_action m = fst q)" by auto
qed

lemma mail_call_fault:
  assumes "mail_call W E (action, pj) b w = (Inl e, b', w')"
  shows "mle_fault e \<in> set mail_faults"
proof (cases "mail_limit_reached W b")
  case True
  with assms mail_call_limit [OF True, of E "(action, pj)" w] show ?thesis by auto
next
  case False
  with assms obtain w1 res w2 where "mail_dispatch E (mail_send_ctx b) action pj w1 = (res, w2)" "Inl e = map_ok so_json res"
    by (rule mail_call_unfold)
  then show ?thesis by (cases res) (auto dest: mail_dispatch_fault)
qed

section \<open>Lemmas on recipients\<close>

text \<open>A recipient the allowlist lets through: it parses and its domain is listed, up to case.\<close>
definition domain_allowed :: "'w mail_lib \<Rightarrow> string list \<Rightarrow> string \<Rightarrow> bool" where
  "domain_allowed E allowed addr \<longleftrightarrow>
     (\<exists>mb. ml_parse_mailbox E addr = Inr mb \<and>
        (\<exists>allow \<in> set allowed. ml_lowercase E allow = ml_lowercase E (mb_domain mb)))"

lemma enforce_domains_loop_ok_iff:
  "is_ok (enforce_domains_loop E allowed as) \<longleftrightarrow> (\<forall>a \<in> set as. domain_allowed E allowed a)"
proof (induction as)
  case Nil
  then show ?case by simp
next
  case (Cons a as)
  then show ?case
    by (cases "ml_parse_mailbox E a")
      (auto simp: parse_mailbox_def domain_allowed_def Let_def list_ex_iff)
qed

lemma enforce_recipient_domains_ok_iff:
  "is_ok (enforce_recipient_domains E p allowed) \<longleftrightarrow>
     allowed = [] \<or> (\<forall>a \<in> set (snd_to p @ snd_cc p @ snd_bcc p). domain_allowed E allowed a)"
  by (simp add: enforce_recipient_domains_def enforce_domains_loop_ok_iff)

lemma parse_mailboxes_ok_iff:
  "parse_mailboxes E fld as = Inr mbs \<longleftrightarrow> list_all2 (\<lambda>a mb. ml_parse_mailbox E a = Inr mb) as mbs"
proof (induction as arbitrary: mbs)
  case Nil
  then show ?case by auto
next
  case (Cons a as)
  then show ?case
    by (cases "ml_parse_mailbox E a") (auto simp: parse_mailbox_def map_ok_Inr_iff list_all2_Cons1)
qed

lemma count_recipients_eq:
  "count_recipients p = min usize_max (length (snd_to p) + length (snd_cc p) + length (snd_bcc p))"
  using usize_saturating_add_min [of "length (snd_to p) + length (snd_cc p)" "length (snd_bcc p)"]
  by (simp add: count_recipients_def usize_saturating_add_def [of "length (snd_to p)"])

lemma mail_do_send_Inr:
  assumes "mail_do_send E ctx pj w = (Inr out, w')"
  obtains p message where "de_send_payload E pj = Inr p" "count_recipients p \<noteq> 0"
    "count_recipients p \<le> sc_max_recipients ctx" "is_ok (enforce_recipient_domains E p (sc_allowed_domains ctx))"
    "mail_build_message E p (sc_default_from ctx) = Inr message"
    "so_recipients out = count_recipients p" "so_bytes out = length (ml_formatted E message)"
  using assms
  by (auto simp: mail_do_send_def Let_def split: result_splits)

lemma enforce_domains_loop_Inl: "enforce_domains_loop E allowed as = Inl e \<Longrightarrow> \<exists>m. e = mail_fallback m"
  by (induction as) (auto simp: Let_def split: result_splits)

lemma mail_call_within_cap:
  assumes "\<forall>h. op_count W h = length h" and "mlb_max_sends b \<noteq> 0"
    and "length (mlb_history b) \<le> mlb_max_sends b" and "mail_call W E q b w = (r, b', w')"
  shows "length (mlb_history b') \<le> mlb_max_sends b'"
proof (cases "mail_limit_reached W b")
  case True
  with assms mail_call_limit [OF True, of E q w] show ?thesis by simp
next
  case False
  have "length (mlb_history b') \<le> Suc (length (mlb_history b))"
    using mail.call_history [OF assms(4)] by auto
  with False assms(1,2) mail.call_fixed [OF assms(4)] show ?thesis by simp
qed

lemma mail_run_within_cap:
  assumes "\<forall>h. op_count W h = length h" and "mlb_max_sends b \<noteq> 0"
    and "length (mlb_history b) \<le> mlb_max_sends b" and "run_calls (mail_call W E) qs b w = (rs, b', w')"
  shows "length (mlb_history b') \<le> mlb_max_sends b'"
  using assms(2-4)
proof (induction qs arbitrary: b w rs)
  case Nil
  then show ?case by simp
next
  case (Cons q qs)
  obtain r b1 w1 where c: "mail_call W E q b w = (r, b1, w1)" by (cases "mail_call W E q b w") auto
  with Cons.prems(3) obtain rs1 where "run_calls (mail_call W E) qs b1 w1 = (rs1, b', w')"
    by (auto split: prod.splits)
  with Cons.IH [of b1 w1 rs1] mail_call_within_cap [OF assms(1) Cons.prems(1,2) c] mail.call_fixed [OF c] Cons.prems(1)
  show ?case by simp
qed

section \<open>A concrete outside for witnesses\<close>

text \<open>The world is the list of messages handed to the relay, as pairs of transport port and
  message; an address is valid when it has an at sign, its domain is the rest.\<close>
definition mail_ref :: "(u16 \<times> handle) list mail_lib" where
  "mail_ref =
     \<lparr>ml_json_string = (\<lambda>s. Inr ([quot] @ s @ [quot])), ml_clock = (\<lambda>w. (0, w)),
      ml_starttls_relay = (\<lambda>_. Inr 1), ml_relay = (\<lambda>_. Inr 2), ml_builder_dangerous = (\<lambda>_. 3),
      ml_parse_mailbox = (\<lambda>a. if CHR ''@'' \<in> set a
          then Inr \<lparr>mb_address = a, mb_domain = tl (dropWhile (\<lambda>c. c \<noteq> CHR ''@'') a)\<rparr> else Inl ''missing at''),
      ml_lowercase = ascii_lower,
      ml_multipart = (\<lambda>_ _ _. Inr 10), ml_html_part = (\<lambda>_ _. Inr 11), ml_plain_body = (\<lambda>_ _. Inr 12),
      ml_formatted = (\<lambda>_. ''mail''), ml_send = (\<lambda>t m w. (Inr \<lparr>sr_is_positive = True, sr_first_line = Some ''OK''\<rparr>, w @ [(st_port t, m)])),
      de_send_payload = (\<lambda>s. Inr \<lparr>snd_from = [], snd_to = [s], snd_cc = [], snd_bcc = [], snd_reply_to = [],
          snd_subject = [], snd_text = ''hi'', snd_html = []\<rparr>)\<rparr>"

definition mail_backend_ref :: mail_backend where
  "mail_backend_ref =
     \<lparr>mlb_transport = \<lparr>st_base = 1, st_port = mail_default_port, st_timeout = None, st_credentials = None\<rparr>,
      mlb_default_from = ''ops@example.com'', mlb_max_recipients = mail_default_max_recipients,
      mlb_allowed_domains = [''example.com''], mlb_max_sends = 1, mlb_history = []\<rparr>"

section \<open>Properties\<close>

text \<open>With a recipient-domain allowlist set, one recipient (to, cc or bcc) that does not parse or
  whose domain is off the list rejects the whole send, and nothing is handed to the relay.\<close>
theorem mail_off_list_recipient_blocks_send:
  assumes "de_send_payload E pj = Inr p" and "sc_allowed_domains ctx \<noteq> []"
    and "a \<in> set (snd_to p @ snd_cc p @ snd_bcc p)" and "\<not> domain_allowed E (sc_allowed_domains ctx) a"
  shows "\<exists>m. mail_do_send E ctx pj w = (Inl (mail_fallback m), w)"
proof -
  have "\<not> is_ok (enforce_domains_loop E (sc_allowed_domains ctx) (snd_to p @ snd_cc p @ snd_bcc p))"
    using assms(3,4) unfolding enforce_domains_loop_ok_iff by blast
  then obtain e where e: "enforce_domains_loop E (sc_allowed_domains ctx) (snd_to p @ snd_cc p @ snd_bcc p) = Inl e"
    by (cases "enforce_domains_loop E (sc_allowed_domains ctx) (snd_to p @ snd_cc p @ snd_bcc p)") auto
  with enforce_domains_loop_Inl [OF e] assms(1,2) show ?thesis
    by (auto simp: mail_do_send_def enforce_recipient_domains_def Let_def)
qed

theorem mail_off_list_recipient_blocks_send_witness:
  "\<exists>m. mail_do_send mail_ref (mail_send_ctx mail_backend_ref) ''user@evil.example'' [] = (Inl (mail_fallback m), [])"
proof -
  obtain p where p: "de_send_payload mail_ref ''user@evil.example'' = Inr p"
      "''user@evil.example'' \<in> set (snd_to p @ snd_cc p @ snd_bcc p)"
    by (simp add: mail_ref_def)
  show ?thesis
    by (rule mail_off_list_recipient_blocks_send [OF p(1) _ p(2)])
      (simp_all add: mail_send_ctx_def mail_backend_ref_def domain_allowed_def mail_ref_def ascii_lower_def lower_char_def)
qed

text \<open>A send that succeeded had between one and \<open>max_recipients\<close> recipients, all of them allowed by
  the allowlist, every address parsed, and reports exactly the number of to, cc and bcc entries.\<close>
theorem mail_accepted_send_within_policy:
  assumes "mail_do_send E ctx pj w = (Inr out, w')" and "sc_max_recipients ctx < usize_max"
  shows "\<exists>p d. de_send_payload E pj = Inr p \<and> mail_build_draft E p (sc_default_from ctx) = Inr d \<and>
    0 < so_recipients out \<and> so_recipients out \<le> sc_max_recipients ctx \<and>
    so_recipients out = length (md_to d) + length (md_cc d) + length (md_bcc d) \<and>
    (sc_allowed_domains ctx = [] \<or>
      (\<forall>a \<in> set (snd_to p @ snd_cc p @ snd_bcc p). domain_allowed E (sc_allowed_domains ctx) a))"
proof -
  from assms(1) obtain p message where p: "de_send_payload E pj = Inr p" "count_recipients p \<noteq> 0"
    "count_recipients p \<le> sc_max_recipients ctx" "is_ok (enforce_recipient_domains E p (sc_allowed_domains ctx))"
    "mail_build_message E p (sc_default_from ctx) = Inr message" "so_recipients out = count_recipients p"
    by (rule mail_do_send_Inr)
  from p(5) obtain d where d: "mail_build_draft E p (sc_default_from ctx) = Inr d"
    by (auto simp: mail_build_message_def split: result_splits)
  then have "length (md_to d) = length (snd_to p)" "length (md_cc d) = length (snd_cc p)"
    "length (md_bcc d) = length (snd_bcc p)"
    by (auto simp: mail_build_draft_def parse_mailboxes_ok_iff Let_def dest: list_all2_lengthD split: result_splits)
  moreover have "count_recipients p = length (snd_to p) + length (snd_cc p) + length (snd_bcc p)"
    using p(3) assms(2) by (simp add: count_recipients_eq min_def split: if_splits)
  ultimately show ?thesis
    using p d by (auto simp: enforce_recipient_domains_ok_iff)
qed

lemma example_lower: "ascii_lower ''EXAMPLE.com'' = ''example.com''" "ascii_lower ''example.com'' = ''example.com''"
  by code_simp+

theorem mail_accepted_send_within_policy_witness:
  "\<exists>out. mail_do_send mail_ref (mail_send_ctx mail_backend_ref) ''user@EXAMPLE.com'' [] = (Inr out, [(587, 12)]) \<and>
     so_recipients out = 1 \<and> 0 < so_recipients out"
proof -
  let ?p = "\<lparr>snd_from = [], snd_to = [''user@EXAMPLE.com''], snd_cc = [], snd_bcc = [], snd_reply_to = [],
      snd_subject = [], snd_text = ''hi'', snd_html = []\<rparr>"
  have p: "de_send_payload mail_ref ''user@EXAMPLE.com'' = Inr ?p" by (simp add: mail_ref_def)
  have n: "count_recipients ?p = 1" by (simp add: count_recipients_eq usize_max_def)
  have e: "enforce_recipient_domains mail_ref ?p [''example.com''] = Inr ()"
    by (simp add: enforce_recipient_domains_def parse_mailbox_def mail_ref_def example_lower Let_def)
  have m: "mail_build_message mail_ref ?p ''ops@example.com'' = Inr 12"
    by (simp add: mail_build_message_def mail_build_draft_def mail_build_body_def parse_mailbox_def mail_ref_def)
  have s: "ml_send mail_ref t 12 [] = (Inr \<lparr>sr_is_positive = True, sr_first_line = Some ''OK''\<rparr>, [(st_port t, 12)])" for t
    by (simp add: mail_ref_def)
  obtain out where out: "mail_do_send mail_ref (mail_send_ctx mail_backend_ref) ''user@EXAMPLE.com'' [] = (Inr out, [(587, 12)])"
      "so_recipients out = 1"
    by (simp add: mail_do_send_def p n e m s mail_send_ctx_def mail_backend_ref_def mail_default_max_recipients_def
        mail_default_port_def Let_def)
  have "sc_max_recipients (mail_send_ctx mail_backend_ref) < usize_max"
    by (simp add: mail_send_ctx_def mail_backend_ref_def mail_default_max_recipients_def usize_max_def)
  from mail_accepted_send_within_policy [OF out(1) this] out show ?thesis by auto
qed

text \<open>The per-execution send cap holds over any sequence of calls: with \<open>max_sends\<close> set, at most
  that many operations are ever recorded, and once the cap is reached every further call is
  refused with \<^verbatim>\<open>MAIL_OP_LIMIT\<close> without touching the relay.\<close>
theorem mail_send_cap:
  assumes count: "\<forall>h. op_count W h = length h" and cap: "mlb_max_sends b = n" "n \<noteq> 0"
    and start: "length (mlb_history b) \<le> n"
    and run: "run_calls (mail_call W E) qs b w = (rs, b', w')"
  shows "length (mlb_history b') \<le> n \<and>
    (length (mlb_history b') = n \<longrightarrow>
      (\<forall>q v. \<exists>e. mail_call W E q b' v = (Inl e, b', v) \<and> f_code (mle_fault e) = ''MAIL_OP_LIMIT''))"
proof -
  have n: "mlb_max_sends b' = n" using mail.run_fixed [OF run] cap by simp
  have "length (mlb_history b') \<le> n"
    using mail_run_within_cap [OF count _ _ run] cap start n by simp
  moreover have "\<exists>e. mail_call W E q b' v = (Inl e, b', v) \<and> f_code (mle_fault e) = ''MAIL_OP_LIMIT''"
    if "length (mlb_history b') = n" for q v
    using mail_call_limit [of b' W E q v] that count n cap(2)
    by (simp add: mail_limit_error_def fault_defs)
  ultimately show ?thesis by blast
qed

theorem mail_send_cap_witness:
  "\<exists>rs b' w'. run_calls (mail_call wire_ref mail_ref) [(''send'', ''a@example.com''), (''send'', ''b@example.com'')]
     mail_backend_ref [] = (rs, b', w') \<and> length (mlb_history b') \<le> 1"
proof -
  obtain rs b' w' where r: "run_calls (mail_call wire_ref mail_ref)
      [(''send'', ''a@example.com''), (''send'', ''b@example.com'')] mail_backend_ref [] = (rs, b', w')"
    by (cases "run_calls (mail_call wire_ref mail_ref)
      [(''send'', ''a@example.com''), (''send'', ''b@example.com'')] mail_backend_ref []") auto
  have "\<forall>h. op_count wire_ref h = length h" by (simp add: wire_ref_def)
  from mail_send_cap [OF this _ _ _ r, of 1] r show ?thesis by (simp add: mail_backend_ref_def)
qed

end
