(* ===== verification/Kv.thy ===== *)
theory Kv
  imports Metering
begin

text \<open>
  The Redis backend, \<^verbatim>\<open>crates/fabric-backends/src/kv.rs\<close>: connection setup with its error mapping,
  the five operations with their payloads and replies, and the metric.  The functions of the
  \<^verbatim>\<open>redis\<close> crate and the typed payload parsers derived by \<^verbatim>\<open>serde\<close> are the fields of \<open>redis_lib\<close>.
\<close>

section \<open>Data\<close>

definition REDIS_FALLBACK :: fault where
  [fault_defs]: "REDIS_FALLBACK = mk_fault ''REDIS_ERROR'' True Operator"

definition REDIS_TIMEOUT :: fault where
  [fault_defs]: "REDIS_TIMEOUT = mk_fault ''REDIS_TIMEOUT'' True Operator"

definition REDIS_CONNECTION_FAULT :: fault where
  [fault_defs]: "REDIS_CONNECTION_FAULT = mk_fault ''REDIS_CONNECTION'' True Operator"

record redis_config =
  rdc_url :: string
  rdc_timeout_ms :: u64

definition redis_default_timeout :: u64 where "redis_default_timeout = 5000"

text \<open>A driver error: its two predicates and its text.\<close>
record redis_driver_error =
  rde_is_timeout :: bool
  rde_is_io :: bool
  rde_text :: string

text \<open>A boxed connect error, as \<^verbatim>\<open>downcast_ref::<redis::RedisError>\<close> sees it.\<close>
datatype redis_boxed_error = RedisDriver redis_driver_error | OtherBoxed string

record redis_error =
  rer_fault :: fault
  rer_message :: string

record key_payload =
  kp_key :: string

record set_payload =
  sp_key :: string
  sp_value :: string
  sp_ttl :: "u64 option"

record expire_payload =
  ep_key :: string
  ep_seconds :: i64

record 'w redis_lib =
  rd_json :: json_lib
  rd_clock :: "'w clock"
  rd_open :: "string \<Rightarrow> ('w, (redis_driver_error, handle) result) io"
  rd_get_connection :: "handle \<Rightarrow> ('w, (redis_driver_error, handle) result) io"
  rd_set_read_timeout :: "handle \<Rightarrow> duration option \<Rightarrow> ('w, (redis_driver_error, unit) result) io"
  rd_set_write_timeout :: "handle \<Rightarrow> duration option \<Rightarrow> ('w, (redis_driver_error, unit) result) io"
  rd_get :: "handle \<Rightarrow> string \<Rightarrow> ('w, (redis_driver_error, string option) result) io"
  rd_set :: "handle \<Rightarrow> string \<Rightarrow> string \<Rightarrow> ('w, (redis_driver_error, unit) result) io"
  rd_set_ex :: "handle \<Rightarrow> string \<Rightarrow> string \<Rightarrow> u64 \<Rightarrow> ('w, (redis_driver_error, unit) result) io"
  rd_del :: "handle \<Rightarrow> string \<Rightarrow> ('w, (redis_driver_error, i64) result) io"
  rd_incr :: "handle \<Rightarrow> string \<Rightarrow> i64 \<Rightarrow> ('w, (redis_driver_error, i64) result) io"
  rd_expire :: "handle \<Rightarrow> string \<Rightarrow> i64 \<Rightarrow> ('w, (redis_driver_error, bool) result) io"
  de_key_payload :: "string \<Rightarrow> (string, key_payload) result"
  de_set_payload :: "string \<Rightarrow> (string, set_payload) result"
  de_expire_payload :: "string \<Rightarrow> (string, expire_payload) result"

text \<open>The connection sits behind a mutex; \<open>rb_poison\<close> is the text of its lock error once poisoned.\<close>
record redis_backend =
  rb_conn :: handle
  rb_poison :: "string option"
  rb_history :: "redis_metric collector"

section \<open>Errors\<close>

definition redis_classify :: "redis_driver_error \<Rightarrow> fault" where
  "redis_classify err =
     (if rde_is_timeout err then REDIS_TIMEOUT
      else if rde_is_io err then REDIS_CONNECTION_FAULT
      else REDIS_FALLBACK)"

definition redis_fallback :: "string \<Rightarrow> redis_error" where
  [ctor_defs]: "redis_fallback message = \<lparr>rer_fault = REDIS_FALLBACK, rer_message = message\<rparr>"

definition redis_from_driver :: "redis_driver_error \<Rightarrow> redis_error" where
  [ctor_defs]: "redis_from_driver err = \<lparr>rer_fault = redis_classify err, rer_message = rde_text err\<rparr>"

definition redis_into_resource_error :: "redis_error \<Rightarrow> egress_error" where
  [ctor_defs]: "redis_into_resource_error e =
     \<lparr>ee_code = f_code (rer_fault e), ee_message = rer_message e, ee_source = ''redis'',
      ee_details = None, ee_retryable = f_retryable (rer_fault e), ee_owner = f_owner (rer_fault e)\<rparr>"

definition is_redis_connect_error :: "redis_boxed_error \<Rightarrow> bool" where
  "is_redis_connect_error e = (case e of RedisDriver _ \<Rightarrow> True | OtherBoxed _ \<Rightarrow> False)"

definition redis_boxed_text :: "redis_boxed_error \<Rightarrow> string" where
  "redis_boxed_text e = (case e of RedisDriver d \<Rightarrow> rde_text d | OtherBoxed m \<Rightarrow> m)"

section \<open>Connecting\<close>

definition redis_connect :: "'w redis_lib \<Rightarrow> redis_config \<Rightarrow> ('w, (redis_boxed_error, handle) result) io" where
  "redis_connect E c w =
     (case rd_open E (rdc_url c) w of
        (Inl e, w1) \<Rightarrow> (Inl (RedisDriver e), w1)
      | (Inr client, w1) \<Rightarrow>
          (case rd_get_connection E client w1 of
             (Inl e, w2) \<Rightarrow> (Inl (RedisDriver e), w2)
           | (Inr conn, w2) \<Rightarrow>
               (let timeout = duration_from_millis (rdc_timeout_ms c)
                in case rd_set_read_timeout E conn (Some timeout) w2 of
                     (Inl e, w3) \<Rightarrow> (Inl (RedisDriver e), w3)
                   | (Inr _, w3) \<Rightarrow>
                       (case rd_set_write_timeout E conn (Some timeout) w3 of
                          (Inl e, w4) \<Rightarrow> (Inl (RedisDriver e), w4)
                        | (Inr _, w4) \<Rightarrow> (Inr conn, w4)))))"

definition redis_connect_resource :: "'w redis_lib \<Rightarrow> redis_config \<Rightarrow> ('w, (egress_error, redis_backend) result) io" where
  "redis_connect_resource E c w =
     (case redis_connect E c w of
        (Inr conn, w1) \<Rightarrow> (Inr \<lparr>rb_conn = conn, rb_poison = None, rb_history = []\<rparr>, w1)
      | (Inl err, w1) \<Rightarrow>
          (let f = (if is_redis_connect_error err then REDIS_CONNECTION_FAULT else REDIS_FALLBACK)
           in (Inl \<lparr>ee_code = f_code f, ee_message = redis_boxed_text err, ee_source = ''redis'',
                    ee_details = None, ee_retryable = f_retryable f, ee_owner = f_owner f\<rparr>, w1)))"

section \<open>Operations\<close>

definition lock_conn :: "redis_backend \<Rightarrow> (redis_error, handle) result" where
  "lock_conn b =
     (case rb_poison b of
        None \<Rightarrow> Inr (rb_conn b)
      | Some err \<Rightarrow> Inl (redis_fallback (''lock error: '' @ err)))"

definition redis_parse :: "(string \<Rightarrow> (string, 'p) result) \<Rightarrow> string \<Rightarrow> (redis_error, 'p) result" where
  "redis_parse de payload_json =
     map_err (\<lambda>err. redis_fallback (''invalid redis payload: '' @ err)) (de payload_json)"

definition redis_encode :: "'w redis_lib \<Rightarrow> json_value \<Rightarrow> (redis_error, string) result" where
  "redis_encode E v =
     map_err (\<lambda>err. redis_fallback (''serialize error: '' @ err)) (to_string (rd_json E) v)"

text \<open>The shape the five operations share: parse, run one command under the lock, encode.\<close>
definition redis_op ::
    "'w redis_lib \<Rightarrow> (string \<Rightarrow> (string, 'p) result) \<Rightarrow> redis_backend \<Rightarrow>
     (handle \<Rightarrow> 'p \<Rightarrow> ('w, (redis_driver_error, 'a) result) io) \<Rightarrow> ('a \<Rightarrow> json_value) \<Rightarrow>
     string \<Rightarrow> ('w, (redis_error, string) result) io" where
  "redis_op E de b cmd render payload_json w =
     (case redis_parse de payload_json of
        Inl e \<Rightarrow> (Inl e, w)
      | Inr payload \<Rightarrow>
          (case lock_conn b of
             Inl e \<Rightarrow> (Inl e, w)
           | Inr conn \<Rightarrow>
               (case cmd conn payload w of
                  (Inl err, w1) \<Rightarrow> (Inl (redis_from_driver err), w1)
                | (Inr v, w1) \<Rightarrow> (redis_encode E (render v), w1))))"

definition opt_string_value :: "string option \<Rightarrow> json_value" where
  "opt_string_value v = (case v of None \<Rightarrow> VNull | Some s \<Rightarrow> VString s)"

definition redis_do_get :: "'w redis_lib \<Rightarrow> redis_backend \<Rightarrow> string \<Rightarrow> ('w, (redis_error, string) result) io" where
  "redis_do_get E b =
     redis_op E (de_key_payload E) b (\<lambda>conn p. rd_get E conn (kp_key p))
       (\<lambda>v. json_object [(''value'', opt_string_value v)])"

definition redis_do_set :: "'w redis_lib \<Rightarrow> redis_backend \<Rightarrow> string \<Rightarrow> ('w, (redis_error, string) result) io" where
  "redis_do_set E b =
     redis_op E (de_set_payload E) b
       (\<lambda>conn p. case sp_ttl p of
           Some ttl \<Rightarrow> rd_set_ex E conn (sp_key p) (sp_value p) ttl
         | None \<Rightarrow> rd_set E conn (sp_key p) (sp_value p))
       (\<lambda>_. json_object [(''ok'', VBool True)])"

definition redis_do_delete :: "'w redis_lib \<Rightarrow> redis_backend \<Rightarrow> string \<Rightarrow> ('w, (redis_error, string) result) io" where
  "redis_do_delete E b =
     redis_op E (de_key_payload E) b (\<lambda>conn p. rd_del E conn (kp_key p))
       (\<lambda>n. json_object [(''count'', VNumber (NumInt (sint n)))])"

definition redis_do_increment :: "'w redis_lib \<Rightarrow> redis_backend \<Rightarrow> string \<Rightarrow> ('w, (redis_error, string) result) io" where
  "redis_do_increment E b =
     redis_op E (de_key_payload E) b (\<lambda>conn p. rd_incr E conn (kp_key p) 1)
       (\<lambda>n. json_object [(''value'', VNumber (NumInt (sint n)))])"

definition redis_do_expire :: "'w redis_lib \<Rightarrow> redis_backend \<Rightarrow> string \<Rightarrow> ('w, (redis_error, string) result) io" where
  "redis_do_expire E b =
     redis_op E (de_expire_payload E) b (\<lambda>conn p. rd_expire E conn (ep_key p) (ep_seconds p))
       (\<lambda>s. json_object [(''set'', VBool s)])"

definition redis_dispatch :: "'w redis_lib \<Rightarrow> redis_backend \<Rightarrow> string \<Rightarrow> string \<Rightarrow> ('w, (redis_error, string) result) io" where
  [route_defs]: "redis_dispatch E b action payload_json w =
     (if action = ''get'' then redis_do_get E b payload_json w
      else if action = ''set'' then redis_do_set E b payload_json w
      else if action = ''delete'' then redis_do_delete E b payload_json w
      else if action = ''increment'' then redis_do_increment E b payload_json w
      else if action = ''expire'' then redis_do_expire E b payload_json w
      else (Inl (redis_fallback (''unknown redis action: '' @ action)), w))"

section \<open>Metrics and the call entry point\<close>

definition redis_value_stats :: "json_lib \<Rightarrow> string \<Rightarrow> string \<Rightarrow> usize \<times> bool" where
  "redis_value_stats J action json =
     (if action \<noteq> ''get'' then (0, False)
      else
        (let parsed = (case from_str J json of Inl _ \<Rightarrow> VNull | Inr v \<Rightarrow> v)
         in case Option.bind (value_get ''value'' parsed) value_as_str of
              None \<Rightarrow> (0, False)
            | Some text \<Rightarrow> (length text, True)))"

definition redis_build_metric ::
    "'w redis_lib \<Rightarrow> string \<Rightarrow> (redis_error, string) result \<Rightarrow> instant \<Rightarrow> ('w, redis_metric) io" where
  "redis_build_metric E action result start w =
     (case (case result of Inl _ \<Rightarrow> (0, False) | Inr json \<Rightarrow> redis_value_stats (rd_json E) action json) of
        (bytes, hit) \<Rightarrow>
          (case rd_clock E w of (t, w1) \<Rightarrow>
             (\<lparr>rdm_action = action, rdm_duration_us = as_micros (saturating_duration_since t start),
               rdm_bytes = bytes, rdm_hit = hit\<rparr>, w1)))"

definition redis_call ::
    "'w redis_lib \<Rightarrow> string \<times> string \<Rightarrow> redis_backend \<Rightarrow> 'w \<Rightarrow> (redis_error, string) result \<times> redis_backend \<times> 'w" where
  "redis_call E q b w =
     (case q of (action, payload_json) \<Rightarrow>
        (case rd_clock E w of (start, w1) \<Rightarrow>
           (case redis_dispatch E b action payload_json w1 of (result, w2) \<Rightarrow>
              (case redis_build_metric E action result start w2 of
                 (m, w3) \<Rightarrow> (result, b\<lparr>rb_history := collector_record (rb_history b) m\<rparr>, w3)))))"

definition redis_drain_metrics :: "wire_lib \<Rightarrow> redis_backend \<Rightarrow> redis_metric list" where
  "redis_drain_metrics W b = drain_redis W (rb_history b)"

section \<open>The faults of the component\<close>

definition redis_faults :: "fault list" where
  "redis_faults = [REDIS_FALLBACK, REDIS_TIMEOUT, REDIS_CONNECTION_FAULT]"

lemma redis_error_faults [simp]:
  "rer_fault (redis_fallback m) \<in> set redis_faults" "rer_fault (redis_from_driver d) \<in> set redis_faults"
  by (simp_all add: ctor_defs redis_faults_def redis_classify_def)

lemma redis_op_fault:
  "redis_op E de b cmd render pj w = (Inl e, w') \<Longrightarrow> rer_fault e \<in> set redis_faults"
  by (auto simp: redis_op_def redis_parse_def lock_conn_def redis_encode_def map_err_Inl_iff
      split: result_splits)

lemma redis_dispatch_fault:
  "redis_dispatch E b action pj w = (Inl e, w') \<Longrightarrow> rer_fault e \<in> set redis_faults"
  by (auto simp: redis_dispatch_def redis_do_get_def redis_do_set_def redis_do_delete_def
      redis_do_increment_def redis_do_expire_def dest: redis_op_fault split: if_splits)

section \<open>The metering contract\<close>

abbreviation redis_fixed :: "redis_backend \<Rightarrow> handle \<times> string option" where
  "redis_fixed b \<equiv> (rb_conn b, rb_poison b)"

lemma redis_call_unfold:
  assumes "redis_call E (action, pj) b w = (r, b', w')"
  obtains start w1 w2 m where
    "rd_clock E w = (start, w1)" "redis_dispatch E b action pj w1 = (r, w2)"
    "redis_build_metric E action r start w2 = (m, w')" "b' = b\<lparr>rb_history := rb_history b @ [m]\<rparr>"
  using assms by (auto simp: redis_call_def collector_record_def split: prod.splits)

lemma redis_build_metric_action: "redis_build_metric E action r start w = (m, w') \<Longrightarrow> rdm_action m = action"
  by (auto simp: redis_build_metric_def split: prod.splits)

interpretation redis: fully_metered "redis_call E" rb_history redis_fixed rdm_action fst
  for E :: "'w redis_lib"
proof unfold_locales
  fix q b and w :: 'w and r b' w'
  assume c: "redis_call E q b w = (r, b', w')"
  obtain action pj where q: "q = (action, pj)" by (cases q)
  from c [unfolded q] obtain start w2 m where m: "redis_build_metric E action r start w2 = (m, w')"
    "b' = b\<lparr>rb_history := rb_history b @ [m]\<rparr>" by (rule redis_call_unfold)
  show "redis_fixed b' = redis_fixed b" using m by simp
  show "rb_history b' = rb_history b \<or>
      (\<exists>m. rb_history b' = rb_history b @ [m] \<and> rdm_action m = fst q)"
    using m q by (auto dest: redis_build_metric_action)
  show "rb_history b' \<noteq> rb_history b" using m by simp
qed

lemma redis_call_fault:
  assumes "redis_call E (action, pj) b w = (Inl e, b', w')"
  shows "rer_fault e \<in> set redis_faults"
proof -
  from assms obtain w1 w2 where "redis_dispatch E b action pj w1 = (Inl e, w2)"
    by (rule redis_call_unfold)
  then show ?thesis by (rule redis_dispatch_fault)
qed

lemma redis_faults_retry_rule: "f \<in> set redis_faults \<Longrightarrow> retry_rule f"
  by (auto simp: redis_faults_def fault_defs)

section \<open>A concrete outside for witnesses\<close>

text \<open>The world is the store itself; a payload is the key, or the key and value around a comma.\<close>
definition redis_ref :: "(string \<rightharpoonup> string) redis_lib" where
  "redis_ref =
     \<lparr>rd_json = \<lparr>from_str = (\<lambda>s. Inr (json_object [(''value'', VString s)])), from_str_array = (\<lambda>_. Inl ''json''),
        to_string = (\<lambda>v. case value_get ''value'' v of Some (VString s) \<Rightarrow> Inr s | _ \<Rightarrow> Inr ''json''),
        value_to_string = (\<lambda>_. ''json''), number_as_i64 = (\<lambda>_. None), number_as_u64 = (\<lambda>_. None),
        number_as_f64 = (\<lambda>_. None), number_from_f64 = (\<lambda>_. None)\<rparr>,
      rd_clock = (\<lambda>w. (0, w)),
      rd_open = (\<lambda>url w. if url = [] then (Inl \<lparr>rde_is_timeout = False, rde_is_io = False, rde_text = ''bad url''\<rparr>, w)
                         else (Inr 1, w)),
      rd_get_connection = (\<lambda>_ w. (Inr 2, w)),
      rd_set_read_timeout = (\<lambda>_ _ w. (Inr (), w)), rd_set_write_timeout = (\<lambda>_ _ w. (Inr (), w)),
      rd_get = (\<lambda>_ k w. (Inr (w k), w)), rd_set = (\<lambda>_ k v w. (Inr (), w(k \<mapsto> v))),
      rd_set_ex = (\<lambda>_ k v _ w. (Inr (), w(k \<mapsto> v))), rd_del = (\<lambda>_ k w. (Inr 1, w(k := None))),
      rd_incr = (\<lambda>_ k _ w. (Inr 1, w)), rd_expire = (\<lambda>_ _ _ w. (Inr True, w)),
      de_key_payload = (\<lambda>s. Inr \<lparr>kp_key = s\<rparr>),
      de_set_payload = (\<lambda>s. Inr \<lparr>sp_key = takeWhile (\<lambda>c. c \<noteq> CHR '','') s,
                               sp_value = tl (dropWhile (\<lambda>c. c \<noteq> CHR '','') s), sp_ttl = None\<rparr>),
      de_expire_payload = (\<lambda>s. Inr \<lparr>ep_key = s, ep_seconds = 0\<rparr>)\<rparr>"

definition redis_backend_ref :: redis_backend where
  "redis_backend_ref = \<lparr>rb_conn = 2, rb_poison = None, rb_history = []\<rparr>"

section \<open>Properties\<close>

text \<open>Whatever goes wrong while connecting to Redis, a malformed URL included, surfaces as the
  retryable, operator-owned \<^verbatim>\<open>REDIS_CONNECTION\<close> with source \<^verbatim>\<open>redis\<close>; the \<^verbatim>\<open>REDIS_ERROR\<close> branch of
  \<^verbatim>\<open>connect_resource\<close> is never taken.\<close>
theorem redis_connect_failure_is_connection:
  assumes "redis_connect_resource E c w = (Inl e, w')"
  shows "ee_code e = ''REDIS_CONNECTION'' \<and> ee_retryable e \<and> ee_owner e = Operator \<and> ee_source e = ''redis''"
  using assms
  by (auto simp: redis_connect_resource_def redis_connect_def is_redis_connect_error_def fault_defs Let_def
      split: result_splits)

theorem redis_connect_failure_is_connection_witness:
  "\<exists>e. redis_connect_resource redis_ref \<lparr>rdc_url = [], rdc_timeout_ms = redis_default_timeout\<rparr> Map.empty =
     (Inl e, Map.empty) \<and> ee_message e = ''bad url'' \<and> ee_code e = ''REDIS_CONNECTION''"
proof -
  obtain e where e: "redis_connect_resource redis_ref \<lparr>rdc_url = [], rdc_timeout_ms = redis_default_timeout\<rparr> Map.empty =
     (Inl e, Map.empty)" "ee_message e = ''bad url''"
    by (simp add: redis_connect_resource_def redis_connect_def redis_ref_def redis_boxed_text_def Let_def)
  with redis_connect_failure_is_connection [OF e(1)] show ?thesis by auto
qed

text \<open>The metric of a \<^verbatim>\<open>get\<close> says whether the key was found and how many bytes the value had, provided
  the JSON library reads back the reply it printed.\<close>
theorem redis_get_metric:
  assumes p: "de_key_payload E pj = Inr p" and lock: "rb_poison b = None"
    and clk: "rd_clock E w = (t, w1)"
    and got: "rd_get E (rb_conn b) (kp_key p) w1 = (Inr v, w2)"
    and printed: "to_string (rd_json E) (json_object [(''value'', opt_string_value v)]) = Inr txt1"
      "from_str (rd_json E) txt1 = Inr (json_object [(''value'', opt_string_value v)])"
    and call: "redis_call E (''get'', pj) b w = (r, b', w')"
  shows "r = Inr txt1 \<and> (\<exists>m. rb_history b' = rb_history b @ [m] \<and> rdm_action m = ''get'' \<and>
    rdm_hit m = (v \<noteq> None) \<and> rdm_bytes m = (case v of None \<Rightarrow> 0 | Some s \<Rightarrow> length s))"
proof -
  have d: "redis_dispatch E b ''get'' pj w1 = (Inr txt1, w2)"
    using p lock got printed(1)
    by (simp add: redis_dispatch_def redis_do_get_def redis_op_def redis_parse_def lock_conn_def redis_encode_def)
  from call obtain start v1 v2 m where u: "rd_clock E w = (start, v1)" "redis_dispatch E b ''get'' pj v1 = (r, v2)"
      "redis_build_metric E ''get'' r start v2 = (m, w')" "b' = b\<lparr>rb_history := rb_history b @ [m]\<rparr>"
    by (rule redis_call_unfold)
  with clk d have r: "r = Inr txt1" by simp
  have "redis_value_stats (rd_json E) ''get'' txt1 = (case v of None \<Rightarrow> (0, False) | Some s \<Rightarrow> (length s, True))"
    by (simp add: redis_value_stats_def printed(2) opt_string_value_def value_as_str_def split: option.splits)
  with u(3,4) r show ?thesis
    by (auto simp: redis_build_metric_def split: prod.splits option.splits)
qed

theorem redis_get_metric_witness:
  "\<exists>m. rb_history (fst (snd (redis_call redis_ref (''get'', ''k'') redis_backend_ref [''k'' \<mapsto> ''hello'']))) = [m] \<and>
     rdm_hit m \<and> rdm_bytes m = 5"
proof -
  obtain r b' w' where c: "redis_call redis_ref (''get'', ''k'') redis_backend_ref [''k'' \<mapsto> ''hello''] = (r, b', w')"
    by (cases "redis_call redis_ref (''get'', ''k'') redis_backend_ref [''k'' \<mapsto> ''hello'']") auto
  have "de_key_payload redis_ref ''k'' = Inr \<lparr>kp_key = ''k''\<rparr>" "rb_poison redis_backend_ref = None"
    "rd_clock redis_ref [''k'' \<mapsto> ''hello''] = (0, [''k'' \<mapsto> ''hello''])"
    "rd_get redis_ref (rb_conn redis_backend_ref) (kp_key \<lparr>kp_key = ''k''\<rparr>) [''k'' \<mapsto> ''hello''] =
       (Inr (Some ''hello''), [''k'' \<mapsto> ''hello''])"
    "to_string (rd_json redis_ref) (json_object [(''value'', opt_string_value (Some ''hello''))]) = Inr ''hello''"
    "from_str (rd_json redis_ref) ''hello'' = Inr (json_object [(''value'', opt_string_value (Some ''hello''))])"
    by (simp_all add: redis_ref_def redis_backend_ref_def opt_string_value_def)
  from redis_get_metric [OF this c]
  have "\<exists>m. rb_history b' = [m] \<and> rdm_hit m \<and> rdm_bytes m = 5"
    by (auto simp: redis_backend_ref_def)
  then show ?thesis by (simp add: c)
qed

end
