(* ===== verification/Amq.thy ===== *)
theory Amq
  imports Metering
begin

text \<open>
  The messaging producer, \<^verbatim>\<open>crates/fabric-backends/src/amq.rs\<close>: the RabbitMQ and NATS clients behind
  \<^verbatim>\<open>send\<close> and \<^verbatim>\<open>request\<close>, the batch limits, the publish loop, the classification of request errors
  and the metric.  The functions of the crates \<^verbatim>\<open>amqprs\<close>, \<^verbatim>\<open>async_nats\<close> and \<^verbatim>\<open>tokio\<close> are the fields of
  \<open>amq_lib\<close>.  A parsed payload arrives with its absent fields as \<open>None\<close>; the defaults named in the
  source are filled in here.
\<close>

section \<open>Data\<close>

definition AMQ_FALLBACK :: fault where
  [fault_defs]: "AMQ_FALLBACK = mk_fault ''AMQ_ERROR'' True Operator"

definition AMQ_CONNECTION :: fault where
  [fault_defs]: "AMQ_CONNECTION = mk_fault ''AMQ_CONNECTION'' True Operator"

definition AMQ_BATCH :: fault where
  [fault_defs]: "AMQ_BATCH = mk_fault ''AMQ_BATCH_TOO_LARGE'' False Developer"

definition AMQ_TIMEOUT :: fault where
  [fault_defs]: "AMQ_TIMEOUT = mk_fault ''AMQ_TIMEOUT'' True Operator"

definition AMQ_UNSUPPORTED :: fault where
  [fault_defs]: "AMQ_UNSUPPORTED = mk_fault ''AMQ_UNSUPPORTED'' False Developer"

datatype amq_backend = Rabbitmq | Nats

record amq_config =
  aqc_backend :: amq_backend
  aqc_host :: string
  aqc_port :: "u16 option"
  aqc_username :: "string option"
  aqc_password :: "string option"
  aqc_token :: "string option"
  aqc_vhost :: string
  aqc_exchange :: string
  aqc_max_batch :: usize
  aqc_request_timeout_ms :: u64
  aqc_tls :: bool
  aqc_ca_cert :: "string option"

definition amq_resolved_port :: "amq_config \<Rightarrow> u16" where
  "amq_resolved_port c =
     (case aqc_port c of
        Some p \<Rightarrow> p
      | None \<Rightarrow> (case aqc_backend c of Rabbitmq \<Rightarrow> 5672 | Nats \<Rightarrow> 4222))"

definition amq_default_vhost :: string where "amq_default_vhost = ''/''"
definition amq_default_max_batch :: usize where "amq_default_max_batch = 100"
definition amq_default_request_timeout :: u64 where "amq_default_request_timeout = 5000"

record amq_error =
  aqe_fault :: fault
  aqe_message :: string

record amq_send_outcome =
  aqo_json :: string
  aqo_messages :: usize
  aqo_bytes :: usize

text \<open>The parsed payloads: a message is a routing key and the JSON text of its body.\<close>
record amq_message =
  aqg_key :: string
  aqg_payload :: string

record amq_raw_message =
  arw_key :: "string option"
  arw_payload :: "string option"

record amq_request_payload =
  arq_subject :: string
  arq_payload :: string

record amq_raw_request =
  arr_subject :: "string option"
  arr_payload :: "string option"

definition amq_default_payload :: string where "amq_default_payload = ''null''"

definition amq_fill_message :: "amq_raw_message \<Rightarrow> amq_message" where
  "amq_fill_message r =
     \<lparr>aqg_key = (case arw_key r of None \<Rightarrow> [] | Some k \<Rightarrow> k),
      aqg_payload = (case arw_payload r of None \<Rightarrow> amq_default_payload | Some p \<Rightarrow> p)\<rparr>"

definition amq_fill_request :: "amq_raw_request \<Rightarrow> amq_request_payload" where
  "amq_fill_request r =
     \<lparr>arq_subject = (case arr_subject r of None \<Rightarrow> [] | Some k \<Rightarrow> k),
      arq_payload = (case arr_payload r of None \<Rightarrow> amq_default_payload | Some p \<Rightarrow> p)\<rparr>"

text \<open>What \<^verbatim>\<open>OpenConnectionArguments\<close> and \<^verbatim>\<open>ConnectOptions\<close> collect.\<close>
record amqp_open_args =
  oa_host :: string
  oa_port :: u16
  oa_username :: string
  oa_password :: string
  oa_vhost :: string
  oa_tls_adaptor :: "handle option"

datatype nats_auth = NoAuth | UserPassword string string | Token string

record nats_options =
  no_request_timeout :: "duration option"
  no_auth :: nats_auth
  no_require_tls :: bool
  no_root_certificates :: "string list"

record 'w amq_lib =
  aq_json :: json_lib
  aq_clock :: "'w clock"
  aq_build_runtime :: "('w, (string, unit) result) io"
  aq_tls :: "string option \<Rightarrow> string \<Rightarrow> ('w, (string, handle) result) io"
  aq_open :: "amqp_open_args \<Rightarrow> ('w, (string, handle) result) io"
  aq_open_channel :: "handle \<Rightarrow> ('w, (string, handle) result) io"
  aq_basic_publish :: "handle \<Rightarrow> string \<Rightarrow> string \<Rightarrow> string \<Rightarrow> ('w, (string, unit) result) io"
  aq_close_channel :: "handle \<Rightarrow> ('w, (string, unit) result) io"
  aq_close_connection :: "handle \<Rightarrow> ('w, (string, unit) result) io"
  aq_nats_connect :: "string \<Rightarrow> nats_options \<Rightarrow> ('w, (string, handle) result) io"
  aq_nats_publish :: "handle \<Rightarrow> string \<Rightarrow> string \<Rightarrow> ('w, (string, unit) result) io"
  aq_nats_flush :: "handle \<Rightarrow> ('w, (string, unit) result) io"
  aq_nats_request :: "handle \<Rightarrow> string \<Rightarrow> string \<Rightarrow> ('w, (string, string) result) io"
  aq_utf8_lossy :: "string \<Rightarrow> string"
  aq_lowercase :: "string \<Rightarrow> string"
  de_amq_send :: "string \<Rightarrow> (string, amq_raw_message list option) result"
  de_amq_request :: "string \<Rightarrow> (string, amq_raw_request) result"

text \<open>The producer: its configuration and the metrics recorded so far.\<close>
record amq_producer =
  aqp_config :: amq_config
  aqp_history :: "amq_metric collector"

section \<open>Errors\<close>

definition amq_fallback :: "string \<Rightarrow> amq_error" where
  [ctor_defs]: "amq_fallback message = \<lparr>aqe_fault = AMQ_FALLBACK, aqe_message = message\<rparr>"

definition amq_connection :: "string \<Rightarrow> amq_error" where
  [ctor_defs]: "amq_connection message = \<lparr>aqe_fault = AMQ_CONNECTION, aqe_message = message\<rparr>"

definition amq_unsupported :: "string \<Rightarrow> amq_error" where
  [ctor_defs]: "amq_unsupported message = \<lparr>aqe_fault = AMQ_UNSUPPORTED, aqe_message = message\<rparr>"

definition amq_into_resource_error :: "amq_error \<Rightarrow> egress_error" where
  [ctor_defs]: "amq_into_resource_error e =
     \<lparr>ee_code = f_code (aqe_fault e), ee_message = aqe_message e, ee_source = ''amq'',
      ee_details = None, ee_retryable = f_retryable (aqe_fault e), ee_owner = f_owner (aqe_fault e)\<rparr>"

definition classify_request_error :: "'w amq_lib \<Rightarrow> string \<Rightarrow> fault" where
  "classify_request_error E message =
     (let lowered = aq_lowercase E message
      in if contains_str ''no responders'' lowered \<or> contains_str ''timed out'' lowered \<or>
            contains_str ''timeout'' lowered
         then AMQ_TIMEOUT else AMQ_FALLBACK)"

section \<open>Publishing\<close>

definition amq_build_runtime :: "'w amq_lib \<Rightarrow> ('w, (amq_error, unit) result) io" where
  "amq_build_runtime E w =
     (case aq_build_runtime E w of
        (r, w1) \<Rightarrow> (map_err (\<lambda>err. amq_fallback (''failed to build runtime: '' @ err)) r, w1))"

text \<open>The loop both backends share: publish each message in turn, summing the body lengths; the
  first failed publish ends it.\<close>
fun amq_publish_each ::
    "(amq_message \<Rightarrow> ('w, (string, unit) result) io) \<Rightarrow> string \<Rightarrow> usize \<Rightarrow> amq_message list \<Rightarrow>
     ('w, (amq_error, usize) result) io" where
  "amq_publish_each publish what total_bytes [] w = (Inr total_bytes, w)"
| "amq_publish_each publish what total_bytes (message # messages) w =
     (let total = usize_saturating_add total_bytes (length (aqg_payload message))
      in case publish message w of
           (Inl err, w1) \<Rightarrow> (Inl (amq_fallback (what @ '' publish failed: '' @ err)), w1)
         | (Inr _, w1) \<Rightarrow> amq_publish_each publish what total messages w1)"

definition amq_tls_adaptor :: "'w amq_lib \<Rightarrow> amq_config \<Rightarrow> ('w, (amq_error, handle option) result) io" where
  "amq_tls_adaptor E c w =
     (if aqc_tls c
      then (case aq_tls E (aqc_ca_cert c) (aqc_host c) w of
              (Inl err, w1) \<Rightarrow> (Inl (amq_connection (''amq tls setup failed: '' @ err)), w1)
            | (Inr adaptor, w1) \<Rightarrow> (Inr (Some adaptor), w1))
      else (Inr None, w))"

definition amq_open_args :: "amq_config \<Rightarrow> handle option \<Rightarrow> amqp_open_args" where
  "amq_open_args c adaptor =
     \<lparr>oa_host = aqc_host c, oa_port = amq_resolved_port c,
      oa_username = (case aqc_username c of None \<Rightarrow> ''guest'' | Some u \<Rightarrow> u),
      oa_password = (case aqc_password c of None \<Rightarrow> ''guest'' | Some p \<Rightarrow> p),
      oa_vhost = aqc_vhost c, oa_tls_adaptor = adaptor\<rparr>"

definition amq_publish_batch ::
    "'w amq_lib \<Rightarrow> amq_config \<Rightarrow> amq_message list \<Rightarrow> ('w, (amq_error, usize) result) io" where
  "amq_publish_batch E c messages w =
     (case amq_tls_adaptor E c w of
        (Inl e, w1) \<Rightarrow> (Inl e, w1)
      | (Inr adaptor, w1) \<Rightarrow>
          (case aq_open E (amq_open_args c adaptor) w1 of
             (Inl err, w2) \<Rightarrow> (Inl (amq_connection (''amq connect failed: '' @ err)), w2)
           | (Inr connection, w2) \<Rightarrow>
               (case aq_open_channel E connection w2 of
                  (Inl err, w3) \<Rightarrow> (Inl (amq_connection (''amq channel failed: '' @ err)), w3)
                | (Inr channel, w3) \<Rightarrow>
                    (case amq_publish_each
                            (\<lambda>m. aq_basic_publish E channel (aqg_payload m) (aqc_exchange c) (aqg_key m))
                            ''amq'' 0 messages w3 of
                       (Inl e, w4) \<Rightarrow> (Inl e, w4)
                     | (Inr total_bytes, w4) \<Rightarrow>
                         (case aq_close_channel E channel w4 of
                            (_, w5) \<Rightarrow> (case aq_close_connection E connection w5 of
                                          (_, w6) \<Rightarrow> (Inr total_bytes, w6)))))))"

definition nats_options_of :: "amq_config \<Rightarrow> nats_options" where
  "nats_options_of c =
     \<lparr>no_request_timeout = Some (duration_from_millis (aqc_request_timeout_ms c)),
      no_auth =
        (case aqc_username c of
           Some username \<Rightarrow> UserPassword username (case aqc_password c of None \<Rightarrow> [] | Some p \<Rightarrow> p)
         | None \<Rightarrow> (case aqc_token c of Some token \<Rightarrow> Token token | None \<Rightarrow> NoAuth)),
      no_require_tls = aqc_tls c,
      no_root_certificates =
        (if aqc_tls c then (case aqc_ca_cert c of None \<Rightarrow> [] | Some ca \<Rightarrow> [ca]) else [])\<rparr>"

definition nats_connect :: "'w amq_lib \<Rightarrow> amq_config \<Rightarrow> ('w, (amq_error, handle) result) io" where
  "nats_connect E c w =
     (case aq_nats_connect E (aqc_host c @ '':'' @ show_nat (unat (amq_resolved_port c))) (nats_options_of c) w of
        (r, w1) \<Rightarrow> (map_err (\<lambda>err. amq_connection (''nats connect failed: '' @ err)) r, w1))"

definition nats_publish ::
    "'w amq_lib \<Rightarrow> amq_config \<Rightarrow> amq_message list \<Rightarrow> ('w, (amq_error, usize) result) io" where
  "nats_publish E c messages w =
     (case nats_connect E c w of
        (Inl e, w1) \<Rightarrow> (Inl e, w1)
      | (Inr client, w1) \<Rightarrow>
          (case amq_publish_each (\<lambda>m. aq_nats_publish E client (aqg_key m) (aqg_payload m)) ''nats'' 0 messages w1 of
             (Inl e, w2) \<Rightarrow> (Inl e, w2)
           | (Inr total_bytes, w2) \<Rightarrow>
               (case aq_nats_flush E client w2 of
                  (Inl err, w3) \<Rightarrow> (Inl (amq_fallback (''nats flush failed: '' @ err)), w3)
                | (Inr _, w3) \<Rightarrow> (Inr total_bytes, w3))))"

text \<open>The reply body: its JSON value when it parses, else a JSON string; wrapped under \<^verbatim>\<open>reply\<close>.\<close>
definition nats_wrap_reply :: "'w amq_lib \<Rightarrow> string \<Rightarrow> string" where
  "nats_wrap_reply E reply_payload =
     (let body_text = aq_utf8_lossy E reply_payload;
          body = (case from_str (aq_json E) body_text of Inl _ \<Rightarrow> VString body_text | Inr v \<Rightarrow> v)
      in value_to_string (aq_json E) (json_object [(''reply'', body)]))"

definition nats_request ::
    "'w amq_lib \<Rightarrow> amq_config \<Rightarrow> string \<Rightarrow> string \<Rightarrow> ('w, (amq_error, string \<times> usize) result) io" where
  "nats_request E c subject payload w =
     (case nats_connect E c w of
        (Inl e, w1) \<Rightarrow> (Inl e, w1)
      | (Inr client, w1) \<Rightarrow>
          (case aq_nats_request E client subject payload w1 of
             (Inl err, w2) \<Rightarrow>
               (Inl \<lparr>aqe_fault = classify_request_error E err,
                     aqe_message = ''nats request failed: '' @ err\<rparr>, w2)
           | (Inr reply, w2) \<Rightarrow> (Inr (nats_wrap_reply E reply, length payload), w2)))"

section \<open>Dispatch\<close>

definition amq_parse_send :: "'w amq_lib \<Rightarrow> string \<Rightarrow> (amq_error, amq_message list) result" where
  "amq_parse_send E payload_json =
     (case de_amq_send E payload_json of
        Inl err \<Rightarrow> Inl (amq_fallback (''invalid amq payload: '' @ err))
      | Inr None \<Rightarrow> Inr []
      | Inr (Some raws) \<Rightarrow> Inr (map amq_fill_message raws))"

definition amq_do_send :: "'w amq_lib \<Rightarrow> amq_config \<Rightarrow> string \<Rightarrow> ('w, (amq_error, amq_send_outcome) result) io" where
  "amq_do_send E c payload_json w =
     (case amq_parse_send E payload_json of
        Inl e \<Rightarrow> (Inl e, w)
      | Inr messages \<Rightarrow>
          (let count = length messages
           in if count = 0 then (Inl (amq_fallback ''amq.send requires at least one message''), w)
              else if aqc_max_batch c < count
              then (Inl \<lparr>aqe_fault = AMQ_BATCH,
                         aqe_message = ''batch too large: '' @ show_nat count @ '' (max '' @
                           show_nat (aqc_max_batch c) @ '')''\<rparr>, w)
              else (case amq_build_runtime E w of
                      (Inl e, w1) \<Rightarrow> (Inl e, w1)
                    | (Inr _, w1) \<Rightarrow>
                        (case (case aqc_backend c of
                                 Rabbitmq \<Rightarrow> amq_publish_batch E c messages w1
                               | Nats \<Rightarrow> nats_publish E c messages w1) of
                           (Inl e, w2) \<Rightarrow> (Inl e, w2)
                         | (Inr bytes, w2) \<Rightarrow>
                             (Inr \<lparr>aqo_json = CHR ''{'' # quot # ''published'' @ quot # '':'' @ show_nat count @ ''}'',
                                   aqo_messages = count, aqo_bytes = bytes\<rparr>, w2)))))"

definition amq_do_request :: "'w amq_lib \<Rightarrow> amq_config \<Rightarrow> string \<Rightarrow> ('w, (amq_error, amq_send_outcome) result) io" where
  "amq_do_request E c payload_json w =
     (if aqc_backend c \<noteq> Nats
      then (Inl (amq_unsupported ''amq.request requires the nats backend''), w)
      else (case de_amq_request E payload_json of
              Inl err \<Rightarrow> (Inl (amq_fallback (''invalid amq payload: '' @ err)), w)
            | Inr raw \<Rightarrow>
                (let req = amq_fill_request raw
                 in case amq_build_runtime E w of
                      (Inl e, w1) \<Rightarrow> (Inl e, w1)
                    | (Inr _, w1) \<Rightarrow>
                        (case nats_request E c (arq_subject req) (arq_payload req) w1 of
                           (Inl e, w2) \<Rightarrow> (Inl e, w2)
                         | (Inr (json, bytes), w2) \<Rightarrow>
                             (Inr \<lparr>aqo_json = json, aqo_messages = 1, aqo_bytes = bytes\<rparr>, w2)))))"

definition amq_dispatch ::
    "'w amq_lib \<Rightarrow> amq_config \<Rightarrow> string \<Rightarrow> string \<Rightarrow> ('w, (amq_error, amq_send_outcome) result) io" where
  [route_defs]: "amq_dispatch E c action payload_json w =
     (if action = ''send'' then amq_do_send E c payload_json w
      else if action = ''request'' then amq_do_request E c payload_json w
      else (Inl (amq_fallback (''unknown amq action: '' @ action)), w))"

section \<open>Metrics and the call entry point\<close>

definition amq_build_metric ::
    "'w amq_lib \<Rightarrow> string \<Rightarrow> amq_send_outcome option \<Rightarrow> instant \<Rightarrow> ('w, amq_metric) io" where
  "amq_build_metric E action outcome start w =
     (let (messages, bytes, published) =
            (case outcome of None \<Rightarrow> (0, 0, False) | Some out \<Rightarrow> (aqo_messages out, aqo_bytes out, True))
      in case aq_clock E w of
           (now, w1) \<Rightarrow>
             (\<lparr>aqm_action = action, aqm_duration_us = as_micros (saturating_duration_since now start),
               aqm_messages = messages, aqm_bytes = bytes, aqm_published = published\<rparr>, w1))"

definition amq_new :: "amq_config \<Rightarrow> amq_producer" where
  "amq_new c = \<lparr>aqp_config = c, aqp_history = []\<rparr>"

definition amq_call ::
    "'w amq_lib \<Rightarrow> string \<times> string \<Rightarrow> amq_producer \<Rightarrow> 'w \<Rightarrow> (amq_error, string) result \<times> amq_producer \<times> 'w" where
  "amq_call E q b w =
     (let (action, payload_json) = q
      in case aq_clock E w of
           (start, w1) \<Rightarrow>
             (case amq_dispatch E (aqp_config b) action payload_json w1 of
                (result, w2) \<Rightarrow>
                  (case amq_build_metric E action (result_ok result) start w2 of
                     (m, w3) \<Rightarrow>
                       (map_ok aqo_json result, b\<lparr>aqp_history := collector_record (aqp_history b) m\<rparr>, w3))))"

definition amq_drain_metrics :: "wire_lib \<Rightarrow> amq_producer \<Rightarrow> amq_metric list" where
  "amq_drain_metrics W b = drain_amq W (aqp_history b)"

section \<open>The faults of the component\<close>

definition amq_faults :: "fault list" where
  "amq_faults = [AMQ_FALLBACK, AMQ_CONNECTION, AMQ_BATCH, AMQ_TIMEOUT, AMQ_UNSUPPORTED]"

lemma amq_error_faults [simp]:
  "aqe_fault (amq_fallback m) \<in> set amq_faults" "aqe_fault (amq_connection m) \<in> set amq_faults"
  "aqe_fault (amq_unsupported m) \<in> set amq_faults" "classify_request_error E m \<in> set amq_faults"
  "AMQ_BATCH \<in> set amq_faults"
  by (simp_all add: ctor_defs amq_faults_def classify_request_error_def Let_def)

lemma amq_publish_each_fault:
  "amq_publish_each publish what n ms w = (Inl e, w') \<Longrightarrow> aqe_fault e \<in> set amq_faults"
  by (induction publish what n ms w rule: amq_publish_each.induct) (auto simp: Let_def split: result_splits)

lemma nats_connect_fault: "nats_connect E c w = (Inl e, w') \<Longrightarrow> aqe_fault e \<in> set amq_faults"
  by (auto simp: nats_connect_def map_err_Inl_iff split: prod.splits)

lemma amq_publish_batch_fault:
  "amq_publish_batch E c ms w = (Inl e, w') \<Longrightarrow> aqe_fault e \<in> set amq_faults"
  by (auto simp: amq_publish_batch_def amq_tls_adaptor_def split: result_splits dest: amq_publish_each_fault)

lemma nats_publish_fault: "nats_publish E c ms w = (Inl e, w') \<Longrightarrow> aqe_fault e \<in> set amq_faults"
  by (auto simp: nats_publish_def split: result_splits dest: amq_publish_each_fault nats_connect_fault)

lemma amq_do_send_fault: "amq_do_send E c pj w = (Inl e, w') \<Longrightarrow> aqe_fault e \<in> set amq_faults"
  by (auto simp: amq_do_send_def amq_parse_send_def amq_build_runtime_def map_err_Inl_iff Let_def
      split: result_splits amq_backend.splits dest: amq_publish_batch_fault nats_publish_fault)

lemma amq_do_request_fault: "amq_do_request E c pj w = (Inl e, w') \<Longrightarrow> aqe_fault e \<in> set amq_faults"
  by (auto simp: amq_do_request_def nats_request_def amq_build_runtime_def map_err_Inl_iff Let_def
      split: result_splits dest: nats_connect_fault)

lemma amq_dispatch_fault: "amq_dispatch E c action pj w = (Inl e, w') \<Longrightarrow> aqe_fault e \<in> set amq_faults"
  by (auto simp: amq_dispatch_def dest: amq_do_send_fault amq_do_request_fault split: if_splits)

section \<open>The metering contract\<close>

lemma amq_call_unfold:
  assumes "amq_call E (action, pj) b w = (r, b', w')"
  obtains start w1 res w2 m where
    "aq_clock E w = (start, w1)" "amq_dispatch E (aqp_config b) action pj w1 = (res, w2)"
    "amq_build_metric E action (result_ok res) start w2 = (m, w')" "r = map_ok aqo_json res"
    "b' = b\<lparr>aqp_history := aqp_history b @ [m]\<rparr>"
  using assms by (auto simp: amq_call_def collector_record_def split: prod.splits)

lemma amq_build_metric_action: "amq_build_metric E action r start w = (m, w') \<Longrightarrow> aqm_action m = action"
  by (auto simp: amq_build_metric_def split: prod.splits)

interpretation amq: fully_metered "amq_call E" aqp_history aqp_config aqm_action fst
  for E :: "'w amq_lib"
proof unfold_locales
  fix q b and w :: 'w and r b' w'
  assume c: "amq_call E q b w = (r, b', w')"
  obtain action pj where q: "q = (action, pj)" by (cases q)
  from c [unfolded q] obtain start w2 m and res :: "(amq_error, amq_send_outcome) result"
    where m: "amq_build_metric E action (result_ok res) start w2 = (m, w')"
    "b' = b\<lparr>aqp_history := aqp_history b @ [m]\<rparr>" by (rule amq_call_unfold) blast
  show "aqp_config b' = aqp_config b" using m by simp
  show "aqp_history b' = aqp_history b \<or>
      (\<exists>m. aqp_history b' = aqp_history b @ [m] \<and> aqm_action m = fst q)"
    using m q by (auto dest: amq_build_metric_action)
  show "aqp_history b' \<noteq> aqp_history b" using m by simp
qed

lemma amq_call_fault:
  assumes "amq_call E (action, pj) b w = (Inl e, b', w')"
  shows "aqe_fault e \<in> set amq_faults"
proof -
  from assms obtain w1 res w2 where "amq_dispatch E (aqp_config b) action pj w1 = (res, w2)"
      "Inl e = map_ok aqo_json res"
    by (rule amq_call_unfold) blast
  then show ?thesis by (cases res) (auto dest: amq_dispatch_fault)
qed

lemma amq_faults_retry_rule: "f \<in> set amq_faults \<Longrightarrow> retry_rule f"
  by (auto simp: amq_faults_def fault_defs)

section \<open>A broker behind the driver\<close>

text \<open>What the brokers document of a publish, seen through a view of the world as the log of accepted
  messages: a confirmed publish appends its message, and connecting, flushing, closing and reading
  the clock append nothing.\<close>
definition amq_is_log :: "'w amq_lib \<Rightarrow> ('w \<Rightarrow> amq_message list) \<Rightarrow> bool" where
  "amq_is_log E log \<longleftrightarrow>
     (\<forall>h body ex k w w1. aq_basic_publish E h body ex k w = (Inr (), w1) \<longrightarrow>
        log w1 = log w @ [\<lparr>aqg_key = k, aqg_payload = body\<rparr>]) \<and>
     (\<forall>h k body w w1. aq_nats_publish E h k body w = (Inr (), w1) \<longrightarrow>
        log w1 = log w @ [\<lparr>aqg_key = k, aqg_payload = body\<rparr>]) \<and>
     (\<forall>w. log (snd (aq_clock E w)) = log w) \<and> (\<forall>w. log (snd (aq_build_runtime E w)) = log w) \<and>
     (\<forall>ca host w. log (snd (aq_tls E ca host w)) = log w) \<and> (\<forall>a w. log (snd (aq_open E a w)) = log w) \<and>
     (\<forall>h w. log (snd (aq_open_channel E h w)) = log w) \<and> (\<forall>h w. log (snd (aq_close_channel E h w)) = log w) \<and>
     (\<forall>h w. log (snd (aq_close_connection E h w)) = log w) \<and>
     (\<forall>a opts w. log (snd (aq_nats_connect E a opts w)) = log w) \<and> (\<forall>h w. log (snd (aq_nats_flush E h w)) = log w)"

lemma amq_is_log_publish:
  assumes "amq_is_log E log"
  shows "aq_basic_publish E h (aqg_payload m) ex (aqg_key m) w = (Inr (), w1) \<Longrightarrow> log w1 = log w @ [m]"
    and "aq_nats_publish E h (aqg_key m) (aqg_payload m) w = (Inr (), w1) \<Longrightarrow> log w1 = log w @ [m]"
  using assms by (simp_all add: amq_is_log_def)

lemma amq_is_log_keep:
  assumes "amq_is_log E log"
  shows "aq_clock E w = (t, w1) \<Longrightarrow> log w1 = log w"
    and "aq_build_runtime E w = (r, w1) \<Longrightarrow> log w1 = log w"
    and "aq_tls E ca host w = (x, w1) \<Longrightarrow> log w1 = log w"
    and "aq_open E a w = (y, w1) \<Longrightarrow> log w1 = log w"
    and "aq_open_channel E h w = (y, w1) \<Longrightarrow> log w1 = log w"
    and "aq_close_channel E h w = (z, w1) \<Longrightarrow> log w1 = log w"
    and "aq_close_connection E h w = (z, w1) \<Longrightarrow> log w1 = log w"
    and "aq_nats_connect E s opts w = (y, w1) \<Longrightarrow> log w1 = log w"
    and "aq_nats_flush E h w = (z, w1) \<Longrightarrow> log w1 = log w"
  using assms by (metis amq_is_log_def snd_conv)+

text \<open>The loop: on success every message was published, in order, and the tot is the saturating sum
  of the body lengths.\<close>
lemma amq_publish_each_ok:
  assumes pub: "\<And>m w w1. publish m w = (Inr (), w1) \<Longrightarrow> log w1 = log w @ [m]"
    and run: "amq_publish_each publish what n ms w = (Inr tot, w')" and n: "n \<le> usize_max"
  shows "log w' = log w @ ms \<and> tot = min usize_max (n + sum_list (map (\<lambda>m. length (aqg_payload m)) ms))"
  using run n
proof (induction ms arbitrary: n w)
  case Nil
  then show ?case by simp
next
  case (Cons m ms)
  from Cons.prems obtain w1 where p: "publish m w = (Inr (), w1)"
      and r: "amq_publish_each publish what (usize_saturating_add n (length (aqg_payload m))) ms w1 = (Inr tot, w')"
    by (auto simp: Let_def split: result_splits)
  from Cons.IH [OF r] pub [OF p] show ?case
    by (simp add: usize_saturating_add_def min_def)
qed

lemma amq_publish_batch_ok:
  assumes law: "amq_is_log E log" and run: "amq_publish_batch E c ms w = (Inr tot, w')"
  shows "log w' = log w @ ms \<and> tot = min usize_max (sum_list (map (\<lambda>m. length (aqg_payload m)) ms))"
proof -
  from run obtain ad w1 cn w2 ch w3 w4 x w5 y where u: "amq_tls_adaptor E c w = (Inr ad, w1)"
      "aq_open E (amq_open_args c ad) w1 = (Inr cn, w2)" "aq_open_channel E cn w2 = (Inr ch, w3)"
      "amq_publish_each (\<lambda>m. aq_basic_publish E ch (aqg_payload m) (aqc_exchange c) (aqg_key m)) ''amq'' 0 ms w3 = (Inr tot, w4)"
      "aq_close_channel E ch w4 = (x, w5)" "aq_close_connection E cn w5 = (y, w')"
    by (auto simp: amq_publish_batch_def split: result_splits)
  have "log w1 = log w" using u(1) amq_is_log_keep(3) [OF law]
    by (auto simp: amq_tls_adaptor_def split: result_splits)
  moreover have "log w4 = log w3 @ ms \<and> tot = min usize_max (0 + sum_list (map (\<lambda>m. length (aqg_payload m)) ms))"
    by (rule amq_publish_each_ok [OF _ u(4)]) (auto dest: amq_is_log_publish [OF law])
  ultimately show ?thesis
    using amq_is_log_keep(4) [OF law u(2)] amq_is_log_keep(5) [OF law u(3)] amq_is_log_keep(6) [OF law u(5)]
      amq_is_log_keep(7) [OF law u(6)] by simp
qed

lemma nats_publish_ok:
  assumes law: "amq_is_log E log" and run: "nats_publish E c ms w = (Inr tot, w')"
  shows "log w' = log w @ ms \<and> tot = min usize_max (sum_list (map (\<lambda>m. length (aqg_payload m)) ms))"
proof -
  from run obtain cl w1 w2 x where u: "nats_connect E c w = (Inr cl, w1)"
      "amq_publish_each (\<lambda>m. aq_nats_publish E cl (aqg_key m) (aqg_payload m)) ''nats'' 0 ms w1 = (Inr tot, w2)"
      "aq_nats_flush E cl w2 = (Inr x, w')"
    by (auto simp: nats_publish_def split: result_splits)
  have "log w1 = log w" using u(1) amq_is_log_keep(8) [OF law] by (auto simp: nats_connect_def split: prod.splits)
  moreover have "log w2 = log w1 @ ms \<and> tot = min usize_max (0 + sum_list (map (\<lambda>m. length (aqg_payload m)) ms))"
    by (rule amq_publish_each_ok [OF _ u(2)]) (auto dest: amq_is_log_publish [OF law])
  ultimately show ?thesis using amq_is_log_keep(9) [OF law u(3)] by simp
qed

definition amq_published_json :: "nat \<Rightarrow> string" where
  "amq_published_json n = CHR ''{'' # quot # ''published'' @ quot # '':'' @ show_nat n @ ''}''"

lemma amq_do_send_ok:
  assumes law: "amq_is_log E log" and run: "amq_do_send E c pj w = (Inr out, w')"
  shows "\<exists>ms. amq_parse_send E pj = Inr ms \<and> 1 \<le> length ms \<and> length ms \<le> aqc_max_batch c \<and> log w' = log w @ ms \<and>
    out = \<lparr>aqo_json = amq_published_json (length ms), aqo_messages = length ms,
           aqo_bytes = min usize_max (sum_list (map (\<lambda>m. length (aqg_payload m)) ms))\<rparr>"
proof -
  from run obtain ms w1 tot where u: "amq_parse_send E pj = Inr ms" "length ms \<noteq> 0" "length ms \<le> aqc_max_batch c"
      "amq_build_runtime E w = (Inr (), w1)"
      "(case aqc_backend c of Rabbitmq \<Rightarrow> amq_publish_batch E c ms w1 | Nats \<Rightarrow> nats_publish E c ms w1) = (Inr tot, w')"
      "out = \<lparr>aqo_json = amq_published_json (length ms), aqo_messages = length ms, aqo_bytes = tot\<rparr>"
    by (auto simp: amq_do_send_def amq_published_json_def Let_def split: result_splits)
  have "log w1 = log w" using u(4) amq_is_log_keep(2) [OF law] by (auto simp: amq_build_runtime_def split: prod.splits)
  with u amq_publish_batch_ok [OF law] nats_publish_ok [OF law] show ?thesis
    by (cases "aqc_backend c") (auto simp: Suc_le_eq)
qed

section \<open>A concrete outside for witnesses\<close>

text \<open>The world is the log of published messages; a \<^verbatim>\<open>send\<close> payload is the body of its single message,
  or of none when empty; every request is answered with the text it was sent.\<close>
definition amq_ref :: "amq_message list amq_lib" where
  "amq_ref =
     \<lparr>aq_json = \<lparr>from_str = (\<lambda>s. if s = ''wrapped'' then Inr (json_object [(''reply'', VNull)]) else Inr VNull),
        from_str_array = (\<lambda>_. Inl ''json''), to_string = (\<lambda>_. Inr ''json''),
        value_to_string = (\<lambda>v. if v = json_object [(''reply'', VNull)] then ''wrapped'' else ''json''),
        number_as_i64 = (\<lambda>_. None), number_as_u64 = (\<lambda>_. None),
        number_as_f64 = (\<lambda>_. None), number_from_f64 = (\<lambda>_. None)\<rparr>,
      aq_clock = (\<lambda>w. (0, w)), aq_build_runtime = (\<lambda>w. (Inr (), w)),
      aq_tls = (\<lambda>_ _ w. (Inr 1, w)), aq_open = (\<lambda>_ w. (Inr 2, w)), aq_open_channel = (\<lambda>_ w. (Inr 3, w)),
      aq_basic_publish = (\<lambda>_ body _ k w. (Inr (), w @ [\<lparr>aqg_key = k, aqg_payload = body\<rparr>])),
      aq_close_channel = (\<lambda>_ w. (Inr (), w)), aq_close_connection = (\<lambda>_ w. (Inr (), w)),
      aq_nats_connect = (\<lambda>_ _ w. (Inr 4, w)),
      aq_nats_publish = (\<lambda>_ k body w. (Inr (), w @ [\<lparr>aqg_key = k, aqg_payload = body\<rparr>])),
      aq_nats_flush = (\<lambda>_ w. (Inr (), w)), aq_nats_request = (\<lambda>_ _ body w. (Inr body, w)),
      aq_utf8_lossy = (\<lambda>s. s), aq_lowercase = ascii_lower,
      de_amq_send = (\<lambda>s. Inr (if s = [] then None else Some [\<lparr>arw_key = Some ''jobs'', arw_payload = Some s\<rparr>])),
      de_amq_request = (\<lambda>s. Inr \<lparr>arr_subject = Some ''jobs'', arr_payload = Some s\<rparr>)\<rparr>"

definition amq_config_ref :: "amq_backend \<Rightarrow> amq_config" where
  "amq_config_ref k =
     \<lparr>aqc_backend = k, aqc_host = ''mq'', aqc_port = None, aqc_username = None, aqc_password = None,
      aqc_token = None, aqc_vhost = amq_default_vhost, aqc_exchange = [], aqc_max_batch = amq_default_max_batch,
      aqc_request_timeout_ms = amq_default_request_timeout, aqc_tls = True, aqc_ca_cert = None\<rparr>"

lemma amq_ref_is_log: "amq_is_log amq_ref (\<lambda>w. w)"
  by (simp add: amq_is_log_def amq_ref_def)

lemmas amq_eval = amq_ref_def amq_config_ref_def amq_new_def amq_call_def amq_dispatch_def amq_do_send_def
  amq_parse_send_def amq_fill_message_def amq_build_runtime_def amq_publish_batch_def amq_tls_adaptor_def
  amq_build_metric_def amq_default_max_batch_def collector_record_def

section \<open>Properties\<close>

text \<open>A \<^verbatim>\<open>send\<close> that succeeds has published every message of its batch, exactly once and in order, over
  either broker; the batch was not empty and within \<^verbatim>\<open>max_batch\<close>; the reply counts the messages, and the
  one recorded metric has their number and the saturating sum of their body lengths.\<close>
theorem amq_send_publishes_batch:
  assumes law: "amq_is_log E log" and call: "amq_call E (''send'', pj) b w = (Inr reply, b', w')"
  shows "\<exists>ms m. amq_parse_send E pj = Inr ms \<and> 1 \<le> length ms \<and> length ms \<le> aqc_max_batch (aqp_config b) \<and>
    log w' = log w @ ms \<and> reply = amq_published_json (length ms) \<and> aqp_history b' = aqp_history b @ [m] \<and>
    aqm_published m \<and> aqm_messages m = length ms \<and>
    aqm_bytes m = min usize_max (sum_list (map (\<lambda>m. length (aqg_payload m)) ms))"
proof -
  from call obtain start w1 res w2 m where u: "aq_clock E w = (start, w1)"
      "amq_dispatch E (aqp_config b) ''send'' pj w1 = (res, w2)"
      "amq_build_metric E ''send'' (result_ok res) start w2 = (m, w')" "Inr reply = map_ok aqo_json res"
      "b' = b\<lparr>aqp_history := aqp_history b @ [m]\<rparr>" by (rule amq_call_unfold)
  from u(4) obtain out where out: "res = Inr out" "reply = aqo_json out" by (cases res) auto
  with u(2) have "amq_do_send E (aqp_config b) pj w1 = (Inr out, w2)" by (simp add: amq_dispatch_def)
  from amq_do_send_ok [OF law this] u out amq_is_log_keep(1) [OF law] show ?thesis
    by (fastforce simp: amq_build_metric_def split: prod.splits)
qed

theorem amq_send_publishes_batch_witness:
  "\<exists>b'. amq_call amq_ref (''send'', ''42'') (amq_new (amq_config_ref Rabbitmq)) [] =
     (Inr (amq_published_json 1), b', [\<lparr>aqg_key = ''jobs'', aqg_payload = ''42''\<rparr>]) \<and>
     map aqm_bytes (aqp_history b') = [2]"
proof -
  let ?r = "amq_call amq_ref (''send'', ''42'') (amq_new (amq_config_ref Rabbitmq)) []"
  have e: "fst ?r = Inr (amq_published_json 1)" "snd (snd ?r) = [\<lparr>aqg_key = ''jobs'', aqg_payload = ''42''\<rparr>]"
    "amq_parse_send amq_ref ''42'' = Inr [\<lparr>aqg_key = ''jobs'', aqg_payload = ''42''\<rparr>]"
    by (simp_all add: amq_eval amq_published_json_def)
  obtain b' where c: "?r = (Inr (amq_published_json 1), b', [\<lparr>aqg_key = ''jobs'', aqg_payload = ''42''\<rparr>])"
    using e by (cases ?r) auto
  from amq_send_publishes_batch [OF amq_ref_is_log c] e(3) c show ?thesis
    by (auto simp: usize_max_def amq_new_def)
qed

text \<open>The limits are checked before anything reaches a broker: an empty batch, a batch over
  \<^verbatim>\<open>max_batch\<close>, a \<^verbatim>\<open>request\<close> on RabbitMQ and an unknown action are refused with their own codes, and of the
  outside world the call has only read the clock.\<close>
theorem amq_refusals_touch_no_broker:
  assumes q: "(action = ''send'' \<and> amq_parse_send E pj = Inr ms \<and> ms = [] \<and> code = ''AMQ_ERROR'') \<or>
     (action = ''send'' \<and> amq_parse_send E pj = Inr ms \<and> aqc_max_batch (aqp_config b) < length ms \<and> ms \<noteq> [] \<and>
        code = ''AMQ_BATCH_TOO_LARGE'') \<or>
     (action = ''request'' \<and> aqc_backend (aqp_config b) = Rabbitmq \<and> code = ''AMQ_UNSUPPORTED'') \<or>
     (action \<notin> {''send'', ''request''} \<and> code = ''AMQ_ERROR'')"
  shows "\<exists>e b'. amq_call E (action, pj) b w = (Inl e, b', snd (aq_clock E (snd (aq_clock E w)))) \<and>
     f_code (aqe_fault e) = code \<and> map aqm_published (aqp_history b') = map aqm_published (aqp_history b) @ [False]"
proof -
  have "\<exists>e. amq_dispatch E (aqp_config b) action pj v = (Inl e, v) \<and> f_code (aqe_fault e) = code" for v
    using q by (auto simp: amq_dispatch_def amq_do_send_def amq_do_request_def ctor_defs fault_defs)
  moreover obtain t w1 t2 w2 where "aq_clock E w = (t, w1)" "aq_clock E w1 = (t2, w2)" by fastforce
  ultimately obtain e where "amq_dispatch E (aqp_config b) action pj w1 = (Inl e, w1)" "f_code (aqe_fault e) = code"
      "aq_clock E w = (t, w1)" "aq_clock E w1 = (t2, w2)" by blast
  then show ?thesis
    by (simp add: amq_call_def amq_build_metric_def collector_record_def)
qed

theorem amq_refusals_touch_no_broker_witness:
  "\<exists>e b'. amq_call amq_ref (''request'', ''1'') (amq_new (amq_config_ref Rabbitmq)) [] = (Inl e, b', []) \<and>
     f_code (aqe_fault e) = ''AMQ_UNSUPPORTED''"
  using amq_refusals_touch_no_broker [of "''request''" amq_ref "''1''" "[]" "''AMQ_UNSUPPORTED''"
      "amq_new (amq_config_ref Rabbitmq)" "[]"]
  by (auto simp: amq_ref_def amq_config_ref_def amq_new_def)

text \<open>A request's reply reaches the box under the key \<^verbatim>\<open>reply\<close>, so a reply body that has an \<^verbatim>\<open>error\<close>
  field of its own is never read as a capability error, provided the JSON parser
  reads that reply back as the value that was printed.\<close>
theorem amq_reply_never_looks_like_error:
  assumes rt: "\<And>v. value_to_string (aq_json E) (json_object [(''reply'', v)]) = reply \<Longrightarrow>
      from_str (aq_json E) reply = Inr (json_object [(''reply'', v)])"
    and call: "amq_call E (''request'', pj) b w = (Inr reply, b', w')"
  shows "\<exists>v. from_str (aq_json E) reply = Inr v \<and> value_get ''error'' v = None \<and> value_get ''reply'' v \<noteq> None"
proof -
  from call obtain w1 res w2 where u: "amq_dispatch E (aqp_config b) ''request'' pj w1 = (res, w2)"
      "Inr reply = map_ok aqo_json res" by (rule amq_call_unfold) blast
  from u(2) obtain out where out: "res = Inr out" "reply = aqo_json out" by (cases res) auto
  with u(1) obtain body where "reply = nats_wrap_reply E body"
    by (auto simp: amq_dispatch_def amq_do_request_def nats_request_def Let_def split: result_splits)
  then obtain v where "value_to_string (aq_json E) (json_object [(''reply'', v)]) = reply"
    by (auto simp: nats_wrap_reply_def Let_def)
  from rt [OF this] show ?thesis by simp
qed

theorem amq_reply_never_looks_like_error_witness:
  "\<exists>v. from_str (aq_json amq_ref) ''wrapped'' = Inr v \<and> value_get ''error'' v = None \<and> value_get ''reply'' v \<noteq> None"
proof -
  have rt: "from_str (aq_json amq_ref) ''wrapped'' = Inr (json_object [(''reply'', v)])"
    if "value_to_string (aq_json amq_ref) (json_object [(''reply'', v)]) = ''wrapped''" for v
    using that by (auto simp: amq_ref_def split: if_splits)
  have "fst (amq_call amq_ref (''request'', ''1'') (amq_new (amq_config_ref Nats)) []) = Inr ''wrapped''"
    by (simp add: amq_eval amq_do_request_def amq_fill_request_def nats_request_def nats_connect_def nats_wrap_reply_def)
  then obtain b' w' where c: "amq_call amq_ref (''request'', ''1'') (amq_new (amq_config_ref Nats)) [] = (Inr ''wrapped'', b', w')"
    by (cases "amq_call amq_ref (''request'', ''1'') (amq_new (amq_config_ref Nats)) []") auto
  from rt c show ?thesis by (rule amq_reply_never_looks_like_error)
qed

end
