(* ===== verification/Oidc.thy ===== *)
theory Oidc
  imports Metering
begin

text \<open>
  The identity backend, \<^verbatim>\<open>crates/fabric-backends/src/auth.rs\<close>: \<^verbatim>\<open>user_info\<close> and \<^verbatim>\<open>introspect\<close> against an
  OIDC issuer, endpoint resolution with the discovery memo, the status tables and the metric.  The HTTP
  client, the URL parser and the percent encoder are the fields of \<open>auth_lib\<close>.
\<close>

section \<open>Data\<close>

definition AUTH_UNAVAILABLE :: fault where
  [fault_defs]: "AUTH_UNAVAILABLE = mk_fault ''AUTH_UNAVAILABLE'' True Operator"

definition AUTH_REQUEST :: fault where
  [fault_defs]: "AUTH_REQUEST = mk_fault ''AUTH_REQUEST'' False Operator"

definition auth_default_timeout :: u64 where "auth_default_timeout = 10000"

record auth_config =
  auc_issuer :: string
  auc_userinfo_url :: "string option"
  auc_introspect_url :: "string option"
  auc_client_id :: string
  auc_client_secret :: string
  auc_timeout_ms :: u64

record endpoints =
  ep_userinfo :: "string option"
  ep_introspect :: "string option"

record auth_error =
  aue_fault :: fault
  aue_message :: string
  aue_details :: "json_value option"

record auth_outcome =
  auo_json :: string
  auo_status :: u16

text \<open>A prepared HTTP request: what the builder chain of the sources collects.\<close>
datatype http_method = GET | POST

record http_request =
  hr_method :: http_method
  hr_url :: string
  hr_bearer :: "string option"
  hr_basic :: "(string \<times> string) option"
  hr_content_type :: "string option"
  hr_body :: "string option"

definition http_get :: "string \<Rightarrow> http_request" where
  "http_get url = \<lparr>hr_method = GET, hr_url = url, hr_bearer = None, hr_basic = None, hr_content_type = None,
                   hr_body = None\<rparr>"

text \<open>\<open>au_parse_url\<close> gives the host part of a URL that parses; \<open>au_percent_encode\<close> is
  \<^verbatim>\<open>utf8_percent_encode(_, NON_ALPHANUMERIC)\<close>.\<close>
record 'w auth_lib =
  au_json :: json_lib
  au_clock :: "'w clock"
  au_build_client :: "duration \<Rightarrow> ('w, (string, handle) result) io"
  au_send :: "handle \<Rightarrow> http_request \<Rightarrow> ('w, (string, u16 \<times> handle) result) io"
  au_text :: "handle \<Rightarrow> ('w, (string, string) result) io"
  au_parse_url :: "string \<Rightarrow> (string, string option) result"
  au_percent_encode :: "string \<Rightarrow> string"

text \<open>The client and configuration of \<^verbatim>\<open>AuthState\<close>, its discovery memo (behind a mutex that may be
  poisoned), the metric host and the metrics recorded so far.\<close>
record auth_backend =
  aub_client :: handle
  aub_config :: auth_config
  aub_discovery :: "endpoints option"
  aub_poisoned :: bool
  aub_host :: string
  aub_history :: "auth_metric collector"

section \<open>Errors\<close>

definition auth_error_new :: "fault \<Rightarrow> string \<Rightarrow> auth_error" where
  [ctor_defs]: "auth_error_new f message = \<lparr>aue_fault = f, aue_message = message, aue_details = None\<rparr>"

definition auth_with_status :: "fault \<Rightarrow> string \<Rightarrow> u16 \<Rightarrow> auth_error" where
  [ctor_defs]: "auth_with_status f message status =
     \<lparr>aue_fault = f, aue_message = message @ '' (status '' @ show_nat (unat status) @ '')'',
      aue_details = Some (json_object [(''http_status'', json_nat (unat status))])\<rparr>"

definition auth_from_transport :: "string \<Rightarrow> auth_error" where
  [ctor_defs]: "auth_from_transport err = auth_error_new AUTH_UNAVAILABLE (''auth request failed: '' @ err)"

definition auth_into_resource_error :: "auth_error \<Rightarrow> egress_error" where
  [ctor_defs]: "auth_into_resource_error e =
     \<lparr>ee_code = f_code (aue_fault e), ee_message = aue_message e, ee_source = ''auth'',
      ee_details = aue_details e, ee_retryable = f_retryable (aue_fault e), ee_owner = f_owner (aue_fault e)\<rparr>"

section \<open>HTTP and JSON helpers\<close>

definition auth_send :: "'w auth_lib \<Rightarrow> handle \<Rightarrow> http_request \<Rightarrow> ('w, (auth_error, u16 \<times> string) result) io" where
  "auth_send E client req w =
     (case au_send E client req w of
        (Inl err, w1) \<Rightarrow> (Inl (auth_from_transport err), w1)
      | (Inr (status, response), w1) \<Rightarrow>
          (case au_text E response w1 of
             (Inl err, w2) \<Rightarrow> (Inl (auth_error_new AUTH_UNAVAILABLE (''failed to read response: '' @ err)), w2)
           | (Inr body, w2) \<Rightarrow> (Inr (status, body), w2)))"

definition auth_parse_claims :: "'w auth_lib \<Rightarrow> string \<Rightarrow> u16 \<Rightarrow> (auth_error, json_value) result" where
  "auth_parse_claims E body status =
     map_err (\<lambda>err. auth_with_status AUTH_REQUEST (''invalid claims JSON: '' @ err) status)
       (from_str (au_json E) body)"

definition auth_string_field :: "json_value \<Rightarrow> string \<Rightarrow> string option" where
  "auth_string_field doc key =
     non_empty (case value_get key doc of None \<Rightarrow> None | Some v \<Rightarrow> value_as_str v)"

text \<open>The object \<^verbatim>\<open>{"ok":false,"status":0,"code":"AUTH_INVALID_TOKEN"}\<close>, as text.\<close>
definition auth_encode_fallback :: string where
  "auth_encode_fallback =
     ''{'' @ [quot] @ ''ok'' @ [quot] @ '':false,'' @ [quot] @ ''status'' @ [quot] @ '':0,'' @
     [quot] @ ''code'' @ [quot] @ '':'' @ [quot] @ ''AUTH_INVALID_TOKEN'' @ [quot] @ ''}''"

definition auth_encode :: "'w auth_lib \<Rightarrow> json_value \<Rightarrow> string" where
  "auth_encode E v = to_string_or (au_json E) auth_encode_fallback v"

definition ok_claims_value :: "json_value \<Rightarrow> json_value" where
  "ok_claims_value claims = json_object [(''ok'', VBool True), (''claims'', claims)]"

definition invalid_token_value :: "u16 \<Rightarrow> json_value" where
  "invalid_token_value status =
     json_object [(''ok'', VBool False), (''status'', json_nat (unat status)), (''code'', VString ''AUTH_INVALID_TOKEN'')]"

definition ok_claims_json :: "'w auth_lib \<Rightarrow> json_value \<Rightarrow> string" where
  "ok_claims_json E claims = auth_encode E (ok_claims_value claims)"

definition invalid_token_json :: "'w auth_lib \<Rightarrow> u16 \<Rightarrow> string" where
  "invalid_token_json E status = auth_encode E (invalid_token_value status)"

definition issuer_host :: "'w auth_lib \<Rightarrow> string \<Rightarrow> string" where
  "issuer_host E issuer =
     (case au_parse_url E issuer of Inr (Some host) \<Rightarrow> host | _ \<Rightarrow> ''unknown'')"

section \<open>Endpoint resolution\<close>

definition discovery_url :: "string \<Rightarrow> string" where
  "discovery_url issuer = trim_end_matches CHR ''/'' issuer @ ''/.well-known/openid-configuration''"

definition fetch_discovery :: "'w auth_lib \<Rightarrow> auth_backend \<Rightarrow> ('w, (auth_error, endpoints) result) io" where
  "fetch_discovery E b w =
     (case auth_send E (aub_client b) (http_get (discovery_url (auc_issuer (aub_config b)))) w of
        (Inl e, w1) \<Rightarrow> (Inl e, w1)
      | (Inr (status, body), w1) \<Rightarrow>
          (if \<not> (200 \<le> status \<and> status \<le> 299)
           then (Inl (auth_with_status AUTH_REQUEST ''OIDC discovery failed'' status), w1)
           else (case from_str (au_json E) body of
                   Inl err \<Rightarrow> (Inl (auth_error_new AUTH_REQUEST (''invalid discovery document: '' @ err)), w1)
                 | Inr doc \<Rightarrow>
                     (Inr \<lparr>ep_userinfo = auth_string_field doc ''userinfo_endpoint'',
                           ep_introspect = auth_string_field doc ''introspection_endpoint''\<rparr>, w1))))"

text \<open>The memo is read and written only through a lock that was obtained; a poisoned mutex means a
  fetch each time.\<close>
definition discover_endpoints ::
    "'w auth_lib \<Rightarrow> auth_backend \<Rightarrow> 'w \<Rightarrow> (auth_error, endpoints) result \<times> auth_backend \<times> 'w" where
  "discover_endpoints E b w =
     (case (if aub_poisoned b then None else aub_discovery b) of
        Some endpoints \<Rightarrow> (Inr endpoints, b, w)
      | None \<Rightarrow>
          (case fetch_discovery E b w of
             (Inl e, w1) \<Rightarrow> (Inl e, b, w1)
           | (Inr endpoints, w1) \<Rightarrow>
               (Inr endpoints, (if aub_poisoned b then b else b\<lparr>aub_discovery := Some endpoints\<rparr>), w1)))"

definition auth_resolve ::
    "'w auth_lib \<Rightarrow> string option \<Rightarrow> (endpoints \<Rightarrow> string option) \<Rightarrow> string \<Rightarrow> auth_backend \<Rightarrow> 'w \<Rightarrow>
     (auth_error, string) result \<times> auth_backend \<times> 'w" where
  "auth_resolve E override field missing b w =
     (case override of
        Some url \<Rightarrow> (Inr url, b, w)
      | None \<Rightarrow>
          (case discover_endpoints E b w of
             (Inl e, b1, w1) \<Rightarrow> (Inl e, b1, w1)
           | (Inr endpoints, b1, w1) \<Rightarrow>
               (ok_or (auth_error_new AUTH_REQUEST missing) (field endpoints), b1, w1)))"

definition resolve_userinfo :: "'w auth_lib \<Rightarrow> auth_backend \<Rightarrow> 'w \<Rightarrow> (auth_error, string) result \<times> auth_backend \<times> 'w" where
  "resolve_userinfo E b =
     auth_resolve E (auc_userinfo_url (aub_config b)) ep_userinfo ''issuer exposes no userinfo_endpoint'' b"

definition resolve_introspect :: "'w auth_lib \<Rightarrow> auth_backend \<Rightarrow> 'w \<Rightarrow> (auth_error, string) result \<times> auth_backend \<times> 'w" where
  "resolve_introspect E b =
     auth_resolve E (auc_introspect_url (aub_config b)) ep_introspect ''issuer exposes no introspection_endpoint'' b"

section \<open>Actions\<close>

definition user_info_request :: "string \<Rightarrow> string \<Rightarrow> http_request" where
  "user_info_request url token = (http_get url)\<lparr>hr_bearer := Some token\<rparr>"

text \<open>The result of \<^verbatim>\<open>user_info\<close> from the issuer's status and body.\<close>
definition user_info_outcome :: "'w auth_lib \<Rightarrow> u16 \<Rightarrow> string \<Rightarrow> (auth_error, auth_outcome) result" where
  "user_info_outcome E status body =
     (if 200 \<le> status \<and> status \<le> 299
      then (case auth_parse_claims E body status of
              Inl e \<Rightarrow> Inl e
            | Inr claims \<Rightarrow> Inr \<lparr>auo_json = ok_claims_json E claims, auo_status = status\<rparr>)
      else if status = 401 \<or> status = 403
      then Inr \<lparr>auo_json = invalid_token_json E status, auo_status = status\<rparr>
      else if 500 \<le> status \<and> status \<le> 599
      then Inl (auth_with_status AUTH_UNAVAILABLE ''userinfo unavailable'' status)
      else Inl (auth_with_status AUTH_REQUEST ''userinfo request failed'' status))"

definition do_user_info ::
    "'w auth_lib \<Rightarrow> string \<Rightarrow> auth_backend \<Rightarrow> 'w \<Rightarrow> (auth_error, auth_outcome) result \<times> auth_backend \<times> 'w" where
  "do_user_info E token b w =
     (case resolve_userinfo E b w of
        (Inl e, b1, w1) \<Rightarrow> (Inl e, b1, w1)
      | (Inr url, b1, w1) \<Rightarrow>
          (case auth_send E (aub_client b1) (user_info_request url token) w1 of
             (Inl e, w2) \<Rightarrow> (Inl e, b1, w2)
           | (Inr (status, body), w2) \<Rightarrow> (user_info_outcome E status body, b1, w2)))"

definition introspect_form :: "'w auth_lib \<Rightarrow> string \<Rightarrow> string" where
  "introspect_form E token = ''token='' @ au_percent_encode E token"

definition introspect_request :: "'w auth_lib \<Rightarrow> auth_config \<Rightarrow> string \<Rightarrow> string \<Rightarrow> http_request" where
  "introspect_request E c url token =
     \<lparr>hr_method = POST, hr_url = url, hr_bearer = None,
      hr_basic = Some (auc_client_id c, auc_client_secret c),
      hr_content_type = Some ''application/x-www-form-urlencoded'',
      hr_body = Some (introspect_form E token)\<rparr>"

definition introspect_outcome :: "'w auth_lib \<Rightarrow> u16 \<Rightarrow> string \<Rightarrow> (auth_error, auth_outcome) result" where
  "introspect_outcome E status body =
     (if 200 \<le> status \<and> status \<le> 299
      then (case auth_parse_claims E body status of
              Inl e \<Rightarrow> Inl e
            | Inr claims \<Rightarrow> Inr \<lparr>auo_json = ok_claims_json E claims, auo_status = status\<rparr>)
      else if 500 \<le> status \<and> status \<le> 599
      then Inl (auth_with_status AUTH_UNAVAILABLE ''introspection unavailable'' status)
      else Inl (auth_with_status AUTH_REQUEST ''introspection request failed'' status))"

definition do_introspect ::
    "'w auth_lib \<Rightarrow> string \<Rightarrow> auth_backend \<Rightarrow> 'w \<Rightarrow> (auth_error, auth_outcome) result \<times> auth_backend \<times> 'w" where
  "do_introspect E token b w =
     (if auc_client_id (aub_config b) = []
      then (Inl (auth_error_new AUTH_REQUEST ''introspect requires config.auth.client_id/client_secret''), b, w)
      else (case resolve_introspect E b w of
              (Inl e, b1, w1) \<Rightarrow> (Inl e, b1, w1)
            | (Inr url, b1, w1) \<Rightarrow>
                (case auth_send E (aub_client b1) (introspect_request E (aub_config b1) url token) w1 of
                   (Inl e, w2) \<Rightarrow> (Inl e, b1, w2)
                 | (Inr (status, body), w2) \<Rightarrow> (introspect_outcome E status body, b1, w2))))"

definition auth_dispatch ::
    "'w auth_lib \<Rightarrow> string \<Rightarrow> string \<Rightarrow> auth_backend \<Rightarrow> 'w \<Rightarrow> (auth_error, auth_outcome) result \<times> auth_backend \<times> 'w" where
  [route_defs]: "auth_dispatch E action token b w =
     (if action = ''user_info'' then do_user_info E token b w
      else if action = ''introspect'' then do_introspect E token b w
      else (Inl (auth_error_new AUTH_REQUEST (''unknown auth action: '' @ action)), b, w))"

section \<open>Connecting, metrics and the call entry point\<close>

definition auth_connect_resource :: "'w auth_lib \<Rightarrow> auth_config \<Rightarrow> ('w, (egress_error, auth_backend) result) io" where
  "auth_connect_resource E c w =
     (case au_build_client E (duration_from_millis (auc_timeout_ms c)) w of
        (Inl err, w1) \<Rightarrow>
          (Inl \<lparr>ee_code = f_code AUTH_UNAVAILABLE, ee_message = ''auth client build failed: '' @ err,
                ee_source = ''auth'', ee_details = None, ee_retryable = f_retryable AUTH_UNAVAILABLE,
                ee_owner = f_owner AUTH_UNAVAILABLE\<rparr>, w1)
      | (Inr client, w1) \<Rightarrow>
          (Inr \<lparr>aub_client = client, aub_config = c, aub_discovery = None, aub_poisoned = False,
                aub_host = issuer_host E (auc_issuer c), aub_history = []\<rparr>, w1))"

definition auth_build_metric :: "'w auth_lib \<Rightarrow> string \<Rightarrow> string \<Rightarrow> u16 \<Rightarrow> instant \<Rightarrow> ('w, auth_metric) io" where
  "auth_build_metric E action host status start w =
     (case au_clock E w of
        (now, w1) \<Rightarrow>
          (\<lparr>aum_action = action, aum_host = host, aum_status = status,
            aum_duration_us = as_micros (saturating_duration_since now start)\<rparr>, w1))"

definition auth_call ::
    "'w auth_lib \<Rightarrow> string \<times> string \<Rightarrow> auth_backend \<Rightarrow> 'w \<Rightarrow> (egress_error, string) result \<times> auth_backend \<times> 'w" where
  "auth_call E q b w =
     (let (action, token) = q
      in case au_clock E w of
           (start, w1) \<Rightarrow>
             (case auth_dispatch E action token b w1 of
                (result, b1, w2) \<Rightarrow>
                  (let status = (case result of Inl _ \<Rightarrow> 0 | Inr outcome \<Rightarrow> auo_status outcome)
                   in case auth_build_metric E action (aub_host b1) status start w2 of
                        (m, w3) \<Rightarrow>
                          (map_err auth_into_resource_error (map_ok auo_json result),
                           b1\<lparr>aub_history := collector_record (aub_history b1) m\<rparr>, w3))))"

definition auth_drain_metrics :: "wire_lib \<Rightarrow> auth_backend \<Rightarrow> auth_metric list" where
  "auth_drain_metrics W b = drain_auth W (aub_history b)"

section \<open>What a call changes\<close>

text \<open>An action changes at most the memo, and that only from empty to filled.\<close>
definition memo_step :: "auth_backend \<Rightarrow> auth_backend \<Rightarrow> bool" where
  "memo_step b b' \<longleftrightarrow>
     b' = b \<or> (\<exists>ep. \<not> aub_poisoned b \<and> aub_discovery b = None \<and> b' = b\<lparr>aub_discovery := Some ep\<rparr>)"

lemma memo_step_refl [simp]: "memo_step b b"
  by (simp add: memo_step_def)

lemma memo_step_keeps:
  assumes "memo_step b b'"
  shows "aub_client b' = aub_client b" "aub_config b' = aub_config b" "aub_poisoned b' = aub_poisoned b"
    "aub_host b' = aub_host b" "aub_history b' = aub_history b"
    "aub_discovery b = Some ep \<Longrightarrow> aub_discovery b' = Some ep"
  using assms by (auto simp: memo_step_def)

lemma auth_resolve_memo: "auth_resolve E ov fld missing b w = (r, b', w') \<Longrightarrow> memo_step b b'"
  by (auto simp: auth_resolve_def discover_endpoints_def memo_step_def split: result_splits)

lemma auth_dispatch_memo: "auth_dispatch E action token b w = (r, b', w') \<Longrightarrow> memo_step b b'"
  by (auto simp: auth_dispatch_def do_user_info_def do_introspect_def resolve_userinfo_def resolve_introspect_def
      split: result_splits dest: auth_resolve_memo)

lemma auth_call_unfold:
  assumes "auth_call E (action, token) b w = (r, b', w')"
  obtains start w1 res b1 w2 m where
    "au_clock E w = (start, w1)" "auth_dispatch E action token b w1 = (res, b1, w2)" "memo_step b b1"
    "auth_build_metric E action (aub_host b1) (case res of Inl _ \<Rightarrow> 0 | Inr o1 \<Rightarrow> auo_status o1) start w2 = (m, w')"
    "r = map_err auth_into_resource_error (map_ok auo_json res)"
    "b' = b1\<lparr>aub_history := aub_history b @ [m]\<rparr>"
  using assms
  by (fastforce simp: auth_call_def collector_record_def Let_def memo_step_keeps(5) [OF auth_dispatch_memo]
      dest: auth_dispatch_memo split: prod.splits)

lemma auth_build_metric_sel:
  "auth_build_metric E action host status start w = (m, w') \<Longrightarrow>
     aum_action m = action \<and> aum_host m = host \<and> aum_status m = status"
  by (auto simp: auth_build_metric_def split: prod.splits)

abbreviation auth_fixed :: "auth_backend \<Rightarrow> handle \<times> auth_config \<times> bool \<times> string" where
  "auth_fixed b \<equiv> (aub_client b, aub_config b, aub_poisoned b, aub_host b)"

interpretation auth: fully_metered "auth_call E" aub_history auth_fixed aum_action fst
  for E :: "'w auth_lib"
proof unfold_locales
  fix q b and w :: 'w and r b' w'
  assume c: "auth_call E q b w = (r, b', w')"
  obtain action token where q: "q = (action, token)" by (cases q)
  from c [unfolded q] obtain start b1 w2 m and res :: "(auth_error, auth_outcome) result" where m: "memo_step b b1"
    "auth_build_metric E action (aub_host b1) (case res of Inl _ \<Rightarrow> 0 | Inr o1 \<Rightarrow> auo_status o1) start w2 = (m, w')"
    "b' = b1\<lparr>aub_history := aub_history b @ [m]\<rparr>" by (rule auth_call_unfold) blast
  show "auth_fixed b' = auth_fixed b" using m by (simp add: memo_step_keeps [OF m(1)])
  show "aub_history b' = aub_history b \<or> (\<exists>m. aub_history b' = aub_history b @ [m] \<and> aum_action m = fst q)"
    using m q by (auto dest: auth_build_metric_sel)
  show "aub_history b' \<noteq> aub_history b" using m by simp
qed

section \<open>The faults of the component\<close>

definition auth_faults :: "fault list" where
  "auth_faults = [AUTH_UNAVAILABLE, AUTH_REQUEST]"

lemma auth_error_faults [simp]:
  "aue_fault (auth_error_new f m) = f" "aue_fault (auth_with_status f m s) = f"
  "aue_fault (auth_from_transport m) = AUTH_UNAVAILABLE"
  "AUTH_UNAVAILABLE \<in> set auth_faults" "AUTH_REQUEST \<in> set auth_faults"
  by (simp_all add: ctor_defs auth_faults_def)

lemma auth_send_fault: "auth_send E h req w = (Inl e, w') \<Longrightarrow> aue_fault e = AUTH_UNAVAILABLE"
  by (auto simp: auth_send_def split: result_splits)

lemma auth_resolve_fault: "auth_resolve E ov fld missing b w = (Inl e, b', w') \<Longrightarrow> aue_fault e \<in> set auth_faults"
  by (auto simp: auth_resolve_def discover_endpoints_def fetch_discovery_def ok_or_def
      split: result_splits dest: auth_send_fault)

lemma auth_outcome_fault:
  "user_info_outcome E st body = Inl e \<Longrightarrow> aue_fault e \<in> set auth_faults"
  "introspect_outcome E st body = Inl e \<Longrightarrow> aue_fault e \<in> set auth_faults"
  by (auto simp: user_info_outcome_def introspect_outcome_def auth_parse_claims_def map_err_Inl_iff split: result_splits)

lemma auth_dispatch_fault: "auth_dispatch E action token b w = (Inl e, b', w') \<Longrightarrow> aue_fault e \<in> set auth_faults"
  by (auto simp: auth_dispatch_def do_user_info_def do_introspect_def resolve_userinfo_def resolve_introspect_def
      split: result_splits dest: auth_resolve_fault auth_outcome_fault auth_send_fault)

lemma auth_call_error:
  assumes "auth_call E (action, token) b w = (Inl e, b', w')"
  shows "\<exists>f \<in> set auth_faults. ee_code e = f_code f \<and> ee_retryable e = f_retryable f \<and> ee_owner e = f_owner f \<and>
    ee_source e = ''auth''"
proof -
  from assms obtain w1 res b1 w2 where "auth_dispatch E action token b w1 = (res, b1, w2)"
      "Inl e = map_err auth_into_resource_error (map_ok auo_json res)"
    by (rule auth_call_unfold) blast
  then show ?thesis by (cases res) (auto dest!: auth_dispatch_fault simp: auth_into_resource_error_def)
qed

section \<open>The discovery memo\<close>

lemma auth_memo_run:
  assumes "run_calls (auth_call E) qs b w = (rs, b', w')" "aub_discovery b = Some ep"
  shows "aub_discovery b' = Some ep"
  using assms
proof (induction qs arbitrary: b w rs)
  case Nil
  then show ?case by simp
next
  case (Cons q qs)
  obtain r b1 w1 where c: "auth_call E q b w = (r, b1, w1)" by (cases "auth_call E q b w") auto
  with Cons.prems obtain rs1 where r: "run_calls (auth_call E) qs b1 w1 = (rs1, b', w')"
    by (auto split: prod.splits)
  obtain action token where q: "q = (action, token)" by (cases q)
  from c [unfolded q] obtain b2 m where "memo_step b b2" "b1 = b2\<lparr>aub_history := aub_history b @ [m]\<rparr>"
    by (rule auth_call_unfold) blast
  with Cons.prems have "aub_discovery b1 = Some ep" by (simp add: memo_step_keeps)
  from Cons.IH [OF r this] show ?case .
qed

section \<open>A concrete outside for witnesses\<close>

text \<open>The world counts the requests sent; the issuer answers with the status on its token's length.\<close>
definition auth_ref :: "nat auth_lib" where
  "auth_ref =
     \<lparr>au_json = \<lparr>from_str = (\<lambda>s. Inr (VString s)), from_str_array = (\<lambda>_. Inl ''json''),
        to_string = (\<lambda>v. case value_get ''code'' v of Some (VString c) \<Rightarrow> Inr c | _ \<Rightarrow> Inr ''claims''),
        value_to_string = (\<lambda>_. ''json''), number_as_i64 = (\<lambda>_. None), number_as_u64 = (\<lambda>_. None),
        number_as_f64 = (\<lambda>_. None), number_from_f64 = (\<lambda>_. None)\<rparr>,
      au_clock = (\<lambda>w. (0, w)), au_build_client = (\<lambda>_ w. (Inr 1, w)),
      au_send = (\<lambda>_ req w. (Inr (if hr_bearer req = Some ''good'' then 200 else 401, 7), Suc w)),
      au_text = (\<lambda>_ w. (Inr ''body'', w)),
      au_parse_url = (\<lambda>s. Inr (Some s)), au_percent_encode = percent_encode_ref\<rparr>"

definition auth_config_ref :: auth_config where
  "auth_config_ref = \<lparr>auc_issuer = ''https://iam/'', auc_userinfo_url = Some ''https://iam/me'', auc_introspect_url = None,
     auc_client_id = ''box'', auc_client_secret = ''s'', auc_timeout_ms = auth_default_timeout\<rparr>"

definition auth_backend_ref :: auth_backend where
  "auth_backend_ref = \<lparr>aub_client = 1, aub_config = auth_config_ref, aub_discovery = None, aub_poisoned = False,
     aub_host = ''iam'', aub_history = []\<rparr>"

section \<open>Properties\<close>

text \<open>The outcome of \<^verbatim>\<open>user_info\<close> by the issuer's answer: an invalid token (401, 403) is an in-band
  \<^verbatim>\<open>ok:false\<close> reply and never an error, a 2xx gives the claims, a 5xx is the retryable
  \<^verbatim>\<open>AUTH_UNAVAILABLE\<close>, every other status the non-retryable \<^verbatim>\<open>AUTH_REQUEST\<close>; the metric has the status of
  an in-band outcome and 0 for an error.\<close>
theorem auth_user_info_status_table:
  assumes url: "auc_userinfo_url (aub_config b) = Some url"
    and clk: "au_clock E w = (t, w1)"
    and sent: "auth_send E (aub_client b) (user_info_request url token) w1 = (Inr (status, body), w2)"
    and claims: "from_str (au_json E) body = Inr v"
    and call: "auth_call E (''user_info'', token) b w = (r, b', w')"
  shows "(if status = 401 \<or> status = 403 then r = Inr (invalid_token_json E status)
      else if 200 \<le> status \<and> status \<le> 299 then r = Inr (ok_claims_json E v)
      else (\<exists>e. r = Inl e \<and> ee_details e = Some (json_object [(''http_status'', json_nat (unat status))]) \<and>
         ee_retryable e = (500 \<le> status \<and> status \<le> 599) \<and>
         ee_code e = (if 500 \<le> status \<and> status \<le> 599 then ''AUTH_UNAVAILABLE'' else ''AUTH_REQUEST''))) \<and>
    (\<exists>m. aub_history b' = aub_history b @ [m] \<and> aum_status m = (if is_ok r then status else 0))"
proof -
  from call obtain start v1 res b1 v2 m where u: "au_clock E w = (start, v1)"
      "auth_dispatch E ''user_info'' token b v1 = (res, b1, v2)"
      "auth_build_metric E ''user_info'' (aub_host b1) (case res of Inl _ \<Rightarrow> 0 | Inr o1 \<Rightarrow> auo_status o1) start v2 = (m, w')"
      "r = map_err auth_into_resource_error (map_ok auo_json res)" "b' = b1\<lparr>aub_history := aub_history b @ [m]\<rparr>"
    by (rule auth_call_unfold)
  from u(1,2) clk url sent have res: "res = user_info_outcome E status body"
    by (simp add: auth_dispatch_def do_user_info_def resolve_userinfo_def auth_resolve_def)
  have m: "aum_status m = (case res of Inl _ \<Rightarrow> 0 | Inr o1 \<Rightarrow> auo_status o1)"
    using auth_build_metric_sel [OF u(3)] by simp
  show ?thesis
    unfolding u(4,5) m res user_info_outcome_def auth_parse_claims_def claims
    by (simp add: m res user_info_outcome_def auth_parse_claims_def claims ctor_defs fault_defs)
qed

theorem auth_user_info_status_table_witness:
  "\<exists>b' w'. auth_call auth_ref (''user_info'', ''stale'') auth_backend_ref 0 =
     (Inr ''AUTH_INVALID_TOKEN'', b', w') \<and> map aum_status (aub_history b') = [401]"
proof -
  obtain r b' w' where c: "auth_call auth_ref (''user_info'', ''stale'') auth_backend_ref 0 = (r, b', w')"
    by (cases "auth_call auth_ref (''user_info'', ''stale'') auth_backend_ref 0") auto
  have h: "auc_userinfo_url (aub_config auth_backend_ref) = Some ''https://iam/me''" "au_clock auth_ref 0 = (0, 0)"
    "auth_send auth_ref (aub_client auth_backend_ref) (user_info_request ''https://iam/me'' ''stale'') 0 =
       (Inr (401, ''body''), 1)" "from_str (au_json auth_ref) ''body'' = Inr (VString ''body'')"
    "invalid_token_json auth_ref 401 = ''AUTH_INVALID_TOKEN''"
    by (simp_all add: auth_backend_ref_def auth_config_ref_def auth_ref_def auth_send_def user_info_request_def
        http_get_def invalid_token_json_def invalid_token_value_def auth_encode_def to_string_or_def)
  from auth_user_info_status_table [OF h(1-4) c] h(5) c show ?thesis
    by (auto simp: auth_backend_ref_def)
qed

text \<open>Discovery is fetched at most once per session: when the memo is filled, then after any further
  sequence of calls both endpoints resolve from that same memo (or the configured override) without any
  traffic.\<close>
theorem auth_discovery_fetched_once:
  assumes memo: "aub_discovery b = Some ep" "\<not> aub_poisoned b"
    and run: "run_calls (auth_call E) qs b w = (rs, b', w')"
  shows "(\<exists>r. resolve_userinfo E b' v = (r, b', v) \<and>
      result_ok r = (case auc_userinfo_url (aub_config b) of Some u \<Rightarrow> Some u | None \<Rightarrow> ep_userinfo ep)) \<and>
    (\<exists>r. resolve_introspect E b' v = (r, b', v) \<and>
      result_ok r = (case auc_introspect_url (aub_config b) of Some u \<Rightarrow> Some u | None \<Rightarrow> ep_introspect ep))"
proof -
  have "aub_discovery b' = Some ep" using auth_memo_run [OF run memo(1)] .
  moreover have "aub_config b' = aub_config b" "\<not> aub_poisoned b'" using auth.run_fixed [OF run] memo(2) by auto
  ultimately show ?thesis
    by (auto simp: resolve_userinfo_def resolve_introspect_def auth_resolve_def discover_endpoints_def ok_or_def
        split: option.splits)
qed

theorem auth_discovery_fetched_once_witness:
  "\<exists>r b'. resolve_introspect auth_ref b' 5 = (r, b', 5) \<and> result_ok r = Some ''https://iam/i''"
proof -
  let ?b = "auth_backend_ref\<lparr>aub_discovery := Some \<lparr>ep_userinfo = None, ep_introspect = Some ''https://iam/i''\<rparr>\<rparr>"
  obtain rs b' w' where "run_calls (auth_call auth_ref) [(''user_info'', ''good'')] ?b 0 = (rs, b', w')"
    by (cases "run_calls (auth_call auth_ref) [(''user_info'', ''good'')] ?b 0") auto
  from auth_discovery_fetched_once [OF _ _ this, of "\<lparr>ep_userinfo = None, ep_introspect = Some ''https://iam/i''\<rparr>" 5]
  show ?thesis by (auto simp: auth_backend_ref_def auth_config_ref_def)
qed

text \<open>A token cannot smuggle form fields into an introspection request: whatever the token, the body is
  one \<^verbatim>\<open>token\<close> field, with no separator and no second equals sign.\<close>
theorem auth_introspect_no_injection:
  assumes enc: "percent_encode_ok (au_percent_encode E)"
    and req: "introspect_request E c url token = req"
  shows "\<exists>val. hr_body req = Some (''token='' @ val) \<and> CHR ''&'' \<notin> set (''token='' @ val) \<and> CHR ''='' \<notin> set val \<and>
    lf \<notin> set val \<and> cr \<notin> set val \<and> hr_url req = url"
proof -
  have f: "x \<notin> set (au_percent_encode E token)" if "\<not> is_ascii_alphanumeric x" "x \<noteq> CHR ''%''" for x
    using percent_encode_free [OF enc that] .
  have "\<not> is_ascii_alphanumeric CHR ''&''" "\<not> is_ascii_alphanumeric CHR ''=''" "\<not> is_ascii_alphanumeric lf"
    "\<not> is_ascii_alphanumeric cr" by (simp_all add: is_ascii_alphanumeric_def is_digit_def)
  with f show ?thesis
    by (auto simp: req [symmetric] introspect_request_def introspect_form_def)
qed

theorem auth_introspect_no_injection_witness:
  "\<exists>val. hr_body (introspect_request auth_ref auth_config_ref ''u'' ''a&b=c'') = Some (''token='' @ val) \<and>
     CHR ''&'' \<notin> set val \<and> CHR ''='' \<notin> set val"
  using auth_introspect_no_injection [of auth_ref auth_config_ref "''u''" "''a&b=c''"] percent_encode_ref_ok
  by (auto simp: auth_ref_def)

end
