(* ===== verification/Resources.thy ===== *)
theory Resources
  imports Db Mongo Mail Kv Amq Oidc
begin

text \<open>
  The operator's resource table, \<^verbatim>\<open>crates/fabric-backends/src/resources.rs\<close>: bindings of a logical name to
  one driver configuration, the tenant each binding belongs to, the resolution of the names a session
  asks for, and the ceiling on the database statement timeout.  The six kinds of binding keep one contract,
  the locale \<open>binding_kind\<close>, interpreted for each of them.
\<close>

section \<open>Data\<close>

datatype resource_binding =
    Db db_config
  | Mongo mongo_config
  | Mail mail_config
  | Redis redis_config
  | Amq amq_config
  | Auth auth_config

definition as_db :: "resource_binding \<Rightarrow> db_config option" where
  "as_db b = (case b of Db c \<Rightarrow> Some c | _ \<Rightarrow> None)"

definition as_mongo :: "resource_binding \<Rightarrow> mongo_config option" where
  "as_mongo b = (case b of Mongo c \<Rightarrow> Some c | _ \<Rightarrow> None)"

definition as_mail :: "resource_binding \<Rightarrow> mail_config option" where
  "as_mail b = (case b of Mail c \<Rightarrow> Some c | _ \<Rightarrow> None)"

definition as_redis :: "resource_binding \<Rightarrow> redis_config option" where
  "as_redis b = (case b of Redis c \<Rightarrow> Some c | _ \<Rightarrow> None)"

definition as_amq :: "resource_binding \<Rightarrow> amq_config option" where
  "as_amq b = (case b of Amq c \<Rightarrow> Some c | _ \<Rightarrow> None)"

definition as_auth :: "resource_binding \<Rightarrow> auth_config option" where
  "as_auth b = (case b of Auth c \<Rightarrow> Some c | _ \<Rightarrow> None)"

record tenant_resource_binding =
  trb_tenant :: "string option"
  trb_binding :: resource_binding

type_synonym resource_table = "string \<rightharpoonup> tenant_resource_binding"

record resolved_configs =
  rc_db :: "db_config option"
  rc_mongo :: "mongo_config option"
  rc_mail :: "mail_config option"
  rc_redis :: "redis_config option"
  rc_amq :: "amq_config option"
  rc_auth :: "auth_config option"

datatype resolve_error = NotFound string | KindMismatch string string

definition resolve_error_code :: "resolve_error \<Rightarrow> string" where
  "resolve_error_code e =
     (case e of NotFound _ \<Rightarrow> ''RESOURCE_NOT_FOUND'' | KindMismatch _ _ \<Rightarrow> ''RESOURCE_KIND_MISMATCH'')"

abbreviation backtick :: char where "backtick \<equiv> CHR 0x60"

definition resolve_error_message :: "resolve_error \<Rightarrow> string" where
  "resolve_error_message e =
     (case e of
        NotFound name \<Rightarrow> ''no operator resource named '' @ [backtick] @ name @ [backtick]
      | KindMismatch name kind \<Rightarrow>
          ''resource '' @ [backtick] @ name @ [backtick] @ '' is not a '' @ kind @ '' resource'')"

section \<open>Resolution\<close>

definition pick ::
    "resource_table \<Rightarrow> string option \<Rightarrow> string option \<Rightarrow> string \<Rightarrow> (resource_binding \<Rightarrow> 'c option) \<Rightarrow>
     (resolve_error, 'c option) result" where
  "pick table session_tenant name kind extract =
     (case name of
        None \<Rightarrow> Inr None
      | Some resource_name \<Rightarrow>
          (case table resource_name of
             None \<Rightarrow> Inl (NotFound resource_name)
           | Some entry \<Rightarrow>
               (if trb_tenant entry \<noteq> session_tenant then Inl (NotFound resource_name)
                else ok_or (KindMismatch resource_name kind) (map_option Some (extract (trb_binding entry))))))"

definition resolve :: "resource_table \<Rightarrow> wire_init \<Rightarrow> (resolve_error, resolved_configs) result" where
  "resolve table init =
     (let tenant = wi_tenant init in
      case pick table tenant (wi_db init) ''db'' as_db of Inl e \<Rightarrow> Inl e | Inr db \<Rightarrow>
      (case pick table tenant (wi_mongo init) ''mongo'' as_mongo of Inl e \<Rightarrow> Inl e | Inr mongo \<Rightarrow>
      (case pick table tenant (wi_mail init) ''mail'' as_mail of Inl e \<Rightarrow> Inl e | Inr mail \<Rightarrow>
      (case pick table tenant (wi_redis init) ''redis'' as_redis of Inl e \<Rightarrow> Inl e | Inr redis \<Rightarrow>
      (case pick table tenant (wi_amq init) ''amq'' as_amq of Inl e \<Rightarrow> Inl e | Inr amq \<Rightarrow>
      (case pick table tenant (wi_auth init) ''auth'' as_auth of Inl e \<Rightarrow> Inl e | Inr auth \<Rightarrow>
         Inr \<lparr>rc_db = db, rc_mongo = mongo, rc_mail = mail, rc_redis = redis, rc_amq = amq, rc_auth = auth\<rparr>))))))"

definition clamp_db_statement_timeout :: "u64 \<Rightarrow> resolved_configs \<Rightarrow> resolved_configs" where
  "clamp_db_statement_timeout ceiling_ms configs =
     (if ceiling_ms = 0 then configs
      else configs\<lparr>rc_db := map_option
        (\<lambda>db. db\<lparr>dbc_statement_timeout_ms :=
           (if dbc_statement_timeout_ms db = 0 then ceiling_ms else min (dbc_statement_timeout_ms db) ceiling_ms)\<rparr>)
        (rc_db configs)\<rparr>)"

section \<open>The contract of a kind\<close>

text \<open>The bindings of the table that a session of a tenant may see.\<close>
definition visible :: "resource_table \<Rightarrow> string option \<Rightarrow> string \<rightharpoonup> resource_binding" where
  "visible table tenant name =
     (case table name of
        None \<Rightarrow> None
      | Some entry \<Rightarrow> if trb_tenant entry = tenant then Some (trb_binding entry) else None)"

locale binding_kind =
  fixes unwrap :: "resource_binding \<Rightarrow> 'c option"
    and wrap :: "'c \<Rightarrow> resource_binding"
  assumes unwrap_iff: "unwrap b = Some c \<longleftrightarrow> b = wrap c"
begin

lemma unwrap_wrap [simp]: "unwrap (wrap c) = Some c"
  by (simp add: unwrap_iff)

lemma unwrap_None: "unwrap b = None \<longleftrightarrow> (\<forall>c. b \<noteq> wrap c)"
proof (cases "unwrap b")
  case None
  then show ?thesis by (auto simp: unwrap_iff)
next
  case (Some c)
  then have "b = wrap c" by (simp add: unwrap_iff)
  then show ?thesis by auto
qed

lemma wrap_inject [simp]: "wrap c = wrap d \<longleftrightarrow> c = d"
  using unwrap_iff [of "wrap c" d] by auto

lemma pick_Inr_iff:
  "pick T t name kind unwrap = Inr x \<longleftrightarrow>
     (case name of None \<Rightarrow> x = None | Some n \<Rightarrow> \<exists>c. x = Some c \<and> visible T t n = Some (wrap c))"
  by (auto simp: pick_def visible_def ok_or_def unwrap_iff split: option.splits)

lemma pick_Inl_iff:
  "pick T t name kind unwrap = Inl e \<longleftrightarrow>
     (\<exists>n. name = Some n \<and>
        ((visible T t n = None \<and> e = NotFound n) \<or>
         (\<exists>b. visible T t n = Some b \<and> (\<forall>c. b \<noteq> wrap c) \<and> e = KindMismatch n kind)))"
  by (auto simp: pick_def visible_def ok_or_def unwrap_None unwrap_iff split: option.splits)

lemma pick_visible:
  assumes "visible T t = visible T' t"
  shows "pick T t name kind unwrap = pick T' t name kind unwrap"
proof (cases "pick T t name kind unwrap")
  case (Inl e)
  moreover from Inl have "pick T' t name kind unwrap = Inl e" by (simp only: pick_Inl_iff assms)
  ultimately show ?thesis by simp
next
  case (Inr x)
  moreover from Inr have "pick T' t name kind unwrap = Inr x" by (simp only: pick_Inr_iff assms)
  ultimately show ?thesis by simp
qed

end

interpretation db_kind: binding_kind as_db Db
  by unfold_locales (auto simp: as_db_def split: resource_binding.splits)

interpretation mongo_kind: binding_kind as_mongo Mongo
  by unfold_locales (auto simp: as_mongo_def split: resource_binding.splits)

interpretation mail_kind: binding_kind as_mail Mail
  by unfold_locales (auto simp: as_mail_def split: resource_binding.splits)

interpretation redis_kind: binding_kind as_redis Redis
  by unfold_locales (auto simp: as_redis_def split: resource_binding.splits)

interpretation amq_kind: binding_kind as_amq Amq
  by unfold_locales (auto simp: as_amq_def split: resource_binding.splits)

interpretation auth_kind: binding_kind as_auth Auth
  by unfold_locales (auto simp: as_auth_def split: resource_binding.splits)

lemmas pick_Inr_iffs = db_kind.pick_Inr_iff mongo_kind.pick_Inr_iff mail_kind.pick_Inr_iff redis_kind.pick_Inr_iff
  amq_kind.pick_Inr_iff auth_kind.pick_Inr_iff

lemmas pick_Inl_iffs = db_kind.pick_Inl_iff mongo_kind.pick_Inl_iff mail_kind.pick_Inl_iff redis_kind.pick_Inl_iff
  amq_kind.pick_Inl_iff auth_kind.pick_Inl_iff

lemmas pick_visibles = db_kind.pick_visible mongo_kind.pick_visible mail_kind.pick_visible redis_kind.pick_visible
  amq_kind.pick_visible auth_kind.pick_visible

section \<open>Resolution, abstractly\<close>

text \<open>A selection is granted when it names nothing, or names a visible binding of its kind.\<close>
definition granted :: "(string \<rightharpoonup> resource_binding) \<Rightarrow> ('c \<Rightarrow> resource_binding) \<Rightarrow> string option \<Rightarrow> 'c option \<Rightarrow> bool" where
  "granted V wrap name x \<longleftrightarrow>
     (case name of None \<Rightarrow> x = None | Some n \<Rightarrow> \<exists>c. x = Some c \<and> V n = Some (wrap c))"

lemma granted_None_iff: "granted V wrap name x \<Longrightarrow> x = None \<longleftrightarrow> name = None"
  by (auto simp: granted_def split: option.splits)

lemma granted_obtain:
  assumes "\<And>n. name = Some n \<Longrightarrow> \<exists>c. V n = Some (wrap c)"
  obtains x where "granted V wrap name x" "x = None \<longleftrightarrow> name = None"
  using assms by (cases name) (auto simp: granted_def)

lemma resolve_Inr_iff:
  "resolve T init = Inr R \<longleftrightarrow>
     granted (visible T (wi_tenant init)) Db (wi_db init) (rc_db R) \<and>
     granted (visible T (wi_tenant init)) Mongo (wi_mongo init) (rc_mongo R) \<and>
     granted (visible T (wi_tenant init)) Mail (wi_mail init) (rc_mail R) \<and>
     granted (visible T (wi_tenant init)) Redis (wi_redis init) (rc_redis R) \<and>
     granted (visible T (wi_tenant init)) Amq (wi_amq init) (rc_amq R) \<and>
     granted (visible T (wi_tenant init)) Auth (wi_auth init) (rc_auth R)"
proof -
  obtain a b c d e f where R: "R = \<lparr>rc_db = a, rc_mongo = b, rc_mail = c, rc_redis = d, rc_amq = e, rc_auth = f\<rparr>"
    by (cases R)
  have "resolve T init = Inr R \<longleftrightarrow>
      pick T (wi_tenant init) (wi_db init) ''db'' as_db = Inr a \<and>
      pick T (wi_tenant init) (wi_mongo init) ''mongo'' as_mongo = Inr b \<and>
      pick T (wi_tenant init) (wi_mail init) ''mail'' as_mail = Inr c \<and>
      pick T (wi_tenant init) (wi_redis init) ''redis'' as_redis = Inr d \<and>
      pick T (wi_tenant init) (wi_amq init) ''amq'' as_amq = Inr e \<and>
      pick T (wi_tenant init) (wi_auth init) ''auth'' as_auth = Inr f"
    by (auto simp: resolve_def R Let_def split: sum.splits)
  then show ?thesis by (simp only: pick_Inr_iffs granted_def R resolved_configs.select_convs)
qed

lemma resolve_Inl_cases:
  assumes "resolve T init = Inl e"
  shows "(\<exists>n. e = NotFound n \<and> visible T (wi_tenant init) n = None) \<or>
    (\<exists>n k b. e = KindMismatch n k \<and> visible T (wi_tenant init) n = Some b)"
  using assms by (auto simp: resolve_def Let_def pick_Inl_iffs split: sum.splits)

lemma clamp_keeps:
  "rc_mongo (clamp_db_statement_timeout n R) = rc_mongo R" "rc_mail (clamp_db_statement_timeout n R) = rc_mail R"
  "rc_redis (clamp_db_statement_timeout n R) = rc_redis R" "rc_amq (clamp_db_statement_timeout n R) = rc_amq R"
  "rc_auth (clamp_db_statement_timeout n R) = rc_auth R"
  "rc_db (clamp_db_statement_timeout n R) = None \<longleftrightarrow> rc_db R = None"
  by (simp_all add: clamp_db_statement_timeout_def)

section \<open>A concrete table for witnesses\<close>

definition redis_config_ref :: redis_config where
  "redis_config_ref = \<lparr>rdc_url = ''redis://kv'', rdc_timeout_ms = redis_default_timeout\<rparr>"

definition table_ref :: resource_table where
  "table_ref =
     [''cache'' \<mapsto> \<lparr>trb_tenant = Some ''ws_a'', trb_binding = Redis redis_config_ref\<rparr>,
      ''main'' \<mapsto> \<lparr>trb_tenant = Some ''ws_b'', trb_binding = Db db_config_ref\<rparr>,
      ''global'' \<mapsto> \<lparr>trb_tenant = None, trb_binding = Db db_config_ref\<rparr>]"

definition init_none :: wire_init where
  "init_none = \<lparr>wi_db = None, wi_mongo = None, wi_mail = None, wi_redis = None, wi_amq = None, wi_auth = None,
     wi_timeout_ms = 1000, wi_tenant = None, wi_token = None\<rparr>"

definition init_ref :: wire_init where
  "init_ref = init_none\<lparr>wi_redis := Some ''cache'', wi_tenant := Some ''ws_a''\<rparr>"

lemmas resolve_eval = resolve_def pick_def ok_or_def as_db_def as_mongo_def as_mail_def as_redis_def as_amq_def as_auth_def
  table_ref_def init_ref_def init_none_def

section \<open>Properties\<close>

text \<open>C1: credentials never cross a tenant boundary: every configuration a session obtains is, for the name it
  selected of that kind, the binding of that kind that the operator declared for exactly the session's tenant
  (a session without a tenant only reaches global bindings), and nothing is resolved that was not named.\<close>
theorem resolve_only_own_tenant:
  assumes "resolve T init = Inr R"
  shows "(\<forall>c. rc_db R = Some c \<longrightarrow> (\<exists>n. wi_db init = Some n \<and> T n = Some \<lparr>trb_tenant = wi_tenant init, trb_binding = Db c\<rparr>)) \<and>
    (\<forall>c. rc_mongo R = Some c \<longrightarrow> (\<exists>n. wi_mongo init = Some n \<and> T n = Some \<lparr>trb_tenant = wi_tenant init, trb_binding = Mongo c\<rparr>)) \<and>
    (\<forall>c. rc_mail R = Some c \<longrightarrow> (\<exists>n. wi_mail init = Some n \<and> T n = Some \<lparr>trb_tenant = wi_tenant init, trb_binding = Mail c\<rparr>)) \<and>
    (\<forall>c. rc_redis R = Some c \<longrightarrow> (\<exists>n. wi_redis init = Some n \<and> T n = Some \<lparr>trb_tenant = wi_tenant init, trb_binding = Redis c\<rparr>)) \<and>
    (\<forall>c. rc_amq R = Some c \<longrightarrow> (\<exists>n. wi_amq init = Some n \<and> T n = Some \<lparr>trb_tenant = wi_tenant init, trb_binding = Amq c\<rparr>)) \<and>
    (\<forall>c. rc_auth R = Some c \<longrightarrow> (\<exists>n. wi_auth init = Some n \<and> T n = Some \<lparr>trb_tenant = wi_tenant init, trb_binding = Auth c\<rparr>))"
proof -
  have own: "\<exists>n. name = Some n \<and> T n = Some \<lparr>trb_tenant = wi_tenant init, trb_binding = wrap c\<rparr>"
    if "granted (visible T (wi_tenant init)) wrap name (Some c)" for wrap :: "'c \<Rightarrow> resource_binding" and name c
    using that by (auto simp: granted_def visible_def split: option.splits if_splits)
  from assms show ?thesis unfolding resolve_Inr_iff by (auto dest: own)
qed

theorem resolve_only_own_tenant_witness:
  "\<exists>R. resolve table_ref init_ref = Inr R \<and> rc_redis R = Some redis_config_ref \<and>
     table_ref ''cache'' = Some \<lparr>trb_tenant = Some ''ws_a'', trb_binding = Redis redis_config_ref\<rparr>"
proof -
  obtain R where R: "resolve table_ref init_ref = Inr R" "rc_redis R = Some redis_config_ref"
    by (simp add: resolve_eval)
  from resolve_only_own_tenant [OF R(1)] R show ?thesis
    by (auto simp: init_ref_def init_none_def)
qed

text \<open>The bindings of other tenants do not influence a session at all: on two tables that agree on what the
  session's tenant may see, resolution gives the same configurations or the same error, so neither the content
  nor the existence of a foreign binding can be observed.\<close>
theorem resolve_noninterference:
  assumes "visible T (wi_tenant init) = visible T' (wi_tenant init)"
  shows "resolve T init = resolve T' init"
  by (simp only: resolve_def pick_visibles [OF assms] Let_def)

theorem resolve_noninterference_witness:
  "resolve (table_ref(''main'' := None)) init_ref = resolve table_ref init_ref"
  by (rule resolve_noninterference) (auto simp: visible_def table_ref_def init_ref_def)

text \<open>A refused resolution says only what the session may know: \<^verbatim>\<open>RESOURCE_NOT_FOUND\<close> means the tenant sees
  no binding of that name (whether or not another tenant has one), \<^verbatim>\<open>RESOURCE_KIND_MISMATCH\<close> is only ever said
  of the tenant's own bindings, and the message names nothing but the requested name and kind.\<close>
theorem resolve_errors_leak_nothing:
  assumes "resolve T init = Inl e"
  shows "(case e of
      NotFound n \<Rightarrow> visible T (wi_tenant init) n = None \<and> resolve_error_code e = ''RESOURCE_NOT_FOUND''
    | KindMismatch n k \<Rightarrow> visible T (wi_tenant init) n \<noteq> None \<and> resolve_error_code e = ''RESOURCE_KIND_MISMATCH'') \<and>
    (case e of NotFound n \<Rightarrow> n | KindMismatch n k \<Rightarrow> n) \<in>
      \<Union> (set_option ` {wi_db init, wi_mongo init, wi_mail init, wi_redis init, wi_amq init, wi_auth init})"
  using assms by (auto simp: resolve_def Let_def pick_Inl_iffs resolve_error_code_def split: sum.splits)

theorem resolve_errors_leak_nothing_witness:
  "resolve table_ref (init_ref\<lparr>wi_db := Some ''main''\<rparr>) = Inl (NotFound ''main'') \<and>
   visible table_ref (Some ''ws_a'') ''main'' = None"
proof -
  have r: "resolve table_ref (init_ref\<lparr>wi_db := Some ''main''\<rparr>) = Inl (NotFound ''main'')"
    by (simp add: resolve_eval)
  with resolve_errors_leak_nothing [OF r] show ?thesis by (simp add: init_ref_def)
qed

text \<open>C2: what resolution means, exactly: it succeeds with a set of configurations if and only if each of them is what the
  session's tenant may see under the name selected for its kind, and the kinds without a selection stay empty.\<close>
theorem resolve_exactly_granted:
  "resolve T init = Inr R \<longleftrightarrow>
     granted (visible T (wi_tenant init)) Db (wi_db init) (rc_db R) \<and>
     granted (visible T (wi_tenant init)) Mongo (wi_mongo init) (rc_mongo R) \<and>
     granted (visible T (wi_tenant init)) Mail (wi_mail init) (rc_mail R) \<and>
     granted (visible T (wi_tenant init)) Redis (wi_redis init) (rc_redis R) \<and>
     granted (visible T (wi_tenant init)) Amq (wi_amq init) (rc_amq R) \<and>
     granted (visible T (wi_tenant init)) Auth (wi_auth init) (rc_auth R)"
  by (rule resolve_Inr_iff)

text \<open>A session that names resources of its own tenant and of the right kinds is always served: if every
  selected name is visible with the kind it is selected for, resolution succeeds.\<close>
theorem resolve_complete:
  assumes "\<And>n. wi_db init = Some n \<Longrightarrow> \<exists>c. visible T (wi_tenant init) n = Some (Db c)"
    and "\<And>n. wi_mongo init = Some n \<Longrightarrow> \<exists>c. visible T (wi_tenant init) n = Some (Mongo c)"
    and "\<And>n. wi_mail init = Some n \<Longrightarrow> \<exists>c. visible T (wi_tenant init) n = Some (Mail c)"
    and "\<And>n. wi_redis init = Some n \<Longrightarrow> \<exists>c. visible T (wi_tenant init) n = Some (Redis c)"
    and "\<And>n. wi_amq init = Some n \<Longrightarrow> \<exists>c. visible T (wi_tenant init) n = Some (Amq c)"
    and "\<And>n. wi_auth init = Some n \<Longrightarrow> \<exists>c. visible T (wi_tenant init) n = Some (Auth c)"
  shows "\<exists>R. resolve T init = Inr R \<and> (rc_db R = None \<longleftrightarrow> wi_db init = None) \<and> (rc_mongo R = None \<longleftrightarrow> wi_mongo init = None) \<and>
    (rc_mail R = None \<longleftrightarrow> wi_mail init = None) \<and> (rc_redis R = None \<longleftrightarrow> wi_redis init = None) \<and>
    (rc_amq R = None \<longleftrightarrow> wi_amq init = None) \<and> (rc_auth R = None \<longleftrightarrow> wi_auth init = None)"
proof -
  obtain a where a: "granted (visible T (wi_tenant init)) Db (wi_db init) a" "a = None \<longleftrightarrow> wi_db init = None"
    by (rule granted_obtain [of "wi_db init" "visible T (wi_tenant init)" Db]) (rule assms(1))
  obtain b where b: "granted (visible T (wi_tenant init)) Mongo (wi_mongo init) b" "b = None \<longleftrightarrow> wi_mongo init = None"
    by (rule granted_obtain [of "wi_mongo init" "visible T (wi_tenant init)" Mongo]) (rule assms(2))
  obtain c where c: "granted (visible T (wi_tenant init)) Mail (wi_mail init) c" "c = None \<longleftrightarrow> wi_mail init = None"
    by (rule granted_obtain [of "wi_mail init" "visible T (wi_tenant init)" Mail]) (rule assms(3))
  obtain d where d: "granted (visible T (wi_tenant init)) Redis (wi_redis init) d" "d = None \<longleftrightarrow> wi_redis init = None"
    by (rule granted_obtain [of "wi_redis init" "visible T (wi_tenant init)" Redis]) (rule assms(4))
  obtain e where e: "granted (visible T (wi_tenant init)) Amq (wi_amq init) e" "e = None \<longleftrightarrow> wi_amq init = None"
    by (rule granted_obtain [of "wi_amq init" "visible T (wi_tenant init)" Amq]) (rule assms(5))
  obtain f where f: "granted (visible T (wi_tenant init)) Auth (wi_auth init) f" "f = None \<longleftrightarrow> wi_auth init = None"
    by (rule granted_obtain [of "wi_auth init" "visible T (wi_tenant init)" Auth]) (rule assms(6))
  let ?R = "\<lparr>rc_db = a, rc_mongo = b, rc_mail = c, rc_redis = d, rc_amq = e, rc_auth = f\<rparr>"
  have "resolve T init = Inr ?R"
    unfolding resolve_Inr_iff resolved_configs.select_convs
    by (intro conjI a(1) b(1) c(1) d(1) e(1) f(1))
  with a(2) b(2) c(2) d(2) e(2) f(2) show ?thesis by (intro exI [of _ ?R] conjI) simp_all
qed

theorem resolve_complete_witness:
  "\<exists>R. resolve table_ref init_ref = Inr R \<and> rc_db R = None \<and> rc_redis R \<noteq> None"
  using resolve_complete [of init_ref table_ref]
  by (auto simp: init_ref_def init_none_def visible_def table_ref_def)

text \<open>With a ceiling set, the statement timeout of a session's database is never unlimited and never above the
  ceiling; a request within the ceiling keeps its own value, and clamping changes nothing else.\<close>
theorem clamp_bounds:
  assumes "cap \<noteq> 0"
  shows "(\<forall>c. rc_db (clamp_db_statement_timeout cap R) = Some c \<longrightarrow>
      0 < dbc_statement_timeout_ms c \<and> dbc_statement_timeout_ms c \<le> cap) \<and>
    (\<forall>c. rc_db R = Some c \<and> 0 < dbc_statement_timeout_ms c \<and> dbc_statement_timeout_ms c \<le> cap \<longrightarrow>
      clamp_db_statement_timeout cap R = R) \<and>
    clamp_db_statement_timeout cap (clamp_db_statement_timeout cap R) = clamp_db_statement_timeout cap R \<and>
    map_option (\<lambda>c. c\<lparr>dbc_statement_timeout_ms := 0\<rparr>) (rc_db (clamp_db_statement_timeout cap R)) =
      map_option (\<lambda>c. c\<lparr>dbc_statement_timeout_ms := 0\<rparr>) (rc_db R)"
proof (cases "rc_db R")
  case None
  then show ?thesis by (simp add: clamp_db_statement_timeout_def)
next
  case (Some c)
  define t where "t = (if dbc_statement_timeout_ms c = 0 then cap else min (dbc_statement_timeout_ms c) cap)"
  have R: "clamp_db_statement_timeout cap R = R\<lparr>rc_db := Some (c\<lparr>dbc_statement_timeout_ms := t\<rparr>)\<rparr>"
    using assms Some by (simp add: clamp_db_statement_timeout_def t_def)
  have t: "0 < t" "t \<le> cap" using assms by (auto simp: t_def word_gt_0 min_def)
  have keep: "clamp_db_statement_timeout cap S = S"
    if "rc_db S = Some d" "0 < dbc_statement_timeout_ms d" "dbc_statement_timeout_ms d \<le> cap" for S d
    using that by (simp add: clamp_db_statement_timeout_def min_def word_gt_0)
  have "clamp_db_statement_timeout cap (clamp_db_statement_timeout cap R) = clamp_db_statement_timeout cap R"
    by (rule keep [of _ "c\<lparr>dbc_statement_timeout_ms := t\<rparr>"]) (simp_all add: R t)
  moreover have "clamp_db_statement_timeout cap R = R" if "rc_db R = Some d" "0 < dbc_statement_timeout_ms d"
      "dbc_statement_timeout_ms d \<le> cap" for d
    using keep that by blast
  moreover have "rc_db (clamp_db_statement_timeout cap R) = Some (c\<lparr>dbc_statement_timeout_ms := t\<rparr>)" by (simp add: R)
  ultimately show ?thesis using t Some by auto
qed

theorem clamp_bounds_witness:
  "\<exists>R c. resolve table_ref (init_none\<lparr>wi_db := Some ''global''\<rparr>) = Inr R \<and>
     rc_db (clamp_db_statement_timeout 30 R) = Some c \<and> dbc_statement_timeout_ms c \<le> 30"
proof -
  obtain R where R: "resolve table_ref (init_none\<lparr>wi_db := Some ''global''\<rparr>) = Inr R" "rc_db R = Some db_config_ref"
    by (simp add: resolve_eval)
  obtain c where "rc_db (clamp_db_statement_timeout 30 R) = Some c"
    using R(2) by (simp add: clamp_db_statement_timeout_def)
  with clamp_bounds [of 30 R] R(1) show ?thesis by auto
qed

end
