(* ===== verification/Backend_Set.thy ===== *)
theory Backend_Set
  imports Resources
begin

text \<open>
  The backends of one session, \<^verbatim>\<open>crates/fabric-backends/src/backendset.rs\<close>: the slots that connect on first
  use, the routing of a call by capability name, the unpacking of payloads, the errors for capabilities that
  are unknown or not wired, and the metrics drained at the end.  The locale \<open>lazy_slot\<close> states what a slot
  relies on of the backend behind it; it is interpreted for the five lazily connected backends.
\<close>

section \<open>Data\<close>

record async_deps =
  ad_breaker :: "handle option"
  ad_timeout :: duration

text \<open>A slot: what is needed to connect, and the connect-once cell (\<^verbatim>\<open>OnceLock\<close>) with the backend or the
  cached error.  The slots of \<^verbatim>\<open>db\<close> and \<^verbatim>\<open>mongo\<close> also hold their dependencies.\<close>
record ('c, 'b) slot =
  slot_config :: 'c
  slot_cell :: "(egress_error, 'b) result option"

type_synonym db_slot = "(db_config \<times> async_deps, db_backend) slot"
type_synonym mongo_slot = "(mongo_config \<times> async_deps, mongo_backend) slot"
type_synonym mail_slot = "(mail_config, mail_backend) slot"
type_synonym redis_slot = "(redis_config, redis_backend) slot"
type_synonym auth_slot = "(auth_config, auth_backend) slot"

record backend_set =
  bs_db :: "db_slot option"
  bs_mongo :: "mongo_slot option"
  bs_mail :: "mail_slot option"
  bs_redis :: "redis_slot option"
  bs_auth :: "auth_slot option"
  bs_amq :: "amq_producer option"

record db_payload =
  dp_sql :: string
  dp_params :: json_value

record db_args =
  da_sql :: string
  da_params_json :: string

record mongo_envelope =
  me_collection :: string
  me_data :: json_value

record auth_payload =
  ap_token :: string

text \<open>The outside of a whole session: the drivers of all backends and the derived payload parsers.\<close>
record 'w fabric_env =
  fe_wire :: wire_lib
  fe_json :: json_lib
  fe_pg :: "'w pg_lib"
  fe_mongo :: "'w mongo_lib"
  fe_mail :: "'w mail_lib"
  fe_redis :: "'w redis_lib"
  fe_amq :: "'w amq_lib"
  fe_auth :: "'w auth_lib"
  de_db_payload :: "string \<Rightarrow> (string, db_payload) result"
  de_mongo_envelope :: "string \<Rightarrow> (string, mongo_envelope) result"
  de_auth_payload :: "string \<Rightarrow> (string, auth_payload) result"

section \<open>Building a set\<close>

definition new_set :: backend_set where
  "new_set = \<lparr>bs_db = None, bs_mongo = None, bs_mail = None, bs_redis = None, bs_auth = None, bs_amq = None\<rparr>"

definition with_db :: "db_config \<Rightarrow> async_deps \<Rightarrow> backend_set \<Rightarrow> backend_set" where
  "with_db c deps s = s\<lparr>bs_db := Some \<lparr>slot_config = (c, deps), slot_cell = None\<rparr>\<rparr>"

definition with_mongo :: "mongo_config \<Rightarrow> async_deps \<Rightarrow> backend_set \<Rightarrow> backend_set" where
  "with_mongo c deps s = s\<lparr>bs_mongo := Some \<lparr>slot_config = (c, deps), slot_cell = None\<rparr>\<rparr>"

definition with_mail :: "mail_config \<Rightarrow> backend_set \<Rightarrow> backend_set" where
  "with_mail c s = s\<lparr>bs_mail := Some \<lparr>slot_config = c, slot_cell = None\<rparr>\<rparr>"

definition with_redis :: "redis_config \<Rightarrow> backend_set \<Rightarrow> backend_set" where
  "with_redis c s = s\<lparr>bs_redis := Some \<lparr>slot_config = c, slot_cell = None\<rparr>\<rparr>"

definition with_auth :: "auth_config \<Rightarrow> backend_set \<Rightarrow> backend_set" where
  "with_auth c s = s\<lparr>bs_auth := Some \<lparr>slot_config = c, slot_cell = None\<rparr>\<rparr>"

definition with_amq :: "amq_config \<Rightarrow> backend_set \<Rightarrow> backend_set" where
  "with_amq c s = s\<lparr>bs_amq := Some (amq_new c)\<rparr>"

definition wire_some :: "('c \<Rightarrow> backend_set \<Rightarrow> backend_set) \<Rightarrow> 'c option \<Rightarrow> backend_set \<Rightarrow> backend_set" where
  "wire_some f c s = (case c of None \<Rightarrow> s | Some cfg \<Rightarrow> f cfg s)"

definition from_configs :: "resolved_configs \<Rightarrow> async_deps \<Rightarrow> backend_set" where
  "from_configs configs deps =
     (let s1 = wire_some (\<lambda>c. with_db c deps) (rc_db configs) new_set;
          s2 = wire_some (\<lambda>c. with_mongo c deps) (rc_mongo configs) s1;
          s3 = wire_some with_mail (rc_mail configs) s2;
          s4 = wire_some with_redis (rc_redis configs) s3;
          s5 = wire_some with_amq (rc_amq configs) s4
      in wire_some with_auth (rc_auth configs) s5)"

section \<open>Metrics\<close>

definition slot_metrics :: "('b \<Rightarrow> 'm list) \<Rightarrow> ('c, 'b) slot option \<Rightarrow> 'm list" where
  "slot_metrics drain slot =
     (case slot of
        None \<Rightarrow> []
      | Some s \<Rightarrow> (case slot_cell s of Some (Inr backend) \<Rightarrow> drain backend | _ \<Rightarrow> []))"

definition set_db_metrics :: "wire_lib \<Rightarrow> backend_set \<Rightarrow> db_metric list" where
  "set_db_metrics W s = slot_metrics (db_drain_metrics W) (bs_db s)"

definition set_mongo_metrics :: "wire_lib \<Rightarrow> backend_set \<Rightarrow> mongo_metric list" where
  "set_mongo_metrics W s = slot_metrics (mongo_drain_metrics W) (bs_mongo s)"

definition set_mail_metrics :: "wire_lib \<Rightarrow> backend_set \<Rightarrow> mail_metric list" where
  "set_mail_metrics W s = slot_metrics (mail_drain_metrics W) (bs_mail s)"

definition set_redis_metrics :: "wire_lib \<Rightarrow> backend_set \<Rightarrow> redis_metric list" where
  "set_redis_metrics W s = slot_metrics (redis_drain_metrics W) (bs_redis s)"

definition set_auth_metrics :: "wire_lib \<Rightarrow> backend_set \<Rightarrow> auth_metric list" where
  "set_auth_metrics W s = slot_metrics (auth_drain_metrics W) (bs_auth s)"

definition set_amq_metrics :: "wire_lib \<Rightarrow> backend_set \<Rightarrow> amq_metric list" where
  "set_amq_metrics W s = (case bs_amq s of None \<Rightarrow> [] | Some b \<Rightarrow> amq_drain_metrics W b)"

definition set_metrics :: "wire_lib \<Rightarrow> backend_set \<Rightarrow> backend_metrics" where
  "set_metrics W s =
     \<lparr>bm_db = set_db_metrics W s, bm_mongo = set_mongo_metrics W s, bm_mail = set_mail_metrics W s,
      bm_redis = set_redis_metrics W s, bm_amq = set_amq_metrics W s, bm_auth = set_auth_metrics W s\<rparr>"

section \<open>Payload unpacking\<close>

definition parse_db_payload :: "'w fabric_env \<Rightarrow> string \<Rightarrow> (egress_error, db_args) result" where
  "parse_db_payload F payload_json =
     (case de_db_payload F payload_json of
        Inl err \<Rightarrow>
          Inl (egress_owner (fe_wire F)
            (egress_new (fe_wire F) ''db'' ''DB_BAD_PAYLOAD'' (''invalid db payload: '' @ err)) Developer)
      | Inr payload \<Rightarrow>
          Inr \<lparr>da_sql = dp_sql payload,
               da_params_json =
                 (if dp_params payload = VNull then ''[]'' else to_string_or (fe_json F) ''[]'' (dp_params payload))\<rparr>)"

definition parse_mongo_payload :: "'w fabric_env \<Rightarrow> string \<Rightarrow> (egress_error, string \<times> string) result" where
  "parse_mongo_payload F payload_json =
     (case de_mongo_envelope F payload_json of
        Inl err \<Rightarrow>
          Inl (egress_owner (fe_wire F)
            (egress_new (fe_wire F) ''mongo'' ''MONGO_QUERY'' (''invalid mongo payload: '' @ err)) Developer)
      | Inr envelope \<Rightarrow>
          Inr (me_collection envelope,
               (if me_data envelope = VNull then ''{}'' else to_string_or (fe_json F) ''{}'' (me_data envelope))))"

definition parse_auth_token :: "'w fabric_env \<Rightarrow> string \<Rightarrow> (egress_error, string) result" where
  "parse_auth_token F payload_json =
     (case de_auth_payload F payload_json of
        Inl err \<Rightarrow>
          Inl (egress_owner (fe_wire F)
            (egress_new (fe_wire F) ''auth'' ''AUTH_REQUEST'' (''invalid auth payload: '' @ err)) Developer)
      | Inr payload \<Rightarrow> Inr (ap_token payload))"

definition not_configured :: "wire_lib \<Rightarrow> string \<Rightarrow> egress_error" where
  "not_configured W name =
     egress_owner W
       (egress_new W name (to_uppercase name @ ''_NOT_CONFIGURED'') (name @ '' egress is not configured''))
       Developer"

section \<open>Lazy slots\<close>

text \<open>\<^verbatim>\<open>get_or_init\<close>: connect when the cell is empty, and keep what came of it.\<close>
definition slot_backend ::
    "('c \<Rightarrow> ('w, (egress_error, 'b) result) io) \<Rightarrow> ('c, 'b) slot \<Rightarrow> 'w \<Rightarrow>
     (egress_error, 'b) result \<times> ('c, 'b) slot \<times> 'w" where
  "slot_backend connect slot w =
     (case slot_cell slot of
        Some r \<Rightarrow> (r, slot, w)
      | None \<Rightarrow> (case connect (slot_config slot) w of (r, w1) \<Rightarrow> (r, slot\<lparr>slot_cell := Some r\<rparr>, w1)))"

text \<open>A call through a slot: the backend, once connected, runs the call; its new state stays in the cell.\<close>
definition slot_call ::
    "('c \<Rightarrow> ('w, (egress_error, 'b) result) io) \<Rightarrow>
     ('q \<Rightarrow> 'b \<Rightarrow> 'w \<Rightarrow> (egress_error, string) result \<times> 'b \<times> 'w) \<Rightarrow> 'q \<Rightarrow> ('c, 'b) slot \<Rightarrow> 'w \<Rightarrow>
     (egress_error, string) result \<times> ('c, 'b) slot \<times> 'w" where
  "slot_call connect run q slot w =
     (case slot_backend connect slot w of
        (Inl e, slot1, w1) \<Rightarrow> (Inl e, slot1, w1)
      | (Inr backend, slot1, w1) \<Rightarrow>
          (case run q backend w1 of
             (r, backend1, w2) \<Rightarrow> (r, slot1\<lparr>slot_cell := Some (Inr backend1)\<rparr>, w2)))"

text \<open>A call to a capability that may not be wired at all.\<close>
definition lazy_call ::
    "wire_lib \<Rightarrow> string \<Rightarrow> ('c \<Rightarrow> ('w, (egress_error, 'b) result) io) \<Rightarrow>
     ('q \<Rightarrow> 'b \<Rightarrow> 'w \<Rightarrow> (egress_error, string) result \<times> 'b \<times> 'w) \<Rightarrow> 'q \<Rightarrow> ('c, 'b) slot option \<Rightarrow> 'w \<Rightarrow>
     (egress_error, string) result \<times> ('c, 'b) slot option \<times> 'w" where
  "lazy_call W name connect run q slot w =
     (case slot of
        None \<Rightarrow> (Inl (not_configured W name), None, w)
      | Some sl \<Rightarrow> (case slot_call connect run q sl w of (r, sl1, w1) \<Rightarrow> (r, Some sl1, w1)))"

definition db_slot_connect :: "'w fabric_env \<Rightarrow> db_config \<times> async_deps \<Rightarrow> ('w, (egress_error, db_backend) result) io" where
  "db_slot_connect F cd =
     db_connect_resource (fe_pg F) (fst cd) \<lparr>dd_timeout = ad_timeout (snd cd), dd_breaker = ad_breaker (snd cd)\<rparr>"

definition mongo_slot_connect ::
    "'w fabric_env \<Rightarrow> mongo_config \<times> async_deps \<Rightarrow> ('w, (egress_error, mongo_backend) result) io" where
  "mongo_slot_connect F cd = mongo_connect_resource (fe_mongo F) (fst cd) \<lparr>mgd_timeout = ad_timeout (snd cd)\<rparr>"

definition mail_slot_connect :: "'w fabric_env \<Rightarrow> mail_config \<Rightarrow> ('w, (egress_error, mail_backend) result) io" where
  "mail_slot_connect F c w = (mail_connect_resource (fe_mail F) c, w)"

definition redis_slot_connect :: "'w fabric_env \<Rightarrow> redis_config \<Rightarrow> ('w, (egress_error, redis_backend) result) io" where
  "redis_slot_connect F = redis_connect_resource (fe_redis F)"

definition auth_slot_connect :: "'w fabric_env \<Rightarrow> auth_config \<Rightarrow> ('w, (egress_error, auth_backend) result) io" where
  "auth_slot_connect F = auth_connect_resource (fe_auth F)"

section \<open>Calls\<close>

text \<open>What each capability does with a connected backend: unpack the payload, call, convert the error.\<close>
definition run_db ::
    "'w fabric_env \<Rightarrow> string \<times> string \<Rightarrow> db_backend \<Rightarrow> 'w \<Rightarrow> (egress_error, string) result \<times> db_backend \<times> 'w" where
  "run_db F q b w =
     (case parse_db_payload F (snd q) of
        Inl e \<Rightarrow> (Inl e, b, w)
      | Inr args \<Rightarrow>
          (case db_call (fe_pg F) (fst q, da_sql args, da_params_json args) b w of
             (r, b1, w1) \<Rightarrow> (map_err db_into_resource_error r, b1, w1)))"

definition run_mongo ::
    "'w fabric_env \<Rightarrow> string \<times> string \<Rightarrow> mongo_backend \<Rightarrow> 'w \<Rightarrow> (egress_error, string) result \<times> mongo_backend \<times> 'w" where
  "run_mongo F q b w =
     (case parse_mongo_payload F (snd q) of
        Inl e \<Rightarrow> (Inl e, b, w)
      | Inr (collection, data_json) \<Rightarrow>
          (case mongo_call (fe_mongo F) (fst q, collection, data_json) b w of
             (r, b1, w1) \<Rightarrow> (map_err mongo_into_resource_error r, b1, w1)))"

definition run_mail ::
    "'w fabric_env \<Rightarrow> string \<times> string \<Rightarrow> mail_backend \<Rightarrow> 'w \<Rightarrow> (egress_error, string) result \<times> mail_backend \<times> 'w" where
  "run_mail F q b w =
     (case mail_call (fe_wire F) (fe_mail F) q b w of
        (r, b1, w1) \<Rightarrow> (map_err mail_into_resource_error r, b1, w1))"

definition run_redis ::
    "'w fabric_env \<Rightarrow> string \<times> string \<Rightarrow> redis_backend \<Rightarrow> 'w \<Rightarrow> (egress_error, string) result \<times> redis_backend \<times> 'w" where
  "run_redis F q b w =
     (case redis_call (fe_redis F) q b w of
        (r, b1, w1) \<Rightarrow> (map_err redis_into_resource_error r, b1, w1))"

definition run_amq ::
    "'w fabric_env \<Rightarrow> string \<times> string \<Rightarrow> amq_producer \<Rightarrow> 'w \<Rightarrow> (egress_error, string) result \<times> amq_producer \<times> 'w" where
  "run_amq F q b w =
     (case amq_call (fe_amq F) q b w of (r, b1, w1) \<Rightarrow> (map_err amq_into_resource_error r, b1, w1))"

definition run_auth ::
    "'w fabric_env \<Rightarrow> string \<times> string \<Rightarrow> auth_backend \<Rightarrow> 'w \<Rightarrow> (egress_error, string) result \<times> auth_backend \<times> 'w" where
  "run_auth F q b w =
     (case parse_auth_token F (snd q) of
        Inl e \<Rightarrow> (Inl e, b, w)
      | Inr token \<Rightarrow> auth_call (fe_auth F) (fst q, token) b w)"

definition call_db ::
    "'w fabric_env \<Rightarrow> string \<times> string \<Rightarrow> backend_set \<Rightarrow> 'w \<Rightarrow> (egress_error, string) result \<times> backend_set \<times> 'w" where
  "call_db F q s w =
     (case lazy_call (fe_wire F) ''db'' (db_slot_connect F) (run_db F) q (bs_db s) w of
        (r, slot1, w1) \<Rightarrow> (r, s\<lparr>bs_db := slot1\<rparr>, w1))"

definition call_mongo ::
    "'w fabric_env \<Rightarrow> string \<times> string \<Rightarrow> backend_set \<Rightarrow> 'w \<Rightarrow> (egress_error, string) result \<times> backend_set \<times> 'w" where
  "call_mongo F q s w =
     (case lazy_call (fe_wire F) ''mongo'' (mongo_slot_connect F) (run_mongo F) q (bs_mongo s) w of
        (r, slot1, w1) \<Rightarrow> (r, s\<lparr>bs_mongo := slot1\<rparr>, w1))"

definition call_mail ::
    "'w fabric_env \<Rightarrow> string \<times> string \<Rightarrow> backend_set \<Rightarrow> 'w \<Rightarrow> (egress_error, string) result \<times> backend_set \<times> 'w" where
  "call_mail F q s w =
     (case lazy_call (fe_wire F) ''mail'' (mail_slot_connect F) (run_mail F) q (bs_mail s) w of
        (r, slot1, w1) \<Rightarrow> (r, s\<lparr>bs_mail := slot1\<rparr>, w1))"

definition call_redis ::
    "'w fabric_env \<Rightarrow> string \<times> string \<Rightarrow> backend_set \<Rightarrow> 'w \<Rightarrow> (egress_error, string) result \<times> backend_set \<times> 'w" where
  "call_redis F q s w =
     (case lazy_call (fe_wire F) ''redis'' (redis_slot_connect F) (run_redis F) q (bs_redis s) w of
        (r, slot1, w1) \<Rightarrow> (r, s\<lparr>bs_redis := slot1\<rparr>, w1))"

definition call_amq ::
    "'w fabric_env \<Rightarrow> string \<times> string \<Rightarrow> backend_set \<Rightarrow> 'w \<Rightarrow> (egress_error, string) result \<times> backend_set \<times> 'w" where
  "call_amq F q s w =
     (case bs_amq s of
        None \<Rightarrow> (Inl (not_configured (fe_wire F) ''amq''), s, w)
      | Some b \<Rightarrow> (case run_amq F q b w of (r, b1, w1) \<Rightarrow> (r, s\<lparr>bs_amq := Some b1\<rparr>, w1)))"

definition call_auth ::
    "'w fabric_env \<Rightarrow> string \<times> string \<Rightarrow> backend_set \<Rightarrow> 'w \<Rightarrow> (egress_error, string) result \<times> backend_set \<times> 'w" where
  "call_auth F q s w =
     (case lazy_call (fe_wire F) ''auth'' (auth_slot_connect F) (run_auth F) q (bs_auth s) w of
        (r, slot1, w1) \<Rightarrow> (r, s\<lparr>bs_auth := slot1\<rparr>, w1))"

definition unknown_egress :: "wire_lib \<Rightarrow> string \<Rightarrow> egress_error" where
  "unknown_egress W name =
     egress_owner W (egress_new W ''engine'' ''IO_UNKNOWN'' (''unknown egress '' @ [CHR 0x27] @ name @ [CHR 0x27])) Developer"

definition set_call ::
    "'w fabric_env \<Rightarrow> string \<times> string \<times> string \<Rightarrow> backend_set \<Rightarrow> 'w \<Rightarrow>
     (egress_error, string) result \<times> backend_set \<times> 'w" where
  [route_defs]: "set_call F q s w =
     (let (name, action, payload_json) = q
      in if name = ''db'' then call_db F (action, payload_json) s w
         else if name = ''mongo'' then call_mongo F (action, payload_json) s w
         else if name = ''mail'' then call_mail F (action, payload_json) s w
         else if name = ''redis'' then call_redis F (action, payload_json) s w
         else if name = ''amq'' then call_amq F (action, payload_json) s w
         else if name = ''auth'' then call_auth F (action, payload_json) s w
         else (Inl (unknown_egress (fe_wire F) name), s, w))"

section \<open>The contract of a slot\<close>

definition slot_good :: "(egress_error \<Rightarrow> bool) \<Rightarrow> ('c, 'b) slot \<Rightarrow> bool" where
  "slot_good good slot = (case slot_cell slot of Some (Inl e) \<Rightarrow> good e | _ \<Rightarrow> True)"

lemma slot_good_new [simp]: "slot_cell slot = None \<Longrightarrow> slot_good good slot"
  by (simp add: slot_good_def)

definition opt_slot_good :: "(egress_error \<Rightarrow> bool) \<Rightarrow> ('c, 'b) slot option \<Rightarrow> bool" where
  "opt_slot_good good slot = (case slot of None \<Rightarrow> True | Some s \<Rightarrow> slot_good good s)"

text \<open>A failed connection is remembered: later calls get the same error and touch nothing.\<close>
locale lazy_slot =
  fixes connect :: "'c \<Rightarrow> ('w, (egress_error, 'b) result) io"
    and run :: "'q \<Rightarrow> 'b \<Rightarrow> 'w \<Rightarrow> (egress_error, string) result \<times> 'b \<times> 'w"
    and good :: "egress_error \<Rightarrow> bool"
  assumes connect_err: "connect c w = (Inl e, w') \<Longrightarrow> good e"
    and run_err: "run q b w = (Inl e, b', w') \<Longrightarrow> good e"
begin

lemma call_good:
  assumes "slot_good good slot" "slot_call connect run q slot w = (r, slot', w')"
  shows "slot_good good slot'" and "r = Inl e \<Longrightarrow> good e"
  using assms
  by (auto simp: slot_call_def slot_backend_def slot_good_def split: result_splits dest: connect_err run_err)

lemma lazy_call_good:
  assumes "opt_slot_good good slot" "good (not_configured W name)"
    and "lazy_call W name connect run q slot w = (r, slot', w')"
  shows "opt_slot_good good slot' \<and> (\<forall>e. r = Inl e \<longrightarrow> good e)"
  using assms call_good by (fastforce simp: lazy_call_def opt_slot_good_def split: option.splits prod.splits)

end

section \<open>Errors a session can see\<close>

definition capability_codes :: "string \<Rightarrow> string list" where
  "capability_codes name =
     (if name = ''db'' then ''DB_NOT_CONFIGURED'' # ''DB_BAD_PAYLOAD'' # map f_code db_faults
      else if name = ''mongo'' then ''MONGO_NOT_CONFIGURED'' # map f_code mongo_faults
      else if name = ''mail'' then ''MAIL_NOT_CONFIGURED'' # map f_code mail_faults
      else if name = ''redis'' then ''REDIS_NOT_CONFIGURED'' # map f_code redis_faults
      else if name = ''amq'' then ''AMQ_NOT_CONFIGURED'' # map f_code amq_faults
      else if name = ''auth'' then ''AUTH_NOT_CONFIGURED'' # map f_code auth_faults
      else [])"

definition cap_error :: "string \<Rightarrow> egress_error \<Rightarrow> bool" where
  "cap_error name e \<longleftrightarrow> ee_source e = name \<and> ee_code e \<in> set (capability_codes name)"

text \<open>What is relied on of the outside: the error builder of the wire crate and the timer.\<close>
definition env_ok :: "'w fabric_env \<Rightarrow> bool" where
  "env_ok F \<longleftrightarrow> egress_builder_ok (fe_wire F) \<and> timeout_ok (fe_mongo F)"

lemma not_configured_uppercase:
  "to_uppercase ''db'' = ''DB''" "to_uppercase ''mongo'' = ''MONGO''" "to_uppercase ''mail'' = ''MAIL''"
  "to_uppercase ''redis'' = ''REDIS''" "to_uppercase ''amq'' = ''AMQ''" "to_uppercase ''auth'' = ''AUTH''"
  by code_simp+

lemma not_configured_cap_error:
  assumes "egress_builder_ok W" "name \<in> {''db'', ''mongo'', ''mail'', ''redis'', ''amq'', ''auth''}"
  shows "cap_error name (not_configured W name)"
  using assms(2)
  by (elim insertE emptyE; hypsubst)
    (simp_all add: cap_error_def not_configured_def egress_builder_okD [OF assms(1)] capability_codes_def
      not_configured_uppercase)

lemma db_run_cap_error:
  assumes "egress_builder_ok (fe_wire F)" "run_db F q b w = (Inl e, b', w')"
  shows "cap_error ''db'' e"
  using assms(2)
  by (auto simp: run_db_def parse_db_payload_def cap_error_def egress_builder_okD [OF assms(1)] capability_codes_def
      map_err_Inl_iff db_into_resource_error_def split: result_splits dest: db_call_fault)

lemma mongo_run_cap_error:
  assumes "env_ok F" "run_mongo F q b w = (Inl e, b', w')"
  shows "cap_error ''mongo'' e"
proof -
  have ok: "egress_builder_ok (fe_wire F)" "timeout_ok (fe_mongo F)" using assms(1) by (simp_all add: env_ok_def)
  have "f_code MONGO_QUERY \<in> f_code ` set mongo_faults" by (simp add: mongo_faults_def)
  with assms(2) show ?thesis
    by (auto simp: run_mongo_def parse_mongo_payload_def cap_error_def egress_builder_okD [OF ok(1)] capability_codes_def
        map_err_Inl_iff mongo_into_resource_error_def fault_defs split: result_splits dest: mongo_call_fault [OF ok(2)])
qed

lemma mail_run_cap_error: "run_mail F q b w = (Inl e, b', w') \<Longrightarrow> cap_error ''mail'' e"
  by (cases q) (auto simp: run_mail_def cap_error_def capability_codes_def map_err_Inl_iff mail_into_resource_error_def
      split: prod.splits dest: mail_call_fault)

lemma redis_run_cap_error: "run_redis F q b w = (Inl e, b', w') \<Longrightarrow> cap_error ''redis'' e"
  by (cases q) (auto simp: run_redis_def cap_error_def capability_codes_def map_err_Inl_iff redis_into_resource_error_def
      split: prod.splits dest: redis_call_fault)

lemma amq_run_cap_error: "run_amq F q b w = (Inl e, b', w') \<Longrightarrow> cap_error ''amq'' e"
  by (cases q) (auto simp: run_amq_def cap_error_def capability_codes_def map_err_Inl_iff amq_into_resource_error_def
      split: prod.splits dest: amq_call_fault)

lemma auth_run_cap_error:
  assumes "egress_builder_ok (fe_wire F)" "run_auth F q b w = (Inl e, b', w')"
  shows "cap_error ''auth'' e"
proof -
  have "f_code AUTH_REQUEST \<in> f_code ` set auth_faults" by simp
  with assms(2) show ?thesis
    by (auto simp: run_auth_def parse_auth_token_def cap_error_def egress_builder_okD [OF assms(1)] capability_codes_def
        fault_defs split: result_splits dest!: auth_call_error)
qed

lemma connect_cap_errors:
  "db_slot_connect F cd w = (Inl e, w') \<Longrightarrow> cap_error ''db'' e"
  "mongo_slot_connect F cm w = (Inl e, w') \<Longrightarrow> cap_error ''mongo'' e"
  "mail_slot_connect F cl w = (Inl e, w') \<Longrightarrow> cap_error ''mail'' e"
  "redis_slot_connect F ck w = (Inl e, w') \<Longrightarrow> cap_error ''redis'' e"
  "auth_slot_connect F ca w = (Inl e, w') \<Longrightarrow> cap_error ''auth'' e"
  subgoal by (auto simp: db_slot_connect_def db_connect_resource_def cap_error_def capability_codes_def map_err_Inl_iff
        db_connect_error_to_resource_def db_faults_def Let_def split: prod.splits)
  subgoal using mongo_error_faults(3)
    by (fastforce simp: mongo_slot_connect_def mongo_connect_resource_def cap_error_def capability_codes_def
        mongo_into_resource_error_def split: result_splits)
  subgoal by (auto simp: mail_slot_connect_def mail_connect_resource_def cap_error_def capability_codes_def mail_faults_def
        split: sum.splits)
  subgoal by (auto simp: redis_slot_connect_def redis_connect_resource_def cap_error_def capability_codes_def redis_faults_def
        Let_def split: result_splits)
  subgoal by (auto simp: auth_slot_connect_def auth_connect_resource_def cap_error_def capability_codes_def auth_faults_def
        split: result_splits)
  done

interpretation db_slot: lazy_slot "db_slot_connect F" "run_db F" "\<lambda>e. env_ok F \<longrightarrow> cap_error ''db'' e"
  for F :: "'w fabric_env"
  by unfold_locales (auto simp: env_ok_def dest: connect_cap_errors db_run_cap_error)

interpretation mongo_slot: lazy_slot "mongo_slot_connect F" "run_mongo F" "\<lambda>e. env_ok F \<longrightarrow> cap_error ''mongo'' e"
  for F :: "'w fabric_env"
  by unfold_locales (auto dest: connect_cap_errors mongo_run_cap_error)

interpretation mail_slot: lazy_slot "mail_slot_connect F" "run_mail F" "\<lambda>e. env_ok F \<longrightarrow> cap_error ''mail'' e"
  for F :: "'w fabric_env"
  by unfold_locales (auto dest: connect_cap_errors mail_run_cap_error)

interpretation redis_slot: lazy_slot "redis_slot_connect F" "run_redis F" "\<lambda>e. env_ok F \<longrightarrow> cap_error ''redis'' e"
  for F :: "'w fabric_env"
  by unfold_locales (auto dest: connect_cap_errors redis_run_cap_error)

interpretation auth_slot: lazy_slot "auth_slot_connect F" "run_auth F" "\<lambda>e. env_ok F \<longrightarrow> cap_error ''auth'' e"
  for F :: "'w fabric_env"
  by unfold_locales (auto simp: env_ok_def dest: connect_cap_errors auth_run_cap_error)

section \<open>The set as a whole\<close>

definition capability_names :: "string list" where
  "capability_names = [''db'', ''mongo'', ''mail'', ''redis'', ''amq'', ''auth'']"

text \<open>The invariant of a set: every cached connection error is an error of its own capability.\<close>
definition set_good :: "'w fabric_env \<Rightarrow> backend_set \<Rightarrow> bool" where
  "set_good F s \<longleftrightarrow>
     opt_slot_good (\<lambda>e. env_ok F \<longrightarrow> cap_error ''db'' e) (bs_db s) \<and>
     opt_slot_good (\<lambda>e. env_ok F \<longrightarrow> cap_error ''mongo'' e) (bs_mongo s) \<and>
     opt_slot_good (\<lambda>e. env_ok F \<longrightarrow> cap_error ''mail'' e) (bs_mail s) \<and>
     opt_slot_good (\<lambda>e. env_ok F \<longrightarrow> cap_error ''redis'' e) (bs_redis s) \<and>
     opt_slot_good (\<lambda>e. env_ok F \<longrightarrow> cap_error ''auth'' e) (bs_auth s)"

text \<open>Which capabilities are wired.\<close>
definition wired :: "backend_set \<Rightarrow> string \<Rightarrow> bool" where
  "wired s name =
     (if name = ''db'' then bs_db s \<noteq> None
      else if name = ''mongo'' then bs_mongo s \<noteq> None
      else if name = ''mail'' then bs_mail s \<noteq> None
      else if name = ''redis'' then bs_redis s \<noteq> None
      else if name = ''amq'' then bs_amq s \<noteq> None
      else if name = ''auth'' then bs_auth s \<noteq> None
      else False)"

text \<open>The name a session selected for a capability.\<close>
definition wi_select :: "wire_init \<Rightarrow> string \<Rightarrow> string option" where
  "wi_select init name =
     (if name = ''db'' then wi_db init
      else if name = ''mongo'' then wi_mongo init
      else if name = ''mail'' then wi_mail init
      else if name = ''redis'' then wi_redis init
      else if name = ''amq'' then wi_amq init
      else if name = ''auth'' then wi_auth init
      else None)"

lemma from_configs_slots:
  "bs_db (from_configs R deps) = map_option (\<lambda>c. \<lparr>slot_config = (c, deps), slot_cell = None\<rparr>) (rc_db R)"
  "bs_mongo (from_configs R deps) = map_option (\<lambda>c. \<lparr>slot_config = (c, deps), slot_cell = None\<rparr>) (rc_mongo R)"
  "bs_mail (from_configs R deps) = map_option (\<lambda>c. \<lparr>slot_config = c, slot_cell = None\<rparr>) (rc_mail R)"
  "bs_redis (from_configs R deps) = map_option (\<lambda>c. \<lparr>slot_config = c, slot_cell = None\<rparr>) (rc_redis R)"
  "bs_auth (from_configs R deps) = map_option (\<lambda>c. \<lparr>slot_config = c, slot_cell = None\<rparr>) (rc_auth R)"
  "bs_amq (from_configs R deps) = map_option amq_new (rc_amq R)"
  by (simp_all add: from_configs_def wire_some_def with_db_def with_mongo_def with_mail_def with_redis_def with_amq_def
      with_auth_def new_set_def Let_def split: option.splits)

text \<open>The configurations a set holds, whatever became of its slots.\<close>
definition set_configs :: "backend_set \<Rightarrow> resolved_configs" where
  "set_configs s =
     \<lparr>rc_db = map_option (fst \<circ> slot_config) (bs_db s), rc_mongo = map_option (fst \<circ> slot_config) (bs_mongo s),
      rc_mail = map_option slot_config (bs_mail s), rc_redis = map_option slot_config (bs_redis s),
      rc_amq = map_option aqp_config (bs_amq s), rc_auth = map_option slot_config (bs_auth s)\<rparr>"

lemma set_configs_from [simp]: "set_configs (from_configs R deps) = R"
  by (simp add: set_configs_def from_configs_slots option.map_comp comp_def amq_new_def option.map_ident)

lemma wired_configs:
  "wired s name =
     (if name = ''db'' then rc_db (set_configs s) \<noteq> None
      else if name = ''mongo'' then rc_mongo (set_configs s) \<noteq> None
      else if name = ''mail'' then rc_mail (set_configs s) \<noteq> None
      else if name = ''redis'' then rc_redis (set_configs s) \<noteq> None
      else if name = ''amq'' then rc_amq (set_configs s) \<noteq> None
      else if name = ''auth'' then rc_auth (set_configs s) \<noteq> None
      else False)"
  by (simp add: set_configs_def wired_def)

lemma wired_set_configs: "set_configs s = set_configs s' \<Longrightarrow> wired s = wired s'"
  by (rule ext) (simp add: wired_configs)

lemma from_configs_good: "set_good F (from_configs R deps)"
  by (simp add: set_good_def from_configs_slots opt_slot_good_def split: option.splits)

lemmas call_cap_defs = call_db_def call_mongo_def call_mail_def call_redis_def call_amq_def call_auth_def

text \<open>A call of a lazily connected capability is a call through its slot.\<close>
lemma call_routes_lazy:
  "call_db F q s w = (r, s', w') \<Longrightarrow> lazy_call (fe_wire F) ''db'' (db_slot_connect F) (run_db F) q (bs_db s) w = (r, bs_db s', w')"
  "call_mongo F q s w = (r, s', w') \<Longrightarrow> lazy_call (fe_wire F) ''mongo'' (mongo_slot_connect F) (run_mongo F) q (bs_mongo s) w = (r, bs_mongo s', w')"
  "call_mail F q s w = (r, s', w') \<Longrightarrow> lazy_call (fe_wire F) ''mail'' (mail_slot_connect F) (run_mail F) q (bs_mail s) w = (r, bs_mail s', w')"
  "call_redis F q s w = (r, s', w') \<Longrightarrow> lazy_call (fe_wire F) ''redis'' (redis_slot_connect F) (run_redis F) q (bs_redis s) w = (r, bs_redis s', w')"
  "call_auth F q s w = (r, s', w') \<Longrightarrow> lazy_call (fe_wire F) ''auth'' (auth_slot_connect F) (run_auth F) q (bs_auth s) w = (r, bs_auth s', w')"
  by (auto simp: call_cap_defs split: prod.splits)

lemma call_cap_good:
  assumes "set_good F s"
  shows "call_db F q s w = (r, s', w') \<Longrightarrow> set_good F s' \<and> (\<forall>e. r = Inl e \<longrightarrow> env_ok F \<longrightarrow> cap_error ''db'' e)"
    and "call_mongo F q s w = (r, s', w') \<Longrightarrow> set_good F s' \<and> (\<forall>e. r = Inl e \<longrightarrow> env_ok F \<longrightarrow> cap_error ''mongo'' e)"
    and "call_mail F q s w = (r, s', w') \<Longrightarrow> set_good F s' \<and> (\<forall>e. r = Inl e \<longrightarrow> env_ok F \<longrightarrow> cap_error ''mail'' e)"
    and "call_redis F q s w = (r, s', w') \<Longrightarrow> set_good F s' \<and> (\<forall>e. r = Inl e \<longrightarrow> env_ok F \<longrightarrow> cap_error ''redis'' e)"
    and "call_amq F q s w = (r, s', w') \<Longrightarrow> set_good F s' \<and> (\<forall>e. r = Inl e \<longrightarrow> env_ok F \<longrightarrow> cap_error ''amq'' e)"
    and "call_auth F q s w = (r, s', w') \<Longrightarrow> set_good F s' \<and> (\<forall>e. r = Inl e \<longrightarrow> env_ok F \<longrightarrow> cap_error ''auth'' e)"
proof -
  have nc: "env_ok F \<longrightarrow> cap_error name (not_configured (fe_wire F) name)"
    if "name \<in> {''db'', ''mongo'', ''mail'', ''redis'', ''amq'', ''auth''}" for name
    using that not_configured_cap_error by (simp add: env_ok_def)
  show "set_good F s' \<and> (\<forall>e. r = Inl e \<longrightarrow> env_ok F \<longrightarrow> cap_error ''db'' e)" if "call_db F q s w = (r, s', w')"
  proof -
    from that obtain sl where c: "lazy_call (fe_wire F) ''db'' (db_slot_connect F) (run_db F) q (bs_db s) w = (r, sl, w')"
        "s' = s\<lparr>bs_db := sl\<rparr>" by (auto simp: call_db_def split: prod.splits)
    have "opt_slot_good (\<lambda>e. env_ok F \<longrightarrow> cap_error ''db'' e) (bs_db s)" using assms by (simp add: set_good_def)
    from db_slot.lazy_call_good [OF this nc c(1)] assms show ?thesis by (simp add: set_good_def c(2))
  qed
  show "set_good F s' \<and> (\<forall>e. r = Inl e \<longrightarrow> env_ok F \<longrightarrow> cap_error ''mongo'' e)" if "call_mongo F q s w = (r, s', w')"
  proof -
    from that obtain sl where c: "lazy_call (fe_wire F) ''mongo'' (mongo_slot_connect F) (run_mongo F) q (bs_mongo s) w = (r, sl, w')"
        "s' = s\<lparr>bs_mongo := sl\<rparr>" by (auto simp: call_mongo_def split: prod.splits)
    have "opt_slot_good (\<lambda>e. env_ok F \<longrightarrow> cap_error ''mongo'' e) (bs_mongo s)" using assms by (simp add: set_good_def)
    from mongo_slot.lazy_call_good [OF this nc c(1)] assms show ?thesis by (simp add: set_good_def c(2))
  qed
  show "set_good F s' \<and> (\<forall>e. r = Inl e \<longrightarrow> env_ok F \<longrightarrow> cap_error ''mail'' e)" if "call_mail F q s w = (r, s', w')"
  proof -
    from that obtain sl where c: "lazy_call (fe_wire F) ''mail'' (mail_slot_connect F) (run_mail F) q (bs_mail s) w = (r, sl, w')"
        "s' = s\<lparr>bs_mail := sl\<rparr>" by (auto simp: call_mail_def split: prod.splits)
    have "opt_slot_good (\<lambda>e. env_ok F \<longrightarrow> cap_error ''mail'' e) (bs_mail s)" using assms by (simp add: set_good_def)
    from mail_slot.lazy_call_good [OF this nc c(1)] assms show ?thesis by (simp add: set_good_def c(2))
  qed
  show "set_good F s' \<and> (\<forall>e. r = Inl e \<longrightarrow> env_ok F \<longrightarrow> cap_error ''redis'' e)" if "call_redis F q s w = (r, s', w')"
  proof -
    from that obtain sl where c: "lazy_call (fe_wire F) ''redis'' (redis_slot_connect F) (run_redis F) q (bs_redis s) w = (r, sl, w')"
        "s' = s\<lparr>bs_redis := sl\<rparr>" by (auto simp: call_redis_def split: prod.splits)
    have "opt_slot_good (\<lambda>e. env_ok F \<longrightarrow> cap_error ''redis'' e) (bs_redis s)" using assms by (simp add: set_good_def)
    from redis_slot.lazy_call_good [OF this nc c(1)] assms show ?thesis by (simp add: set_good_def c(2))
  qed
  show "set_good F s' \<and> (\<forall>e. r = Inl e \<longrightarrow> env_ok F \<longrightarrow> cap_error ''amq'' e)" if "call_amq F q s w = (r, s', w')"
  proof (cases "bs_amq s")
    case None
    with that have "r = Inl (not_configured (fe_wire F) ''amq'')" "s' = s" by (simp_all add: call_amq_def)
    with assms nc [of "''amq''"] show ?thesis by simp
  next
    case (Some b)
    with that obtain b1 where c: "run_amq F q b w = (r, b1, w')" "s' = s\<lparr>bs_amq := Some b1\<rparr>"
      by (auto simp: call_amq_def split: prod.splits)
    then have "\<forall>e. r = Inl e \<longrightarrow> cap_error ''amq'' e" by (auto dest: amq_run_cap_error)
    with assms c(2) show ?thesis by (simp add: set_good_def)
  qed
  show "set_good F s' \<and> (\<forall>e. r = Inl e \<longrightarrow> env_ok F \<longrightarrow> cap_error ''auth'' e)" if "call_auth F q s w = (r, s', w')"
  proof -
    from that obtain sl where c: "lazy_call (fe_wire F) ''auth'' (auth_slot_connect F) (run_auth F) q (bs_auth s) w = (r, sl, w')"
        "s' = s\<lparr>bs_auth := sl\<rparr>" by (auto simp: call_auth_def split: prod.splits)
    have "opt_slot_good (\<lambda>e. env_ok F \<longrightarrow> cap_error ''auth'' e) (bs_auth s)" using assms by (simp add: set_good_def)
    from auth_slot.lazy_call_good [OF this nc c(1)] assms show ?thesis by (simp add: set_good_def c(2))
  qed
qed

lemma set_call_routes:
  "set_call F (''db'', q) s w = call_db F q s w" "set_call F (''mongo'', q) s w = call_mongo F q s w"
  "set_call F (''mail'', q) s w = call_mail F q s w" "set_call F (''redis'', q) s w = call_redis F q s w"
  "set_call F (''amq'', q) s w = call_amq F q s w" "set_call F (''auth'', q) s w = call_auth F q s w"
  by (simp_all add: set_call_def split: prod.splits)

lemma set_call_unknown:
  "name \<notin> set capability_names \<Longrightarrow> set_call F (name, q) s w = (Inl (unknown_egress (fe_wire F) name), s, w)"
  by (simp add: set_call_def capability_names_def split: prod.splits)

lemma capability_cases:
  obtains "name = ''db''" | "name = ''mongo''" | "name = ''mail''" | "name = ''redis''" | "name = ''amq''" | "name = ''auth''"
  | "name \<notin> set capability_names"
  unfolding capability_names_def by fastforce

lemma set_call_good:
  assumes "set_good F s" "set_call F (name, q) s w = (r, s', w')"
  shows "set_good F s' \<and> (\<forall>e. r = Inl e \<longrightarrow> env_ok F \<longrightarrow>
    (if name \<in> set capability_names then cap_error name e else e = unknown_egress (fe_wire F) name))"
proof (cases "name \<in> set capability_names")
  case True
  have "set_good F s' \<and> (\<forall>e. r = Inl e \<longrightarrow> env_ok F \<longrightarrow> cap_error name e)"
  proof (cases rule: capability_cases [of name])
    case 1
    with assms(2) have "call_db F q s w = (r, s', w')" by (simp only: set_call_routes)
    from call_cap_good(1) [OF assms(1) this] show ?thesis unfolding 1 .
  next
    case 2
    with assms(2) have "call_mongo F q s w = (r, s', w')" by (simp only: set_call_routes)
    from call_cap_good(2) [OF assms(1) this] show ?thesis unfolding 2 .
  next
    case 3
    with assms(2) have "call_mail F q s w = (r, s', w')" by (simp only: set_call_routes)
    from call_cap_good(3) [OF assms(1) this] show ?thesis unfolding 3 .
  next
    case 4
    with assms(2) have "call_redis F q s w = (r, s', w')" by (simp only: set_call_routes)
    from call_cap_good(4) [OF assms(1) this] show ?thesis unfolding 4 .
  next
    case 5
    with assms(2) have "call_amq F q s w = (r, s', w')" by (simp only: set_call_routes)
    from call_cap_good(5) [OF assms(1) this] show ?thesis unfolding 5 .
  next
    case 6
    with assms(2) have "call_auth F q s w = (r, s', w')" by (simp only: set_call_routes)
    from call_cap_good(6) [OF assms(1) this] show ?thesis unfolding 6 .
  next
    case 7
    with True show ?thesis by contradiction
  qed
  with True show ?thesis by simp
next
  case False
  with assms set_call_unknown [OF False, of F q s w] show ?thesis by auto
qed

lemma set_run_good:
  assumes "set_good F s" "run_calls (set_call F) qs s w = (rs, s', w')"
  shows "set_good F s'" and "i < length qs \<Longrightarrow> qs ! i = (name, q) \<Longrightarrow> rs ! i = Inl e \<Longrightarrow> env_ok F \<Longrightarrow>
    (if name \<in> set capability_names then cap_error name e else e = unknown_egress (fe_wire F) name)"
  using assms
proof (induction qs arbitrary: s w rs i)
  case Nil
  { case 1 then show ?case by simp }
  { case 2 then show ?case by simp }
next
  case (Cons x qs)
  have step: thesis
    if "set_good F s" "run_calls (set_call F) (x # qs) s w = (rs, s', w')"
      and "\<And>r s1 w1 rs1. set_call F x s w = (r, s1, w1) \<Longrightarrow> run_calls (set_call F) qs s1 w1 = (rs1, s', w') \<Longrightarrow>
        rs = r # rs1 \<Longrightarrow> set_good F s1 \<Longrightarrow> thesis" for s w rs thesis
  proof -
    obtain r s1 w1 where c: "set_call F x s w = (r, s1, w1)" by (cases "set_call F x s w") auto
    moreover from that(2) c obtain rs1 where "run_calls (set_call F) qs s1 w1 = (rs1, s', w')" "rs = r # rs1"
      by (auto split: prod.splits)
    moreover have "set_good F s1" using set_call_good [OF that(1)] c by (cases x) blast
    ultimately show thesis by (rule that(3))
  qed
  { case 1 then show ?case by (rule step) (rule Cons.IH(1)) }
  { case 2
    show ?case
    proof (rule step [OF 2(5,6)])
      fix r s1 w1 rs1
      assume c: "set_call F x s w = (r, s1, w1)" and t: "run_calls (set_call F) qs s1 w1 = (rs1, s', w')"
        and rs: "rs = r # rs1" and g: "set_good F s1"
      show ?thesis
      proof (cases i)
        case 0
        with 2 rs have "x = (name, q)" "r = Inl e" by simp_all
        with set_call_good [OF 2(5), of name q w r s1 w1] c 2(4) show ?thesis by simp
      next
        case (Suc j)
        with 2 rs show ?thesis by (intro Cons.IH(2) [OF _ _ _ _ g t, of j]) simp_all
      qed
    qed }
qed

section \<open>Wiring and frames\<close>

lemma lazy_call_None_iff:
  "lazy_call W name connect run q slot w = (r, slot', w') \<Longrightarrow> slot' = None \<longleftrightarrow> slot = None"
  by (auto simp: lazy_call_def split: option.splits prod.splits)

text \<open>A call touches at most the slot of its own capability.\<close>
lemma set_call_frame:
  assumes "set_call F (name, q) s w = (r, s', w')"
  shows "name \<noteq> ''db'' \<Longrightarrow> bs_db s' = bs_db s" "name \<noteq> ''mongo'' \<Longrightarrow> bs_mongo s' = bs_mongo s"
    "name \<noteq> ''mail'' \<Longrightarrow> bs_mail s' = bs_mail s" "name \<noteq> ''redis'' \<Longrightarrow> bs_redis s' = bs_redis s"
    "name \<noteq> ''amq'' \<Longrightarrow> bs_amq s' = bs_amq s" "name \<noteq> ''auth'' \<Longrightarrow> bs_auth s' = bs_auth s"
  using assms
  by (cases rule: capability_cases [of name];
      simp add: set_call_routes set_call_unknown call_cap_defs split: prod.splits option.splits;
      auto)+

lemma set_call_None_iff:
  assumes "set_call F (name, q) s w = (r, s', w')"
  shows "bs_db s' = None \<longleftrightarrow> bs_db s = None" "bs_mongo s' = None \<longleftrightarrow> bs_mongo s = None"
    "bs_mail s' = None \<longleftrightarrow> bs_mail s = None" "bs_redis s' = None \<longleftrightarrow> bs_redis s = None"
    "bs_amq s' = None \<longleftrightarrow> bs_amq s = None" "bs_auth s' = None \<longleftrightarrow> bs_auth s = None"
  using assms
  by (cases rule: capability_cases [of name];
      simp add: set_call_routes set_call_unknown call_cap_defs split: prod.splits option.splits;
      auto dest: lazy_call_None_iff)+

lemma lazy_call_config:
  "lazy_call W name connect run q slot w = (r, slot', w') \<Longrightarrow> map_option slot_config slot' = map_option slot_config slot"
  by (auto simp: lazy_call_def slot_call_def slot_backend_def split: option.splits result_splits)

text \<open>The ceiling wires and unwires nothing.\<close>
lemma from_configs_clamp_wired: "wired (from_configs (clamp_db_statement_timeout n R) deps) = wired (from_configs R deps')"
  by (rule ext) (simp add: wired_configs clamp_keeps)

text \<open>No call changes a configuration.\<close>
lemma set_call_configs:
  assumes "set_call F (name, q) s w = (r, s', w')"
  shows "set_configs s' = set_configs s"
proof (cases rule: capability_cases [of name])
  case 5
  with assms show ?thesis
    by (auto simp: set_configs_def set_call_routes call_amq_def run_amq_def split: option.splits prod.splits dest: amq.call_fixed)
next
  case 7
  with assms show ?thesis by (simp add: set_call_unknown)
qed (use assms in \<open>auto simp: set_configs_def set_call_routes call_cap_defs simp flip: option.map_comp
    split: prod.splits dest!: lazy_call_config\<close>)

lemmas set_call_wired = set_call_configs [THEN wired_set_configs]

lemma set_run_configs: "run_calls (set_call F) qs s w = (rs, s', w') \<Longrightarrow> set_configs s' = set_configs s"
proof (induction qs arbitrary: s w rs)
  case (Cons x qs)
  obtain r s1 w1 where c: "set_call F x s w = (r, s1, w1)" by (cases "set_call F x s w") auto
  with Cons.prems obtain rs1 where "run_calls (set_call F) qs s1 w1 = (rs1, s', w')" by (auto split: prod.splits)
  from Cons.IH [OF this] set_call_configs [of F "fst x" "snd x" s w r s1 w1] c show ?case by simp
qed simp

lemmas set_run_wired = set_run_configs [THEN wired_set_configs]

lemma not_wired_refused:
  assumes "\<not> wired s name" "name \<in> set capability_names"
  shows "set_call F (name, q) s w = (Inl (not_configured (fe_wire F) name), s, w)"
  using assms
  by (cases rule: capability_cases [of name])
    (simp_all add: wired_def set_call_routes call_cap_defs lazy_call_def capability_names_def)

lemma from_configs_wired:
  assumes "resolve T init = Inr R"
  shows "wired (from_configs R deps) name \<longleftrightarrow> wi_select init name \<noteq> None"
proof -
  from assms [unfolded resolve_Inr_iff]
  have "rc_db R = None \<longleftrightarrow> wi_db init = None" "rc_mongo R = None \<longleftrightarrow> wi_mongo init = None"
    "rc_mail R = None \<longleftrightarrow> wi_mail init = None" "rc_redis R = None \<longleftrightarrow> wi_redis init = None"
    "rc_amq R = None \<longleftrightarrow> wi_amq init = None" "rc_auth R = None \<longleftrightarrow> wi_auth init = None"
    using granted_None_iff by blast+
  then show ?thesis by (simp add: wired_def wi_select_def from_configs_slots del: not_None_eq)
qed

section \<open>Metrics over a session\<close>

lemma amq_run_metric:
  assumes "bs_amq s = Some b" "set_call F (name, action, pj) s w = (r, s', w')"
  shows "\<exists>b'. bs_amq s' = Some b' \<and> map aqm_action (aqp_history b') =
    map aqm_action (aqp_history b) @ (if name = ''amq'' then [action] else [])"
proof (cases "name = ''amq''")
  case True
  with assms obtain r1 b1 where c: "amq_call (fe_amq F) (action, pj) b w = (r1, b1, w')" "bs_amq s' = Some b1"
    by (auto simp: set_call_routes call_amq_def run_amq_def split: prod.splits)
  from amq.call_one_metric [OF c(1)] c(2) True show ?thesis by auto
next
  case False
  with set_call_frame(5) [OF assms(2)] assms(1) show ?thesis by simp
qed

lemma amq_session_metrics:
  assumes "bs_amq s = Some b" "run_calls (set_call F) qs s w = (rs, s', w')"
  shows "\<exists>b'. bs_amq s' = Some b' \<and> map aqm_action (aqp_history b') =
    map aqm_action (aqp_history b) @ [action. (name, action, _) \<leftarrow> qs, name = ''amq'']"
  using assms
proof (induction qs arbitrary: s b w rs)
  case Nil
  then show ?case by simp
next
  case (Cons x qs)
  obtain name action pj where x: "x = (name, action, pj)" by (cases x)
  obtain r s1 w1 where c: "set_call F x s w = (r, s1, w1)" by (cases "set_call F x s w") auto
  with Cons.prems obtain rs1 where t: "run_calls (set_call F) qs s1 w1 = (rs1, s', w')" by (auto split: prod.splits)
  from amq_run_metric [OF Cons.prems(1) c [unfolded x]] obtain b1 where b1: "bs_amq s1 = Some b1"
    "map aqm_action (aqp_history b1) = map aqm_action (aqp_history b) @ (if name = ''amq'' then [action] else [])" by blast
  from Cons.IH [OF b1(1) t] b1(2) show ?case by (auto simp: x)
qed

section \<open>A concrete outside for witnesses\<close>

text \<open>The outside where brokers, mail relay, document store and key-value store are all down.\<close>
definition mongo_down :: "'w mongo_lib" where
  "mongo_down =
     (let err = \<lparr>mde_kind = KIo, mde_text = ''down''\<rparr> in
      \<lparr>mg_json = json_ref, mg_clock = (\<lambda>w. (0, w)), mg_timeout = (\<lambda>_ fut w. case fut w of (r, w1) \<Rightarrow> (Done r, w1)),
       mg_percent_encode = percent_encode_ref, mg_parse_options = (\<lambda>_ w. (Inl err, w)),
       mg_with_options = (\<lambda>_ w. (Inl err, w)), mg_database = (\<lambda>_ _. 0), mg_collection = (\<lambda>_ _. 0),
       mg_find = (\<lambda>_ _ w. (Inl err, w)), mg_find_one = (\<lambda>_ _ w. (Inl err, w)), mg_count = (\<lambda>_ _ _ w. (Inl err, w)),
       mg_aggregate = (\<lambda>_ _ _ w. (Inl err, w)), mg_advance = (\<lambda>_ w. (Inl err, w)), mg_current = (\<lambda>_ _. Inl err),
       mg_insert_one = (\<lambda>_ _ w. (Inl err, w)), mg_insert_many = (\<lambda>_ _ w. (Inl err, w)),
       mg_update_one = (\<lambda>_ _ _ w. (Inl err, w)), mg_update_many = (\<lambda>_ _ _ w. (Inl err, w)),
       mg_delete_one = (\<lambda>_ _ w. (Inl err, w)), mg_delete_many = (\<lambda>_ _ w. (Inl err, w)),
       mg_to_bson = (\<lambda>_. Inl ''bson''), mg_oid_hex = (\<lambda>s. s), mg_decimal_text = (\<lambda>s. s), mg_rfc3339 = (\<lambda>_. Inl ''date''),
       mg_base64 = (\<lambda>s. s), mg_other_text = (\<lambda>_. ''other''), de_mongo_payload = (\<lambda>_. Inl ''payload'')\<rparr>)"

definition redis_down :: "'w redis_lib" where
  "redis_down =
     (let err = \<lparr>rde_is_timeout = False, rde_is_io = True, rde_text = ''down''\<rparr> in
      \<lparr>rd_json = json_ref, rd_clock = (\<lambda>w. (0, w)), rd_open = (\<lambda>_ w. (Inr 1, w)),
       rd_get_connection = (\<lambda>_ w. (Inl err, w)), rd_set_read_timeout = (\<lambda>_ _ w. (Inl err, w)),
       rd_set_write_timeout = (\<lambda>_ _ w. (Inl err, w)), rd_get = (\<lambda>_ _ w. (Inl err, w)), rd_set = (\<lambda>_ _ _ w. (Inl err, w)),
       rd_set_ex = (\<lambda>_ _ _ _ w. (Inl err, w)), rd_del = (\<lambda>_ _ w. (Inl err, w)), rd_incr = (\<lambda>_ _ _ w. (Inl err, w)),
       rd_expire = (\<lambda>_ _ _ w. (Inl err, w)), de_key_payload = (\<lambda>_. Inl ''payload''),
       de_set_payload = (\<lambda>_. Inl ''payload''), de_expire_payload = (\<lambda>_. Inl ''payload'')\<rparr>)"

definition mail_down :: "'w mail_lib" where
  "mail_down =
     \<lparr>ml_json_string = Inr, ml_clock = (\<lambda>w. (0, w)), ml_starttls_relay = (\<lambda>_. Inl ''down''), ml_relay = (\<lambda>_. Inl ''down''),
      ml_builder_dangerous = (\<lambda>_. 0), ml_parse_mailbox = (\<lambda>_. Inl ''address''), ml_lowercase = ascii_lower,
      ml_multipart = (\<lambda>_ _ _. Inl ''mime''), ml_html_part = (\<lambda>_ _. Inl ''mime''), ml_plain_body = (\<lambda>_ _. Inl ''mime''),
      ml_formatted = (\<lambda>_. []),
      ml_send = (\<lambda>_ _ w. (Inl \<lparr>sme_is_transient = True, sme_is_permanent = False, sme_text = ''down''\<rparr>, w)),
      de_send_payload = (\<lambda>_. Inl ''payload'')\<rparr>"

definition amq_down :: "'w amq_lib" where
  "amq_down =
     \<lparr>aq_json = json_ref, aq_clock = (\<lambda>w. (0, w)), aq_build_runtime = (\<lambda>w. (Inr (), w)), aq_tls = (\<lambda>_ _ w. (Inl ''down'', w)),
      aq_open = (\<lambda>_ w. (Inl ''down'', w)), aq_open_channel = (\<lambda>_ w. (Inl ''down'', w)),
      aq_basic_publish = (\<lambda>_ _ _ _ w. (Inl ''down'', w)), aq_close_channel = (\<lambda>_ w. (Inl ''down'', w)),
      aq_close_connection = (\<lambda>_ w. (Inl ''down'', w)), aq_nats_connect = (\<lambda>_ _ w. (Inl ''down'', w)),
      aq_nats_publish = (\<lambda>_ _ _ w. (Inl ''down'', w)), aq_nats_flush = (\<lambda>_ w. (Inl ''down'', w)),
      aq_nats_request = (\<lambda>_ _ _ w. (Inl ''down'', w)), aq_utf8_lossy = (\<lambda>s. s), aq_lowercase = ascii_lower,
      de_amq_send = (\<lambda>_. Inl ''payload''), de_amq_request = (\<lambda>_. Inl ''payload'')\<rparr>"

definition fabric_ref :: "nat fabric_env" where
  "fabric_ref =
     \<lparr>fe_wire = wire_ref, fe_json = json_ref, fe_pg = pg_ref, fe_mongo = mongo_down, fe_mail = mail_down,
      fe_redis = redis_down, fe_amq = amq_down, fe_auth = auth_ref,
      de_db_payload = (\<lambda>s. Inr \<lparr>dp_sql = s, dp_params = VNull\<rparr>),
      de_mongo_envelope = (\<lambda>s. Inr \<lparr>me_collection = s, me_data = VNull\<rparr>),
      de_auth_payload = (\<lambda>s. Inr \<lparr>ap_token = s\<rparr>)\<rparr>"

definition deps_ref :: async_deps where
  "deps_ref = \<lparr>ad_breaker = None, ad_timeout = 1000\<rparr>"

definition configs_ref :: resolved_configs where
  "configs_ref = \<lparr>rc_db = None, rc_mongo = None, rc_mail = None, rc_redis = Some redis_config_ref,
     rc_amq = Some (amq_config_ref Rabbitmq), rc_auth = None\<rparr>"

lemma fabric_ref_ok: "env_ok fabric_ref"
  by (auto simp: env_ok_def fabric_ref_def timeout_ok_def mongo_down_def Let_def split: prod.splits)

lemma fabric_ref_redis:
  "\<exists>e s'. set_call fabric_ref (''redis'', ''get'', ''k'') (from_configs configs_ref deps_ref) 0 = (Inl e, s', 0) \<and>
     ee_code e = ''REDIS_CONNECTION'' \<and> (\<exists>slot. bs_redis s' = Some slot \<and> slot_cell slot = Some (Inl e))"
  by (simp add: set_call_routes call_redis_def lazy_call_def slot_call_def slot_backend_def from_configs_slots configs_ref_def
      redis_slot_connect_def redis_connect_resource_def redis_connect_def fabric_ref_def redis_down_def redis_config_ref_def
      is_redis_connect_error_def fault_defs Let_def)

section \<open>Properties\<close>

text \<open>Every error a session ever sees names its capability: over any sequence of calls on a freshly built set,
  an error of a call to a known capability has that capability as its source and one of that capability's
  classified codes (cached connection errors included), and a call to an unknown name is \<^verbatim>\<open>IO_UNKNOWN\<close>.\<close>
theorem session_errors_classified:
  assumes env: "env_ok F"
    and run: "run_calls (set_call F) qs (from_configs R deps) w = (rs, s', w')"
    and i: "i < length qs" "qs ! i = (name, action, pj)" "rs ! i = Inl e"
  shows "(if name \<in> set capability_names then ee_source e = name \<and> ee_code e \<in> set (capability_codes name)
     else ee_source e = ''engine'' \<and> ee_code e = ''IO_UNKNOWN'' \<and> ee_owner e = Developer)"
  using set_run_good(2) [OF from_configs_good run i env] env
  by (auto simp: cap_error_def unknown_egress_def env_ok_def egress_builder_okD split: if_splits)

theorem session_errors_classified_witness:
  "\<exists>rs s' w' e. run_calls (set_call fabric_ref) [(''redis'', ''get'', ''k'')] (from_configs configs_ref deps_ref) 0 = (rs, s', w') \<and>
     rs = [Inl e] \<and> ee_source e = ''redis''"
proof -
  obtain e s' where c: "set_call fabric_ref (''redis'', ''get'', ''k'') (from_configs configs_ref deps_ref) 0 = (Inl e, s', 0)"
    using fabric_ref_redis by blast
  then have r: "run_calls (set_call fabric_ref) [(''redis'', ''get'', ''k'')] (from_configs configs_ref deps_ref) 0 = ([Inl e], s', 0)"
    by simp
  from session_errors_classified [OF fabric_ref_ok r, of 0] r show ?thesis by (simp add: capability_names_def)
qed

text \<open>Least privilege: a capability that the session's handshake did not name is refused with
  \<^verbatim>\<open><CAP>_NOT_CONFIGURED\<close>, before and after any sequence of other calls, without touching the outside world.\<close>
theorem unnamed_capability_refused:
  assumes wire: "egress_builder_ok (fe_wire F)" and res: "resolve T init = Inr R"
    and name: "name \<in> set capability_names" "wi_select init name = None"
    and run: "run_calls (set_call F) qs (from_configs (clamp_db_statement_timeout cap R) deps) w = (rs, s', w')"
  shows "\<exists>e. set_call F (name, action, pj) s' v = (Inl e, s', v) \<and> ee_source e = name \<and>
    ee_code e = to_uppercase name @ ''_NOT_CONFIGURED'' \<and> ee_owner e = Developer"
proof -
  from from_configs_clamp_wired [of cap R deps deps] from_configs_wired [OF res] name(2) set_run_wired [OF run] have "\<not> wired s' name" by simp
  from not_wired_refused [OF this name(1), of F "(action, pj)" v] show ?thesis
    by (auto simp: not_configured_def egress_builder_okD [OF wire])
qed

theorem unnamed_capability_refused_witness:
  "\<exists>R e s' w'. resolve table_ref init_ref = Inr R \<and>
     set_call fabric_ref (''mail'', ''send'', []) s' w' = (Inl e, s', w') \<and> ee_code e = ''MAIL_NOT_CONFIGURED''"
proof -
  obtain R where R: "resolve table_ref init_ref = Inr R" by (simp add: resolve_eval)
  obtain rs s' w' where r: "run_calls (set_call fabric_ref) [(''redis'', ''get'', ''k'')]
      (from_configs (clamp_db_statement_timeout 0 R) deps_ref) 0 = (rs, s', w')" by (metis prod_cases3)
  have "egress_builder_ok (fe_wire fabric_ref)" using fabric_ref_ok by (simp add: env_ok_def)
  from unnamed_capability_refused [OF this R _ _ r, of "''mail''" "''send''" "[]" w'] R show ?thesis
    by (auto simp: capability_names_def wi_select_def init_ref_def init_none_def not_configured_uppercase)
qed

end
