(* ===== verification/Sa_Token.thy ===== *)
theory Sa_Token
  imports Oidc
begin

text \<open>
  Offline verification of service-account tokens, \<^verbatim>\<open>crates/fabric-backends/src/sa_token.rs\<close>: the key cache
  filled by a background task, the verification of a token against it, JWKS discovery and download, and the
  construction of the HTTP client.  The functions of \<^verbatim>\<open>jsonwebtoken\<close>, \<^verbatim>\<open>reqwest\<close> and the file system are the
  fields of \<open>jwks_lib\<close>.  The background task and the verifying threads interleave freely; the step relation
  \<open>verifier_step\<close> has one constructor for each atomic step on the shared cache.
\<close>

section \<open>Data\<close>

definition SA_TOKEN_UNAVAILABLE :: fault where
  [fault_defs]: "SA_TOKEN_UNAVAILABLE = mk_fault ''SA_TOKEN_UNAVAILABLE'' True Operator"

definition DEFAULT_REFRESH_SECS :: u64 where "DEFAULT_REFRESH_SECS = 300"

definition MIN_REFRESH :: duration where "MIN_REFRESH = duration_from_secs 1"

text \<open>\<^verbatim>\<open>KeyMap\<close>: key id to verification key.\<close>
type_synonym key_map = "string \<rightharpoonup> handle"

record sa_token_verify_config =
  sav_issuer :: string
  sav_jwks_url :: "string option"
  sav_audience :: string
  sav_ca_cert :: "string option"
  sav_refresh :: duration

definition sa_token_verify_config_new :: "string \<Rightarrow> string \<Rightarrow> sa_token_verify_config" where
  "sa_token_verify_config_new issuer audience =
     \<lparr>sav_issuer = issuer, sav_jwks_url = None, sav_audience = audience, sav_ca_cert = None,
      sav_refresh = duration_from_secs DEFAULT_REFRESH_SECS\<rparr>"

datatype verify_error = KeysNotLoaded | MissingKid | UnknownKid | Invalid string | Internal

definition verify_error_text :: "verify_error \<Rightarrow> string" where
  "verify_error_text e =
     (case e of
        KeysNotLoaded \<Rightarrow> ''sa-token verifier not ready (JWKS not loaded)''
      | MissingKid \<Rightarrow> ''token header missing kid''
      | UnknownKid \<Rightarrow> ''no JWKS key matches the token kid''
      | Invalid reason \<Rightarrow> ''token invalid: '' @ reason
      | Internal \<Rightarrow> ''internal verifier error'')"

datatype jwt_algorithm = RS256 | OtherAlgorithm string

record validation =
  vd_algorithm :: jwt_algorithm
  vd_audience :: "string list"
  vd_issuer :: "string list"

text \<open>An entry of a JWKS: its key id and its opaque key material.\<close>
record jwk =
  jwk_kid :: "string option"
  jwk_material :: string

text \<open>Decoding reads the clock (expiry), so it depends on the world without changing it.\<close>
record 'w jwks_lib =
  jw_decode_header :: "string \<Rightarrow> (string, string option) result"
  jw_decode :: "string \<Rightarrow> handle \<Rightarrow> validation \<Rightarrow> 'w \<Rightarrow> (string, json_value) result"
  jw_from_jwk :: "jwk \<Rightarrow> (string, handle) result"
  jw_get :: "handle \<Rightarrow> string \<Rightarrow> ('w, (string, u16 \<times> handle) result) io"
  jw_status_text :: "u16 \<Rightarrow> string"
  jw_json_value :: "handle \<Rightarrow> ('w, (string, json_value) result) io"
  jw_json_set :: "handle \<Rightarrow> ('w, (string, jwk list) result) io"
  jw_read_file :: "string \<Rightarrow> ('w, (string, string) result) io"
  jw_pem_bundle :: "string \<Rightarrow> (string, handle list) result"
  jw_build_client :: "handle list \<Rightarrow> ('w, (string, handle) result) io"
  jw_sleep :: "duration \<Rightarrow> 'w \<Rightarrow> 'w"

text \<open>The verifier: the cache behind its lock, and the expected claims.\<close>
record jwks_verifier =
  jv_keys :: "key_map option"
  jv_poisoned :: bool
  jv_audience :: string
  jv_issuer :: string

section \<open>Verification\<close>

definition jwks_validation :: "jwks_verifier \<Rightarrow> validation" where
  "jwks_validation v =
     \<lparr>vd_algorithm = RS256, vd_audience = [jv_audience v], vd_issuer = [jv_issuer v]\<rparr>"

definition verify :: "'w jwks_lib \<Rightarrow> jwks_verifier \<Rightarrow> string \<Rightarrow> 'w \<Rightarrow> (verify_error, unit) result" where
  "verify L v token w =
     (case jw_decode_header L token of
        Inl err \<Rightarrow> Inl (Invalid err)
      | Inr None \<Rightarrow> Inl MissingKid
      | Inr (Some kid) \<Rightarrow>
          (if jv_poisoned v then Inl Internal
           else (case jv_keys v of
                   None \<Rightarrow> Inl KeysNotLoaded
                 | Some keys \<Rightarrow>
                     (case keys kid of
                        None \<Rightarrow> Inl UnknownKid
                      | Some key \<Rightarrow>
                          (case jw_decode L token key (jwks_validation v) w of
                             Inl err \<Rightarrow> Inl (Invalid err)
                           | Inr _ \<Rightarrow> Inr ())))))"

section \<open>The JWKS client\<close>

definition client_error :: "string \<Rightarrow> egress_error" where
  [ctor_defs]: "client_error message =
     \<lparr>ee_code = f_code SA_TOKEN_UNAVAILABLE, ee_message = message, ee_source = ''sa-token'', ee_details = None,
      ee_retryable = f_retryable SA_TOKEN_UNAVAILABLE, ee_owner = f_owner SA_TOKEN_UNAVAILABLE\<rparr>"

definition jwks_ca_certs :: "'w jwks_lib \<Rightarrow> string option \<Rightarrow> ('w, (egress_error, handle list) result) io" where
  "jwks_ca_certs L ca_cert w =
     (case ca_cert of
        None \<Rightarrow> (Inr [], w)
      | Some path \<Rightarrow>
          (case jw_read_file L path w of
             (Inl err, w1) \<Rightarrow> (Inl (client_error (''read ca_cert '' @ path @ '': '' @ err)), w1)
           | (Inr pem, w1) \<Rightarrow>
               (map_err (\<lambda>err. client_error (''parse ca_cert bundle: '' @ err)) (jw_pem_bundle L pem), w1)))"

definition jwks_build_client :: "'w jwks_lib \<Rightarrow> string option \<Rightarrow> ('w, (egress_error, handle) result) io" where
  "jwks_build_client L ca_cert w =
     (case jwks_ca_certs L ca_cert w of
        (Inl e, w1) \<Rightarrow> (Inl e, w1)
      | (Inr certs, w1) \<Rightarrow>
          (case jw_build_client L certs w1 of
             (r, w2) \<Rightarrow> (map_err (\<lambda>err. client_error (''build JWKS client: '' @ err)) r, w2)))"

text \<open>\<^verbatim>\<open>get_json\<close> at the two types it is used at: a fetch error is its text.\<close>
definition get_json ::
    "'w jwks_lib \<Rightarrow> (handle \<Rightarrow> ('w, (string, 'a) result) io) \<Rightarrow> handle \<Rightarrow> string \<Rightarrow> ('w, (string, 'a) result) io" where
  "get_json L json client url w =
     (case jw_get L client url w of
        (Inl err, w1) \<Rightarrow> (Inl (''GET '' @ url @ '' failed: '' @ err), w1)
      | (Inr (status, response), w1) \<Rightarrow>
          (if \<not> (200 \<le> status \<and> status < 300)
           then (Inl (''GET '' @ url @ '' returned '' @ jw_status_text L status), w1)
           else (case json response w1 of
                   (r, w2) \<Rightarrow> (map_err (\<lambda>err. ''decode '' @ url @ '' failed: '' @ err) r, w2))))"

definition discover_jwks_url :: "'w jwks_lib \<Rightarrow> handle \<Rightarrow> string \<Rightarrow> ('w, (string, string) result) io" where
  "discover_jwks_url L client issuer w =
     (case get_json L (jw_json_value L) client (discovery_url issuer) w of
        (Inl e, w1) \<Rightarrow> (Inl e, w1)
      | (Inr doc, w1) \<Rightarrow>
          (ok_or ''discovery document has no jwks_uri'' (auth_string_field doc ''jwks_uri''), w1))"

definition build_key_map :: "'w jwks_lib \<Rightarrow> jwk list \<Rightarrow> key_map" where
  "build_key_map L keys =
     fold (\<lambda>jwk km.
       case jwk_kid jwk of
         None \<Rightarrow> km
       | Some kid \<Rightarrow> (case jw_from_jwk L jwk of Inr key \<Rightarrow> km(kid \<mapsto> key) | Inl _ \<Rightarrow> km)) keys Map.empty"

definition fetch_keys :: "'w jwks_lib \<Rightarrow> handle \<Rightarrow> string \<Rightarrow> string option \<Rightarrow> ('w, (string, key_map) result) io" where
  "fetch_keys L client issuer jwks_url w =
     (case (case jwks_url of
              Some explicit \<Rightarrow> (Inr explicit, w)
            | None \<Rightarrow> discover_jwks_url L client issuer w) of
        (Inl e, w1) \<Rightarrow> (Inl e, w1)
      | (Inr url, w1) \<Rightarrow>
          (case get_json L (jw_json_set L) client url w1 of
             (r, w2) \<Rightarrow> (map_ok (build_key_map L) r, w2)))"

section \<open>The refresh task\<close>

text \<open>What the task was started with.\<close>
record refresh_task =
  rt_client :: handle
  rt_issuer :: string
  rt_jwks_url :: "string option"
  rt_interval :: duration

definition swap_keys :: "jwks_verifier \<Rightarrow> key_map \<Rightarrow> jwks_verifier" where
  "swap_keys v km = (if jv_poisoned v then v else v\<lparr>jv_keys := Some km\<rparr>)"

text \<open>One round of \<^verbatim>\<open>refresh_loop\<close>: fetch, swap on success, sleep.\<close>
definition refresh_round :: "'w jwks_lib \<Rightarrow> refresh_task \<Rightarrow> jwks_verifier \<times> 'w \<Rightarrow> jwks_verifier \<times> 'w" where
  "refresh_round L t vw =
     (case fetch_keys L (rt_client t) (rt_issuer t) (rt_jwks_url t) (snd vw) of
        (Inr km, w1) \<Rightarrow> (swap_keys (fst vw) km, jw_sleep L (rt_interval t) w1)
      | (Inl _, w1) \<Rightarrow> (fst vw, jw_sleep L (rt_interval t) w1))"

definition spawn_verifier ::
    "'w jwks_lib \<Rightarrow> sa_token_verify_config \<Rightarrow> ('w, (egress_error, jwks_verifier \<times> refresh_task) result) io" where
  "spawn_verifier L config w =
     (case jwks_build_client L (sav_ca_cert config) w of
        (Inl e, w1) \<Rightarrow> (Inl e, w1)
      | (Inr client, w1) \<Rightarrow>
          (Inr (\<lparr>jv_keys = None, jv_poisoned = False, jv_audience = sav_audience config, jv_issuer = sav_issuer config\<rparr>,
                \<lparr>rt_client = client, rt_issuer = sav_issuer config, rt_jwks_url = sav_jwks_url config,
                 rt_interval = max (sav_refresh config) MIN_REFRESH\<rparr>), w1))"

section \<open>Interleaving\<close>

text \<open>The shared cache over time.  A round of the task swaps the cache at one instant, or leaves it when the
  fetch failed; a lock holder that panics poisons it; everything else that happens in the process changes
  only the world.\<close>
inductive verifier_step :: "'w jwks_lib \<Rightarrow> refresh_task \<Rightarrow> jwks_verifier \<times> 'w \<Rightarrow> jwks_verifier \<times> 'w \<Rightarrow> bool"
  for L :: "'w jwks_lib" and t :: refresh_task where
  refreshed: "fetch_keys L (rt_client t) (rt_issuer t) (rt_jwks_url t) w0 = (Inr km, w1) \<Longrightarrow>
    verifier_step L t (v, w) (swap_keys v km, w')"
| fetch_failed: "fetch_keys L (rt_client t) (rt_issuer t) (rt_jwks_url t) w0 = (Inl e, w1) \<Longrightarrow>
    verifier_step L t (v, w) (v, w')"
| poisoned: "verifier_step L t (v, w) (v\<lparr>jv_poisoned := True\<rparr>, w')"
| elsewhere: "verifier_step L t (v, w) (v, w')"

inductive_cases verifier_stepE: "verifier_step L t (v, w) (v', w')"

text \<open>A round of the loop, when nothing else runs, is such a step.\<close>
lemma refresh_round_step: "verifier_step L t vw (refresh_round L t vw)"
proof -
  obtain v w where vw: "vw = (v, w)" by (cases vw)
  obtain r w1 where f: "fetch_keys L (rt_client t) (rt_issuer t) (rt_jwks_url t) w = (r, w1)"
    by (cases "fetch_keys L (rt_client t) (rt_issuer t) (rt_jwks_url t) w")
  show ?thesis
  proof (cases r)
    case (Inl e)
    with f show ?thesis by (simp add: vw refresh_round_def fetch_failed)
  next
    case (Inr km)
    with f show ?thesis by (simp add: vw refresh_round_def refreshed)
  qed
qed

section \<open>Lemmas\<close>

lemma verify_ok_iff:
  "verify L v token w = Inr () \<longleftrightarrow>
     (\<exists>kid keys key claims. jw_decode_header L token = Inr (Some kid) \<and> \<not> jv_poisoned v \<and> jv_keys v = Some keys \<and>
        keys kid = Some key \<and> jw_decode L token key (jwks_validation v) w = Inr claims)"
  by (auto simp: verify_def split: sum.splits option.splits if_splits)

text \<open>The key map holds, for each key id, the last usable entry of the set.\<close>
definition usable_keys :: "'w jwks_lib \<Rightarrow> jwk list \<Rightarrow> (string \<times> handle) list" where
  "usable_keys L keys =
     List.map_filter (\<lambda>jwk. case jwk_kid jwk of None \<Rightarrow> None
        | Some kid \<Rightarrow> (case jw_from_jwk L jwk of Inr key \<Rightarrow> Some (kid, key) | Inl _ \<Rightarrow> None)) keys"

lemma build_key_map_aux:
  "fold (\<lambda>jwk km.
       case jwk_kid jwk of
         None \<Rightarrow> km
       | Some kid \<Rightarrow> (case jw_from_jwk L jwk of Inr key \<Rightarrow> km(kid \<mapsto> key) | Inl _ \<Rightarrow> km)) keys m =
     m ++ map_of (rev (usable_keys L keys))"
  by (induction keys arbitrary: m)
    (simp_all add: usable_keys_def List.map_filter_def split: option.splits sum.splits)

lemma build_key_map_last: "build_key_map L keys = map_of (rev (usable_keys L keys))"
  by (simp add: build_key_map_def build_key_map_aux)

text \<open>Where keys may be downloaded from: the configured address, or the one that the issuer's own discovery document
  names.\<close>
definition jwks_location :: "'w jwks_lib \<Rightarrow> handle \<Rightarrow> string \<Rightarrow> string option \<Rightarrow> string \<Rightarrow> bool" where
  "jwks_location L client issuer jwks_url url =
     (case jwks_url of
        Some explicit \<Rightarrow> url = explicit
      | None \<Rightarrow> (\<exists>u u' doc. get_json L (jw_json_value L) client (discovery_url issuer) u = (Inr doc, u') \<and>
          auth_string_field doc ''jwks_uri'' = Some url))"

lemma discover_jwks_url_Inr:
  "discover_jwks_url L client issuer w = (Inr url, w') \<Longrightarrow> jwks_location L client issuer None url"
  by (fastforce simp: discover_jwks_url_def jwks_location_def ok_or_def split: result_splits)

lemma get_json_Inr:
  "get_json L json client url w = (Inr x, w') \<Longrightarrow>
    \<exists>status resp w1. jw_get L client url w = (Inr (status, resp), w1) \<and> 200 \<le> status \<and> status < 300 \<and> json resp w1 = (Inr x, w')"
  by (auto simp: get_json_def map_err_Inr_iff split: result_splits)

lemma fetch_keys_Inr:
  assumes "fetch_keys L client issuer jwks_url w = (Inr km, w')"
  shows "\<exists>url w1 resp status w2 keys. jwks_location L client issuer jwks_url url \<and>
    jw_get L client url w1 = (Inr (status, resp), w2) \<and> 200 \<le> status \<and> status < 300 \<and>
    jw_json_set L resp w2 = (Inr keys, w') \<and> km = build_key_map L keys"
proof -
  have "\<exists>url w1 keys. jwks_location L client issuer jwks_url url \<and> get_json L (jw_json_set L) client url w1 = (Inr keys, w') \<and>
      km = build_key_map L keys"
  proof (cases jwks_url)
    case None
    with assms show ?thesis
      by (auto simp: fetch_keys_def map_ok_Inr_iff split: result_splits dest: discover_jwks_url_Inr)
  next
    case (Some explicit)
    with assms show ?thesis
      by (auto simp: fetch_keys_def jwks_location_def map_ok_Inr_iff split: result_splits)
  qed
  with get_json_Inr [of L "jw_json_set L" client] show ?thesis by metis
qed

text \<open>The claims a verifier expects never change, and poison never heals.\<close>
lemma verifier_step_keeps:
  assumes "verifier_step L t (v, w) (v', w')"
  shows "jv_audience v' = jv_audience v" "jv_issuer v' = jv_issuer v" "jv_poisoned v \<Longrightarrow> jv_poisoned v'"
  using assms by (auto elim!: verifier_stepE simp: swap_keys_def)

lemma verifier_run_keeps:
  assumes "(verifier_step L t)\<^sup>*\<^sup>* vw vw'"
  shows "jv_audience (fst vw') = jv_audience (fst vw)" "jv_issuer (fst vw') = jv_issuer (fst vw)"
    "jv_poisoned (fst vw) \<Longrightarrow> jv_poisoned (fst vw')"
  using assms by (induction rule: rtranclp_induct) (auto dest: verifier_step_keeps)

text \<open>Where the cached keys can come from: the keys at the start, or a fetch of this task.\<close>
lemma verifier_run_keys:
  assumes "(verifier_step L t)\<^sup>*\<^sup>* vw vw'" "jv_keys (fst vw') = Some km"
  shows "jv_keys (fst vw) = Some km \<or>
    (\<exists>w0 w1. fetch_keys L (rt_client t) (rt_issuer t) (rt_jwks_url t) w0 = (Inr km, w1))"
  using assms
  by (induction arbitrary: km rule: rtranclp_induct)
    (fastforce elim!: verifier_stepE simp: swap_keys_def split: if_splits)+

section \<open>A concrete outside for witnesses\<close>

text \<open>A token is its key id and its claims around a dot; the issuer serves one key until the world says it
  is rotated out.\<close>
definition jwks_ref :: "bool jwks_lib" where
  "jwks_ref =
     \<lparr>jw_decode_header = (\<lambda>t. if t = [] then Inl ''empty'' else Inr (Some (takeWhile (\<lambda>c. c \<noteq> CHR ''.'') t))),
      jw_decode = (\<lambda>t k vd w. if vd_audience vd = [''fabricd''] then Inr (VString t) else Inl ''aud''),
      jw_from_jwk = (\<lambda>j. if jwk_material j = [] then Inl ''empty'' else Inr (length (jwk_material j))),
      jw_get = (\<lambda>_ url w. if url = ''https://iam/keys'' then (Inr (200, if w then 1 else 2), w) else (Inr (500, 0), w)),
      jw_status_text = (\<lambda>_. ''500''), jw_json_value = (\<lambda>_ w. (Inl ''json'', w)),
      jw_json_set = (\<lambda>h w. (Inr (if h = 1 then [] else [\<lparr>jwk_kid = Some ''k1'', jwk_material = ''rsa''\<rparr>]), w)),
      jw_read_file = (\<lambda>_ w. (Inl ''file'', w)), jw_pem_bundle = (\<lambda>_. Inr []), jw_build_client = (\<lambda>_ w. (Inr 1, w)),
      jw_sleep = (\<lambda>_ w. w)\<rparr>"

definition task_ref :: refresh_task where
  "task_ref = \<lparr>rt_client = 1, rt_issuer = ''https://iam'', rt_jwks_url = Some ''https://iam/keys'', rt_interval = MIN_REFRESH\<rparr>"

definition verifier_ref :: "key_map option \<Rightarrow> jwks_verifier" where
  "verifier_ref keys = \<lparr>jv_keys = keys, jv_poisoned = False, jv_audience = ''fabricd'', jv_issuer = ''https://iam''\<rparr>"

lemmas jwks_eval = jwks_ref_def task_ref_def verifier_ref_def fetch_keys_def get_json_def build_key_map_def swap_keys_def

section \<open>Properties\<close>

text \<open>C10: a token is accepted only on evidence: whatever the refresh task and other threads did before, if a token
  verifies then a key set was downloaded with a success status from the configured address, or else from the one that
  the configured issuer's discovery document names; that set's last usable entry for the token's key id is the key,
  and the token decoded under that key with RS256 and the configured audience and issuer.\<close>
theorem verify_only_with_fetched_key:
  assumes spawn: "spawn_verifier L config w0 = (Inr (v0, t), w1)"
    and run: "(verifier_step L t)\<^sup>*\<^sup>* (v0, w1) (v, w)"
    and ok: "verify L v token w = Inr ()"
  shows "\<exists>kid key claims url u resp status u1 u2 keys. jw_decode_header L token = Inr (Some kid) \<and>
    jwks_location L (rt_client t) (sav_issuer config) (sav_jwks_url config) url \<and>
    jw_get L (rt_client t) url u = (Inr (status, resp), u1) \<and> 200 \<le> status \<and> status < 300 \<and>
    jw_json_set L resp u1 = (Inr keys, u2) \<and> map_of (rev (usable_keys L keys)) kid = Some key \<and>
    jw_decode L token key \<lparr>vd_algorithm = RS256, vd_audience = [sav_audience config], vd_issuer = [sav_issuer config]\<rparr> w =
      Inr claims"
proof -
  from spawn have v0: "jv_keys v0 = None" "jv_audience v0 = sav_audience config" "jv_issuer v0 = sav_issuer config"
      "rt_issuer t = sav_issuer config" "rt_jwks_url t = sav_jwks_url config"
    by (auto simp: spawn_verifier_def split: result_splits)
  from ok obtain kid km key claims where k: "jw_decode_header L token = Inr (Some kid)" "jv_keys v = Some km"
      "km kid = Some key" "jw_decode L token key (jwks_validation v) w = Inr claims" by (auto simp: verify_ok_iff)
  from verifier_run_keys [OF run, of km] k(2) v0(1) obtain u u2 where
    "fetch_keys L (rt_client t) (rt_issuer t) (rt_jwks_url t) u = (Inr km, u2)" by auto
  from fetch_keys_Inr [OF this] obtain url u1 resp status u2' keys where
    g: "jwks_location L (rt_client t) (sav_issuer config) (sav_jwks_url config) url" "jw_get L (rt_client t) url u1 = (Inr (status, resp), u2')" "200 \<le> status" "status < 300"
      "jw_json_set L resp u2' = (Inr keys, u2)" "km = build_key_map L keys" unfolding v0(4,5) by blast
  have "jwks_validation v = \<lparr>vd_algorithm = RS256, vd_audience = [sav_audience config], vd_issuer = [sav_issuer config]\<rparr>"
    using verifier_run_keeps [OF run] v0 by (simp add: jwks_validation_def)
  with k g show ?thesis unfolding build_key_map_last by metis
qed

theorem verify_only_with_fetched_key_witness:
  "\<exists>v. verify jwks_ref v ''k1.claims'' False = Inr () \<and>
     (\<exists>key claims. jw_decode jwks_ref ''k1.claims'' key
        \<lparr>vd_algorithm = RS256, vd_audience = [''fabricd''], vd_issuer = [''https://iam'']\<rparr> False = Inr claims)"
proof -
  let ?c = "(sa_token_verify_config_new ''https://iam'' ''fabricd'')\<lparr>sav_jwks_url := Some ''https://iam/keys''\<rparr>"
  obtain v0 t where s: "spawn_verifier jwks_ref ?c False = (Inr (v0, t), False)" "v0 = verifier_ref None"
      "rt_jwks_url t = Some ''https://iam/keys''"
    by (simp add: spawn_verifier_def jwks_build_client_def jwks_ca_certs_def jwks_ref_def sa_token_verify_config_new_def
        verifier_ref_def)
  have f: "fetch_keys jwks_ref (rt_client t) (rt_issuer t) (rt_jwks_url t) False = (Inr [''k1'' \<mapsto> 3], False)"
    by (simp add: s(3) jwks_eval numeral_3_eq_3)
  have run: "(verifier_step jwks_ref t)\<^sup>*\<^sup>* (v0, False) (swap_keys v0 [''k1'' \<mapsto> 3], False)"
    using verifier_step.refreshed [OF f] by blast
  have v: "verify jwks_ref (swap_keys v0 [''k1'' \<mapsto> 3]) ''k1.claims'' False = Inr ()"
    by (simp add: s(2) verify_def jwks_eval jwks_validation_def)
  from verify_only_with_fetched_key [OF s(1) run v] v show ?thesis
    by (auto simp: sa_token_verify_config_new_def)
qed

text \<open>Verification is fail-closed: a fresh verifier accepts no token, however many refreshes fail; and a refresh
  interval is at least one second, so an unreachable issuer is never polled in a busy loop.\<close>
theorem verify_fail_closed:
  assumes spawn: "spawn_verifier L config w0 = (Inr (v0, t), w1)"
    and down: "\<forall>u. \<not> is_ok (fst (fetch_keys L (rt_client t) (rt_issuer t) (rt_jwks_url t) u))"
    and run: "(verifier_step L t)\<^sup>*\<^sup>* (v0, w1) (v, w)"
  shows "verify L v token w \<noteq> Inr () \<and> 1000000000 \<le> rt_interval t"
proof -
  from spawn have v0: "jv_keys v0 = None" and i: "MIN_REFRESH \<le> rt_interval t"
    by (auto simp: spawn_verifier_def split: result_splits)
  have "jv_keys v = None"
  proof (rule ccontr)
    assume "jv_keys v \<noteq> None"
    then obtain km where "jv_keys v = Some km" by auto
    with verifier_run_keys [OF run, of km] v0 obtain u u2 where
      "fetch_keys L (rt_client t) (rt_issuer t) (rt_jwks_url t) u = (Inr km, u2)" by auto
    with down show False by (metis fst_conv is_ok_simps(1))
  qed
  with i show ?thesis by (simp add: verify_ok_iff MIN_REFRESH_def duration_from_secs_def)
qed

theorem verify_fail_closed_witness:
  "\<exists>v t. spawn_verifier jwks_ref (sa_token_verify_config_new ''https://iam'' ''fabricd'') False = (Inr (v, t), False) \<and>
     verify jwks_ref (fst (refresh_round jwks_ref t (v, False))) ''k1.claims'' (snd (refresh_round jwks_ref t (v, False))) \<noteq> Inr ()"
proof -
  obtain v t where s: "spawn_verifier jwks_ref (sa_token_verify_config_new ''https://iam'' ''fabricd'') False = (Inr (v, t), False)"
      "rt_jwks_url t = None" "rt_issuer t = ''https://iam''"
    by (simp add: spawn_verifier_def jwks_build_client_def jwks_ca_certs_def jwks_ref_def sa_token_verify_config_new_def)
  have d: "\<forall>u. \<not> is_ok (fst (fetch_keys jwks_ref (rt_client t) (rt_issuer t) (rt_jwks_url t) u))"
    by (simp add: s jwks_eval discover_jwks_url_def discovery_url_def trim_end_matches_def)
  have r: "(verifier_step jwks_ref t)\<^sup>*\<^sup>* (v, False) (fst (refresh_round jwks_ref t (v, False)), snd (refresh_round jwks_ref t (v, False)))"
    using refresh_round_step [of jwks_ref t "(v, False)"] by simp
  from verify_fail_closed [OF s(1) d r] s(1) show ?thesis by blast
qed



end
