(* ===== verification/Client_Auth.thy ===== *)
theory Client_Auth
  imports Sa_Token
begin

text \<open>
  Client authentication of the remote transport, \<^verbatim>\<open>crates/fabricd/src/auth.rs\<close>: the three providers behind
  the \<^verbatim>\<open>ClientAuthenticator\<close> trait, their configuration and construction.  The trait is the locale
  \<open>client_authenticator\<close>; \<open>token_required\<close> is the stronger contract of the two providers that check a
  credential.
\<close>

section \<open>Data\<close>

definition UNAUTHENTICATED :: string where "UNAUTHENTICATED = ''UNAUTHENTICATED''"

record auth_reject =
  ar_code :: string
  ar_message :: string

definition auth_reject_new :: "string \<Rightarrow> auth_reject" where
  [ctor_defs]: "auth_reject_new message = \<lparr>ar_code = UNAUTHENTICATED, ar_message = message\<rparr>"

datatype auth_mode = ModeNone | ModeStatic | ModeSaToken

record client_auth_config =
  cac_mode :: auth_mode
  cac_static_token :: "string option"
  cac_previous_token :: "string option"
  cac_audience :: "string option"
  cac_issuer :: "string option"
  cac_jwks_url :: "string option"
  cac_ca_cert :: "string option"
  cac_jwks_refresh_secs :: "u64 option"

definition client_auth_config_default :: client_auth_config where
  "client_auth_config_default =
     \<lparr>cac_mode = ModeNone, cac_static_token = None, cac_previous_token = None, cac_audience = None,
      cac_issuer = None, cac_jwks_url = None, cac_ca_cert = None, cac_jwks_refresh_secs = None\<rparr>"

text \<open>The boxed authenticator that \<^verbatim>\<open>build\<close> returns.\<close>
datatype authenticator =
    NoneAuthenticator
  | StaticAuthenticator (current: string) (previous: "string option")
  | SaTokenAuthenticator (verifier: jwks_verifier)

section \<open>Authentication\<close>

definition static_authenticate ::
    "wire_lib \<Rightarrow> string \<Rightarrow> string option \<Rightarrow> string option \<Rightarrow> (auth_reject, unit) result" where
  "static_authenticate W cur prev token =
     (case token of
        None \<Rightarrow> Inl (auth_reject_new ''missing client auth token'')
      | Some presented \<Rightarrow>
          (if ct_eq W presented cur then Inr ()
           else if (case prev of Some p \<Rightarrow> ct_eq W presented p | None \<Rightarrow> False) then Inr ()
           else Inl (auth_reject_new ''client auth token rejected'')))"

definition sa_token_authenticate ::
    "'w jwks_lib \<Rightarrow> jwks_verifier \<Rightarrow> 'w \<Rightarrow> string option \<Rightarrow> (auth_reject, unit) result" where
  "sa_token_authenticate L v w token =
     (case token of
        None \<Rightarrow> Inl (auth_reject_new ''missing client auth token'')
      | Some presented \<Rightarrow> map_err (\<lambda>err. auth_reject_new (verify_error_text err)) (verify L v presented w))"

definition none_authenticate :: "string option \<Rightarrow> (auth_reject, unit) result" where
  "none_authenticate token = Inr ()"

definition authenticate ::
    "wire_lib \<Rightarrow> 'w jwks_lib \<Rightarrow> authenticator \<Rightarrow> 'w \<Rightarrow> string option \<Rightarrow> (auth_reject, unit) result" where
  [route_defs]: "authenticate W L a w token =
     (case a of
        NoneAuthenticator \<Rightarrow> none_authenticate token
      | StaticAuthenticator cur prev \<Rightarrow> static_authenticate W cur prev token
      | SaTokenAuthenticator v \<Rightarrow> sa_token_authenticate L v w token)"

section \<open>Construction\<close>

definition sa_token_config :: "client_auth_config \<Rightarrow> string \<Rightarrow> string \<Rightarrow> sa_token_verify_config" where
  "sa_token_config cfg issuer audience =
     (let c = (sa_token_verify_config_new issuer audience)
          \<lparr>sav_jwks_url := non_empty (cac_jwks_url cfg), sav_ca_cert := cac_ca_cert cfg\<rparr>
      in case cac_jwks_refresh_secs cfg of
           None \<Rightarrow> c
         | Some secs \<Rightarrow> c\<lparr>sav_refresh := duration_from_secs secs\<rparr>)"

text \<open>The result also names the refresh task that the verifier started.\<close>
definition build_sa_token ::
    "'w jwks_lib \<Rightarrow> client_auth_config \<Rightarrow> ('w, (string, authenticator \<times> refresh_task option) result) io" where
  "build_sa_token L cfg w =
     (case ok_or ''quic.auth.mode = sa-token requires an issuer'' (non_empty (cac_issuer cfg)) of
        Inl e \<Rightarrow> (Inl e, w)
      | Inr issuer \<Rightarrow>
          (case ok_or ''quic.auth.mode = sa-token requires an audience'' (non_empty (cac_audience cfg)) of
             Inl e \<Rightarrow> (Inl e, w)
           | Inr audience \<Rightarrow>
               (case spawn_verifier L (sa_token_config cfg issuer audience) w of
                  (Inl err, w1) \<Rightarrow> (Inl (ee_message err), w1)
                | (Inr (v, task), w1) \<Rightarrow> (Inr (SaTokenAuthenticator v, Some task), w1))))"

definition build_authenticator ::
    "'w jwks_lib \<Rightarrow> client_auth_config \<Rightarrow> ('w, (string, authenticator \<times> refresh_task option) result) io" where
  "build_authenticator L cfg w =
     (case cac_mode cfg of
        ModeNone \<Rightarrow> (Inr (NoneAuthenticator, None), w)
      | ModeStatic \<Rightarrow>
          (case ok_or ''quic.auth.mode = static requires a non-empty static_token'' (non_empty (cac_static_token cfg)) of
             Inl e \<Rightarrow> (Inl e, w)
           | Inr cur \<Rightarrow> (Inr (StaticAuthenticator cur (non_empty (cac_previous_token cfg)), None), w))
      | ModeSaToken \<Rightarrow> build_sa_token L cfg w)"

section \<open>The contract of a provider\<close>

text \<open>Every rejection is \<^verbatim>\<open>UNAUTHENTICATED\<close>.\<close>
locale client_authenticator =
  fixes auth_fn :: "string option \<Rightarrow> (auth_reject, unit) result"
  assumes reject_code: "auth_fn token = Inl r \<Longrightarrow> ar_code r = UNAUTHENTICATED"
begin

lemma accept_or_unauthenticated: "auth_fn token = Inr () \<or> (\<exists>r. auth_fn token = Inl r \<and> ar_code r = UNAUTHENTICATED)"
  using reject_code by (cases "auth_fn token") auto

end

text \<open>A provider that checks a credential rejects its absence.\<close>
locale token_required = client_authenticator +
  assumes missing: "auth_fn None \<noteq> Inr ()"
begin

lemma accepted_has_token: "auth_fn token = Inr () \<Longrightarrow> \<exists>t. token = Some t"
  using missing by (cases token) auto

end

interpretation none_auth: client_authenticator none_authenticate
  by unfold_locales (simp add: none_authenticate_def)

interpretation static_auth: token_required "static_authenticate W cur prev" for W cur prev
  by unfold_locales (auto simp: static_authenticate_def ctor_defs split: option.splits if_splits)

interpretation sa_auth: token_required "sa_token_authenticate L v w" for L :: "'w jwks_lib" and v w
  by unfold_locales (auto simp: sa_token_authenticate_def ctor_defs map_err_Inl_iff split: option.splits)

interpretation any_auth: client_authenticator "authenticate W L a w" for W and L :: "'w jwks_lib" and a w
  by unfold_locales
    (auto simp: authenticate_def split: authenticator.splits
      dest: none_auth.reject_code static_auth.reject_code sa_auth.reject_code)

section \<open>Lemmas\<close>

lemma static_authenticate_iff:
  assumes "ct_eq_ok W"
  shows "static_authenticate W cur prev token = Inr () \<longleftrightarrow> (\<exists>t. token = Some t \<and> (t = cur \<or> prev = Some t))"
  using assms by (auto simp: static_authenticate_def ct_eq_ok_def split: option.splits if_splits)

lemma build_static:
  assumes "build_authenticator L cfg w = (Inr (a, t), w')" "cac_mode cfg = ModeStatic"
  shows "\<exists>cur. a = StaticAuthenticator cur (non_empty (cac_previous_token cfg)) \<and> cac_static_token cfg = Some cur \<and>
    cur \<noteq> [] \<and> w' = w"
  using assms by (auto simp: build_authenticator_def ok_or_def non_empty_Some_iff split: option.splits)

lemma build_sa_token_Inr:
  assumes "build_authenticator L cfg w = (Inr (a, t), w')" "cac_mode cfg = ModeSaToken"
  shows "\<exists>v task issuer audience. a = SaTokenAuthenticator v \<and> t = Some task \<and> cac_issuer cfg = Some issuer \<and> issuer \<noteq> [] \<and>
    cac_audience cfg = Some audience \<and> audience \<noteq> [] \<and>
    spawn_verifier L (sa_token_config cfg issuer audience) w = (Inr (v, task), w')"
  using assms
  by (auto simp: build_authenticator_def build_sa_token_def ok_or_def non_empty_Some_iff split: option.splits result_splits)

text \<open>A provider that cannot check anything: no secret to compare with, or no claims to expect.\<close>
definition auth_misconfigured :: "client_auth_config \<Rightarrow> bool" where
  "auth_misconfigured cfg =
     (case cac_mode cfg of
        ModeNone \<Rightarrow> False
      | ModeStatic \<Rightarrow> non_empty (cac_static_token cfg) = None
      | ModeSaToken \<Rightarrow> non_empty (cac_issuer cfg) = None \<or> non_empty (cac_audience cfg) = None)"

lemma build_misconfigured: "auth_misconfigured cfg \<Longrightarrow> \<exists>e. build_authenticator L cfg w = (Inl e, w)"
  by (auto simp: auth_misconfigured_def build_authenticator_def build_sa_token_def ok_or_def
      split: auth_mode.splits option.splits)

definition static_config_ref :: client_auth_config where
  "static_config_ref = client_auth_config_default\<lparr>cac_mode := ModeStatic, cac_static_token := Some ''new'',
     cac_previous_token := Some ''old''\<rparr>"

section \<open>Properties\<close>

text \<open>C12: with a static secret configured, a session is accepted exactly when it presents the current secret or the
  non-empty previous one; a missing or an empty token is never accepted.\<close>
theorem static_secret_exact:
  assumes ct: "ct_eq_ok W" and build: "build_authenticator L cfg w = (Inr (a, t), w')" and mode: "cac_mode cfg = ModeStatic"
  shows "(authenticate W L a u token = Inr () \<longleftrightarrow>
      token \<noteq> None \<and> token \<noteq> Some [] \<and> (token = cac_static_token cfg \<or> token = cac_previous_token cfg)) \<and>
    (\<forall>r. authenticate W L a u token = Inl r \<longrightarrow>
      ar_code r = UNAUTHENTICATED \<and> ar_message r \<in> {''missing client auth token'', ''client auth token rejected''})"
proof -
  from build_static [OF build mode] obtain cur where a: "a = StaticAuthenticator cur (non_empty (cac_previous_token cfg))"
      "cac_static_token cfg = Some cur" "cur \<noteq> []" by blast
  have "authenticate W L a u token = Inr () \<longleftrightarrow>
      (\<exists>t. token = Some t \<and> (t = cur \<or> non_empty (cac_previous_token cfg) = Some t))"
    by (simp add: a authenticate_def static_authenticate_iff [OF ct])
  moreover have "ar_code r = UNAUTHENTICATED \<and> ar_message r \<in> {''missing client auth token'', ''client auth token rejected''}"
    if "authenticate W L a u token = Inl r" for r
    using that by (auto simp: a authenticate_def static_authenticate_def ctor_defs split: option.splits if_splits)
  ultimately show ?thesis using a by (auto simp: non_empty_Some_iff)
qed

theorem static_secret_exact_witness:
  "\<exists>a t. build_authenticator jwks_ref static_config_ref False = (Inr (a, t), False) \<and>
     authenticate wire_ref jwks_ref a False (Some ''old'') = Inr () \<and> authenticate wire_ref jwks_ref a False (Some []) \<noteq> Inr ()"
proof -
  obtain a t where b: "build_authenticator jwks_ref static_config_ref False = (Inr (a, t), False)"
    by (simp add: build_authenticator_def static_config_ref_def client_auth_config_default_def)
  have m: "cac_mode static_config_ref = ModeStatic" by (simp add: static_config_ref_def)
  from static_secret_exact [OF wire_ref_ok(2) b m, of False "Some ''old''"]
    static_secret_exact [OF wire_ref_ok(2) b m, of False "Some []"] b
  show ?thesis by (auto simp: static_config_ref_def)
qed

end
