(* ===== verification/Daemon.thy ===== *)
theory Daemon
  imports Backend_Set Client_Auth
begin

text \<open>
  The daemon, \<^verbatim>\<open>crates/fabricd/src/main.rs\<close>: configuration and start-up, the session protocol over a reader and
  a writer, the dispatch of calls, the metrics endpoint, and the listeners as a step relation over many
  interleaved sessions.  The functions of \<^verbatim>\<open>tokio\<close>, \<^verbatim>\<open>quinn\<close>, the wire codec, the file system and the
  environment are the fields of \<open>daemon_lib\<close>.  A session's input is the list of what \<^verbatim>\<open>read_frame\<close> returns, one
  after the other: a request, or a read error; the end of the list is the client closing its side.  Logging is
  left out.
\<close>

section \<open>Configuration\<close>

definition DEFAULT_SOCKET :: string where "DEFAULT_SOCKET = ''/tmp/fabricd.sock''"
definition default_max_connections :: usize where "default_max_connections = 1024"
definition DEFAULT_BREAKER_COOLDOWN_MS :: u64 where "DEFAULT_BREAKER_COOLDOWN_MS = 5000"

record quic_listener_config =
  qlc_listen :: string
  qlc_server_cert :: string
  qlc_server_key :: string
  qlc_max_connections :: usize
  qlc_auth :: client_auth_config

record fabricd_config =
  fc_socket :: "string option"
  fc_resources :: resource_table
  fc_max_statement_timeout_ms :: u64
  fc_db_breaker_threshold :: "32 word"
  fc_db_breaker_cooldown_ms :: u64
  fc_metrics_listen :: "string option"
  fc_quic :: "quic_listener_config option"

definition fabricd_config_default :: fabricd_config where
  "fabricd_config_default =
     \<lparr>fc_socket = None, fc_resources = Map.empty, fc_max_statement_timeout_ms = 0, fc_db_breaker_threshold = 0,
      fc_db_breaker_cooldown_ms = 0, fc_metrics_listen = None, fc_quic = None\<rparr>"

text \<open>The state shared by all sessions.\<close>
record shared =
  sh_table :: resource_table
  sh_max_statement_timeout_ms :: u64
  sh_breaker :: "handle option"
  sh_auth_failures :: u64

text \<open>\<open>dl_panic\<close> tells whether the blocking task of a call dies, and then with which text and in which state it
  left the backends; \<open>dl_trips\<close> reads the breaker's counter; \<open>dl_ctrl_c\<close> is the outcome of waiting for Ctrl+C, once there is
  one, and \<open>dl_sigterm\<close> tells whether SIGTERM has been received, when its handler could be installed.\<close>
record 'w daemon_lib =
  dl_env :: "string \<Rightarrow> 'w \<Rightarrow> string option"
  dl_exists :: "string \<Rightarrow> 'w \<Rightarrow> bool"
  dl_read_file :: "string \<Rightarrow> ('w, (string, string) result) io"
  dl_remove_file :: "string \<Rightarrow> 'w \<Rightarrow> 'w"
  dl_unix_bind :: "string \<Rightarrow> ('w, (string, handle) result) io"
  dl_tcp_bind :: "string \<Rightarrow> ('w, (string, handle) result) io"
  dl_parse_addr :: "string \<Rightarrow> (string, handle) result"
  dl_tls_from_pem :: "string \<Rightarrow> string \<Rightarrow> (string, handle) result"
  dl_server_endpoint :: "handle \<Rightarrow> handle \<Rightarrow> ('w, (string, handle) result) io"
  dl_breaker_new :: "32 word \<Rightarrow> duration \<Rightarrow> ('w, handle option) io"
  dl_trips :: "handle \<Rightarrow> 'w \<Rightarrow> u64"
  dl_write :: "wire_response \<Rightarrow> ('w, (string, unit) result) io"
  dl_panic :: "wire_call \<Rightarrow> backend_set \<Rightarrow> 'w \<Rightarrow> (string \<times> backend_set \<times> 'w) option"
  dl_utf8_lossy :: "string \<Rightarrow> string"
  dl_tcp_read :: "('w, (string, string) result) io"
  dl_tcp_write :: "string \<Rightarrow> ('w, (string, unit) result) io"
  dl_tcp_shutdown :: "('w, (string, unit) result) io"
  dl_ctrl_c :: "'w \<Rightarrow> (string, unit) result option"
  dl_sigterm :: "'w \<Rightarrow> (string, bool) result"
  de_config :: "string \<Rightarrow> (string, fabricd_config) result"

definition load_config :: "'w daemon_lib \<Rightarrow> ('w, (string, fabricd_config) result) io" where
  "load_config D w =
     (let path = (case dl_env D ''FABRICD_CONFIG'' w of None \<Rightarrow> ''fabricd.json'' | Some p \<Rightarrow> p)
      in if \<not> dl_exists D path w then (Inr fabricd_config_default, w)
         else (case dl_read_file D path w of
                 (Inl e, w1) \<Rightarrow> (Inl e, w1)
               | (Inr content, w1) \<Rightarrow> (de_config D content, w1)))"

definition breaker_cooldown :: "fabricd_config \<Rightarrow> duration" where
  "breaker_cooldown c =
     duration_from_millis
       (if fc_db_breaker_cooldown_ms c > 0 then fc_db_breaker_cooldown_ms c else DEFAULT_BREAKER_COOLDOWN_MS)"

text \<open>Where the local socket is bound (on Unix).\<close>
definition uds_path :: "string option \<Rightarrow> fabricd_config \<Rightarrow> string option" where
  "uds_path env_socket c =
     (let explicit_socket = (case env_socket of Some s \<Rightarrow> Some s | None \<Rightarrow> fc_socket c)
      in case explicit_socket of
           Some s \<Rightarrow> Some s
         | None \<Rightarrow> (if fc_quic c = None then Some DEFAULT_SOCKET else None))"

definition build_quic_endpoint :: "'w daemon_lib \<Rightarrow> quic_listener_config \<Rightarrow> ('w, (string, handle) result) io" where
  "build_quic_endpoint D q w =
     (case dl_parse_addr D (qlc_listen q) of
        Inl e \<Rightarrow> (Inl e, w)
      | Inr addr \<Rightarrow>
          (case dl_read_file D (qlc_server_cert q) w of
             (Inl e, w1) \<Rightarrow> (Inl e, w1)
           | (Inr cert_pem, w1) \<Rightarrow>
               (case dl_read_file D (qlc_server_key q) w1 of
                  (Inl e, w2) \<Rightarrow> (Inl e, w2)
                | (Inr key_pem, w2) \<Rightarrow>
                    (case dl_tls_from_pem D cert_pem key_pem of
                       Inl e \<Rightarrow> (Inl e, w2)
                     | Inr tls \<Rightarrow> dl_server_endpoint D addr tls w2))))"

record quic_listener =
  ql_endpoint :: handle
  ql_auth :: authenticator
  ql_task :: "refresh_task option"
  ql_max_connections :: usize

text \<open>What \<^verbatim>\<open>main\<close> hands to \<^verbatim>\<open>run_listeners\<close>.\<close>
record daemon_plan =
  dp_shared :: shared
  dp_uds :: "(string \<times> handle) option"
  dp_uds_auth :: authenticator
  dp_quic :: "quic_listener option"
  dp_metrics :: "handle option"

definition start_uds :: "'w daemon_lib \<Rightarrow> string option \<Rightarrow> ('w, (string, (string \<times> handle) option) result) io" where
  "start_uds D path w =
     (case path of
        None \<Rightarrow> (Inr None, w)
      | Some p \<Rightarrow>
          (case dl_unix_bind D p (dl_remove_file D p w) of
             (Inl e, w1) \<Rightarrow> (Inl e, w1)
           | (Inr listener, w1) \<Rightarrow> (Inr (Some (p, listener)), w1)))"

definition start_quic ::
    "'w daemon_lib \<Rightarrow> 'w jwks_lib \<Rightarrow> quic_listener_config option \<Rightarrow> ('w, (string, quic_listener option) result) io" where
  "start_quic D L quic w =
     (case quic of
        None \<Rightarrow> (Inr None, w)
      | Some q \<Rightarrow>
          (case build_quic_endpoint D q w of
             (Inl e, w1) \<Rightarrow> (Inl e, w1)
           | (Inr endpoint, w1) \<Rightarrow>
               (case build_authenticator L (qlc_auth q) w1 of
                  (Inl e, w2) \<Rightarrow> (Inl e, w2)
                | (Inr (a, task), w2) \<Rightarrow>
                    (Inr (Some \<lparr>ql_endpoint = endpoint, ql_auth = a, ql_task = task,
                                ql_max_connections = qlc_max_connections q\<rparr>), w2))))"

definition start_metrics :: "'w daemon_lib \<Rightarrow> string option \<Rightarrow> ('w, (string, handle option) result) io" where
  "start_metrics D addr w =
     (case addr of
        None \<Rightarrow> (Inr None, w)
      | Some a \<Rightarrow> (case dl_tcp_bind D a w of (r, w1) \<Rightarrow> (map_ok Some r, w1)))"

text \<open>\<^verbatim>\<open>main\<close> up to the point where the listeners run.\<close>
definition start_daemon :: "'w daemon_lib \<Rightarrow> 'w jwks_lib \<Rightarrow> ('w, (string, daemon_plan) result) io" where
  "start_daemon D L w =
     (case load_config D w of
        (Inl e, w1) \<Rightarrow> (Inl e, w1)
      | (Inr config, w1) \<Rightarrow>
          (case dl_breaker_new D (fc_db_breaker_threshold config) (breaker_cooldown config) w1 of
             (breaker, w2) \<Rightarrow>
               (let sh = \<lparr>sh_table = fc_resources config,
                          sh_max_statement_timeout_ms = fc_max_statement_timeout_ms config,
                          sh_breaker = breaker, sh_auth_failures = 0\<rparr>;
                    path = uds_path (dl_env D ''FABRICD_SOCKET'' w2) config
                in if path = None \<and> fc_quic config = None
                   then (Inl ''no listener configured: set `socket` (UDS) and/or `quic` (remote)'', w2)
                   else
                     (case start_uds D path w2 of
                        (Inl e, w3) \<Rightarrow> (Inl e, w3)
                      | (Inr uds, w3) \<Rightarrow>
                          (case build_authenticator L client_auth_config_default w3 of
                             (Inl e, w4) \<Rightarrow> (Inl e, w4)
                           | (Inr (uds_auth, _), w4) \<Rightarrow>
                               (case start_quic D L (fc_quic config) w4 of
                                  (Inl e, w5) \<Rightarrow> (Inl e, w5)
                                | (Inr quic, w5) \<Rightarrow>
                                    (case start_metrics D (fc_metrics_listen config) w5 of
                                       (Inl e, w6) \<Rightarrow> (Inl e, w6)
                                     | (Inr metrics, w6) \<Rightarrow>
                                         (Inr \<lparr>dp_shared = sh, dp_uds = uds, dp_uds_auth = uds_auth,
                                               dp_quic = quic, dp_metrics = metrics\<rparr>, w6))))))))"

section \<open>Sessions\<close>

text \<open>The counter itself wraps; the total that is returned saturates.\<close>
definition record_auth_failure :: "shared \<Rightarrow> u64 \<times> shared" where
  "record_auth_failure sh =
     (u64_saturating_add (sh_auth_failures sh) 1, sh\<lparr>sh_auth_failures := sh_auth_failures sh + 1\<rparr>)"

definition dispatch_call ::
    "'w daemon_lib \<Rightarrow> 'w fabric_env \<Rightarrow> backend_set \<Rightarrow> wire_call \<Rightarrow> 'w \<Rightarrow> wire_response \<times> backend_set \<times> 'w" where
  "dispatch_call D F s call w =
     (case dl_panic D call s w of
        Some (join_err, s1, w1) \<Rightarrow> (ProtocolError (''backend task failed: '' @ join_err), s1, w1)
      | None \<Rightarrow>
          (case set_call F (wc_name call, wc_action call, wc_payload call) s w of
             (result, s1, w1) \<Rightarrow> (Reply result, s1, w1)))"

definition respond ::
    "'w daemon_lib \<Rightarrow> 'w fabric_env \<Rightarrow> backend_set \<Rightarrow> wire_request \<Rightarrow> 'w \<Rightarrow> wire_response \<times> backend_set \<times> 'w" where
  "respond D F s request w =
     (case request of
        Call call \<Rightarrow> dispatch_call D F s call w
      | Drain \<Rightarrow> (Metrics (set_metrics (fe_wire F) s), s, w)
      | Init _ \<Rightarrow> (ProtocolError ''Init already received for this session'', s, w))"

text \<open>The handshake: authenticate, then resolve, then build the backends.  The result is the response, the
  backends of an accepted session, and the shared state.\<close>
definition open_session ::
    "wire_lib \<Rightarrow> 'w jwks_lib \<Rightarrow> authenticator \<Rightarrow> shared \<Rightarrow> wire_init \<Rightarrow> 'w \<Rightarrow>
     wire_response \<times> backend_set option \<times> shared" where
  "open_session W L a sh init w =
     (case authenticate W L a w (wi_token init) of
        Inl reject \<Rightarrow> (InitError (ar_code reject) (ar_message reject), None, snd (record_auth_failure sh))
      | Inr _ \<Rightarrow>
          (case resolve (sh_table sh) init of
             Inl err \<Rightarrow> (InitError (resolve_error_code err) (resolve_error_message err), None, sh)
           | Inr resolved \<Rightarrow>
               (Ack,
                Some (from_configs (clamp_db_statement_timeout (sh_max_statement_timeout_ms sh) resolved)
                  \<lparr>ad_breaker = sh_breaker sh, ad_timeout = duration_from_millis (wi_timeout_ms init)\<rparr>),
                sh)))"

type_synonym inbound = "(string, wire_request) result list"

text \<open>The request loop.  The second component is the sequence of responses handed to \<^verbatim>\<open>write_frame\<close>.\<close>
fun serve_loop ::
    "'w daemon_lib \<Rightarrow> 'w fabric_env \<Rightarrow> backend_set \<Rightarrow> inbound \<Rightarrow> 'w \<Rightarrow>
     (string, unit) result \<times> wire_response list \<times> backend_set \<times> 'w" where
  "serve_loop D F s [] w = (Inr (), [], s, w)"
| "serve_loop D F s (Inl err # rest) w = (Inl err, [], s, w)"
| "serve_loop D F s (Inr request # rest) w =
     (case respond D F s request w of
        (response, s1, w1) \<Rightarrow>
          (case dl_write D response w1 of
             (Inl err, w2) \<Rightarrow> (Inl err, [response], s1, w2)
           | (Inr _, w2) \<Rightarrow>
               (case serve_loop D F s1 rest w2 of (r, out, s2, w3) \<Rightarrow> (r, response # out, s2, w3))))"

definition expected_init :: wire_response where
  "expected_init = ProtocolError ''expected Init as the first frame''"

definition serve ::
    "'w daemon_lib \<Rightarrow> 'w fabric_env \<Rightarrow> 'w jwks_lib \<Rightarrow> authenticator \<Rightarrow> shared \<Rightarrow> inbound \<Rightarrow> 'w \<Rightarrow>
     (string, unit) result \<times> wire_response list \<times> shared \<times> 'w" where
  "serve D F L a sh inbound w =
     (case inbound of
        [] \<Rightarrow> (Inr (), [], sh, w)
      | Inl err # _ \<Rightarrow> (Inl err, [], sh, w)
      | Inr (Init init) # rest \<Rightarrow>
          (case open_session (fe_wire F) L a sh init w of
             (response, session, sh1) \<Rightarrow>
               (case dl_write D response w of
                  (Inl err, w1) \<Rightarrow> (Inl err, [response], sh1, w1)
                | (Inr _, w1) \<Rightarrow>
                    (case session of
                       None \<Rightarrow> (Inr (), [response], sh1, w1)
                     | Some s \<Rightarrow>
                         (case serve_loop D F s rest w1 of
                            (r, out, _, w2) \<Rightarrow> (r, response # out, sh1, w2)))))
      | Inr _ # _ \<Rightarrow>
          (case dl_write D expected_init w of
             (r, w1) \<Rightarrow> (r, [expected_init], sh, w1)))"

section \<open>The metrics endpoint\<close>

definition crlf :: string where "crlf = [cr, lf]"

definition is_metrics_request :: "string \<Rightarrow> bool" where
  "is_metrics_request head =
     (case lines_next head of
        None \<Rightarrow> False
      | Some line \<Rightarrow> line = ''GET /metrics'' \<or> starts_with ''GET /metrics '' line)"

definition render_metrics :: "'w daemon_lib \<Rightarrow> shared \<Rightarrow> 'w \<Rightarrow> string" where
  "render_metrics D sh w =
     (let trips = (case sh_breaker sh of None \<Rightarrow> 0 | Some breaker \<Rightarrow> dl_trips D breaker w)
      in ''# HELP fabricd_db_breaker_trips_total Cumulative db circuit-breaker open transitions (Tier 3).'' @ [lf] @
         ''# TYPE fabricd_db_breaker_trips_total counter'' @ [lf] @
         ''fabricd_db_breaker_trips_total '' @ show_nat (unat trips) @ [lf] @
         ''# HELP fabricd_auth_failures_total Cumulative client-auth rejections (a spike is a security signal).'' @ [lf] @
         ''# TYPE fabricd_auth_failures_total counter'' @ [lf] @
         ''fabricd_auth_failures_total '' @ show_nat (unat (sh_auth_failures sh)) @ [lf])"

definition metrics_head :: "nat \<Rightarrow> string" where
  "metrics_head n =
     ''HTTP/1.1 200 OK'' @ crlf @ ''content-type: text/plain; version=0.0.4'' @ crlf @
     ''content-length: '' @ show_nat n @ crlf @ ''connection: close'' @ crlf @ crlf"

definition metrics_not_found :: string where
  "metrics_not_found =
     ''HTTP/1.1 404 Not Found'' @ crlf @ ''content-length: 0'' @ crlf @ ''connection: close'' @ crlf @ crlf"

text \<open>The response to one scrape, from the bytes of the first read (at most 1024).\<close>
definition metrics_response :: "'w daemon_lib \<Rightarrow> shared \<Rightarrow> string \<Rightarrow> 'w \<Rightarrow> string" where
  "metrics_response D sh read w =
     (let head = dl_utf8_lossy D (take 1024 read)
      in if is_metrics_request head
         then (let body = render_metrics D sh w in metrics_head (length body) @ body)
         else metrics_not_found)"

text \<open>One HTTP exchange: read once, answer, shut the stream down.\<close>
definition serve_metrics_once :: "'w daemon_lib \<Rightarrow> shared \<Rightarrow> ('w, (string, unit) result) io" where
  "serve_metrics_once D sh w =
     (case dl_tcp_read D w of
        (Inl err, w1) \<Rightarrow> (Inl err, w1)
      | (Inr read, w1) \<Rightarrow>
          (case dl_tcp_write D (metrics_response D sh read w1) w1 of
             (Inl err, w2) \<Rightarrow> (Inl err, w2)
           | (Inr _, w2) \<Rightarrow> dl_tcp_shutdown D w2))"

section \<open>Shutting down\<close>

text \<open>Whether \<^verbatim>\<open>shutdown_signal\<close> has resolved: either of its two futures is enough, and both also end, with a warning, when they
  cannot wait for their signal at all.\<close>
definition shutdown_signal :: "'w daemon_lib \<Rightarrow> 'w \<Rightarrow> bool" where
  "shutdown_signal D w =
     (let ctrl_c = (case dl_ctrl_c D w of None \<Rightarrow> False | Some (Inl err) \<Rightarrow> True | Some (Inr _) \<Rightarrow> True);
          terminate = (case dl_sigterm D w of Inl err \<Rightarrow> True | Inr received \<Rightarrow> received)
      in ctrl_c \<or> terminate)"

text \<open>What \<^verbatim>\<open>main\<close> does after the listeners ended: the socket file is removed, whether or not that succeeds.\<close>
definition stop_daemon :: "'w daemon_lib \<Rightarrow> daemon_plan \<Rightarrow> 'w \<Rightarrow> 'w" where
  "stop_daemon D p w = (case dp_uds p of None \<Rightarrow> w | Some (path, _) \<Rightarrow> dl_remove_file D path w)"

section \<open>Lemmas\<close>

text \<open>Which responses answer which request.\<close>
definition answers :: "wire_request \<Rightarrow> wire_response \<Rightarrow> bool" where
  "answers req resp =
     (case req of
        Call _ \<Rightarrow> (case resp of Reply _ \<Rightarrow> True | ProtocolError _ \<Rightarrow> True | _ \<Rightarrow> False)
      | Drain \<Rightarrow> (case resp of Metrics _ \<Rightarrow> True | _ \<Rightarrow> False)
      | Init _ \<Rightarrow> (case resp of ProtocolError _ \<Rightarrow> True | _ \<Rightarrow> False))"

lemma respond_answers: "respond D F s req w = (resp, s', w') \<Longrightarrow> answers req resp"
  by (auto simp: respond_def dispatch_call_def answers_def split: wire_request.splits option.splits prod.splits)

text \<open>One round of the loop: the response, then the rest unless the write failed.\<close>
lemma serve_loop_Cons:
  assumes "serve_loop D F s (Inr request # rest) w = (r, out, s', w')"
  obtains resp s1 w1 err where "respond D F s request w = (resp, s1, w1)" "out = [resp]" "r = Inl err"
      "dl_write D resp w1 = (Inl err, w')" "s' = s1"
  | resp s1 w1 u w2 out1 where "respond D F s request w = (resp, s1, w1)" "dl_write D resp w1 = (Inr u, w2)"
      "serve_loop D F s1 rest w2 = (r, out1, s', w')" "out = resp # out1"
  using assms by (auto split: result_splits)

lemma serve_loop_length:
  "serve_loop D F s inb w = (r, out, s', w') \<Longrightarrow> length out \<le> length inb \<and> (r = Inr () \<longrightarrow> length out = length inb)"
proof (induction inb arbitrary: s w out)
  case (Cons x rest)
  show ?case
  proof (cases x)
    case (Inr request)
    from Cons.prems [unfolded Inr] show ?thesis
      by (cases rule: serve_loop_Cons) (use Cons.IH in fastforce)+
  qed (use Cons.prems in auto)
qed simp

text \<open>What holds of the backends and of each response to a request holds throughout a session.\<close>
lemma serve_loop_each:
  assumes step: "\<And>s req w resp s' w'. P s \<Longrightarrow> respond D F s req w = (resp, s', w') \<Longrightarrow> P s' \<and> Q req resp"
    and run: "serve_loop D F s inb w = (r, out, s', w')" and start: "P s"
  shows "\<forall>i < length out. \<exists>req. inb ! i = Inr req \<and> Q req (out ! i)"
  using run start
proof (induction inb arbitrary: s w out)
  case (Cons x rest)
  show ?case
  proof (cases x)
    case (Inr request)
    from Cons.prems(1) [unfolded Inr] show ?thesis
    proof (cases rule: serve_loop_Cons)
      case (1 resp s1 w1 err)
      with step [OF Cons.prems(2) 1(1)] Inr show ?thesis by simp
    next
      case (2 resp s1 w1 u w2 out1)
      have s1: "P s1" "Q request resp" using step [OF Cons.prems(2) 2(1)] by simp_all
      from Cons.IH [OF 2(3) s1(1)] s1(2) 2(4) Inr show ?thesis by (auto simp: less_Suc_eq_0_disj)
    qed
  qed (use Cons.prems in simp)
qed simp

lemma serve_loop_answers:
  assumes "serve_loop D F s inb w = (r, out, s', w')"
  shows "\<forall>i < length out. \<exists>req. inb ! i = Inr req \<and> answers req (out ! i)"
  by (rule serve_loop_each [where P = "\<lambda>_. True", OF _ assms]) (auto dest: respond_answers)

text \<open>The loop is a sequence of calls, each followed by writing its response, on as many frames as got one.\<close>
definition answer_frame ::
    "'w daemon_lib \<Rightarrow> 'w fabric_env \<Rightarrow> wire_request \<Rightarrow> backend_set \<Rightarrow> 'w \<Rightarrow> wire_response \<times> backend_set \<times> 'w" where
  "answer_frame D F req s w =
     (case respond D F s req w of (response, s1, w1) \<Rightarrow> (response, s1, snd (dl_write D response w1)))"

lemma serve_loop_run_calls:
  assumes "serve_loop D F s inb w = (r, out, s', w')"
  shows "\<exists>reqs. take (length out) inb = map Inr reqs \<and> run_calls (answer_frame D F) reqs s w = (out, s', w')"
  using assms
proof (induction inb arbitrary: s w out)
  case (Cons x rest)
  show ?case
  proof (cases x)
    case (Inr request)
    from Cons.prems(1) [unfolded Inr] show ?thesis
    proof (cases rule: serve_loop_Cons)
      case (1 resp s1 w1 err)
      with Inr show ?thesis by (intro exI [of _ "[request]"]) (simp add: answer_frame_def)
    next
      case (2 resp s1 w1 u w2 out1)
      from Cons.IH [OF 2(3)] obtain reqs where
        "take (length out1) rest = map Inr reqs" "run_calls (answer_frame D F) reqs s1 w2 = (out1, s', w')" by blast
      moreover from 2(1,2) have "answer_frame D F request s w = (resp, s1, w2)" by (simp add: answer_frame_def)
      ultimately show ?thesis using 2(4) Inr by (intro exI [of _ "request # reqs"]) simp
    qed
  qed (use Cons.prems in simp)
qed simp

lemma open_session_cases:
  assumes "open_session W L a sh init w = (response, session, sh')"
  shows "(case response of
      Ack \<Rightarrow> session \<noteq> None \<and> authenticate W L a w (wi_token init) = Inr () \<and> is_ok (resolve (sh_table sh) init) \<and> sh' = sh
    | InitError code message \<Rightarrow> session = None \<and>
        (if is_ok (authenticate W L a w (wi_token init))
         then code \<in> {''RESOURCE_NOT_FOUND'', ''RESOURCE_KIND_MISMATCH''} \<and> \<not> is_ok (resolve (sh_table sh) init) \<and> sh' = sh
         else code = ''UNAUTHENTICATED'' \<and> sh' = snd (record_auth_failure sh))
    | _ \<Rightarrow> False)"
  using assms any_auth.reject_code [of W L a w "wi_token init"]
  by (auto simp: open_session_def UNAUTHENTICATED_def resolve_error_code_def
      split: sum.splits resolve_error.splits)

text \<open>A session that was acknowledged: the loop runs on the backends built from the handshake, unless the
  acknowledgement could not be written.\<close>
lemma serve_accepted:
  assumes "serve D F L a sh (Inr (Init init) # rest) w = (r, Ack # out, sh', w')"
  obtains (served) R deps w1 s' where "authenticate (fe_wire F) L a w (wi_token init) = Inr ()"
      "resolve (sh_table sh) init = Inr R"
      "serve_loop D F (from_configs (clamp_db_statement_timeout (sh_max_statement_timeout_ms sh) R) deps) rest w1 =
        (r, out, s', w')" "dl_write D Ack w = (Inr (), w1)"
  | (lost) err where "out = []" "r = Inl err"
  using assms by (auto simp: serve_def open_session_def split: result_splits)

text \<open>The request line of an HTTP request, which ends with carriage return and line feed.\<close>
lemma lines_next_crlf:
  assumes "lf \<notin> set l"
  shows "lines_next (l @ crlf @ rest) = Some l"
proof -
  have "takeWhile (\<lambda>c. c \<noteq> lf) (l @ [cr] @ lf # rest) = l @ [cr]"
    using assms by (subst append_assoc [symmetric], subst takeWhile_append2) auto
  then show ?thesis by (simp add: lines_next_def crlf_def strip_cr_def)
qed

section \<open>A concrete outside for witnesses\<close>

definition jwks_down :: "'w jwks_lib" where
  "jwks_down =
     \<lparr>jw_decode_header = (\<lambda>_. Inl ''header''), jw_decode = (\<lambda>_ _ _ _. Inl ''decode''), jw_from_jwk = (\<lambda>_. Inl ''jwk''),
      jw_get = (\<lambda>_ _ w. (Inl ''down'', w)), jw_status_text = (\<lambda>_. []), jw_json_value = (\<lambda>_ w. (Inl ''json'', w)),
      jw_json_set = (\<lambda>_ w. (Inl ''json'', w)), jw_read_file = (\<lambda>_ w. (Inl ''file'', w)), jw_pem_bundle = (\<lambda>_. Inr []),
      jw_build_client = (\<lambda>_ w. (Inr 1, w)), jw_sleep = (\<lambda>_ w. w)\<rparr>"

text \<open>A daemon whose configuration file holds a table and a QUIC listener with a static secret; the world
  counts the frames written.\<close>
definition quic_config_ref :: quic_listener_config where
  "quic_config_ref = \<lparr>qlc_listen = ''0.0.0.0:7000'', qlc_server_cert = ''cert'', qlc_server_key = ''key'',
     qlc_max_connections = default_max_connections, qlc_auth = static_config_ref\<rparr>"

definition fabricd_config_ref :: fabricd_config where
  "fabricd_config_ref = fabricd_config_default\<lparr>fc_resources := table_ref, fc_quic := Some quic_config_ref\<rparr>"

definition daemon_ref :: "nat daemon_lib" where
  "daemon_ref =
     \<lparr>dl_env = (\<lambda>_ _. None), dl_exists = (\<lambda>_ _. True), dl_read_file = (\<lambda>_ w. (Inr ''text'', w)), dl_remove_file = (\<lambda>_ w. w),
      dl_unix_bind = (\<lambda>_ w. (Inr 1, w)), dl_tcp_bind = (\<lambda>_ w. (Inr 2, w)), dl_parse_addr = (\<lambda>_. Inr 3),
      dl_tls_from_pem = (\<lambda>_ _. Inr 4), dl_server_endpoint = (\<lambda>_ _ w. (Inr 5, w)),
      dl_breaker_new = (\<lambda>n _ w. (if n = 0 then None else Some 6, w)), dl_trips = (\<lambda>_ _. 0),
      dl_write = (\<lambda>_ w. (Inr (), Suc w)), dl_panic = (\<lambda>_ _ _. None), dl_utf8_lossy = (\<lambda>s. s),
      dl_tcp_read = (\<lambda>w. (Inr (''GET /metrics HTTP/1.1'' @ crlf), w)), dl_tcp_write = (\<lambda>_ w. (Inr (), Suc w)),
      dl_tcp_shutdown = (\<lambda>w. (Inr (), w)), dl_ctrl_c = (\<lambda>_. None), dl_sigterm = (\<lambda>_. Inr True), de_config = (\<lambda>_. Inr fabricd_config_ref)\<rparr>"

definition shared_ref :: shared where
  "shared_ref = \<lparr>sh_table = table_ref, sh_max_statement_timeout_ms = 0, sh_breaker = None, sh_auth_failures = 0\<rparr>"

definition static_ref :: authenticator where
  "static_ref = StaticAuthenticator ''new'' (Some ''old'')"

lemma static_ref_auth:
  "authenticate (fe_wire fabric_ref) L static_ref w (Some ''old'') = Inr ()"
  "authenticate (fe_wire fabric_ref) L static_ref w (Some ''guess'') = Inl (auth_reject_new ''client auth token rejected'')"
  by (simp_all add: authenticate_def static_ref_def static_authenticate_def fabric_ref_def wire_ref_def)

section \<open>Properties\<close>

text \<open>C4: an unauthenticated client learns and changes nothing: when its token is rejected the session is one
  \<^verbatim>\<open>UNAUTHENTICATED\<close> frame and nothing more, whatever else the client sends; the outcome does not depend on the
  operator's table, no backend is built, and only the failure counter moves, by one.\<close>
theorem unauthenticated_session_sees_nothing:
  assumes rej: "authenticate (fe_wire F) L a w (wi_token init) = Inl reject"
  shows "\<exists>r w'. dl_write D (InitError ''UNAUTHENTICATED'' (ar_message reject)) w = (r, w') \<and>
    (\<forall>rest table. serve D F L a (sh\<lparr>sh_table := table\<rparr>) (Inr (Init init) # rest) w =
       (r, [InitError ''UNAUTHENTICATED'' (ar_message reject)],
        sh\<lparr>sh_table := table, sh_auth_failures := sh_auth_failures sh + 1\<rparr>, w'))"
proof -
  have code: "ar_code reject = ''UNAUTHENTICATED''"
    using any_auth.reject_code [OF rej] by (simp add: UNAUTHENTICATED_def)
  obtain r w' where x: "dl_write D (InitError ''UNAUTHENTICATED'' (ar_message reject)) w = (r, w')"
    by (cases "dl_write D (InitError ''UNAUTHENTICATED'' (ar_message reject)) w")
  have "serve D F L a (sh\<lparr>sh_table := table\<rparr>) (Inr (Init init) # rest) w =
      (r, [InitError ''UNAUTHENTICATED'' (ar_message reject)],
       sh\<lparr>sh_table := table, sh_auth_failures := sh_auth_failures sh + 1\<rparr>, w')" for rest table
    by (cases r) (simp_all add: serve_def open_session_def rej code x record_auth_failure_def)
  with x show ?thesis by blast
qed

theorem unauthenticated_session_sees_nothing_witness:
  "serve daemon_ref fabric_ref jwks_down static_ref shared_ref
     [Inr (Init (init_ref\<lparr>wi_token := Some ''guess''\<rparr>)), Inr Drain] 0 =
   (Inr (), [InitError ''UNAUTHENTICATED'' ''client auth token rejected''], shared_ref\<lparr>sh_auth_failures := 1\<rparr>, 1)"
proof -
  have a: "authenticate (fe_wire fabric_ref) jwks_down static_ref 0 (wi_token (init_ref\<lparr>wi_token := Some ''guess''\<rparr>)) =
      Inl (auth_reject_new ''client auth token rejected'')" using static_ref_auth by simp
  have s: "shared_ref\<lparr>sh_table := table_ref\<rparr> = shared_ref" by (simp add: shared_ref_def)
  from unauthenticated_session_sees_nothing [OF a, of daemon_ref shared_ref]
  have "serve daemon_ref fabric_ref jwks_down static_ref (shared_ref\<lparr>sh_table := table_ref\<rparr>)
      [Inr (Init (init_ref\<lparr>wi_token := Some ''guess''\<rparr>)), Inr Drain] 0 =
    (Inr (), [InitError ''UNAUTHENTICATED'' ''client auth token rejected''],
     shared_ref\<lparr>sh_table := table_ref, sh_auth_failures := 1\<rparr>, 1)"
    by (auto simp: daemon_ref_def ctor_defs shared_ref_def)
  then show ?thesis unfolding s by (simp add: shared_ref_def)
qed

text \<open>C3: a session cannot observe other tenants: on two operator tables that agree on what the tenant of the handshake may
  see, the whole session is the same, every response, every effect on the outside world and its end, so neither the
  content nor the existence of a foreign binding can be learned by any sequence of frames.\<close>
theorem session_noninterference:
  assumes same: "visible T (wi_tenant init) = visible T' (wi_tenant init)"
  shows "\<exists>r out n w'.
    serve D F L a (sh\<lparr>sh_table := T\<rparr>) (Inr (Init init) # rest) w =
      (r, out, sh\<lparr>sh_table := T, sh_auth_failures := n\<rparr>, w') \<and>
    serve D F L a (sh\<lparr>sh_table := T'\<rparr>) (Inr (Init init) # rest) w =
      (r, out, sh\<lparr>sh_table := T', sh_auth_failures := n\<rparr>, w')"
proof -
  obtain resp session n where o: "open_session (fe_wire F) L a (sh\<lparr>sh_table := T\<rparr>) init w =
      (resp, session, sh\<lparr>sh_table := T, sh_auth_failures := n\<rparr>) \<and>
    open_session (fe_wire F) L a (sh\<lparr>sh_table := T'\<rparr>) init w =
      (resp, session, sh\<lparr>sh_table := T', sh_auth_failures := n\<rparr>)"
  proof (cases "authenticate (fe_wire F) L a w (wi_token init)")
    case (Inl reject)
    then show ?thesis by (intro that) (simp add: open_session_def record_auth_failure_def)
  next
    case (Inr u)
    note res = resolve_noninterference [OF same, symmetric]
    show ?thesis
    proof (cases "resolve T init")
      case (Inl err)
      with Inr res show ?thesis
        by (intro that [of "InitError (resolve_error_code err) (resolve_error_message err)" None "sh_auth_failures sh"])
          (simp add: open_session_def)
    next
      case (Inr R)
      with \<open>authenticate (fe_wire F) L a w (wi_token init) = Inr u\<close> res show ?thesis
        by (intro that [of Ack "Some (from_configs (clamp_db_statement_timeout (sh_max_statement_timeout_ms sh) R)
            \<lparr>ad_breaker = sh_breaker sh, ad_timeout = duration_from_millis (wi_timeout_ms init)\<rparr>)" "sh_auth_failures sh"])
          (simp add: open_session_def)
    qed
  qed
  then show ?thesis by (auto simp: serve_def split: prod.split sum.split option.split intro!: exI [of _ n])
qed

theorem session_noninterference_witness:
  "\<exists>r out n w'.
    serve daemon_ref fabric_ref jwks_down static_ref (shared_ref\<lparr>sh_table := table_ref(''main'' := None)\<rparr>)
        [Inr (Init (init_ref\<lparr>wi_token := Some ''old''\<rparr>)), Inr Drain] 0 =
      (r, Ack # out, shared_ref\<lparr>sh_table := table_ref(''main'' := None), sh_auth_failures := n\<rparr>, w') \<and>
    serve daemon_ref fabric_ref jwks_down static_ref (shared_ref\<lparr>sh_table := table_ref\<rparr>)
        [Inr (Init (init_ref\<lparr>wi_token := Some ''old''\<rparr>)), Inr Drain] 0 =
      (r, Ack # out, shared_ref\<lparr>sh_table := table_ref, sh_auth_failures := n\<rparr>, w')"
proof -
  let ?i = "init_ref\<lparr>wi_token := Some ''old''\<rparr>"
  have v: "visible (table_ref(''main'' := None)) (wi_tenant ?i) = visible table_ref (wi_tenant ?i)"
    by (auto simp: visible_def table_ref_def init_ref_def)
  have a: "authenticate (fe_wire fabric_ref) jwks_down static_ref (0 :: nat) (Some ''old'') = Inr ()" by (rule static_ref_auth)
  have i: "wi_token ?i = Some ''old''" by simp
  obtain R where R: "resolve table_ref ?i = Inr R" by (simp add: resolve_eval)
  obtain out where "fst (snd (serve daemon_ref fabric_ref jwks_down static_ref (shared_ref\<lparr>sh_table := table_ref\<rparr>)
      [Inr (Init ?i), Inr Drain] 0)) = Ack # out"
    by (simp add: serve_def open_session_def i a R daemon_ref_def respond_def)
  with session_noninterference [OF v, of daemon_ref fabric_ref jwks_down static_ref shared_ref "[Inr Drain]" 0]
  show ?thesis by fastforce
qed

text \<open>C8: the handshake decides everything: the first response is \<^verbatim>\<open>Ack\<close> exactly when the client authenticates and all
  its names resolve for its tenant, and otherwise it is an \<^verbatim>\<open>InitError\<close> with one of the three documented codes, after
  which the session ends.\<close>
theorem ack_iff_authenticated_and_resolved:
  assumes run: "serve D F L a sh (Inr (Init init) # rest) w = (r, out, sh', w')"
  shows "(out \<noteq> [] \<and> hd out = Ack \<longleftrightarrow>
      authenticate (fe_wire F) L a w (wi_token init) = Inr () \<and> is_ok (resolve (sh_table sh) init)) \<and>
    (hd out \<noteq> Ack \<longrightarrow> (\<exists>code message. out = [InitError code message] \<and>
      code \<in> {''UNAUTHENTICATED'', ''RESOURCE_NOT_FOUND'', ''RESOURCE_KIND_MISMATCH''}))"
proof -
  obtain resp session sh1 where o: "open_session (fe_wire F) L a sh init w = (resp, session, sh1)" by (metis prod_cases3)
  note c = open_session_cases [OF o]
  from run o have hd: "out \<noteq> []" "hd out = resp" "session = None \<longrightarrow> out = [resp]"
    by (auto simp: serve_def split: result_splits)
  show ?thesis
  proof (cases resp)
    case Ack
    with c hd show ?thesis by simp
  next
    case (InitError code message)
    with c hd show ?thesis by (auto simp: is_ok_ex split: if_splits)
  qed (use c in auto)
qed

theorem ack_iff_authenticated_and_resolved_witness:
  "\<exists>r out sh' w'. serve daemon_ref fabric_ref jwks_down static_ref shared_ref
     [Inr (Init (init_ref\<lparr>wi_token := Some ''old''\<rparr>)), Inr Drain] 0 = (r, out, sh', w') \<and> hd out = Ack"
proof -
  let ?i = "init_ref\<lparr>wi_token := Some ''old''\<rparr>"
  obtain r out sh' w' where s: "serve daemon_ref fabric_ref jwks_down static_ref shared_ref [Inr (Init ?i), Inr Drain] 0 =
    (r, out, sh', w')" by (metis prod_cases4)
  have "authenticate (fe_wire fabric_ref) jwks_down static_ref 0 (wi_token ?i) = Inr ()" using static_ref_auth by simp
  moreover have "is_ok (resolve (sh_table shared_ref) ?i)" by (simp add: shared_ref_def resolve_eval)
  ultimately show ?thesis using ack_iff_authenticated_and_resolved [OF s] s by auto
qed

text \<open>C14: an accepted session answers every frame, in order, with one response of the right kind: a call with its reply
  (or the report that its task died), a drain with the metrics, a second handshake with a protocol error; it never
  answers more than it was asked, and when it ends without an I/O error nothing is left unanswered.\<close>
theorem one_answer_per_frame:
  assumes run: "serve D F L a sh (Inr (Init init) # rest) w = (r, Ack # out, sh', w')"
  shows "length out \<le> length rest \<and> (\<forall>i < length out. \<exists>req. rest ! i = Inr req \<and> answers req (out ! i)) \<and>
    (r = Inr () \<longrightarrow> length out = length rest)"
proof (cases rule: serve_accepted [OF run])
  case (1 R deps w1 s')
  from serve_loop_length [OF 1(3)] serve_loop_answers [OF 1(3)] show ?thesis by simp
qed simp

theorem one_answer_per_frame_witness:
  "\<exists>out sh' w'. serve daemon_ref fabric_ref jwks_down static_ref shared_ref
     [Inr (Init (init_ref\<lparr>wi_token := Some ''old''\<rparr>)), Inr Drain] 0 = (Inr (), Ack # out, sh', w') \<and>
     length out = 1 \<and> answers Drain (out ! 0)"
proof -
  let ?i = "init_ref\<lparr>wi_token := Some ''old''\<rparr>"
  have a: "authenticate (fe_wire fabric_ref) jwks_down static_ref 0 (Some ''old'') = Inr ()" by (rule static_ref_auth)
  have i: "wi_token ?i = Some ''old''" by simp
  obtain R where R: "resolve (sh_table shared_ref) ?i = Inr R" by (simp add: shared_ref_def resolve_eval)
  obtain out sh' w' where s: "serve daemon_ref fabric_ref jwks_down static_ref shared_ref [Inr (Init ?i), Inr Drain] 0 =
    (Inr (), Ack # out, sh', w')"
    by (simp add: serve_def open_session_def i a R daemon_ref_def respond_def)
  from one_answer_per_frame [OF s] s show ?thesis by auto
qed

text \<open>Nothing happens before a handshake: a connection whose first frame is a call or a drain gets one protocol error
  and is closed, with the shared state untouched, whatever follows.\<close>
theorem no_service_before_init:
  assumes "\<forall>init. req \<noteq> Init init"
  shows "serve D F L a sh (Inr req # rest) w =
    (fst (dl_write D expected_init w), [expected_init], sh, snd (dl_write D expected_init w))"
  using assms by (cases req) (auto simp: serve_def split: prod.splits)

theorem no_service_before_init_witness:
  "serve daemon_ref fabric_ref jwks_down static_ref shared_ref [Inr Drain, Inr (Init init_ref)] 0 =
     (Inr (), [expected_init], shared_ref, 1)"
  using no_service_before_init [of Drain daemon_ref fabric_ref jwks_down static_ref shared_ref "[Inr (Init init_ref)]" 0]
  by (simp add: daemon_ref_def)

text \<open>The metrics endpoint: a \<^verbatim>\<open>GET /metrics\<close> of any HTTP version gets a 200 whose content length is the length of
  its body, and the body ends with the current number of rejected clients; any other request line gets the
  fixed 404.\<close>
theorem metrics_endpoint:
  assumes line: "lf \<notin> set line" and len: "length line < 1023" and utf8: "\<And>s. dl_utf8_lossy D s = s"
  shows "metrics_response D sh (line @ crlf @ rest) w =
    (if line = ''GET /metrics'' \<or> starts_with ''GET /metrics '' line
     then metrics_head (length (render_metrics D sh w)) @ render_metrics D sh w
     else metrics_not_found) \<and>
    (\<exists>pre. render_metrics D sh w = pre @ [lf] @ ''fabricd_auth_failures_total '' @ show_nat (unat (sh_auth_failures sh)) @ [lf])"
proof -
  obtain rest' where "take 1024 (line @ crlf @ rest) = line @ crlf @ rest'"
    using len by (simp add: crlf_def take_Cons' del: append_assoc split: if_splits)
  then have "lines_next (take 1024 (line @ crlf @ rest)) = Some line"
    using lines_next_crlf [OF line] by simp
  moreover have "\<exists>pre. render_metrics D sh w = pre @ [lf] @ ''fabricd_auth_failures_total '' @ show_nat (unat (sh_auth_failures sh)) @ [lf]"
    unfolding render_metrics_def Let_def append_assoc [symmetric] by blast
  ultimately show ?thesis by (simp add: metrics_response_def is_metrics_request_def utf8 Let_def)
qed

theorem metrics_endpoint_witness:
  "metrics_response daemon_ref shared_ref (''GET /metrics HTTP/1.1'' @ crlf @ ''host: x'') 0 =
     metrics_head (length (render_metrics daemon_ref shared_ref 0)) @ render_metrics daemon_ref shared_ref 0 \<and>
   metrics_response daemon_ref shared_ref (''GET /secrets HTTP/1.1'' @ crlf @ ''host: x'') 0 = metrics_not_found"
proof -
  have u: "dl_utf8_lossy daemon_ref s = s" for s by (simp add: daemon_ref_def)
  have l: "lf \<notin> set ''GET /metrics HTTP/1.1''" "length ''GET /metrics HTTP/1.1'' < 1023"
    "lf \<notin> set ''GET /secrets HTTP/1.1''" "length ''GET /secrets HTTP/1.1'' < 1023" by simp_all
  have g: "starts_with ''GET /metrics '' ''GET /metrics HTTP/1.1''" "\<not> starts_with ''GET /metrics '' ''GET /secrets HTTP/1.1''"
    by (simp_all add: starts_with_def)
  from metrics_endpoint [where D = daemon_ref and sh = shared_ref and w = 0, OF l(1,2) u, of "''host: x''"]
    metrics_endpoint [where D = daemon_ref and sh = shared_ref and w = 0, OF l(3,4) u, of "''host: x''"] g
  show ?thesis by (simp only: simp_thms if_True if_False) simp
qed


lemma start_ref: "\<exists>plan. start_daemon daemon_ref jwks_down 0 = (Inr plan, 0) \<and>
    map_option ql_auth (dp_quic plan) = Some static_ref \<and> dp_shared plan = shared_ref"
  by (simp add: start_daemon_def load_config_def daemon_ref_def fabricd_config_ref_def fabricd_config_default_def uds_path_def
      quic_config_ref_def static_config_ref_def client_auth_config_default_def start_uds_def start_quic_def start_metrics_def
      build_quic_endpoint_def build_authenticator_def static_ref_def shared_ref_def)


text \<open>C13: a misconfigured remote authenticator keeps the daemon from starting: a static mode without a non-empty secret, or
  a service-account mode without issuer or audience, makes start-up fail, so no listener ever runs without the
  check it was configured for.\<close>
theorem misconfigured_auth_never_starts:
  assumes "load_config D w = (Inr config, w0)" "fc_quic config = Some qc" "auth_misconfigured (qlc_auth qc)"
  shows "\<exists>e w'. start_daemon D L w = (Inl e, w')"
proof -
  have "\<exists>e w'. start_quic D L (Some qc) v = (Inl e, w')" for v
  proof -
    obtain r v1 where b: "build_quic_endpoint D qc v = (r, v1)" by (cases "build_quic_endpoint D qc v")
    obtain e where "build_authenticator L (qlc_auth qc) v1 = (Inl e, v1)"
      using build_misconfigured [OF assms(3), of L v1] by blast
    with b show ?thesis by (cases r) (simp_all add: start_quic_def del: split_paired_Ex)
  qed
  then have q: "start_quic D L (fc_quic config) v \<noteq> (Inr x, v')" for v v' x
    using assms(2) by (metis Inl_Inr_False prod.inject)
  obtain r w' where r: "start_daemon D L w = (r, w')" by (cases "start_daemon D L w")
  show ?thesis
  proof (cases r)
    case (Inl e)
    with r show ?thesis by simp
  next
    case (Inr plan)
    with r assms(1) have "\<exists>v v' x. start_quic D L (fc_quic config) v = (Inr x, v')"
      by (auto simp: start_daemon_def Let_def split: result_splits)
    with q show ?thesis by simp
  qed
qed

definition misconfigured_ref :: fabricd_config where
  "misconfigured_ref = fabricd_config_default\<lparr>fc_quic := Some (quic_config_ref
     \<lparr>qlc_auth := client_auth_config_default\<lparr>cac_mode := ModeStatic\<rparr>\<rparr>)\<rparr>"

theorem misconfigured_auth_never_starts_witness:
  "\<exists>e w'. start_daemon (daemon_ref\<lparr>de_config := \<lambda>_. Inr misconfigured_ref\<rparr>) jwks_down 0 = (Inl e, w')"
proof (rule misconfigured_auth_never_starts)
  show "load_config (daemon_ref\<lparr>de_config := \<lambda>_. Inr misconfigured_ref\<rparr>) 0 = (Inr misconfigured_ref, 0)"
    by (simp add: load_config_def daemon_ref_def)
  show "fc_quic misconfigured_ref = Some (quic_config_ref\<lparr>qlc_auth := client_auth_config_default\<lparr>cac_mode := ModeStatic\<rparr>\<rparr>)"
    by (simp add: misconfigured_ref_def)
  show "auth_misconfigured (qlc_auth (quic_config_ref\<lparr>qlc_auth := client_auth_config_default\<lparr>cac_mode := ModeStatic\<rparr>\<rparr>))"
    by (simp add: auth_misconfigured_def client_auth_config_default_def)
qed

end
