(* ===== verification/Listeners.thy ===== *)
theory Listeners
  imports Daemon
begin

text \<open>
  The running daemon, the accept loops of \<^verbatim>\<open>crates/fabricd/src/main.rs\<close>: many sessions, each on its own task, over
  the local socket and over QUIC connections that hold a permit while they are open.  The step relation
  \<open>daemon_step\<close> has one constructor per atomic step of a task; the tasks interleave freely, the key cache of the
  remote authenticator is refreshed in between, and the outside world may change at any time.  The session
  code itself is that of theory \<^verbatim>\<open>Daemon\<close>, and \<^verbatim>\<open>serve\<close> is shown to be a run of this relation.
\<close>

section \<open>State\<close>

datatype transport = Uds | Quic

datatype phase = AwaitInit | Serving wire_init backend_set | Closed

record daemon_state =
  ds_shared :: shared
  ds_uds :: bool
  ds_uds_auth :: authenticator
  ds_quic_auth :: "authenticator option"
  ds_quic_task :: "refresh_task option"
  ds_connections :: nat
  ds_max_connections :: nat
  ds_metrics :: bool
  ds_running :: bool
  ds_sessions :: "nat \<rightharpoonup> transport \<times> phase"

text \<open>Which branch of the \<^verbatim>\<open>select!\<close> of \<^verbatim>\<open>run_listeners\<close> ended it.\<close>
datatype stop_cause = UdsLoop | QuicLoop | ShutdownSignal

text \<open>What a step shows: a session begins or ends, a response is handed to \<^verbatim>\<open>write_frame\<close>, a connection takes or gives
  back its permit, and so on.\<close>
datatype event =
    Accepted nat transport
  | Frame nat wire_response
  | Ended nat
  | Connected
  | Disconnected
  | Refreshed
  | Scraped "(string, unit) result"
  | MetricsStopped
  | Stopped stop_cause
  | Environment

definition auth_of :: "daemon_state \<Rightarrow> transport \<Rightarrow> authenticator option" where
  "auth_of st t = (case t of Uds \<Rightarrow> Some (ds_uds_auth st) | Quic \<Rightarrow> ds_quic_auth st)"

definition set_session :: "daemon_state \<Rightarrow> nat \<Rightarrow> transport \<Rightarrow> phase \<Rightarrow> daemon_state" where
  "set_session st i t p = st\<lparr>ds_sessions := (ds_sessions st)(i \<mapsto> (t, p))\<rparr>"

text \<open>The state when the listeners start.\<close>
definition initial_state :: "daemon_plan \<Rightarrow> daemon_state" where
  "initial_state p =
     \<lparr>ds_shared = dp_shared p, ds_uds = (dp_uds p \<noteq> None), ds_uds_auth = dp_uds_auth p,
      ds_quic_auth = map_option ql_auth (dp_quic p), ds_quic_task = Option.bind (dp_quic p) ql_task,
      ds_connections = 0, ds_max_connections = (case dp_quic p of None \<Rightarrow> 0 | Some q \<Rightarrow> ql_max_connections q),
      ds_metrics = (dp_metrics p \<noteq> None), ds_running = True, ds_sessions = Map.empty\<rparr>"

definition after_init :: "(string, unit) result \<Rightarrow> wire_init \<Rightarrow> backend_set option \<Rightarrow> phase" where
  "after_init written init session =
     (case session of Some s \<Rightarrow> if is_ok written then Serving init s else Closed | None \<Rightarrow> Closed)"

section \<open>Steps\<close>

text \<open>The accept loops run while \<open>ds_running\<close>; the tasks they spawned may still finish their frames after that.  The local
  accept loop ends with its first error and the remote one when its endpoint closes, and either end, like a
  signal, ends the daemon; an error of the metrics listener only stops that listener.\<close>
inductive daemon_step ::
    "'w daemon_lib \<Rightarrow> 'w fabric_env \<Rightarrow> 'w jwks_lib \<Rightarrow> daemon_state \<times> 'w \<Rightarrow> event \<Rightarrow> daemon_state \<times> 'w \<Rightarrow> bool"
  for D :: "'w daemon_lib" and F :: "'w fabric_env" and L :: "'w jwks_lib" where
  accept_uds: "ds_running st \<Longrightarrow> ds_uds st \<Longrightarrow> ds_sessions st i = None \<Longrightarrow>
    daemon_step D F L (st, w) (Accepted i Uds) (set_session st i Uds AwaitInit, w)"
| uds_failed: "ds_running st \<Longrightarrow> ds_uds st \<Longrightarrow>
    daemon_step D F L (st, w) (Stopped UdsLoop) (st\<lparr>ds_running := False\<rparr>, w)"
| accept_quic: "ds_running st \<Longrightarrow> ds_connections st < ds_max_connections st \<Longrightarrow>
    daemon_step D F L (st, w) Connected (st\<lparr>ds_connections := Suc (ds_connections st)\<rparr>, w)"
| endpoint_closed: "ds_running st \<Longrightarrow> ds_quic_auth st \<noteq> None \<Longrightarrow>
    daemon_step D F L (st, w) (Stopped QuicLoop) (st\<lparr>ds_running := False\<rparr>, w)"
| close_quic: "0 < ds_connections st \<Longrightarrow>
    daemon_step D F L (st, w) Disconnected (st\<lparr>ds_connections := ds_connections st - 1\<rparr>, w)"
| accept_stream: "ds_sessions st i = None \<Longrightarrow> ds_quic_auth st \<noteq> None \<Longrightarrow> 0 < ds_connections st \<Longrightarrow>
    daemon_step D F L (st, w) (Accepted i Quic) (set_session st i Quic AwaitInit, w)"
| first_init: "ds_sessions st i = Some (t, AwaitInit) \<Longrightarrow> auth_of st t = Some a \<Longrightarrow>
    open_session (fe_wire F) L a (ds_shared st) init w = (response, session, sh) \<Longrightarrow>
    dl_write D response w = (written, w') \<Longrightarrow>
    daemon_step D F L (st, w) (Frame i response)
      (set_session (st\<lparr>ds_shared := sh\<rparr>) i t (after_init written init session), w')"
| first_other: "ds_sessions st i = Some (t, AwaitInit) \<Longrightarrow> dl_write D expected_init w = (written, w') \<Longrightarrow>
    daemon_step D F L (st, w) (Frame i expected_init) (set_session st i t Closed, w')"
| request: "ds_sessions st i = Some (t, Serving init s) \<Longrightarrow> respond D F s req w = (response, s1, w1) \<Longrightarrow>
    dl_write D response w1 = (written, w') \<Longrightarrow>
    daemon_step D F L (st, w) (Frame i response)
      (set_session st i t (if is_ok written then Serving init s1 else Closed), w')"
| closed: "ds_sessions st i = Some (t, p) \<Longrightarrow> p \<noteq> Closed \<Longrightarrow>
    daemon_step D F L (st, w) (Ended i) (set_session st i t Closed, w)"
| keys: "ds_quic_auth st = Some (SaTokenAuthenticator v) \<Longrightarrow> ds_quic_task st = Some task \<Longrightarrow>
    verifier_step L task (v, w) (v', w') \<Longrightarrow>
    daemon_step D F L (st, w) Refreshed (st\<lparr>ds_quic_auth := Some (SaTokenAuthenticator v')\<rparr>, w')"
| scrape: "ds_running st \<Longrightarrow> ds_metrics st \<Longrightarrow> serve_metrics_once D (ds_shared st) w = (r, w') \<Longrightarrow>
    daemon_step D F L (st, w) (Scraped r) (st, w')"
| metrics_failed: "ds_running st \<Longrightarrow> ds_metrics st \<Longrightarrow>
    daemon_step D F L (st, w) MetricsStopped (st\<lparr>ds_metrics := False\<rparr>, w)"
| signalled: "ds_running st \<Longrightarrow> shutdown_signal D w \<Longrightarrow>
    daemon_step D F L (st, w) (Stopped ShutdownSignal) (st\<lparr>ds_running := False\<rparr>, w)"
| elsewhere: "daemon_step D F L (st, w) Environment (st, w')"

text \<open>Runs, with the events in the order in which they happened.\<close>
inductive daemon_run ::
    "'w daemon_lib \<Rightarrow> 'w fabric_env \<Rightarrow> 'w jwks_lib \<Rightarrow> daemon_state \<times> 'w \<Rightarrow> event list \<Rightarrow> daemon_state \<times> 'w \<Rightarrow> bool"
  for D :: "'w daemon_lib" and F :: "'w fabric_env" and L :: "'w jwks_lib" where
  stay: "daemon_run D F L sw [] sw"
| go: "daemon_run D F L sw evs sw1 \<Longrightarrow> daemon_step D F L sw1 e sw2 \<Longrightarrow> daemon_run D F L sw (evs @ [e]) sw2"

lemma daemon_run_step: "daemon_step D F L sw e sw' \<Longrightarrow> daemon_run D F L sw [e] sw'"
  using daemon_run.go [OF daemon_run.stay] by fastforce

lemma daemon_run_append:
  assumes "daemon_run D F L sw1 evs2 sw2" "daemon_run D F L sw0 evs1 sw1"
  shows "daemon_run D F L sw0 (evs1 @ evs2) sw2"
  using assms
  by (induction rule: daemon_run.induct) (auto simp flip: append_assoc intro: daemon_run.go)

lemma daemon_run_Cons:
  "daemon_step D F L sw0 e sw1 \<Longrightarrow> daemon_run D F L sw1 evs sw2 \<Longrightarrow> daemon_run D F L sw0 (e # evs) sw2"
  using daemon_run_append [OF _ daemon_run_step] by fastforce

inductive_cases daemon_stepE: "daemon_step D F L (st, w) e (st', w')"

lemma set_session_sel [simp]:
  "ds_shared (set_session st i t p) = ds_shared st" "ds_uds_auth (set_session st i t p) = ds_uds_auth st"
  "ds_quic_auth (set_session st i t p) = ds_quic_auth st" "ds_connections (set_session st i t p) = ds_connections st"
  "ds_max_connections (set_session st i t p) = ds_max_connections st" "ds_uds (set_session st i t p) = ds_uds st"
  "ds_running (set_session st i t p) = ds_running st" "ds_quic_task (set_session st i t p) = ds_quic_task st"
  "ds_metrics (set_session st i t p) = ds_metrics st"
  "ds_sessions (set_session st i t p) j = (if j = i then Some (t, p) else ds_sessions st j)"
  "auth_of (set_session st i t p) = auth_of st"
  by (auto simp: set_session_def auth_of_def split: transport.splits)

lemma set_session_twice [simp]: "set_session (set_session st i t p) i t q = set_session st i t q"
  by (simp add: set_session_def)

section \<open>What never changes\<close>

text \<open>The operator's table, the ceiling and the breaker are fixed; an authenticator keeps its kind and its secrets or
  expected claims.\<close>
definition same_authority :: "authenticator option \<Rightarrow> authenticator option \<Rightarrow> bool" where
  "same_authority a b =
     (case (a, b) of
        (Some (SaTokenAuthenticator v), Some (SaTokenAuthenticator v')) \<Rightarrow>
          jv_audience v' = jv_audience v \<and> jv_issuer v' = jv_issuer v
      | _ \<Rightarrow> a = b)"

lemma same_authority_refl [simp]: "same_authority a a"
  by (auto simp: same_authority_def split: option.splits authenticator.splits)

lemma same_authority_SaToken [simp]:
  "same_authority (Some (SaTokenAuthenticator v)) (Some (SaTokenAuthenticator v')) \<longleftrightarrow>
     jv_audience v' = jv_audience v \<and> jv_issuer v' = jv_issuer v"
  by (simp add: same_authority_def)

lemma same_authority_trans: "same_authority a b \<Longrightarrow> same_authority b c \<Longrightarrow> same_authority a c"
  by (auto simp: same_authority_def split: option.splits authenticator.splits)

lemma same_authority_Static: "same_authority (Some (StaticAuthenticator c p)) b \<Longrightarrow> b = Some (StaticAuthenticator c p)"
  by (auto simp: same_authority_def split: option.splits authenticator.splits)

definition fixed_part :: "daemon_state \<Rightarrow> resource_table \<times> u64 \<times> handle option \<times> authenticator \<times> nat" where
  "fixed_part st =
     (sh_table (ds_shared st), sh_max_statement_timeout_ms (ds_shared st), sh_breaker (ds_shared st),
      ds_uds_auth st, ds_max_connections st)"

lemma open_session_fixed:
  assumes "open_session W L a sh init w = (response, session, sh')"
  shows "sh_table sh' = sh_table sh" "sh_max_statement_timeout_ms sh' = sh_max_statement_timeout_ms sh"
    "sh_breaker sh' = sh_breaker sh"
  using assms by (auto simp: open_session_def record_auth_failure_def split: sum.splits)

lemma daemon_step_fixed:
  assumes "daemon_step D F L (st, w) e (st', w')"
  shows "fixed_part st' = fixed_part st" "same_authority (ds_quic_auth st) (ds_quic_auth st')"
  using assms
  by (auto elim!: daemon_stepE simp: fixed_part_def open_session_fixed verifier_step_keeps)

lemma daemon_run_fixed:
  assumes "daemon_run D F L sw evs sw'"
  shows "fixed_part (fst sw') = fixed_part (fst sw)" "same_authority (ds_quic_auth (fst sw)) (ds_quic_auth (fst sw'))"
  using assms
  by (induction rule: daemon_run.induct) (fastforce dest: daemon_step_fixed intro: same_authority_trans)+

section \<open>The invariant of sessions\<close>

text \<open>A dying backend task may leave any state in the cells of the slots, but a configuration is never written.\<close>
definition panic_keeps_configs :: "'w daemon_lib \<Rightarrow> bool" where
  "panic_keeps_configs D \<longleftrightarrow>
     (\<forall>call s w e s' w'. dl_panic D call s w = Some (e, s', w') \<longrightarrow> set_configs s' = set_configs s)"

lemma respond_configs:
  assumes "panic_keeps_configs D" "respond D F s req w = (response, s', w')"
  shows "set_configs s' = set_configs s"
  using assms
  by (fastforce simp: respond_def dispatch_call_def panic_keeps_configs_def
      split: wire_request.splits option.splits prod.splits dest: set_call_configs)

lemmas respond_wired = respond_configs [THEN wired_set_configs]

text \<open>A session that is being served was accepted by the authenticator of its transport, and its backends hold the
  configurations of its own handshake, under the operator's ceiling.\<close>
definition session_ok :: "wire_lib \<Rightarrow> 'w jwks_lib \<Rightarrow> daemon_state \<Rightarrow> transport \<Rightarrow> phase \<Rightarrow> bool" where
  "session_ok W L st0 t p =
     (case p of
        Serving init s \<Rightarrow>
          (\<exists>a w0. same_authority (auth_of st0 t) (Some a) \<and> authenticate W L a w0 (wi_token init) = Inr ()) \<and>
          (\<exists>R. resolve (sh_table (ds_shared st0)) init = Inr R \<and>
            set_configs s = clamp_db_statement_timeout (sh_max_statement_timeout_ms (ds_shared st0)) R)
      | _ \<Rightarrow> True)"

lemma open_session_ok:
  assumes o: "open_session W L a sh init w = (response, session, sh')"
    and a: "same_authority (auth_of st0 t) (Some a)" and sh: "sh_table sh = sh_table (ds_shared st0)"
      "sh_max_statement_timeout_ms sh = sh_max_statement_timeout_ms (ds_shared st0)"
  shows "session_ok W L st0 t (after_init written init session)"
proof (cases session)
  case None
  then show ?thesis by (simp add: after_init_def session_ok_def)
next
  case (Some s)
  with o obtain R where R: "authenticate W L a w (wi_token init) = Inr ()" "resolve (sh_table sh) init = Inr R"
      "s = from_configs (clamp_db_statement_timeout (sh_max_statement_timeout_ms sh) R)
        \<lparr>ad_breaker = sh_breaker sh, ad_timeout = duration_from_millis (wi_timeout_ms init)\<rparr>"
    by (auto simp: open_session_def split: sum.splits)
  with a sh show ?thesis
    unfolding Some by (auto simp: after_init_def session_ok_def split: if_splits)
qed

lemma session_ok_request:
  assumes "panic_keeps_configs D" "session_ok W L st0 t (Serving init s)" "respond D F s req w = (response, s1, w1)"
  shows "session_ok W L st0 t (if b then Serving init s1 else Closed)"
  using assms(2) respond_configs [OF assms(1,3)] by (simp add: session_ok_def)

lemma auth_of_authority:
  assumes "fixed_part st = fixed_part st0" "same_authority (ds_quic_auth st0) (ds_quic_auth st)" "auth_of st t = Some a"
  shows "same_authority (auth_of st0 t) (Some a)"
  using assms by (cases t) (auto simp: auth_of_def fixed_part_def)

lemma daemon_step_sessions:
  assumes step: "daemon_step D F L (st, w) e (st', w')" and D: "panic_keeps_configs D"
    and fixed: "fixed_part st = fixed_part st0" "same_authority (ds_quic_auth st0) (ds_quic_auth st)"
    and old: "\<And>i t p. ds_sessions st i = Some (t, p) \<Longrightarrow> session_ok (fe_wire F) L st0 t p"
    and new: "ds_sessions st' j = Some (t, p)"
  shows "session_ok (fe_wire F) L st0 t p"
proof -
  have tbl: "sh_table (ds_shared st) = sh_table (ds_shared st0)"
    "sh_max_statement_timeout_ms (ds_shared st) = sh_max_statement_timeout_ms (ds_shared st0)"
    using fixed(1) by (simp_all add: fixed_part_def)
  have triv: "session_ok (fe_wire F) L st0 t AwaitInit" "session_ok (fe_wire F) L st0 t Closed" for t
    by (simp_all add: session_ok_def)
  from step show ?thesis
  proof (cases rule: daemon_step.cases)
    case (first_init i t1 a init response session sh written)
    have "session_ok (fe_wire F) L st0 t1 (after_init written init session)"
      by (rule open_session_ok [OF first_init(5) auth_of_authority [OF fixed first_init(4)] tbl])
    with first_init new old show ?thesis by (auto split: if_splits)
  next
    case (request i t1 init s req response s1 w1 written)
    have "session_ok (fe_wire F) L st0 t1 (if is_ok written then Serving init s1 else Closed)"
      by (rule session_ok_request [OF D old [OF request(3)] request(4)])
    with request new old show ?thesis by (auto split: if_splits)
  qed (use new old triv in \<open>auto split: if_splits\<close>)
qed

lemma daemon_run_sessions:
  assumes run: "daemon_run D F L (st0, w0) evs sw" and D: "panic_keeps_configs D"
    and start: "ds_sessions st0 = Map.empty"
  shows "\<forall>j t p. ds_sessions (fst sw) j = Some (t, p) \<longrightarrow> session_ok (fe_wire F) L st0 t p"
  using run
proof (induction "(st0, w0)" evs sw rule: daemon_run.induct)
  case stay
  with start show ?case by simp
next
  case (go evs sw e sw')
  obtain st w st' w' where s: "sw = (st, w)" "sw' = (st', w')" by (cases sw, cases sw')
  from daemon_run_fixed [OF go.hyps(1)] have "fixed_part st = fixed_part st0"
    "same_authority (ds_quic_auth st0) (ds_quic_auth st)" by (simp_all add: s)
  from daemon_step_sessions [OF go.hyps(3) [unfolded s] D this] go.hyps(2) show ?case by (auto simp: s)
qed

section \<open>The connection cap\<close>

lemma daemon_run_cap:
  assumes "daemon_run D F L sw evs sw'" "ds_connections (fst sw) \<le> ds_max_connections (fst sw)"
  shows "ds_connections (fst sw') \<le> ds_max_connections (fst sw')"
  using assms
  by (induction rule: daemon_run.induct) (auto elim!: daemon_step.cases)

section \<open>Whose resources a session holds\<close>

lemma granted_visible: "granted V wrap (Some n) x \<Longrightarrow> V n \<noteq> None"
  by (auto simp: granted_def)

lemma wired_own_tenant:
  assumes res: "resolve T init = Inr R" and "wired (from_configs R deps) name"
  shows "\<exists>n b. wi_select init name = Some n \<and> T n = Some \<lparr>trb_tenant = wi_tenant init, trb_binding = b\<rparr>"
proof -
  from assms from_configs_wired [OF res] obtain n where n: "wi_select init name = Some n" by auto
  have "visible T (wi_tenant init) n \<noteq> None"
    using n res [unfolded resolve_Inr_iff] granted_visible
    unfolding wi_select_def by (metis option.distinct(1))
  then obtain e where "T n = Some e" "trb_tenant e = wi_tenant init"
    by (auto simp: visible_def split: option.splits if_splits)
  then have "T n = Some \<lparr>trb_tenant = wi_tenant init, trb_binding = trb_binding e\<rparr>" by simp
  with n show ?thesis by blast
qed

section \<open>The session code is a run of the step relation\<close>

text \<open>The trace of one session running alone: its frames in order, perhaps its end, and nothing else.\<close>
definition session_trace :: "nat \<Rightarrow> wire_response list \<Rightarrow> event list \<Rightarrow> bool" where
  "session_trace i out evs \<longleftrightarrow> evs = map (Frame i) out \<or> evs = map (Frame i) out @ [Ended i]"

lemma serve_loop_run:
  assumes "serve_loop D F s inb w = (r, out, s', w')" "ds_sessions st i = Some (t, Serving init s)"
  shows "\<exists>evs. daemon_run D F L (st, w) evs (set_session st i t Closed, w') \<and> session_trace i out evs"
  using assms
proof (induction D F s inb w arbitrary: r out s' w' st rule: serve_loop.induct)
  case (3 D F s request rest w)
  obtain resp s1 w1 where p: "respond D F s request w = (resp, s1, w1)" by (metis prod_cases3)
  obtain x w2 where x: "dl_write D resp w1 = (x, w2)" by (cases "dl_write D resp w1")
  note step = daemon_step.request [where L = L, OF "3.prems"(2) p x]
  show ?case
  proof (cases x)
    case (Inl err)
    with "3.prems"(1) p x have "out = [resp]" "w' = w2" by simp_all
    with step Inl show ?thesis
      by (auto simp: session_trace_def intro!: exI [of _ "[Frame i resp]"] daemon_run_step)
  next
    case (Inr u)
    with "3.prems"(1) p x obtain out1 where t: "serve_loop D F s1 rest w2 = (r, out1, s', w')" "out = resp # out1"
      by (auto split: prod.splits)
    from step Inr have 1: "daemon_step D F L (st, w) (Frame i resp) (set_session st i t (Serving init s1), w2)" by simp
    from "3.IH" [OF p [symmetric] refl x [symmetric] Inr t(1), of "set_session st i t (Serving init s1)"]
    obtain evs where "daemon_run D F L (set_session st i t (Serving init s1), w2) evs (set_session st i t Closed, w')"
      "session_trace i out1 evs" by auto
    with daemon_run_Cons [OF 1] t(2) show ?thesis
      by (auto simp: session_trace_def intro!: exI [of _ "Frame i resp # evs"])
  qed
qed (auto simp: session_trace_def intro!: exI [of _ "[Ended i]"] daemon_run_step daemon_step.closed)

lemma session_ended:
  assumes "ds_sessions st i = Some (t, AwaitInit)"
  shows "\<exists>evs. daemon_run D F L (st, w) evs (set_session st i t Closed, w) \<and> session_trace i [] evs"
  by (intro exI [of _ "[Ended i]"] conjI daemon_run_step daemon_step.closed [OF assms]) (simp_all add: session_trace_def)

lemma serve_init_run:
  assumes wait: "ds_sessions st i = Some (t, AwaitInit)" and a: "auth_of st t = Some a"
    and run: "serve D F L a (ds_shared st) (Inr (Init init) # rest) w = (r, out, sh', w')"
  shows "\<exists>evs. daemon_run D F L (st, w) evs (set_session (st\<lparr>ds_shared := sh'\<rparr>) i t Closed, w') \<and> session_trace i out evs"
proof -
  obtain resp session sh1 where o: "open_session (fe_wire F) L a (ds_shared st) init w = (resp, session, sh1)"
    by (metis prod_cases3)
  obtain y v where y: "dl_write D resp w = (y, v)" by (cases "dl_write D resp w")
  note step = daemon_step.first_init [where F = F and L = L, OF wait a o y]
  show ?thesis
  proof (cases "is_ok y \<and> session \<noteq> None")
    case True
    then obtain s u where s: "session = Some s" "y = Inr u" by (auto simp: is_ok_ex)
    with run o y obtain s2 out1 where l: "serve_loop D F s rest v = (r, out1, s2, w')" "sh' = sh1" "out = resp # out1"
      by (auto simp: serve_def split: prod.splits)
    let ?st = "set_session (st\<lparr>ds_shared := sh1\<rparr>) i t (Serving init s)"
    from step s have 1: "daemon_step D F L (st, w) (Frame i resp) (?st, v)" by (simp add: after_init_def)
    have "ds_sessions ?st i = Some (t, Serving init s)" by simp
    from serve_loop_run [where L = L, OF l(1) this] obtain evs where
      "daemon_run D F L (?st, v) evs (set_session (st\<lparr>ds_shared := sh'\<rparr>) i t Closed, w')" "session_trace i out1 evs"
      by (auto simp: l(2))
    with daemon_run_Cons [OF 1] l(3) show ?thesis
      by (auto simp: session_trace_def intro!: exI [of _ "Frame i resp # evs"])
  next
    case False
    with run o y have "sh' = sh1" "w' = v" "out = [resp]" by (auto simp: serve_def split: sum.splits option.splits)
    moreover from False have "after_init y init session = Closed" by (auto simp: after_init_def split: option.splits)
    ultimately show ?thesis using daemon_run_step [OF step]
      by (auto simp: session_trace_def intro!: exI [of _ "[Frame i resp]"])
  qed
qed

section \<open>Counting rejections\<close>

definition is_rejection :: "event \<Rightarrow> bool" where
  "is_rejection e = (case e of Frame _ (InitError code _) \<Rightarrow> code = ''UNAUTHENTICATED'' | _ \<Rightarrow> False)"

lemma open_session_failures:
  assumes "open_session W L a sh init w = (response, session, sh')"
  shows "sh_auth_failures sh' = sh_auth_failures sh + (if is_rejection (Frame i response) then 1 else 0)"
  using open_session_cases [OF assms] assms
  by (auto simp: is_rejection_def record_auth_failure_def split: wire_response.splits if_splits)

lemma daemon_step_failures:
  assumes "daemon_step D F L (st, w) e (st', w')"
  shows "sh_auth_failures (ds_shared st') = sh_auth_failures (ds_shared st) + (if is_rejection e then 1 else 0)"
  using assms
proof (cases rule: daemon_step.cases)
  case (first_init i t a init response session sh written)
  with open_session_failures [OF first_init(5), of i] show ?thesis by simp
next
  case (request i t init s req response s1 w1 written)
  with respond_answers [OF request(4)] show ?thesis
    by (auto simp: is_rejection_def answers_def split: wire_request.splits wire_response.splits)
qed (simp_all add: is_rejection_def expected_init_def)

lemma daemon_run_failures:
  assumes "daemon_run D F L sw evs sw'"
  shows "sh_auth_failures (ds_shared (fst sw')) =
    sh_auth_failures (ds_shared (fst sw)) + of_nat (length (filter is_rejection evs))"
  using assms
proof (induction rule: daemon_run.induct)
  case (go sw evs sw1 e sw2)
  with daemon_step_failures [of D F L "fst sw1" "snd sw1" e "fst sw2" "snd sw2"] show ?case by simp
qed simp

section \<open>What ends the daemon\<close>

lemma daemon_step_running:
  assumes "daemon_step D F L sw e sw'"
  shows "ds_running (fst sw') \<longleftrightarrow> ds_running (fst sw) \<and> (\<forall>c. e \<noteq> Stopped c)"
    and "e \<in> {Stopped c, Connected, Accepted i Uds} \<Longrightarrow> ds_running (fst sw)"
  using assms by (auto elim!: daemon_step.cases)

lemma daemon_run_running:
  assumes "daemon_run D F L sw evs sw'"
  shows "ds_running (fst sw') \<longleftrightarrow> ds_running (fst sw) \<and> (\<forall>c. Stopped c \<notin> set evs)"
  using assms by (induction rule: daemon_run.induct) (auto dest: daemon_step_running(1))

text \<open>Nothing is accepted in the part of a run after it stopped.\<close>
lemma daemon_run_stopped:
  assumes "daemon_run D F L sw evs sw'"
  shows "evs = pre @ [Stopped c] @ post \<Longrightarrow> {Stopped c', Connected, Accepted i Uds} \<inter> set post = {}"
  using assms
proof (induction arbitrary: post rule: daemon_run.induct)
  case (go sw evs sw1 e sw2)
  show ?case
  proof (cases post rule: rev_cases)
    case (snoc post1 e1)
    with go.prems have e: "evs = pre @ [Stopped c] @ post1" "e1 = e" by simp_all
    with daemon_run_running [OF go.hyps(1)] have "\<not> ds_running (fst sw1)" by auto
    with daemon_step_running(2) [OF go.hyps(2)] have "e \<notin> {Stopped c', Connected, Accepted i Uds}" by blast
    with go.IH [OF e(1)] snoc e(2) show ?thesis by auto
  qed simp
qed simp

text \<open>What may have ended it.\<close>
definition may_stop :: "'w daemon_lib \<Rightarrow> daemon_state \<Rightarrow> stop_cause \<Rightarrow> bool" where
  "may_stop D st c =
     (case c of UdsLoop \<Rightarrow> ds_uds st | QuicLoop \<Rightarrow> ds_quic_auth st \<noteq> None | ShutdownSignal \<Rightarrow> (\<exists>w. shutdown_signal D w))"

lemma daemon_step_may_stop:
  assumes "daemon_step D F L sw e sw'"
  shows "may_stop D (fst sw') = may_stop D (fst sw)" "e = Stopped c \<Longrightarrow> may_stop D (fst sw) c"
  using assms by (auto elim!: daemon_step.cases simp: may_stop_def fun_eq_iff split: stop_cause.splits)

lemma daemon_run_may_stop:
  assumes "daemon_run D F L sw evs sw'"
  shows "may_stop D (fst sw') = may_stop D (fst sw) \<and> (\<forall>c. Stopped c \<in> set evs \<longrightarrow> may_stop D (fst sw) c)"
  using assms by (induction rule: daemon_run.induct) (auto dest: daemon_step_may_stop)

section \<open>A concrete run for witnesses\<close>

lemma daemon_ref_panic: "panic_keeps_configs daemon_ref"
  by (simp add: panic_keeps_configs_def daemon_ref_def)

definition init_old :: wire_init where
  "init_old = init_ref\<lparr>wi_token := Some ''old''\<rparr>"

text \<open>One remote client connects, opens a stream and sends its handshake.\<close>
text \<open>A remote client that guesses its token is rejected.\<close>
lemma open_session_guess:
  "open_session (fe_wire fabric_ref) jwks_down static_ref shared_ref (init_ref\<lparr>wi_token := Some ''guess''\<rparr>) (0 :: nat) =
     (InitError ''UNAUTHENTICATED'' ''client auth token rejected'', None, snd (record_auth_failure shared_ref))"
  using static_ref_auth(2) [where L = jwks_down and w = "0 :: nat"]
  by (simp add: open_session_def auth_reject_new_def UNAUTHENTICATED_def)

lemma handshake_ref:
  assumes "open_session (fe_wire fabric_ref) jwks_down static_ref shared_ref init (0 :: nat) = (response, session, sh)"
  shows "\<exists>plan st. start_daemon daemon_ref jwks_down 0 = (Inr plan, 0) \<and> map_option ql_auth (dp_quic plan) = Some static_ref \<and>
     dp_shared plan = shared_ref \<and>
     daemon_run daemon_ref fabric_ref jwks_down (initial_state plan, 0) [Connected, Accepted 0 Quic, Frame 0 response] (st, 1) \<and>
     ds_sessions st 0 = Some (Quic, after_init (Inr ()) init session)"
proof -
  obtain plan where p: "start_daemon daemon_ref jwks_down 0 = (Inr plan, 0)" "map_option ql_auth (dp_quic plan) = Some static_ref"
      "dp_shared plan = shared_ref" using start_ref by blast
  have max: "0 < ds_max_connections (initial_state plan)"
    using p(1) by (auto simp: start_daemon_def load_config_def daemon_ref_def fabricd_config_ref_def
        fabricd_config_default_def uds_path_def quic_config_ref_def static_config_ref_def client_auth_config_default_def
        start_uds_def start_quic_def start_metrics_def build_quic_endpoint_def build_authenticator_def initial_state_def
        default_max_connections_def)
  let ?s1 = "(initial_state plan)\<lparr>ds_connections := 1\<rparr>"
  let ?s2 = "set_session ?s1 0 Quic AwaitInit"
  have 1: "daemon_step daemon_ref fabric_ref jwks_down (initial_state plan, 0) Connected (?s1, 0)"
    using daemon_step.accept_quic [of "initial_state plan" daemon_ref fabric_ref jwks_down 0] max
    by (simp add: initial_state_def)
  have 2: "daemon_step daemon_ref fabric_ref jwks_down (?s1, 0) (Accepted 0 Quic) (?s2, 0)"
    by (rule daemon_step.accept_stream) (use p(2) in \<open>auto simp: initial_state_def\<close>)
  have a: "auth_of ?s2 Quic = Some static_ref" using p(2) by (simp add: auth_of_def initial_state_def)
  have o: "open_session (fe_wire fabric_ref) jwks_down static_ref (ds_shared ?s2) init (0 :: nat) = (response, session, sh)"
    using assms by (simp add: initial_state_def p(3))
  have wr: "dl_write daemon_ref response 0 = (Inr (), 1)" by (simp add: daemon_ref_def)
  have "daemon_step daemon_ref fabric_ref jwks_down (?s2, 0) (Frame 0 response)
      (set_session (?s2\<lparr>ds_shared := sh\<rparr>) 0 Quic (after_init (Inr ()) init session), 1)"
    by (rule daemon_step.first_init [OF _ a o wr]) simp
  from daemon_run_Cons [OF 1 daemon_run_Cons [OF 2 daemon_run_step [OF this]]] p show ?thesis by fastforce
qed

lemma serving_ref:
  "\<exists>plan st s. start_daemon daemon_ref jwks_down 0 = (Inr plan, 0) \<and> map_option ql_auth (dp_quic plan) = Some static_ref \<and>
     daemon_run daemon_ref fabric_ref jwks_down (initial_state plan, 0) [Connected, Accepted 0 Quic, Frame 0 Ack] (st, 1) \<and>
     ds_sessions st 0 = Some (Quic, Serving init_old s)"
proof -
  have au: "authenticate (fe_wire fabric_ref) jwks_down static_ref (0 :: nat) (wi_token init_old) = Inr ()"
    using static_ref_auth by (simp add: init_old_def)
  obtain R where R: "resolve table_ref init_old = Inr R" by (simp add: init_old_def resolve_eval)
  obtain s where "open_session (fe_wire fabric_ref) jwks_down static_ref shared_ref init_old (0 :: nat) = (Ack, Some s, shared_ref)"
    by (simp add: open_session_def au shared_ref_def R)
  from handshake_ref [OF this] show ?thesis by (auto simp: after_init_def)
qed

section \<open>Properties\<close>



text \<open>C9: a remote session needs the secret: when the remote listener is configured with a static secret, every QUIC session
  that is ever served presented the current secret or the non-empty previous one.\<close>
theorem remote_session_needs_secret:
  assumes start: "start_daemon D L w = (Inr plan, w0)" and load: "load_config D w = (Inr config, wc)"
    and quic: "fc_quic config = Some qc" "cac_mode (qlc_auth qc) = ModeStatic"
    and ct: "ct_eq_ok (fe_wire F)" and D: "panic_keeps_configs D"
    and run: "daemon_run D F L (initial_state plan, w0) evs (st, w1)"
    and serving: "ds_sessions st i = Some (Quic, Serving init s)"
  shows "\<exists>t. wi_token init = Some t \<and> t \<noteq> [] \<and>
    (cac_static_token (qlc_auth qc) = Some t \<or> cac_previous_token (qlc_auth qc) = Some t)"
proof -
  from start load quic(1) obtain q u1 u2 where
    q: "dp_quic plan = Some q" "build_authenticator L (qlc_auth qc) u1 = (Inr (ql_auth q, ql_task q), u2)"
    by (auto simp: start_daemon_def start_quic_def Let_def split: result_splits)
  from build_static [OF q(2) quic(2)] obtain cur where
    a: "ql_auth q = StaticAuthenticator cur (non_empty (cac_previous_token (qlc_auth qc)))"
      "cac_static_token (qlc_auth qc) = Some cur" "cur \<noteq> []" by blast
  have "ds_sessions (initial_state plan) = Map.empty" by (simp add: initial_state_def)
  from daemon_run_sessions [OF run D this] serving
  have "session_ok (fe_wire F) L (initial_state plan) Quic (Serving init s)" by simp
  then obtain a' u where "same_authority (Some (ql_auth q)) (Some a')"
      "authenticate (fe_wire F) L a' u (wi_token init) = Inr ()"
    by (auto simp: session_ok_def auth_of_def initial_state_def q(1))
  with same_authority_Static [of cur "non_empty (cac_previous_token (qlc_auth qc))" "Some a'"] a(1)
  have "static_authenticate (fe_wire F) cur (non_empty (cac_previous_token (qlc_auth qc))) (wi_token init) = Inr ()"
    by (simp add: authenticate_def)
  with a show ?thesis by (auto simp: static_authenticate_iff [OF ct] non_empty_Some_iff)
qed

theorem remote_session_needs_secret_witness:
  "\<exists>t. wi_token init_old = Some t \<and> (cac_static_token static_config_ref = Some t \<or> cac_previous_token static_config_ref = Some t)"
proof -
  obtain plan st s where p: "start_daemon daemon_ref jwks_down 0 = (Inr plan, 0)"
      and r: "daemon_run daemon_ref fabric_ref jwks_down (initial_state plan, 0) [Connected, Accepted 0 Quic, Frame 0 Ack] (st, 1)"
      "ds_sessions st 0 = Some (Quic, Serving init_old s)" using serving_ref by blast
  have l: "load_config daemon_ref 0 = (Inr fabricd_config_ref, 0)" by (simp add: load_config_def daemon_ref_def)
  have c: "fc_quic fabricd_config_ref = Some quic_config_ref" "cac_mode (qlc_auth quic_config_ref) = ModeStatic"
    by (simp_all add: fabricd_config_ref_def quic_config_ref_def static_config_ref_def)
  have ct: "ct_eq_ok (fe_wire fabric_ref)" by (simp add: fabric_ref_def)
  from remote_session_needs_secret [OF p l c ct daemon_ref_panic r] show ?thesis
    by (auto simp: quic_config_ref_def)
qed

text \<open>The number of open QUIC connections never exceeds \<^verbatim>\<open>max_connections\<close>, whatever clients do.\<close>
theorem quic_connection_cap:
  assumes "daemon_run D F L (initial_state plan, w0) evs (st, w1)" and "dp_quic plan = Some q"
  shows "ds_connections st \<le> ql_max_connections q"
proof -
  have "ds_max_connections st = ds_max_connections (initial_state plan)"
    using daemon_run_fixed(1) [OF assms(1)] by (simp add: fixed_part_def)
  with daemon_run_cap [OF assms(1)] assms(2) show ?thesis by (simp add: initial_state_def)
qed

theorem quic_connection_cap_witness:
  "\<exists>plan st q. daemon_run daemon_ref fabric_ref jwks_down (initial_state plan, 0) [Connected, Accepted 0 Quic, Frame 0 Ack] (st, 1) \<and> dp_quic plan = Some q \<and>
     ds_connections st \<le> ql_max_connections q"
proof -
  obtain plan st q where r: "daemon_run daemon_ref fabric_ref jwks_down (initial_state plan, 0) [Connected, Accepted 0 Quic, Frame 0 Ack] (st, 1)"
      "dp_quic plan = Some q" using serving_ref by fastforce
  from quic_connection_cap [OF r] r show ?thesis by blast
qed

text \<open>C15: the session code refines the step relation: a whole run of \<^verbatim>\<open>serve\<close> on a session that waits for its handshake is a
  run of daemon steps of that session alone, without help of the environment, which hands to \<^verbatim>\<open>write_frame\<close> exactly
  the responses of \<^verbatim>\<open>serve\<close> in order and ends with that session closed, the shared state and the world as
  \<^verbatim>\<open>serve\<close> left them, and no other session touched.\<close>
theorem serve_is_daemon_run:
  assumes wait: "ds_sessions st i = Some (t, AwaitInit)" and a: "auth_of st t = Some a"
    and run: "serve D F L a (ds_shared st) inb w = (r, out, sh', w')"
  shows "\<exists>evs. daemon_run D F L (st, w) evs (set_session (st\<lparr>ds_shared := sh'\<rparr>) i t Closed, w') \<and>
    (evs = map (Frame i) out \<or> evs = map (Frame i) out @ [Ended i])"
  unfolding session_trace_def [symmetric]
proof (cases inb)
  case Nil
  with run show "\<exists>evs. daemon_run D F L (st, w) evs (set_session (st\<lparr>ds_shared := sh'\<rparr>) i t Closed, w') \<and> session_trace i out evs"
    using session_ended [OF wait, of D F L w] by (auto simp: serve_def)
next
  case (Cons x rest)
  show "\<exists>evs. daemon_run D F L (st, w) evs (set_session (st\<lparr>ds_shared := sh'\<rparr>) i t Closed, w') \<and> session_trace i out evs"
  proof (cases x)
    case (Inl e)
    with run Cons show ?thesis using session_ended [OF wait, of D F L w] by (auto simp: serve_def)
  next
    case (Inr req)
    show ?thesis
    proof (cases "\<exists>init. req = Init init")
      case True
      with run Cons Inr obtain init where "serve D F L a (ds_shared st) (Inr (Init init) # rest) w = (r, out, sh', w')"
        by blast
      from serve_init_run [OF wait a this] show ?thesis .
    next
      case False
      obtain y v where y: "dl_write D expected_init w = (y, v)" by (cases "dl_write D expected_init w")
      with False run Cons Inr have "sh' = ds_shared st" "w' = v" "out = [expected_init]"
        by (auto simp: serve_def split: wire_request.splits)
      with daemon_run_step [OF daemon_step.first_other [where F = F and L = L, OF wait y]] show ?thesis
        by (auto simp: session_trace_def intro!: exI [of _ "[Frame i expected_init]"])
    qed
  qed
qed

theorem serve_is_daemon_run_witness:
  "\<exists>r out sh' w'. serve daemon_ref fabric_ref jwks_down NoneAuthenticator shared_ref [Inr (Init init_ref), Inr Drain] 0 = (r, out, sh', w') \<and>
     (\<forall>st. ds_sessions st 4 = Some (Uds, AwaitInit) \<and> ds_uds_auth st = NoneAuthenticator \<and> ds_shared st = shared_ref \<longrightarrow>
       (\<exists>evs. daemon_run daemon_ref fabric_ref jwks_down (st, 0) evs (set_session (st\<lparr>ds_shared := sh'\<rparr>) 4 Uds Closed, w')))"
proof -
  obtain r out sh' w' where s: "serve daemon_ref fabric_ref jwks_down NoneAuthenticator shared_ref [Inr (Init init_ref), Inr Drain] 0 =
    (r, out, sh', w')" by (metis prod_cases4)
  have "\<exists>evs. daemon_run daemon_ref fabric_ref jwks_down (st, 0) evs (set_session (st\<lparr>ds_shared := sh'\<rparr>) 4 Uds Closed, w')"
    if st: "ds_sessions st 4 = Some (Uds, AwaitInit)" "ds_uds_auth st = NoneAuthenticator" "ds_shared st = shared_ref" for st
  proof -
    have "auth_of st Uds = Some NoneAuthenticator" by (simp add: auth_of_def st(2))
    from serve_is_daemon_run [OF st(1) this s [folded st(3)]] show ?thesis by blast
  qed
  with s show ?thesis by blast
qed

text \<open>C16: the security counter is exact: after any run of the daemon, whatever the interleaving of its sessions, the counter of
  client-auth rejections is the number of \<^verbatim>\<open>UNAUTHENTICATED\<close> answers given so far (modulo its 64 bits).\<close>
theorem auth_failures_counted:
  assumes "daemon_run D F L (initial_state plan, w0) evs (st, w1)" and "sh_auth_failures (dp_shared plan) = 0"
  shows "sh_auth_failures (ds_shared st) = of_nat (length (filter is_rejection evs))"
  using daemon_run_failures [OF assms(1)] assms(2) by (simp add: initial_state_def)

theorem auth_failures_counted_witness:
  "\<exists>plan st evs w. daemon_run daemon_ref fabric_ref jwks_down (initial_state plan, 0) evs (st, w) \<and>
     sh_auth_failures (ds_shared st) = 1"
proof -
  let ?resp = "InitError ''UNAUTHENTICATED'' ''client auth token rejected''"
  from handshake_ref [OF open_session_guess] obtain plan st where p: "dp_shared plan = shared_ref"
    and r: "daemon_run daemon_ref fabric_ref jwks_down (initial_state plan, 0) [Connected, Accepted 0 Quic, Frame 0 ?resp] (st, 1)"
    by blast
  have "sh_auth_failures (dp_shared plan) = 0" by (simp add: p shared_ref_def)
  from auth_failures_counted [OF r this] have "sh_auth_failures (ds_shared st) = 1" by (simp add: is_rejection_def)
  with r show ?thesis by blast
qed



end
