(* ===== verification/Isolation.thy ===== *)
theory Isolation
  imports Listeners
begin

text \<open>
  Concurrent sessions do not interfere: a run of the daemon with any number of interleaved sessions is, for each of them,
  a run in which it is alone and the rest is the outside world.
\<close>

section \<open>Sessions do not interfere\<close>

text \<open>The daemon as one session sees it: no other session, and any number of rejections so far.\<close>
definition alone :: "nat \<Rightarrow> u64 \<Rightarrow> daemon_state \<Rightarrow> daemon_state" where
  "alone j n st = st\<lparr>ds_sessions := (ds_sessions st) |` {j}, ds_shared := (ds_shared st)\<lparr>sh_auth_failures := n\<rparr>\<rparr>"

text \<open>What other sessions and scrapes do is for this session a change of the outside world.\<close>
definition seen_by :: "nat \<Rightarrow> event \<Rightarrow> event" where
  "seen_by j e =
     (case e of
        Accepted i t \<Rightarrow> if i = j then e else Environment
      | Frame i response \<Rightarrow> if i = j then e else Environment
      | Ended i \<Rightarrow> if i = j then e else Environment
      | Scraped r \<Rightarrow> Environment
      | _ \<Rightarrow> e)"

lemma alone_sel [simp]:
  "ds_sessions (alone j n st) i = (if i = j then ds_sessions st j else None)"
  "ds_shared (alone j n st) = (ds_shared st)\<lparr>sh_auth_failures := n\<rparr>" "ds_uds (alone j n st) = ds_uds st"
  "ds_uds_auth (alone j n st) = ds_uds_auth st" "ds_quic_auth (alone j n st) = ds_quic_auth st"
  "ds_quic_task (alone j n st) = ds_quic_task st" "ds_connections (alone j n st) = ds_connections st"
  "ds_max_connections (alone j n st) = ds_max_connections st" "ds_metrics (alone j n st) = ds_metrics st"
  "ds_running (alone j n st) = ds_running st" "auth_of (alone j n st) = auth_of st"
  by (auto simp: alone_def auth_of_def restrict_map_def split: transport.splits)

text \<open>Own steps are kept, those of others leave no trace.\<close>
lemma alone_set_session:
  "alone j n (set_session st j t p) = set_session (alone j n st) j t p"
  "i \<noteq> j \<Longrightarrow> alone j n (set_session st i t p) = alone j n st"
  by (rule daemon_state.equality; auto simp: alone_def set_session_def restrict_map_def fun_eq_iff)+

lemma alone_update:
  "alone j n (st\<lparr>ds_running := b\<rparr>) = (alone j n st)\<lparr>ds_running := b\<rparr>"
  "alone j n (st\<lparr>ds_connections := k\<rparr>) = (alone j n st)\<lparr>ds_connections := k\<rparr>"
  "alone j n (st\<lparr>ds_quic_auth := a\<rparr>) = (alone j n st)\<lparr>ds_quic_auth := a\<rparr>"
  "alone j n (st\<lparr>ds_metrics := b\<rparr>) = (alone j n st)\<lparr>ds_metrics := b\<rparr>"
  by (simp_all add: alone_def)

text \<open>The handshake does not look at the counter.\<close>
lemma open_session_counter:
  assumes "open_session W L a sh init w = (response, session, sh')"
  shows "\<exists>n'. open_session W L a (sh\<lparr>sh_auth_failures := n\<rparr>) init w = (response, session, sh'\<lparr>sh_auth_failures := n'\<rparr>)"
    and "sh'\<lparr>sh_auth_failures := n\<rparr> = sh\<lparr>sh_auth_failures := n\<rparr>"
  using assms by (auto simp: open_session_def record_auth_failure_def split: sum.splits)

lemmas alone_simps = alone_set_session alone_update seen_by_def

lemma daemon_step_alone:
  assumes "daemon_step D F L (st, w) e (st', w')"
  shows "\<exists>n'. daemon_step D F L (alone j n st, w) (seen_by j e) (alone j n' st', w')"
  using assms
proof (cases rule: daemon_step.cases)
  case (first_init i t a init response session sh written)
  show ?thesis
  proof (cases "i = j")
    case True
    from open_session_counter(1) [OF first_init(5), of n] obtain n' where
      o: "open_session (fe_wire F) L a ((ds_shared st)\<lparr>sh_auth_failures := n\<rparr>) init w = (response, session, sh\<lparr>sh_auth_failures := n'\<rparr>)" ..
    have "daemon_step D F L (alone j n st, w) (Frame j response)
      (set_session ((alone j n st)\<lparr>ds_shared := sh\<lparr>sh_auth_failures := n'\<rparr>\<rparr>) j t (after_init written init session), w')"
      using first_init o True by (intro daemon_step.first_init) simp_all
    moreover have "(alone j n st)\<lparr>ds_shared := sh\<lparr>sh_auth_failures := n'\<rparr>\<rparr> = alone j n' (st\<lparr>ds_shared := sh\<rparr>)"
      by (simp add: alone_def)
    ultimately show ?thesis using first_init True by (auto simp: alone_simps)
  next
    case False
    have "alone j n (st\<lparr>ds_shared := sh\<rparr>) = alone j n st"
      using open_session_counter(2) [OF first_init(5)] by (simp add: alone_def)
    with first_init False show ?thesis
      by (intro exI [of _ n]) (simp add: alone_simps daemon_step.elsewhere)
  qed
next
  case (first_other i t written)
  then show ?thesis by (intro exI [of _ n], cases "i = j") (auto simp: alone_simps intro: daemon_step.intros)
next
  case (request i t init s req response s1 w1 written)
  from request(3) have "i = j \<Longrightarrow> ds_sessions (alone j n st) i = Some (t, Serving init s)" by simp
  from daemon_step.request [where L = L, OF this request(4,5)] request show ?thesis
    by (intro exI [of _ n], cases "i = j") (simp_all add: alone_simps daemon_step.elsewhere)
next
  case (closed i t p)
  then show ?thesis by (intro exI [of _ n], cases "i = j") (auto simp: alone_simps intro: daemon_step.intros)
next
  case (accept_uds i)
  then show ?thesis by (intro exI [of _ n], cases "i = j") (auto simp: alone_simps intro: daemon_step.intros)
next
  case (accept_stream i)
  then show ?thesis by (intro exI [of _ n], cases "i = j") (auto simp: alone_simps intro: daemon_step.intros)
next
  case accept_quic
  from accept_quic daemon_step.accept_quic [of "alone j n st" D F L w] show ?thesis by (auto simp: alone_simps)
next
  case close_quic
  from close_quic daemon_step.close_quic [of "alone j n st" D F L w] show ?thesis by (auto simp: alone_simps)
next
  case (keys v task v')
  from keys daemon_step.keys [of "alone j n st" v task L w v' w' D F] show ?thesis by (auto simp: alone_simps)
qed (auto simp: alone_simps intro!: exI [of _ n] intro: daemon_step.intros)

lemma daemon_run_alone:
  assumes "daemon_run D F L sw evs sw'"
  shows "\<exists>n'. daemon_run D F L (alone j n (fst sw), snd sw) (map (seen_by j) evs) (alone j n' (fst sw'), snd sw')"
  using assms
proof (induction rule: daemon_run.induct)
  case (stay sw)
  show ?case by (auto intro: daemon_run.stay)
next
  case (go sw evs sw1 e sw2)
  from go.IH obtain n1 where
    r: "daemon_run D F L (alone j n (fst sw), snd sw) (map (seen_by j) evs) (alone j n1 (fst sw1), snd sw1)" ..
  from daemon_step_alone [of D F L "fst sw1" "snd sw1" e "fst sw2" "snd sw2" j n1] go.hyps(2) obtain n2 where
    "daemon_step D F L (alone j n1 (fst sw1), snd sw1) (seen_by j e) (alone j n2 (fst sw2), snd sw2)" by auto
  from daemon_run.go [OF r this] show ?case by auto
qed

text \<open>C6: concurrent sessions do not interfere: in every run of the daemon, the frames of a session, its phase and its
  backends at the end are those of a run in which no other session exists and what the others did is a change of the
  outside world; so nothing of another session's tenant, backends or caps can reach it through the daemon.\<close>
theorem sessions_isolated:
  assumes "daemon_run D F L (initial_state plan, w) evs (st, w')"
  shows "\<exists>alone_st. daemon_run D F L (initial_state plan, w) (map (seen_by j) evs) (alone_st, w') \<and>
    ds_sessions alone_st = (ds_sessions st) |` {j} \<and>
    (\<forall>i response. i \<noteq> j \<longrightarrow> Frame i response \<notin> set (map (seen_by j) evs)) \<and>
    [response. Frame i response \<leftarrow> map (seen_by j) evs, i = j] = [response. Frame i response \<leftarrow> evs, i = j]"
proof -
  let ?n = "sh_auth_failures (dp_shared plan)"
  have init: "alone j ?n (initial_state plan) = initial_state plan" by (simp add: alone_def initial_state_def)
  from daemon_run_alone [OF assms, of j ?n] init obtain n' where
    "daemon_run D F L (initial_state plan, w) (map (seen_by j) evs) (alone j n' st, w')" by auto
  moreover have "ds_sessions (alone j n' st) = (ds_sessions st) |` {j}" by (simp add: alone_def)
  moreover have "\<forall>i response. i \<noteq> j \<longrightarrow> Frame i response \<notin> set (map (seen_by j) evs)"
    by (auto simp: seen_by_def split: event.splits if_splits)
  moreover have "[response. Frame i response \<leftarrow> map (seen_by j) evs, i = j] = [response. Frame i response \<leftarrow> evs, i = j]"
    by (induction evs) (auto simp: seen_by_def split: event.splits)
  ultimately show ?thesis by blast
qed

theorem sessions_isolated_witness:
  "\<exists>plan evs st st1 response. daemon_run daemon_ref fabric_ref jwks_down (initial_state plan, 0) evs (st, 1) \<and>
     Frame 0 response \<in> set evs \<and>
     daemon_run daemon_ref fabric_ref jwks_down (initial_state plan, 0) (map (seen_by 1) evs) (st1, 1) \<and>
     ds_sessions st1 0 = None \<and> map (seen_by 1) evs = [Connected, Environment, Environment]"
proof -
  let ?resp = "InitError ''UNAUTHENTICATED'' ''client auth token rejected''"
  from handshake_ref [OF open_session_guess] obtain plan st where
    r: "daemon_run daemon_ref fabric_ref jwks_down (initial_state plan, 0) [Connected, Accepted 0 Quic, Frame 0 ?resp] (st, 1)"
    by blast
  from sessions_isolated [OF r, of 1] obtain st1 where
    s: "daemon_run daemon_ref fabric_ref jwks_down (initial_state plan, 0)
      (map (seen_by 1) [Connected, Accepted 0 Quic, Frame 0 ?resp]) (st1, 1)"
      "ds_sessions st1 = (ds_sessions st) |` {1}" by blast
  from s(2) have "ds_sessions st1 0 = None" by simp
  with r s(1) show ?thesis
    by (intro exI [of _ plan] exI [of _ "[Connected, Accepted 0 Quic, Frame 0 ?resp]"] exI [of _ st] exI [of _ st1]
        exI [of _ ?resp]) (simp add: seen_by_def)
qed

end
