(* ===== verification/Lifecycle.thy ===== *)
theory Lifecycle
  imports Listeners
begin

text \<open>
  The life of one session among many: its phases only move forward, in the preorder that the type of phases is given here,
  it is greeted at most once, and it says nothing after its end.
\<close>

section \<open>The order of phases\<close>

instantiation phase :: preorder
begin

definition less_eq_phase :: "phase \<Rightarrow> phase \<Rightarrow> bool" where
  "p \<le> q \<longleftrightarrow>
     (case p of
        AwaitInit \<Rightarrow> True
      | Serving init _ \<Rightarrow> (case q of AwaitInit \<Rightarrow> False | Serving init' _ \<Rightarrow> init' = init | Closed \<Rightarrow> True)
      | Closed \<Rightarrow> q = Closed)"

definition less_phase :: "phase \<Rightarrow> phase \<Rightarrow> bool" where
  "p < q \<longleftrightarrow> p \<le> q \<and> \<not> q \<le> (p :: phase)"

instance
proof
  fix p q r :: phase
  show "p < q \<longleftrightarrow> p \<le> q \<and> \<not> q \<le> p" by (rule less_phase_def)
  show "p \<le> p" by (simp add: less_eq_phase_def split: phase.split)
  show "p \<le> r" if "p \<le> q" "q \<le> r" using that by (auto simp: less_eq_phase_def split: phase.splits)
qed

end

lemma phase_order [simp]:
  "AwaitInit \<le> p" "p \<le> Closed" "Serving init s \<le> Serving init' s' \<longleftrightarrow> init' = init"
  "\<not> Closed \<le> Serving init s" "\<not> Closed \<le> AwaitInit" "\<not> Serving init s \<le> AwaitInit"
  by (simp_all add: less_eq_phase_def split: phase.split)

lemma Closed_le_iff [simp]: "Closed \<le> p \<longleftrightarrow> p = Closed"
  by (cases p) simp_all

section \<open>Steps\<close>

text \<open>The answer to a handshake.\<close>
definition greeting :: "nat \<Rightarrow> event \<Rightarrow> bool" where
  "greeting i e =
     (case e of
        Frame j response \<Rightarrow> j = i \<and> (case response of Ack \<Rightarrow> True | InitError _ _ \<Rightarrow> True | _ \<Rightarrow> False)
      | _ \<Rightarrow> False)"

text \<open>How many greetings a session may still get.\<close>
definition greetings_left :: "phase \<Rightarrow> nat" where
  "greetings_left p = (if p = AwaitInit then 1 else 0)"

lemma respond_no_greeting: "respond D F s req w = (response, s1, w1) \<Longrightarrow> \<not> greeting i (Frame j response)"
  using respond_answers [of D F s req w response s1 w1]
  by (auto simp: greeting_def answers_def split: wire_request.splits wire_response.splits)

lemma after_init_not_waiting: "after_init written init session \<noteq> AwaitInit"
  by (simp add: after_init_def split: option.split)

text \<open>A step of the daemon moves every session forward, speaks only for open ones, and uses up its greeting.\<close>
lemma daemon_step_session:
  assumes "daemon_step D F L (st, w) e (st', w')" "ds_sessions st i = Some (t, p)"
  obtains p' where "ds_sessions st' i = Some (t, p')" "p \<le> p'" "p = Closed \<Longrightarrow> \<forall>response. e \<noteq> Frame i response"
    "(if greeting i e then 1 else 0) + greetings_left p' \<le> greetings_left p"
  using assms(1)
proof (cases rule: daemon_step.cases)
  case (first_init j t1 a init response session sh written)
  show ?thesis
  proof (cases "j = i")
    case True
    with first_init assms(2) show ?thesis
      by (intro that [of "after_init written init session"]) (auto simp: greetings_left_def after_init_not_waiting)
  next
    case False
    with first_init assms(2) show ?thesis by (intro that [of p]) (auto simp: greeting_def)
  qed
next
  case (first_other j t1 written)
  with assms(2) show ?thesis
    by (cases "j = i"; intro that [of "if j = i then Closed else p"]) (auto simp: greetings_left_def greeting_def expected_init_def)
next
  case (request j t1 init s req response s1 w1 written)
  with assms(2) respond_no_greeting [OF request(4)] show ?thesis
    by (cases "j = i"; intro that [of "if j = i then if is_ok written then Serving init s1 else Closed else p"])
      (auto simp: greetings_left_def)
next
  case (closed j t1 q)
  with assms(2) show ?thesis
    by (cases "j = i"; intro that [of "if j = i then Closed else p"]) (auto simp: greetings_left_def greeting_def)
qed (use assms(2) in \<open>auto intro!: that [of p] simp: greeting_def\<close>)

lemma daemon_run_session:
  assumes "daemon_run D F L sw evs sw'" "ds_sessions (fst sw) i = Some (t, p)"
  shows "\<exists>p'. ds_sessions (fst sw') i = Some (t, p') \<and> p \<le> p' \<and> (p = Closed \<longrightarrow> (\<forall>response. Frame i response \<notin> set evs)) \<and>
    length (filter (greeting i) evs) + greetings_left p' \<le> greetings_left p"
  using assms
proof (induction rule: daemon_run.induct)
  case (go sw evs sw1 e sw2)
  from go.IH [OF go.prems] obtain p1 where p1: "ds_sessions (fst sw1) i = Some (t, p1)" "p \<le> p1"
    "p = Closed \<longrightarrow> (\<forall>response. Frame i response \<notin> set evs)"
    "length (filter (greeting i) evs) + greetings_left p1 \<le> greetings_left p" by blast
  from go.hyps(2) have "daemon_step D F L (fst sw1, snd sw1) e (fst sw2, snd sw2)" by simp
  from this p1(1) show ?case
  proof (rule daemon_step_session)
    fix p2 assume p2: "ds_sessions (fst sw2) i = Some (t, p2)" "p1 \<le> p2" "p1 = Closed \<Longrightarrow> \<forall>response. e \<noteq> Frame i response"
      "(if greeting i e then 1 else 0) + greetings_left p2 \<le> greetings_left p1"
    have "p = Closed \<Longrightarrow> p1 = Closed" using p1(2) by simp
    with p1 p2 show ?thesis
      by (intro exI [of _ p2]) (auto intro: order_trans split: if_splits)
  qed
qed simp

section \<open>Properties\<close>

text \<open>C7: the life of a session, whatever the others do: from any moment on its transport stays, its phase only moves
  forward, from waiting to serving one fixed handshake to closed; it is greeted, with \<^verbatim>\<open>Ack\<close> or \<^verbatim>\<open>InitError\<close>, at most
  once and only while it waits, so one connection never authenticates a second time; and after it is closed no frame is
  sent to it.\<close>
theorem session_moves_forward:
  assumes run: "daemon_run D F L (st, w) evs (st', w')" and session: "ds_sessions st i = Some (t, p)"
  shows "\<exists>p'. ds_sessions st' i = Some (t, p') \<and> p \<le> p' \<and>
    (\<forall>init s. p = Serving init s \<longrightarrow> p' = Closed \<or> (\<exists>s'. p' = Serving init s')) \<and>
    length (filter (greeting i) evs) \<le> (if p = AwaitInit then 1 else 0) \<and>
    (p = Closed \<longrightarrow> (\<forall>response. Frame i response \<notin> set evs))"
proof -
  have "ds_sessions (fst (st, w)) i = Some (t, p)" using session by simp
  from daemon_run_session [OF run this] obtain p' where p': "ds_sessions st' i = Some (t, p')" "p \<le> p'"
    "p = Closed \<longrightarrow> (\<forall>response. Frame i response \<notin> set evs)"
    "length (filter (greeting i) evs) + greetings_left p' \<le> greetings_left p" by auto
  moreover have "p' = Closed \<or> (\<exists>s'. p' = Serving init s')" if "p = Serving init s" for init s
    using p'(2) that by (cases p') auto
  ultimately show ?thesis by (auto simp: greetings_left_def)
qed

theorem session_moves_forward_witness:
  "\<exists>plan st0 st s p'. daemon_run daemon_ref fabric_ref jwks_down (initial_state plan, 0) [Connected, Accepted 0 Quic, Frame 0 Ack] (st0, 1) \<and>
     ds_sessions st0 0 = Some (Quic, Serving init_old s) \<and>
     daemon_run daemon_ref fabric_ref jwks_down (st0, 1) [Ended 0] (st, 1) \<and>
     ds_sessions st 0 = Some (Quic, p') \<and> (p' = Closed \<or> (\<exists>s'. p' = Serving init_old s'))"
proof -
  obtain plan st0 s where r: "daemon_run daemon_ref fabric_ref jwks_down (initial_state plan, 0) [Connected, Accepted 0 Quic, Frame 0 Ack] (st0, 1)"
      "ds_sessions st0 0 = Some (Quic, Serving init_old s)" using serving_ref by blast
  have e: "daemon_run daemon_ref fabric_ref jwks_down (st0, 1) [Ended 0] (set_session st0 0 Quic Closed, 1)"
    by (rule daemon_run_step [OF daemon_step.closed [OF r(2)]]) simp
  from session_moves_forward [OF e r(2)] obtain p' where "ds_sessions (set_session st0 0 Quic Closed) 0 = Some (Quic, p')"
    "p' = Closed \<or> (\<exists>s'. p' = Serving init_old s')" by blast
  with e r show ?thesis by blast
qed

end
