(* ===== verification/Mongo_Uri.thy ===== *)
theory Mongo_Uri
  imports Mongo
begin

text \<open>
  The connection URI of the document store, read back: a reader for the part of the connection-string format that
  \<open>build_uri\<close> prints, and the round trip.
\<close>

section \<open>Reading a connection string\<close>

text \<open>The text before the first occurrence of a character, and the text after it.\<close>
definition cut :: "char \<Rightarrow> string \<Rightarrow> string \<times> string" where
  "cut c s = (takeWhile (\<lambda>x. x \<noteq> c) s, drop 1 (dropWhile (\<lambda>x. x \<noteq> c) s))"

lemma cut_append: "c \<notin> set a \<Longrightarrow> cut c (a @ c # b) = (a, b)"
  by (induction a) (auto simp: cut_def)

lemma cut_none: "c \<notin> set a \<Longrightarrow> cut c a = (a, [])"
  by (induction a) (auto simp: cut_def)

fun split_on :: "char \<Rightarrow> string \<Rightarrow> string list" where
  "split_on c [] = [[]]"
| "split_on c (x # xs) =
     (if x = c then [] # split_on c xs
      else (case split_on c xs of p # ps \<Rightarrow> (x # p) # ps | [] \<Rightarrow> [[x]]))"

lemma split_on_last: "c \<notin> set a \<Longrightarrow> split_on c a = [a]"
  by (induction a) auto

lemma split_on_append: "c \<notin> set a \<Longrightarrow> split_on c (a @ c # b) = a # split_on c b"
  by (induction a) auto

text \<open>Joined parts come apart again.\<close>
lemma split_on_concat:
  "\<forall>a \<in> set (x # xs). c \<notin> set a \<Longrightarrow> split_on c (x @ concat (map (\<lambda>a. c # a) xs)) = x # xs"
  by (induction xs arbitrary: x) (simp_all add: split_on_last split_on_append)

record mongo_uri =
  mu_user :: "string option"
  mu_password :: "string option"
  mu_host :: string
  mu_port :: string
  mu_options :: "(string \<times> string) list"

definition read_option :: "(string \<Rightarrow> string) \<Rightarrow> string \<Rightarrow> string \<times> string" where
  "read_option dec text = (case cut CHR ''='' text of (key, value) \<Rightarrow> (key, dec value))"

definition read_userinfo :: "(string \<Rightarrow> string) \<Rightarrow> string \<Rightarrow> string \<times> string option" where
  "read_userinfo dec info =
     (case cut CHR '':'' info of (user, password) \<Rightarrow>
        (dec user, if CHR '':'' \<in> set info then Some (dec password) else None))"

text \<open>Scheme, then the authority up to the first slash, with the userinfo up to the first at-sign, then the options after
  the question mark.\<close>
definition read_uri :: "(string \<Rightarrow> string) \<Rightarrow> string \<Rightarrow> mongo_uri option" where
  "read_uri dec s =
     (case cut CHR ''/'' (drop 10 s) of (authority, query) \<Rightarrow>
        let (info, location) = (if CHR ''@'' \<in> set authority
              then (case cut CHR ''@'' authority of (i, l) \<Rightarrow> (Some (read_userinfo dec i), l)) else (None, authority));
            (host, port) = cut CHR '':'' location
        in if take 10 s = ''mongodb://'' \<and> take 1 query = ''?''
           then Some \<lparr>mu_user = map_option fst info, mu_password = Option.bind info snd, mu_host = host, mu_port = port,
                      mu_options = map (read_option dec) (split_on CHR ''&'' (drop 1 query))\<rparr>
           else None)"

text \<open>What percent-encoding promises: only letters, digits and percent signs are printed, decoding inverts encoding, and text
  without a percent sign means itself.\<close>
definition percent_codec_ok :: "(string \<Rightarrow> string) \<Rightarrow> (string \<Rightarrow> string) \<Rightarrow> bool" where
  "percent_codec_ok enc dec \<longleftrightarrow>
     percent_encode_ok enc \<and> (\<forall>s. dec (enc s) = s) \<and> (\<forall>s. CHR ''%'' \<notin> set s \<longrightarrow> dec s = s)"

lemma percent_codec_free:
  assumes "percent_codec_ok enc dec"
  shows "c \<in> {CHR '':'', CHR ''@'', CHR ''/'', CHR ''?'', CHR ''&'', CHR ''=''} \<Longrightarrow> c \<notin> set (enc s)"
  using assms percent_encode_free [of enc c s]
  by (auto simp: percent_codec_ok_def is_ascii_alphanumeric_def is_digit_def)

lemma digits_free: "\<not> is_digit c \<Longrightarrow> c \<notin> set (show_nat n)"
  using show_nat_digits [of n] by (auto simp: list_all_iff)

section \<open>The options\<close>

text \<open>The options a configuration asks for.\<close>
definition uri_options :: "mongo_config \<Rightarrow> (string \<times> string) list" where
  "uri_options c =
     [(''directConnection'', ''true''), (''appName'', ''runlet''), (''connectTimeoutMS'', ''5000''),
      (''serverSelectionTimeoutMS'', ''5000'')] @
     (if mgc_username c = None then [] else [(''authSource'', mgc_auth_source c)]) @
     (if mgc_tls c then (''tls'', ''true'') # (case mgc_ca_cert c of None \<Rightarrow> [] | Some ca \<Rightarrow> [(''tlsCAFile'', ca)]) else [])"

text \<open>The same options as they are printed.\<close>
definition printed_options :: "(string \<Rightarrow> string) \<Rightarrow> mongo_config \<Rightarrow> string list" where
  "printed_options enc c =
     [''appName=runlet'', ''connectTimeoutMS=5000'', ''serverSelectionTimeoutMS=5000''] @
     (if mgc_username c = None then [] else [''authSource='' @ enc (mgc_auth_source c)]) @
     (if mgc_tls c then ''tls=true'' # (case mgc_ca_cert c of None \<Rightarrow> [] | Some ca \<Rightarrow> [''tlsCAFile='' @ enc ca]) else [])"

lemma build_uri_parts:
  "build_uri enc c = ''mongodb://'' @ (mongo_userinfo enc c @ mgc_host c @ '':'' @ show_nat (unat (mgc_port c))) @ ''/?'' @
     ''directConnection=true'' @ concat (map (\<lambda>a. CHR ''&'' # a) (printed_options enc c))"
  by (simp add: build_uri_def mongo_uri_options_def printed_options_def split: option.splits)

lemma read_option_encoded:
  assumes "percent_codec_ok enc dec" "CHR ''='' \<notin> set key"
  shows "read_option dec (key @ ''='' @ enc v) = (key, v)"
  using assms by (simp add: read_option_def cut_append percent_codec_ok_def)

lemma read_printed_options:
  assumes codec: "percent_codec_ok enc dec"
  shows "map (read_option dec) (''directConnection=true'' # printed_options enc c) = uri_options c"
proof -
  have lit: "read_option dec (key @ ''='' @ v) = (key, v)" if "CHR ''='' \<notin> set key" "CHR ''%'' \<notin> set v" for key v
    using that codec by (simp add: read_option_def cut_append percent_codec_ok_def)
  from lit [of "''directConnection''" "''true''"] lit [of "''appName''" "''runlet''"] lit [of "''connectTimeoutMS''" "''5000''"]
    lit [of "''serverSelectionTimeoutMS''" "''5000''"] lit [of "''tls''" "''true''"]
    read_option_encoded [OF codec, of "''authSource''"] read_option_encoded [OF codec, of "''tlsCAFile''"]
  show ?thesis by (simp add: printed_options_def uri_options_def split: option.splits)
qed

lemma printed_options_free:
  assumes "percent_codec_ok enc dec" "a \<in> set (''directConnection=true'' # printed_options enc c)"
  shows "CHR ''&'' \<notin> set a"
  using assms(2) percent_codec_free [OF assms(1), of "CHR ''&''"]
  by (auto simp: printed_options_def split: if_splits option.splits)

section \<open>A concrete codec for witnesses\<close>

definition hex_value :: "char \<Rightarrow> nat" where
  "hex_value c = (let n = of_char c in if n < 58 then n - 48 else n - 55)"

fun percent_decode_ref :: "string \<Rightarrow> string" where
  "percent_decode_ref (c # a # b # s) =
     (if c = CHR ''%'' then char_of (16 * hex_value a + hex_value b) # percent_decode_ref s
      else c # percent_decode_ref (a # b # s))"
| "percent_decode_ref s = s"

lemma percent_decode_plain: "c \<noteq> CHR ''%'' \<Longrightarrow> percent_decode_ref (c # s) = c # percent_decode_ref s"
  by (cases s rule: percent_decode_ref.cases) auto

lemma hex_value_digit: "n < 16 \<Longrightarrow> hex_value (hex_digit n) = n"
  by (auto simp: hex_value_def hex_digit_def of_char_of)

lemma percent_decode_encode: "percent_decode_ref (percent_encode_ref s) = s"
proof (induction s)
  case Nil
  then show ?case by (simp add: percent_encode_ref_def)
next
  case (Cons c s)
  let ?n = "of_char c :: nat"
  have n: "?n div 16 < 16" using nat_of_char_less_256 [of c] by (simp add: less_mult_imp_div_less)
  show ?case
  proof (cases "is_ascii_alphanumeric c")
    case True
    then have "percent_encode_ref (c # s) = c # percent_encode_ref s" by (simp add: percent_encode_ref_def)
    moreover have "c \<noteq> CHR ''%''" using True by (auto simp: is_ascii_alphanumeric_def is_digit_def)
    ultimately show ?thesis by (simp add: percent_decode_plain Cons.IH)
  next
    case False
    then have "percent_encode_ref (c # s) = CHR ''%'' # hex_digit (?n div 16) # hex_digit (?n mod 16) # percent_encode_ref s"
      by (simp add: percent_encode_ref_def Let_def)
    then show ?thesis using n by (simp add: Cons.IH hex_value_digit)
  qed
qed

lemma percent_ref_codec: "percent_codec_ok percent_encode_ref percent_decode_ref"
proof -
  have "CHR ''%'' \<notin> set s \<Longrightarrow> percent_decode_ref s = s" for s by (induction s) (auto simp: percent_decode_plain)
  then show ?thesis by (simp add: percent_codec_ok_def percent_encode_ref_ok percent_decode_encode)
qed

section \<open>Properties\<close>

text \<open>C34: the connection URI is read back as exactly what was configured: the user, the password, the host, the port and the
  options, with the auth source and the CA path at their own values, whatever text they contain; so no credential or path
  can add, change or cut off a part of the URI.  The host is printed as it is, and must be a host name.\<close>
theorem mongo_uri_roundtrip:
  assumes codec: "percent_codec_ok enc dec"
    and host: "set (mgc_host c) \<inter> {CHR ''@'', CHR ''/'', CHR '':''} = {}"
  shows "read_uri dec (build_uri enc c) =
    Some \<lparr>mu_user = mgc_username c, mu_password = Option.bind (mgc_username c) (\<lambda>_. mgc_password c), mu_host = mgc_host c,
          mu_port = show_nat (unat (mgc_port c)), mu_options = uri_options c\<rparr>"
proof -
  note free = percent_codec_free [OF codec]
  let ?port = "show_nat (unat (mgc_port c))"
  let ?location = "mgc_host c @ '':'' @ ?port"
  let ?query = "''directConnection=true'' @ concat (map (\<lambda>a. CHR ''&'' # a) (printed_options enc c))"
  have digits: "CHR ''@'' \<notin> set ?port" "CHR ''/'' \<notin> set ?port" by (simp_all add: digits_free is_digit_def)
  have location: "CHR ''@'' \<notin> set ?location" "CHR ''/'' \<notin> set ?location" "cut CHR '':'' ?location = (mgc_host c, ?port)"
    using host digits by (auto simp: cut_append)
  have "CHR ''/'' \<notin> set (mongo_userinfo enc c)" using free by (auto simp: mongo_userinfo_def split: option.splits)
  then have parts: "cut CHR ''/'' (drop 10 (build_uri enc c)) = (mongo_userinfo enc c @ ?location, ''?'' @ ?query)"
    "take 10 (build_uri enc c) = ''mongodb://''"
    using location(2) cut_append [of "CHR ''/''" "mongo_userinfo enc c @ ?location"] by (simp_all add: build_uri_parts)
  have options: "map (read_option dec) (split_on CHR ''&'' ?query) = uri_options c"
    using read_printed_options [OF codec] printed_options_free [OF codec]
    by (subst split_on_concat) auto
  show ?thesis
  proof (cases "mgc_username c")
    case None
    then show ?thesis using location options by (simp add: read_uri_def parts mongo_userinfo_def)
  next
    case (Some u)
    let ?info = "enc u @ (case mgc_password c of None \<Rightarrow> [] | Some p \<Rightarrow> '':'' @ enc p)"
    have info: "mongo_userinfo enc c = ?info @ ''@''" "CHR ''@'' \<notin> set ?info"
      using free by (auto simp: mongo_userinfo_def Some split: option.splits)
    have "read_userinfo dec ?info = (u, mgc_password c)"
      using codec free by (cases "mgc_password c") (simp_all add: read_userinfo_def cut_append cut_none percent_codec_ok_def)
    with info location options cut_append [OF info(2), of ?location] show ?thesis
      by (simp add: read_uri_def parts Some)
  qed
qed

theorem mongo_uri_roundtrip_witness:
  "read_uri percent_decode_ref (build_uri percent_encode_ref mongo_config_ref) =
     Some \<lparr>mu_user = Some ''a@evil/?x='', mu_password = Some ''p:w'', mu_host = ''mongo'', mu_port = show_nat 27017,
           mu_options = [(''directConnection'', ''true''), (''appName'', ''runlet''), (''connectTimeoutMS'', ''5000''),
             (''serverSelectionTimeoutMS'', ''5000''), (''authSource'', ''admin''), (''tls'', ''true''), (''tlsCAFile'', ''/ca&b'')]\<rparr>"
proof -
  have "set (mgc_host mongo_config_ref) \<inter> {CHR ''@'', CHR ''/'', CHR '':''} = {}" by (simp add: mongo_config_ref_def)
  from mongo_uri_roundtrip [OF percent_ref_codec this] show ?thesis
    by (simp add: mongo_config_ref_def uri_options_def mongo_default_port_def mongo_default_auth_source_def)
qed

end
