(* ===== verification/Connections.thy ===== *)
theory Connections
  imports Backend_Set
begin

text \<open>
  When a session connects: each lazily connected backend of a \<^verbatim>\<open>BackendSet\<close> is connected by the first call to its
  capability and never again, whether that attempt succeeded or failed.  The calls after it are described by \<open>kept_call\<close>, in
  which no connect function occurs.
\<close>

section \<open>The state of a slot\<close>

text \<open>Not tried, failed with an error, or connected.\<close>
definition cell_state :: "('c, 'b) slot option \<Rightarrow> (egress_error, unit) result option" where
  "cell_state slot = (case slot of None \<Rightarrow> None | Some sl \<Rightarrow> map_option (map_ok (\<lambda>_. ())) (slot_cell sl))"

lemma cell_state_simps [simp]:
  "cell_state None = None" "slot_cell sl = None \<Longrightarrow> cell_state (Some sl) = None"
  "slot_cell sl = Some (Inl e) \<Longrightarrow> cell_state (Some sl) = Some (Inl e)"
  "slot_cell sl = Some (Inr b) \<Longrightarrow> cell_state (Some sl) = Some (Inr ())"
  by (simp_all add: cell_state_def)

lemma cell_state_failed: "cell_state slot = Some (Inl e) \<longleftrightarrow> (\<exists>sl. slot = Some sl \<and> slot_cell sl = Some (Inl e))"
  by (auto simp: cell_state_def map_ok_Inl_iff split: option.splits)

text \<open>A call to a slot that was tried: the kept error, or the kept backend.\<close>
definition kept_slot ::
    "('q \<Rightarrow> 'b \<Rightarrow> 'w \<Rightarrow> (egress_error, string) result \<times> 'b \<times> 'w) \<Rightarrow> 'q \<Rightarrow> ('c, 'b) slot option \<Rightarrow> 'w \<Rightarrow>
     ((egress_error, string) result \<times> ('c, 'b) slot option \<times> 'w) option" where
  "kept_slot run q slot w =
     (case slot of
        None \<Rightarrow> None
      | Some sl \<Rightarrow>
          (case slot_cell sl of
             None \<Rightarrow> None
           | Some (Inl e) \<Rightarrow> Some (Inl e, slot, w)
           | Some (Inr b) \<Rightarrow> Some (case run q b w of (r, b', w') \<Rightarrow> (r, Some (sl\<lparr>slot_cell := Some (Inr b')\<rparr>), w'))))"

lemma lazy_call_tried:
  assumes "lazy_call W name connect run q slot w = (r, slot', w')" "slot \<noteq> None"
  shows "cell_state slot' \<noteq> None" "cell_state slot' = Some (Inl e) \<Longrightarrow> r = Inl e"
    "cell_state slot \<noteq> None \<Longrightarrow> cell_state slot' = cell_state slot"
  using assms
  by (auto simp: lazy_call_def slot_call_def slot_backend_def split: result_splits option.splits)

lemma kept_slot_lazy_call:
  "cell_state slot = Some x \<Longrightarrow> lazy_call W name connect run q slot w = p \<Longrightarrow> kept_slot run q slot w = Some p"
  by (auto simp: kept_slot_def lazy_call_def slot_call_def slot_backend_def cell_state_def split: option.splits sum.splits prod.splits)

section \<open>The state of a capability\<close>

definition connection :: "backend_set \<Rightarrow> string \<Rightarrow> (egress_error, unit) result option" where
  "connection s name =
     (if name = ''db'' then cell_state (bs_db s)
      else if name = ''mongo'' then cell_state (bs_mongo s)
      else if name = ''mail'' then cell_state (bs_mail s)
      else if name = ''redis'' then cell_state (bs_redis s)
      else if name = ''auth'' then cell_state (bs_auth s)
      else None)"

definition kept_call ::
    "'w fabric_env \<Rightarrow> string \<Rightarrow> string \<times> string \<Rightarrow> backend_set \<Rightarrow> 'w \<Rightarrow>
     ((egress_error, string) result \<times> backend_set \<times> 'w) option" where
  "kept_call F name q s w =
     (if name = ''db'' then map_option (\<lambda>(r, slot, w'). (r, s\<lparr>bs_db := slot\<rparr>, w')) (kept_slot (run_db F) q (bs_db s) w)
      else if name = ''mongo'' then
        map_option (\<lambda>(r, slot, w'). (r, s\<lparr>bs_mongo := slot\<rparr>, w')) (kept_slot (run_mongo F) q (bs_mongo s) w)
      else if name = ''mail'' then
        map_option (\<lambda>(r, slot, w'). (r, s\<lparr>bs_mail := slot\<rparr>, w')) (kept_slot (run_mail F) q (bs_mail s) w)
      else if name = ''redis'' then
        map_option (\<lambda>(r, slot, w'). (r, s\<lparr>bs_redis := slot\<rparr>, w')) (kept_slot (run_redis F) q (bs_redis s) w)
      else if name = ''auth'' then
        map_option (\<lambda>(r, slot, w'). (r, s\<lparr>bs_auth := slot\<rparr>, w')) (kept_slot (run_auth F) q (bs_auth s) w)
      else None)"

abbreviation lazy_names :: "string list" where
  "lazy_names \<equiv> [''db'', ''mongo'', ''mail'', ''redis'', ''auth'']"

lemma call_tried:
  assumes "set_call F (name, q) s w = (r, s', w')" "name \<in> set lazy_names" "wired s name"
  shows "connection s' name \<noteq> None" "connection s' name = Some (Inl e) \<Longrightarrow> r = Inl e"
proof -
  from assms(2) consider "name = ''db''" | "name = ''mongo''" | "name = ''mail''" | "name = ''redis''" | "name = ''auth''" by auto
  then have "connection s' name \<noteq> None \<and> (connection s' name = Some (Inl e) \<longrightarrow> r = Inl e)"
    by cases (use call_routes_lazy [of F q s w r s' w'] assms in
        \<open>simp_all add: connection_def wired_def set_call_routes lazy_call_tried\<close>)
  then show "connection s' name \<noteq> None" "connection s' name = Some (Inl e) \<Longrightarrow> r = Inl e" by auto
qed

lemma call_keeps_connection:
  assumes "set_call F (n, q) s w = (r, s', w')" "connection s name \<noteq> None"
  shows "connection s' name = connection s name"
proof (cases "n = name")
  case True
  with assms show ?thesis
    by (auto simp: connection_def set_call_routes call_cap_defs cell_state_def split: prod.splits if_splits option.splits
        dest: lazy_call_tried(3))
next
  case False
  with set_call_frame [OF assms(1)] show ?thesis by (auto simp: connection_def)
qed

lemma kept_call_is_set_call:
  "connection s name \<noteq> None \<Longrightarrow> kept_call F name q s w = Some (set_call F (name, q) s w)"
  by (auto simp: connection_def kept_call_def set_call_routes call_cap_defs split: if_splits prod.splits
      dest: kept_slot_lazy_call)

lemma run_keeps_connection:
  "run_calls (set_call F) qs s w = (rs, s', w') \<Longrightarrow> connection s name \<noteq> None \<Longrightarrow> connection s' name = connection s name"
proof (induction qs arbitrary: s w rs)
  case (Cons q qs)
  obtain n q1 where q: "q = (n, q1)" by (cases q)
  obtain r s1 w1 where c: "set_call F q s w = (r, s1, w1)" by (cases "set_call F q s w") auto
  with Cons.prems obtain rs1 where t: "run_calls (set_call F) qs s1 w1 = (rs1, s', w')" by (auto split: prod.splits)
  from call_keeps_connection [OF c [unfolded q] Cons.prems(2)] Cons.IH [OF t] Cons.prems(2) show ?case by simp
qed simp

section \<open>Properties\<close>

text \<open>C21: a session connects each backend at most once and remembers a failure: the first call to a lazily connected
  capability tries to connect, and from then on, through any calls to any capabilities, the outcome stays; every later call
  runs on the kept backend or, when the attempt failed, returns that same first error and touches nothing.\<close>
theorem connects_at_most_once:
  assumes cap: "name \<in> set lazy_names" "wired s name"
    and first: "set_call F (name, q) s w = (r, s1, w1)"
    and later: "run_calls (set_call F) qs s1 w1 = (rs, s2, w2)"
  shows "connection s1 name \<noteq> None \<and> connection s2 name = connection s1 name \<and>
    (\<forall>q' v. kept_call F name q' s2 v = Some (set_call F (name, q') s2 v)) \<and>
    (\<forall>e. connection s1 name = Some (Inl e) \<longrightarrow> r = Inl e \<and> (\<forall>q' v. set_call F (name, q') s2 v = (Inl e, s2, v)))"
proof (intro conjI allI impI)
  show tried: "connection s1 name \<noteq> None" by (rule call_tried(1) [OF first cap])
  show kept: "connection s2 name = connection s1 name" by (rule run_keeps_connection [OF later tried])
  show "kept_call F name q' s2 v = Some (set_call F (name, q') s2 v)" for q' v
    using tried kept by (intro kept_call_is_set_call) simp
  show "r = Inl e" if "connection s1 name = Some (Inl e)" for e by (rule call_tried(2) [OF first cap that])
  show "set_call F (name, q') s2 v = (Inl e, s2, v)" if "connection s1 name = Some (Inl e)" for e q' v
  proof -
    from kept that have e: "connection s2 name = Some (Inl e)" by simp
    then have "kept_call F name q' s2 v = Some (Inl e, s2, v)"
      by (auto simp: connection_def kept_call_def kept_slot_def cell_state_failed split: if_splits)
    with kept_call_is_set_call [of s2 name F q' v] e show ?thesis by simp
  qed
qed

theorem connects_at_most_once_witness:
  "\<exists>e s1. set_call fabric_ref (''redis'', ''get'', ''k'') (from_configs configs_ref deps_ref) 0 = (Inl e, s1, 0) \<and>
     connection s1 ''redis'' = Some (Inl e) \<and> set_call fabric_ref (''redis'', ''set'', ''k,v'') s1 7 = (Inl e, s1, 7)"
proof -
  obtain e s' slot where c: "set_call fabric_ref (''redis'', ''get'', ''k'') (from_configs configs_ref deps_ref) 0 = (Inl e, s', 0)"
    "bs_redis s' = Some slot" "slot_cell slot = Some (Inl e)" using fabric_ref_redis by blast
  have w: "wired (from_configs configs_ref deps_ref) ''redis''" by (simp add: wired_def from_configs_slots configs_ref_def)
  have "connection s' ''redis'' = Some (Inl e)" by (simp add: connection_def c)
  moreover have "run_calls (set_call fabric_ref) [] s' 0 = ([], s', 0)" by simp
  ultimately show ?thesis using connects_at_most_once [OF _ w c(1), of "[]" "[]" s' 0] c(1) by auto
qed

text \<open>C25: an open breaker stops the database of a session for good: when the breaker refuses the first \<^verbatim>\<open>db\<close> call, nothing
  but that question is asked of the outside and the error is the retryable, operator-owned \<^verbatim>\<open>DB_CIRCUIT_OPEN\<close>; from then on every
  \<^verbatim>\<open>db\<close> call of the session gets that very error, even if the breaker has closed in between, and the calls to
  the other capabilities go as if no \<^verbatim>\<open>db\<close> call had been sent.\<close>
theorem open_breaker_stops_session:
  assumes slot: "bs_db s = Some \<lparr>slot_config = (c, deps), slot_cell = None\<rparr>"
    and refused: "ad_breaker deps = Some g" "breaker_allow (fe_pg F) g (db_breaker_target c) w = (False, w1)"
  shows "\<exists>e s1. ee_code e = ''DB_CIRCUIT_OPEN'' \<and> ee_source e = ''db'' \<and> ee_retryable e \<and> ee_owner e = Operator \<and>
    set_call F (''db'', q) s w = (Inl e, s1, w1) \<and>
    (\<forall>qs rs s2 w2. run_calls (set_call F) qs s1 w1 = (rs, s2, w2) \<longrightarrow>
       run_calls (set_call F) (filter (\<lambda>q. \<not> fst q = ''db'') qs) s1 w1 =
         (map snd (filter (\<lambda>(q, _). \<not> fst q = ''db'') (zip qs rs)), s2, w2) \<and>
       (\<forall>i < length qs. fst (qs ! i) = ''db'' \<longrightarrow> rs ! i = Inl e))"
proof -
  from refused obtain e where e: "db_slot_connect F (c, deps) w = (Inl e, w1)"
      "ee_code e = ''DB_CIRCUIT_OPEN''" "ee_source e = ''db''" "ee_retryable e" "ee_owner e = Operator"
    by (auto simp: db_slot_connect_def db_connect_resource_def db_connect_def connect_through_breaker_cases ctor_defs
        is_circuit_open_def fault_defs)
  define s1 where "s1 = s\<lparr>bs_db := Some \<lparr>slot_config = (c, deps), slot_cell = Some (Inl e)\<rparr>\<rparr>"
  have first: "set_call F (''db'', q) s w = (Inl e, s1, w1)"
    by (simp add: set_call_routes call_db_def lazy_call_def slot_call_def slot_backend_def slot e(1) s1_def)
  let ?kept = "\<lambda>b. connection b ''db'' = Some (Inl e)"
  have kept: "?kept s1" by (simp add: connection_def s1_def)
  have inert: "set_call F p b v = (Inl e, b, v)" if "fst p = ''db''" "?kept b" for p b v
    using that by (cases p) (auto simp: connection_def cell_state_failed set_call_routes call_db_def lazy_call_def slot_call_def
        slot_backend_def)
  have others: "?kept b'" if "\<not> fst p = ''db''" "?kept b" "set_call F p b v = (r, b', v')" for p b v r b' v'
    using call_keeps_connection [of F "fst p" "snd p" b v r b' v' "''db''"] that by simp
  have later: "run_calls (set_call F) (filter (\<lambda>q. \<not> fst q = ''db'') qs) s1 w1 =
         (map snd (filter (\<lambda>(q, _). \<not> fst q = ''db'') (zip qs rs)), s2, w2) \<and>
       (\<forall>i < length qs. fst (qs ! i) = ''db'' \<longrightarrow> rs ! i = Inl e)"
    if "run_calls (set_call F) qs s1 w1 = (rs, s2, w2)" for qs rs s2 w2
    by (rule run_calls_leave_out [where A = "\<lambda>q. fst q = ''db''" and P = ?kept, OF inert others kept that])
  show ?thesis by (rule exI [of _ e], rule exI [of _ s1]) (use e(2-5) first later in simp)
qed

text \<open>The breaker of \<^verbatim>\<open>pg_ref\<close> refuses the handle zero.\<close>
theorem open_breaker_stops_session_witness:
  "\<exists>e s1. ee_code e = ''DB_CIRCUIT_OPEN'' \<and>
     set_call fabric_ref (''db'', ''query'', ''SELECT'')
       (from_configs (configs_ref\<lparr>rc_db := Some db_config_ref\<rparr>) (deps_ref\<lparr>ad_breaker := Some 0\<rparr>)) 4 = (Inl e, s1, 4) \<and>
     (\<forall>rs s2 w2. run_calls (set_call fabric_ref) [(''db'', ''exec'', [])] s1 4 = (rs, s2, w2) \<longrightarrow> rs ! 0 = Inl e \<and> s2 = s1 \<and> w2 = 4)"
proof -
  let ?s = "from_configs (configs_ref\<lparr>rc_db := Some db_config_ref\<rparr>) (deps_ref\<lparr>ad_breaker := Some 0\<rparr>)"
  have slot: "bs_db ?s = Some \<lparr>slot_config = (db_config_ref, deps_ref\<lparr>ad_breaker := Some 0\<rparr>), slot_cell = None\<rparr>"
    by (simp add: from_configs_slots)
  have b: "breaker_allow (fe_pg fabric_ref) 0 (db_breaker_target db_config_ref) 4 = (False, 4)"
    by (simp add: fabric_ref_def pg_ref_def)
  from open_breaker_stops_session [OF slot _ b, of "(''query'', ''SELECT'')"]
  obtain e s1 where e: "ee_code e = ''DB_CIRCUIT_OPEN''" "set_call fabric_ref (''db'', ''query'', ''SELECT'') ?s 4 = (Inl e, s1, 4)"
    and later: "\<And>qs rs s2 w2. run_calls (set_call fabric_ref) qs s1 4 = (rs, s2, w2) \<Longrightarrow>
       run_calls (set_call fabric_ref) (filter (\<lambda>q. \<not> fst q = ''db'') qs) s1 4 =
         (map snd (filter (\<lambda>(q, _). \<not> fst q = ''db'') (zip qs rs)), s2, w2) \<and>
       (\<forall>i < length qs. fst (qs ! i) = ''db'' \<longrightarrow> rs ! i = Inl e)"
    by auto
  have "rs ! 0 = Inl e \<and> s2 = s1 \<and> w2 = 4"
    if "run_calls (set_call fabric_ref) [(''db'', ''exec'', [])] s1 4 = (rs, s2, w2)" for rs s2 w2
    using later [OF that] by simp
  with e show ?thesis by blast
qed

end
