(* ===== verification/Session_Metrics.thy ===== *)
theory Session_Metrics
  imports Backend_Set
begin

text \<open>
  The metrics of a whole session, over all capabilities of a \<^verbatim>\<open>BackendSet\<close>: what a backend records through its slot
  (locale \<open>metered_slot\<close>, interpreted for the five slots), and what the set as a whole reports when it is drained
  (locale \<open>recorder\<close> of theory \<^verbatim>\<open>Metering\<close>, interpreted on \<open>set_call\<close> for the six capabilities).
\<close>

section \<open>What a slot records\<close>

definition slot_actions :: "('b \<Rightarrow> 'm list) \<Rightarrow> ('m \<Rightarrow> string) \<Rightarrow> ('c, 'b) slot option \<Rightarrow> string list" where
  "slot_actions hist act slot = map act (slot_metrics hist slot)"

lemma slot_actions_simps [simp]:
  "slot_actions hist act None = []"
  "slot_cell sl = None \<Longrightarrow> slot_actions hist act (Some sl) = []"
  "slot_cell sl = Some (Inl e) \<Longrightarrow> slot_actions hist act (Some sl) = []"
  "slot_cell sl = Some (Inr b) \<Longrightarrow> slot_actions hist act (Some sl) = map act (hist b)"
  by (simp_all add: slot_actions_def slot_metrics_def)

text \<open>A slot whose backend starts without metrics and records at most one, of the call's action, per call.\<close>
locale metered_slot =
  fixes connect :: "'c \<Rightarrow> ('w, (egress_error, 'b) result) io"
    and run :: "string \<times> string \<Rightarrow> 'b \<Rightarrow> 'w \<Rightarrow> (egress_error, string) result \<times> 'b \<times> 'w"
    and hist :: "'b \<Rightarrow> 'm list"
    and act :: "'m \<Rightarrow> string"
  assumes connect_empty: "connect c w = (Inr b, w') \<Longrightarrow> hist b = []"
    and run_records: "run q b w = (r, b', w') \<Longrightarrow> hist b' = hist b \<or> (\<exists>m. hist b' = hist b @ [m] \<and> act m = fst q)"
begin

lemma slot_call_records:
  assumes "slot_call connect run q sl w = (r, sl', w')"
  shows "slot_actions hist act (Some sl') = slot_actions hist act (Some sl) \<or>
    slot_actions hist act (Some sl') = slot_actions hist act (Some sl) @ [fst q]"
proof -
  have run: "map act (hist b') = map act (hist b) \<or> map act (hist b') = map act (hist b) @ [fst q]"
    if "run q b v = (r1, b', v')" for b v r1 b' v'
    using run_records [OF that] by auto
  have new: "map act (hist b') = [] \<or> map act (hist b') = [fst q]"
    if "connect c u = (Inr b, v)" "run q b v = (r1, b', v')" for c u b v r1 b' v'
    using run [OF that(2)] connect_empty [OF that(1)] by simp
  show ?thesis
  proof (cases "slot_cell sl")
    case None
    with assms show ?thesis by (fastforce simp: slot_call_def slot_backend_def split: result_splits dest: new)
  next
    case (Some x)
    with assms show ?thesis
      by (cases x) (fastforce simp: slot_call_def slot_backend_def split: result_splits dest: run)+
  qed
qed

lemma lazy_call_records:
  assumes "lazy_call W name connect run q slot w = (r, slot', w')"
  shows "slot_actions hist act slot' = slot_actions hist act slot \<or>
    slot_actions hist act slot' = slot_actions hist act slot @ [fst q]"
  using assms slot_call_records by (fastforce simp: lazy_call_def split: option.splits prod.splits)

end

interpretation db_rec: metered_slot "db_slot_connect F" "run_db F" db_history dbm_action
  for F :: "'w fabric_env"
proof unfold_locales
  fix q b and w :: 'w and r b' w'
  assume "run_db F q b w = (r, b', w')"
  then show "db_history b' = db_history b \<or> (\<exists>m. db_history b' = db_history b @ [m] \<and> dbm_action m = fst q)"
    by (fastforce simp: run_db_def split: sum.splits prod.splits dest: db.call_history)
qed (auto simp: db_slot_connect_def db_connect_resource_def db_connect_def map_err_Inr_iff split: result_splits)

interpretation mongo_rec: metered_slot "mongo_slot_connect F" "run_mongo F" mgb_history mgm_action
  for F :: "'w fabric_env"
proof unfold_locales
  fix q b and w :: 'w and r b' w'
  assume "run_mongo F q b w = (r, b', w')"
  then show "mgb_history b' = mgb_history b \<or> (\<exists>m. mgb_history b' = mgb_history b @ [m] \<and> mgm_action m = fst q)"
    by (fastforce simp: run_mongo_def split: sum.splits prod.splits dest: mongo.call_history)
qed (auto simp: mongo_slot_connect_def mongo_connect_resource_def split: result_splits)

interpretation mail_rec: metered_slot "mail_slot_connect F" "run_mail F" mlb_history mlm_action
  for F :: "'w fabric_env"
proof unfold_locales
  fix q b and w :: 'w and r b' w'
  assume "run_mail F q b w = (r, b', w')"
  then show "mlb_history b' = mlb_history b \<or> (\<exists>m. mlb_history b' = mlb_history b @ [m] \<and> mlm_action m = fst q)"
    by (fastforce simp: run_mail_def split: prod.splits dest: mail.call_history)
qed (auto simp: mail_slot_connect_def mail_connect_resource_def split: result_splits)

interpretation redis_rec: metered_slot "redis_slot_connect F" "run_redis F" rb_history rdm_action
  for F :: "'w fabric_env"
proof unfold_locales
  fix q b and w :: 'w and r b' w'
  assume "run_redis F q b w = (r, b', w')"
  then show "rb_history b' = rb_history b \<or> (\<exists>m. rb_history b' = rb_history b @ [m] \<and> rdm_action m = fst q)"
    by (fastforce simp: run_redis_def split: prod.splits dest: redis.call_history)
qed (auto simp: redis_slot_connect_def redis_connect_resource_def split: result_splits)

interpretation auth_rec: metered_slot "auth_slot_connect F" "run_auth F" aub_history aum_action
  for F :: "'w fabric_env"
proof unfold_locales
  fix q b and w :: 'w and r b' w'
  assume "run_auth F q b w = (r, b', w')"
  then show "aub_history b' = aub_history b \<or> (\<exists>m. aub_history b' = aub_history b @ [m] \<and> aum_action m = fst q)"
    by (fastforce simp: run_auth_def split: sum.splits dest: auth.call_history)
qed (auto simp: auth_slot_connect_def auth_connect_resource_def split: result_splits)

section \<open>What a session records\<close>

text \<open>The action of a call, when it is to the given capability.\<close>
definition call_to :: "string \<Rightarrow> string \<times> string \<times> string \<Rightarrow> string option" where
  "call_to name q = (if fst q = name then Some (fst (snd q)) else None)"

lemma call_to_simp [simp]: "call_to name (n, action, pj) = (if n = name then Some action else None)"
  by (simp add: call_to_def)

abbreviation set_actions :: "('b \<Rightarrow> 'm list) \<Rightarrow> ('m \<Rightarrow> string) \<Rightarrow> (backend_set \<Rightarrow> ('c, 'b) slot option) \<Rightarrow> backend_set \<Rightarrow> string list" where
  "set_actions hist act sel s \<equiv> slot_actions hist act (sel s)"

text \<open>Only a call to the capability itself can add to its record.\<close>
lemma recorder_of_capability:
  assumes frame: "\<And>n q s w r s' w'. set_call F (n, q) s w = (r, s', w') \<Longrightarrow> n \<noteq> name \<Longrightarrow> rec s' = rec s"
    and own: "\<And>q s w r s' w'. set_call F (name, q) s w = (r, s', w') \<Longrightarrow> rec s' = rec s \<or> rec s' = rec s @ [fst q]"
  shows "recorder (set_call F) rec (call_to name)"
proof
  fix q s w r s' w'
  assume c: "set_call F q s w = (r, s', w')"
  obtain n action pj where q: "q = (n, action, pj)" by (cases q)
  show "rec s' = rec s \<or> (\<exists>a. call_to name q = Some a \<and> rec s' = rec s @ [a])"
  proof (cases "n = name")
    case True
    with own [of "(action, pj)" s w r s' w'] c q show ?thesis by auto
  next
    case False
    with frame [of n "(action, pj)" s w r s' w'] c q show ?thesis by simp
  qed
qed

interpretation db_session: recorder "set_call F" "set_actions db_history dbm_action bs_db" "call_to ''db''"
  for F :: "'w fabric_env"
  by (rule recorder_of_capability)
    (auto simp: set_call_frame set_call_routes dest!: call_routes_lazy db_rec.lazy_call_records)

interpretation mongo_session: recorder "set_call F" "set_actions mgb_history mgm_action bs_mongo" "call_to ''mongo''"
  for F :: "'w fabric_env"
  by (rule recorder_of_capability)
    (auto simp: set_call_frame set_call_routes dest!: call_routes_lazy mongo_rec.lazy_call_records)

interpretation mail_session: recorder "set_call F" "set_actions mlb_history mlm_action bs_mail" "call_to ''mail''"
  for F :: "'w fabric_env"
  by (rule recorder_of_capability)
    (auto simp: set_call_frame set_call_routes dest!: call_routes_lazy mail_rec.lazy_call_records)

interpretation redis_session: recorder "set_call F" "set_actions rb_history rdm_action bs_redis" "call_to ''redis''"
  for F :: "'w fabric_env"
  by (rule recorder_of_capability)
    (auto simp: set_call_frame set_call_routes dest!: call_routes_lazy redis_rec.lazy_call_records)

interpretation auth_session: recorder "set_call F" "set_actions aub_history aum_action bs_auth" "call_to ''auth''"
  for F :: "'w fabric_env"
  by (rule recorder_of_capability)
    (auto simp: set_call_frame set_call_routes dest!: call_routes_lazy auth_rec.lazy_call_records)


section \<open>What is reported\<close>

text \<open>With drains that return the whole history, the reported metrics are what the slots recorded.\<close>
lemma reported_actions:
  assumes "drains_ok W"
  shows "map dbm_action (bm_db (set_metrics W s)) = set_actions db_history dbm_action bs_db s"
    and "map mgm_action (bm_mongo (set_metrics W s)) = set_actions mgb_history mgm_action bs_mongo s"
    and "map mlm_action (bm_mail (set_metrics W s)) = set_actions mlb_history mlm_action bs_mail s"
    and "map rdm_action (bm_redis (set_metrics W s)) = set_actions rb_history rdm_action bs_redis s"
    and "map aum_action (bm_auth (set_metrics W s)) = set_actions aub_history aum_action bs_auth s"
  using assms
  by (simp_all add: drains_ok_def set_metrics_def set_db_metrics_def set_mongo_metrics_def set_mail_metrics_def
      set_redis_metrics_def set_auth_metrics_def db_drain_metrics_def mongo_drain_metrics_def mail_drain_metrics_def
      redis_drain_metrics_def auth_drain_metrics_def slot_actions_def slot_metrics_def
      split: option.splits sum.splits)

lemma amq_unwired_stays:
  "bs_amq s = None \<Longrightarrow> run_calls (set_call F) qs s w = (rs, s', w') \<Longrightarrow> bs_amq s' = None"
proof (induction qs arbitrary: s w rs)
  case (Cons q qs)
  then show ?case by (cases q) (auto split: prod.splits dest: set_call_None_iff)
qed simp

lemma amq_reported:
  assumes "drains_ok W" "run_calls (set_call F) qs (from_configs R deps) w = (rs, s', w')"
  shows "map aqm_action (bm_amq (set_metrics W s')) =
    (if rc_amq R = None then [] else [action. (n, action, _) \<leftarrow> qs, n = ''amq''])"
proof (cases "rc_amq R")
  case None
  then have "bs_amq (from_configs R deps) = None" by (simp add: from_configs_slots)
  from amq_unwired_stays [OF this assms(2)] None show ?thesis
    by (simp add: set_metrics_def set_amq_metrics_def)
next
  case (Some c)
  then have "bs_amq (from_configs R deps) = Some (amq_new c)" by (simp add: from_configs_slots)
  from amq_session_metrics [OF this assms(2)] assms(1) Some show ?thesis
    by (auto simp: set_metrics_def set_amq_metrics_def amq_drain_metrics_def drains_ok_def amq_new_def)
qed

text \<open>A session starts with nothing recorded.\<close>
lemma from_configs_unrecorded:
  "slot_actions h1 a1 (bs_db (from_configs R deps)) = []"
  "slot_actions h2 a2 (bs_mongo (from_configs R deps)) = []"
  "slot_actions h3 a3 (bs_mail (from_configs R deps)) = []"
  "slot_actions h4 a4 (bs_redis (from_configs R deps)) = []"
  "slot_actions h5 a5 (bs_auth (from_configs R deps)) = []"
  by (simp_all add: from_configs_slots slot_actions_def slot_metrics_def split: option.splits)

lemma map_filter_call_to: "List.map_filter (call_to name) qs = [action. (n, action, _) \<leftarrow> qs, n = name]"
  by (induction qs) (auto simp: map_filter_simps)

text \<open>The metrics of a session are truthful for every capability.  When the set is drained after any sequence of
  calls, the actions reported for a capability are, in order, actions of calls that the session made to that capability,
  none reported twice and none from a call to another capability; and a set wired for messaging reports every
  \<^verbatim>\<open>amq\<close> call, successful or not.\<close>
theorem session_metrics_account_for_calls:
  assumes drain: "drains_ok W"
    and run: "run_calls (set_call F) qs (from_configs R deps) w = (rs, s', w')"
  shows "subseq (map dbm_action (bm_db (set_metrics W s'))) [action. (n, action, _) \<leftarrow> qs, n = ''db''] \<and>
    subseq (map mgm_action (bm_mongo (set_metrics W s'))) [action. (n, action, _) \<leftarrow> qs, n = ''mongo''] \<and>
    subseq (map mlm_action (bm_mail (set_metrics W s'))) [action. (n, action, _) \<leftarrow> qs, n = ''mail''] \<and>
    subseq (map rdm_action (bm_redis (set_metrics W s'))) [action. (n, action, _) \<leftarrow> qs, n = ''redis''] \<and>
    subseq (map aum_action (bm_auth (set_metrics W s'))) [action. (n, action, _) \<leftarrow> qs, n = ''auth''] \<and>
    map aqm_action (bm_amq (set_metrics W s')) =
      (if rc_amq R = None then [] else [action. (n, action, _) \<leftarrow> qs, n = ''amq''])"
proof (intro conjI)
  note runs = db_session.run_recorded [OF run] mongo_session.run_recorded [OF run] mail_session.run_recorded [OF run]
    redis_session.run_recorded [OF run] auth_session.run_recorded [OF run]
  note simps = reported_actions [OF drain] map_filter_call_to [symmetric] from_configs_unrecorded
  show "subseq (map dbm_action (bm_db (set_metrics W s'))) [action. (n, action, _) \<leftarrow> qs, n = ''db'']"
    using runs(1) by (auto simp: simps)
  show "subseq (map mgm_action (bm_mongo (set_metrics W s'))) [action. (n, action, _) \<leftarrow> qs, n = ''mongo'']"
    using runs(2) by (auto simp: simps)
  show "subseq (map mlm_action (bm_mail (set_metrics W s'))) [action. (n, action, _) \<leftarrow> qs, n = ''mail'']"
    using runs(3) by (auto simp: simps)
  show "subseq (map rdm_action (bm_redis (set_metrics W s'))) [action. (n, action, _) \<leftarrow> qs, n = ''redis'']"
    using runs(4) by (auto simp: simps)
  show "subseq (map aum_action (bm_auth (set_metrics W s'))) [action. (n, action, _) \<leftarrow> qs, n = ''auth'']"
    using runs(5) by (auto simp: simps)
qed (rule amq_reported [OF drain run])

theorem session_metrics_account_for_calls_witness:
  "\<exists>rs s' w'. run_calls (set_call fabric_ref) [(''amq'', ''send'', []), (''redis'', ''get'', []), (''amq'', ''request'', [])]
      (from_configs configs_ref deps_ref) 0 = (rs, s', w') \<and>
     map aqm_action (bm_amq (set_metrics wire_ref s')) = [''send'', ''request''] \<and>
     subseq (map rdm_action (bm_redis (set_metrics wire_ref s'))) [''get''] \<and> bm_db (set_metrics wire_ref s') = []"
proof -
  obtain rs s' w' where r: "run_calls (set_call fabric_ref) [(''amq'', ''send'', []), (''redis'', ''get'', []), (''amq'', ''request'', [])]
      (from_configs configs_ref deps_ref) 0 = (rs, s', w')" by (metis prod_cases3)
  from session_metrics_account_for_calls [OF wire_ref_ok(3) r] r show ?thesis
    by (auto simp: configs_ref_def dest: list_emb_Nil2)
qed

end
