(* ===== verification/Drain_Report.thy ===== *)
theory Drain_Report
  imports Session_Metrics Daemon
begin

text \<open>
  What a client reads when it drains the metrics of its session: a \<^verbatim>\<open>Metrics\<close> frame reports, for each capability, actions of
  the calls it sent to that capability before.
\<close>

section \<open>Reports and records\<close>

text \<open>The actions a \<^verbatim>\<open>BackendMetrics\<close> reports for a capability, and those a set has recorded for it.\<close>
definition reported :: "backend_metrics \<Rightarrow> string \<Rightarrow> string list" where
  "reported m name =
     (if name = ''db'' then map dbm_action (bm_db m)
      else if name = ''mongo'' then map mgm_action (bm_mongo m)
      else if name = ''mail'' then map mlm_action (bm_mail m)
      else if name = ''redis'' then map rdm_action (bm_redis m)
      else if name = ''amq'' then map aqm_action (bm_amq m)
      else if name = ''auth'' then map aum_action (bm_auth m)
      else [])"

definition amq_actions :: "backend_set \<Rightarrow> string list" where
  "amq_actions s = (case bs_amq s of None \<Rightarrow> [] | Some b \<Rightarrow> map aqm_action (aqp_history b))"

definition set_recorded :: "backend_set \<Rightarrow> string \<Rightarrow> string list" where
  "set_recorded s name =
     (if name = ''db'' then set_actions db_history dbm_action bs_db s
      else if name = ''mongo'' then set_actions mgb_history mgm_action bs_mongo s
      else if name = ''mail'' then set_actions mlb_history mlm_action bs_mail s
      else if name = ''redis'' then set_actions rb_history rdm_action bs_redis s
      else if name = ''amq'' then amq_actions s
      else if name = ''auth'' then set_actions aub_history aum_action bs_auth s
      else [])"

lemma reported_set_metrics: "drains_ok W \<Longrightarrow> reported (set_metrics W s) name = set_recorded s name"
  by (simp add: reported_def set_recorded_def reported_actions amq_actions_def)
    (simp add: set_metrics_def set_amq_metrics_def amq_drain_metrics_def drains_ok_def split: option.split)

lemma set_recorded_from [simp]: "set_recorded (from_configs R deps) name = []"
proof -
  have "amq_actions (from_configs R deps) = []"
    by (simp add: amq_actions_def from_configs_slots amq_new_def split: option.split)
  then show ?thesis by (simp add: set_recorded_def from_configs_unrecorded)
qed

interpretation amq_session: recorder "set_call F" amq_actions "call_to ''amq''"
  for F :: "'w fabric_env"
  by (rule recorder_of_capability)
    (auto simp: amq_actions_def set_call_frame set_call_routes call_amq_def run_amq_def split: option.splits prod.splits
      dest: amq.call_history)

interpretation set_session: recorder "set_call F" "\<lambda>s. set_recorded s name" "call_to name"
  for F :: "'w fabric_env" and name :: string
proof
  fix q s and w :: 'w and r s' w'
  assume c: "set_call F q s w = (r, s', w')"
  show "set_recorded s' name = set_recorded s name \<or> (\<exists>a. call_to name q = Some a \<and> set_recorded s' name = set_recorded s name @ [a])"
    using db_session.step_records [OF c] mongo_session.step_records [OF c] mail_session.step_records [OF c]
      redis_session.step_records [OF c] amq_session.step_records [OF c] auth_session.step_records [OF c]
    by (simp add: set_recorded_def)
qed

section \<open>Frames\<close>

text \<open>The action of a frame, when it is a call to the given capability.\<close>
definition frame_call :: "string \<Rightarrow> wire_request \<Rightarrow> string option" where
  "frame_call name req = (case req of Call c \<Rightarrow> if wc_name c = name then Some (wc_action c) else None | _ \<Rightarrow> None)"

text \<open>A dying task records at most its own call.\<close>
definition panic_records :: "'w daemon_lib \<Rightarrow> bool" where
  "panic_records D \<longleftrightarrow>
     (\<forall>call s w e s' w' name. dl_panic D call s w = Some (e, s', w') \<longrightarrow>
        set_recorded s' name = set_recorded s name \<or>
        wc_name call = name \<and> set_recorded s' name = set_recorded s name @ [wc_action call])"

lemma answer_frame_recorder:
  fixes D :: "'w daemon_lib" and F :: "'w fabric_env"
  assumes "panic_records D"
  shows "recorder (answer_frame D F) (\<lambda>s. set_recorded s name) (frame_call name)"
proof
  fix req s and w :: 'w and r s' w'
  assume a: "answer_frame D F req s w = (r, s', w')"
  show "set_recorded s' name = set_recorded s name \<or>
      (\<exists>a. frame_call name req = Some a \<and> set_recorded s' name = set_recorded s name @ [a])"
  proof (cases req)
    case (Call call)
    show ?thesis
    proof (cases "dl_panic D call s w")
      case None
      with a Call obtain x w1 where "set_call F (wc_name call, wc_action call, wc_payload call) s w = (x, s', w1)"
        by (auto simp: answer_frame_def respond_def dispatch_call_def split: prod.splits)
      from set_session.step_records [OF this, of name] Call show ?thesis by (auto simp: frame_call_def split: if_splits)
    next
      case (Some p)
      with a Call obtain e w1 where "dl_panic D call s w = Some (e, s', w1)"
        by (cases p) (auto simp: answer_frame_def respond_def dispatch_call_def)
      with assms Call show ?thesis unfolding panic_records_def by (fastforce simp: frame_call_def)
    qed
  qed (use a in \<open>auto simp: answer_frame_def respond_def split: prod.splits\<close>)
qed

text \<open>A messaging call that got a reply is recorded.\<close>
lemma answered_amq_recorded:
  assumes "run_calls (answer_frame D F) reqs s w = (out, s', w')" "bs_amq s \<noteq> None"
    and "\<forall>response \<in> set out. \<forall>e. response \<noteq> ProtocolError e"
  shows "set_recorded s' ''amq'' = set_recorded s ''amq'' @ List.map_filter (frame_call ''amq'') reqs"
  using assms
proof (induction reqs arbitrary: s w out)
  case Nil
  then show ?case by (simp add: map_filter_simps)
next
  case (Cons req reqs)
  obtain r s1 w1 where a: "answer_frame D F req s w = (r, s1, w1)" by (metis prod_cases3)
  with Cons.prems obtain out1 where t: "run_calls (answer_frame D F) reqs s1 w1 = (out1, s', w')" "out = r # out1"
    by (auto split: prod.splits)
  have "bs_amq s1 \<noteq> None \<and> set_recorded s1 ''amq'' = set_recorded s ''amq'' @ List.map_filter (frame_call ''amq'') [req]"
  proof (cases req)
    case (Call call)
    with a t(2) Cons.prems(3) have "dl_panic D call s w = None"
      by (cases "dl_panic D call s w") (auto simp: answer_frame_def respond_def dispatch_call_def)
    with a Call obtain x w2 where c: "set_call F (wc_name call, wc_action call, wc_payload call) s w = (x, s1, w2)"
      by (auto simp: answer_frame_def respond_def dispatch_call_def split: prod.splits)
    from Cons.prems(2) obtain b where b: "bs_amq s = Some b" by auto
    from amq_run_metric [OF b c] b Call show ?thesis
      by (auto simp: set_recorded_def amq_actions_def frame_call_def map_filter_simps)
  qed (use a Cons.prems(2) in \<open>auto simp: answer_frame_def respond_def frame_call_def map_filter_simps split: prod.splits\<close>)
  with Cons.IH [OF t(1)] Cons.prems(3) t(2) show ?case by (simp add: map_filter_simps split: option.splits)
qed

section \<open>A drained session\<close>

text \<open>C22: a drain tells the truth about the session, whatever went wrong before.  The answer to a drain is a metrics
  frame; for every capability the actions it reports are, in order, actions of the calls this session sent to that
  capability before the drain, none reported twice and none from a call to another capability, even when some of those calls
  died in their task; and a session wired for messaging in which every call got a reply reports every \<^verbatim>\<open>amq\<close> call,
  successful or not.\<close>
theorem session_drain_truthful:
  assumes drain: "drains_ok (fe_wire F)" and panic: "panic_records D"
    and run: "serve D F L a sh (Inr (Init init) # rest) w = (r, Ack # out, sh', w')"
    and i: "i < length out" "rest ! i = Inr Drain"
  shows "\<exists>reqs m. take i rest = map Inr reqs \<and> out ! i = Metrics m \<and>
    (\<forall>name. subseq (reported m name) (List.map_filter (frame_call name) reqs)) \<and>
    (wi_amq init \<noteq> None \<longrightarrow> (\<forall>response \<in> set (take i out). \<forall>e. response \<noteq> ProtocolError e) \<longrightarrow>
       reported m ''amq'' = List.map_filter (frame_call ''amq'') reqs)"
proof (cases rule: serve_accepted [OF run])
  case (1 R deps w1 s')
  let ?s = "from_configs (clamp_db_statement_timeout (sh_max_statement_timeout_ms sh) R) deps"
  from serve_loop_run_calls [OF 1(3)] obtain reqs where
    reqs: "take (length out) rest = map Inr reqs" "run_calls (answer_frame D F) reqs ?s w1 = (out, s', w')" by blast
  with i(1) have len: "i < length reqs" by (simp add: run_calls_length [OF reqs(2)])
  from arg_cong [OF reqs(1), of "take i"] i(1) have before: "take i rest = map Inr (take i reqs)" by (simp add: take_map)
  from arg_cong [OF reqs(1), of "\<lambda>xs. xs ! i"] i len have "reqs ! i = Drain" by simp
  moreover obtain s1 w2 s2 w3 where "run_calls (answer_frame D F) (take i reqs) ?s w1 = (take i out, s1, w2)"
      "answer_frame D F (reqs ! i) s1 w2 = (out ! i, s2, w3)"
    by (rule run_calls_nth [OF reqs(2) len])
  ultimately have s1: "run_calls (answer_frame D F) (take i reqs) ?s w1 = (take i out, s1, w2)"
      "out ! i = Metrics (set_metrics (fe_wire F) s1)"
    by (auto simp: answer_frame_def respond_def)
  have sub: "subseq (set_recorded s1 name) (List.map_filter (frame_call name) (take i reqs))" for name
    using recorder.run_recorded [OF answer_frame_recorder [OF panic] s1(1)] by auto
  have all: "set_recorded s1 ''amq'' = List.map_filter (frame_call ''amq'') (take i reqs)"
    if "wi_amq init \<noteq> None" "\<forall>response \<in> set (take i out). \<forall>e. response \<noteq> ProtocolError e"
  proof -
    have "rc_amq R = None \<longleftrightarrow> wi_amq init = None" using 1(2) granted_None_iff unfolding resolve_Inr_iff by blast
    then show ?thesis
      using answered_amq_recorded [OF s1(1) _ that(2)] that(1) by (simp add: from_configs_slots clamp_keeps)
  qed
  from before s1(2) sub all show ?thesis
    by (intro exI [of _ "take i reqs"] exI [of _ "set_metrics (fe_wire F) s1"]) (simp add: reported_set_metrics [OF drain])
qed (use i in simp)

lemma daemon_ref_write: "dl_write daemon_ref response w = (Inr (), Suc w)"
  by (simp add: daemon_ref_def)

theorem session_drain_truthful_witness:
  "\<exists>sh x m w'. serve daemon_ref fabric_ref jwks_down static_ref
       (shared_ref\<lparr>sh_table := [''bus'' \<mapsto> \<lparr>trb_tenant = None, trb_binding = Amq (amq_config_ref Rabbitmq)\<rparr>]\<rparr>)
       [Inr (Init (init_none\<lparr>wi_amq := Some ''bus'', wi_token := Some ''old''\<rparr>)),
        Inr (Call \<lparr>wc_name = ''amq'', wc_action = ''send'', wc_payload = []\<rparr>), Inr Drain] 0 =
     (Inr (), [Ack, x, Metrics m], sh, w') \<and> reported m ''amq'' = [''send''] \<and> reported m ''db'' = []"
proof -
  let ?sh = "shared_ref\<lparr>sh_table := [''bus'' \<mapsto> \<lparr>trb_tenant = None, trb_binding = Amq (amq_config_ref Rabbitmq)\<rparr>]\<rparr>"
  let ?i = "init_none\<lparr>wi_amq := Some ''bus'', wi_token := Some ''old''\<rparr>"
  let ?c = "Call \<lparr>wc_name = ''amq'', wc_action = ''send'', wc_payload = []\<rparr>"
  have a: "authenticate (fe_wire fabric_ref) jwks_down static_ref 0 (Some ''old'') = Inr ()" by (rule static_ref_auth)
  have i: "wi_token ?i = Some ''old''" by simp
  obtain R where R: "resolve (sh_table ?sh) ?i = Inr R" by (simp add: resolve_eval)
  have l: "\<exists>reply m s' w'. serve_loop daemon_ref fabric_ref s [Inr ?c, Inr Drain] w = (Inr (), [Reply reply, m], s', w')" for s w
    by (cases "set_call fabric_ref (''amq'', ''send'', []) s w") (simp add: daemon_ref_def respond_def dispatch_call_def)
  obtain reply m s' w' where "serve_loop daemon_ref fabric_ref
      (from_configs (clamp_db_statement_timeout (sh_max_statement_timeout_ms ?sh) R)
        \<lparr>ad_breaker = sh_breaker ?sh, ad_timeout = duration_from_millis (wi_timeout_ms ?i)\<rparr>)
      [Inr ?c, Inr Drain] (Suc 0) = (Inr (), [Reply reply, m], s', w')" using l by blast
  then have "\<exists>sh'. serve daemon_ref fabric_ref jwks_down static_ref ?sh [Inr (Init ?i), Inr ?c, Inr Drain] 0 =
    (Inr (), Ack # [Reply reply, m], sh', w')"
    using R by (simp add: serve_def open_session_def i a daemon_ref_write del: serve_loop.simps)
  then obtain sh' where s: "serve daemon_ref fabric_ref jwks_down static_ref ?sh [Inr (Init ?i), Inr ?c, Inr Drain] 0 =
    (Inr (), Ack # [Reply reply, m], sh', w')" ..
  have p: "panic_records daemon_ref" by (simp add: panic_records_def daemon_ref_def)
  have d: "drains_ok (fe_wire fabric_ref)" by (simp add: fabric_ref_def)
  from session_drain_truthful [OF d p s, of 1] obtain M where M: "m = Metrics M"
      "subseq (reported M ''db'') (List.map_filter (frame_call ''db'') [?c])"
      "reported M ''amq'' = List.map_filter (frame_call ''amq'') [?c]"
    by fastforce
  with s show ?thesis by (auto simp: map_filter_simps frame_call_def dest: list_emb_Nil2)
qed

end
