(* ===== verification/Session_Effects.thy ===== *)
theory Session_Effects
  imports Daemon
begin

text \<open>
  What the theories on the effects of a session share: an accepted session is a run of \<open>answer_frame\<close> on the set of
  backends that its handshake resolved to, and some capabilities leave a part of the outside alone.
\<close>

text \<open>A reply that tells the client that its call was carried out.\<close>
definition acknowledged :: "wire_response \<Rightarrow> bool" where
  "acknowledged response = (case response of Reply r \<Rightarrow> is_ok r | _ \<Rightarrow> False)"

text \<open>Calls to the capability do not touch the part of the world that \<open>view\<close> shows.\<close>
definition leaves_alone :: "'w fabric_env \<Rightarrow> ('w \<Rightarrow> 'a) \<Rightarrow> string \<Rightarrow> bool" where
  "leaves_alone F view name \<longleftrightarrow> (\<forall>q s w r s1 w1. set_call F (name, q) s w = (r, s1, w1) \<longrightarrow> view w1 = view w)"

text \<open>Writing a frame to the client does not touch it either.\<close>
definition writes_leave_alone :: "'w daemon_lib \<Rightarrow> ('w \<Rightarrow> 'a) \<Rightarrow> bool" where
  "writes_leave_alone D view \<longleftrightarrow> (\<forall>response w r w1. dl_write D response w = (r, w1) \<longrightarrow> view w1 = view w)"

text \<open>An accepted session, whether or not its acknowledgement could be written.\<close>
lemma serve_accepted_run:
  assumes run: "serve D F L a sh (Inr (Init init) # rest) w = (r, Ack # out, sh', w')"
    and R: "resolve (sh_table sh) init = Inr R"
  obtains x w1 reqs s' where "dl_write D Ack w = (x, w1)" "take (length out) rest = map Inr reqs"
    "run_calls (answer_frame D F) reqs (from_configs (clamp_db_statement_timeout (sh_max_statement_timeout_ms sh) R)
      \<lparr>ad_breaker = sh_breaker sh, ad_timeout = duration_from_millis (wi_timeout_ms init)\<rparr>) w1 = (out, s', w')"
proof -
  let ?s = "from_configs (clamp_db_statement_timeout (sh_max_statement_timeout_ms sh) R)
      \<lparr>ad_breaker = sh_breaker sh, ad_timeout = duration_from_millis (wi_timeout_ms init)\<rparr>"
  obtain x w1 where wr: "dl_write D Ack w = (x, w1)" by (metis surj_pair)
  show thesis
  proof (cases x)
    case (Inl err)
    with run wr R have "out = [] \<and> w' = w1" by (auto simp: serve_def open_session_def split: result_splits)
    with wr show ?thesis by (intro that [of x w1 "[]"]) simp_all
  next
    case (Inr u)
    with run wr R obtain s' where "serve_loop D F ?s rest w1 = (r, out, s', w')"
      by (auto simp: serve_def open_session_def split: result_splits)
    from serve_loop_run_calls [OF this] that [OF wr] show ?thesis by blast
  qed
qed

text \<open>The frames that were answered are frames of the client.\<close>
lemma answered_frames: "take n rest = map Inr reqs \<Longrightarrow> req \<in> set reqs \<Longrightarrow> Inr req \<in> set rest"
  by (metis in_set_takeD image_eqI list.set_map)

text \<open>The effect of one frame: that of its call, or of its task's death, and of writing the response.\<close>
lemma answer_frame_effect:
  assumes "answer_frame D F req s w = (response, s', w')" "writes_leave_alone D view"
  obtains (no_call) "\<forall>call. req \<noteq> Call call" "s' = s" "view w' = view w"
  | (answered) call r w1 where "req = Call call" "response = Reply r" "view w' = view w1"
      "set_call F (wc_name call, wc_action call, wc_payload call) s w = (r, s', w1)"
  | (died) call e w1 where "req = Call call" "response = ProtocolError (''backend task failed: '' @ e)" "view w' = view w1"
      "dl_panic D call s w = Some (e, s', w1)"
proof -
  obtain w1 where w1: "respond D F s req w = (response, s', w1)" "w' = snd (dl_write D response w1)"
    using assms(1) by (auto simp: answer_frame_def split: prod.splits)
  with assms(2) have w': "view w' = view w1" unfolding writes_leave_alone_def by (metis prod.collapse)
  show thesis
  proof (cases req)
    case (Call call)
    show ?thesis
    proof (cases "dl_panic D call s w")
      case None
      with Call w1 answered [OF Call _ w'] show ?thesis
        by (auto simp: respond_def dispatch_call_def split: prod.splits)
    next
      case (Some p)
      with Call w1 died [OF Call _ w'] show ?thesis
        by (cases p) (auto simp: respond_def dispatch_call_def)
    qed
  qed (use w1 w' no_call in \<open>auto simp: respond_def\<close>)
qed

end
