(* ===== verification/Kv_Store.thy ===== *)
theory Kv_Store
  imports Kv
begin

text \<open>
  The abstract service behind the \<^verbatim>\<open>redis\<close> capability, a map from keys to values, and the proof that the backend of
  theory \<^verbatim>\<open>Kv\<close> implements it.  The service may fail at any time, before or after it took effect, as a command whose
  reply is lost may; what a client can conclude from the replies it did get is \<open>kv_possible\<close>.
\<close>

section \<open>The abstract service\<close>

type_synonym kv_store = "string \<rightharpoonup> string"

datatype kv_command = GetKey string | SetKey string string | DeleteKey string

primrec kv_effect :: "kv_command \<Rightarrow> kv_store \<Rightarrow> kv_store" where
  "kv_effect (GetKey k) st = st"
| "kv_effect (SetKey k v) st = st(k \<mapsto> v)"
| "kv_effect (DeleteKey k) st = st(k := None)"

primrec kv_answer :: "kv_command \<Rightarrow> kv_store \<Rightarrow> json_value" where
  "kv_answer (GetKey k) st = json_object [(''value'', opt_string_value (st k))]"
| "kv_answer (SetKey k v) st = json_object [(''ok'', VBool True)]"
| "kv_answer (DeleteKey k) st = json_object [(''count'', VNumber (NumInt (if st k = None then 0 else 1)))]"

text \<open>A step of the service: an answer, or a failure before or after the effect.\<close>
inductive kv_step :: "kv_store \<Rightarrow> kv_command \<Rightarrow> json_value option \<Rightarrow> kv_store \<Rightarrow> bool" where
  answered: "kv_step st c (Some (kv_answer c st)) (kv_effect c st)"
| failed_before: "kv_step st c None st"
| failed_after: "kv_step st c None (kv_effect c st)"

inductive_simps kv_step_answer: "kv_step st c (Some v) st'"
inductive_simps kv_step_failure: "kv_step st c None st'"

lemmas kv_step_simps = kv_step_answer kv_step_failure

text \<open>The value under a key after a command, and the values that are possible after a history of commands of which it is
  known whether they were answered.\<close>
definition kv_at :: "string \<Rightarrow> kv_command \<Rightarrow> string option \<Rightarrow> string option" where
  "kv_at k c x =
     (case c of
        GetKey _ \<Rightarrow> x
      | SetKey k' v \<Rightarrow> if k' = k then Some v else x
      | DeleteKey k' \<Rightarrow> if k' = k then None else x)"

definition kv_may :: "string \<Rightarrow> kv_command \<times> bool \<Rightarrow> string option set \<Rightarrow> string option set" where
  "kv_may k e S = kv_at k (fst e) ` S \<union> (if snd e then {} else S)"

definition kv_possible :: "string \<Rightarrow> (kv_command \<times> bool) list \<Rightarrow> string option set \<Rightarrow> string option set" where
  "kv_possible k history S = fold (kv_may k) history S"

lemma kv_possible_simps [simp]:
  "kv_possible k [] S = S" "kv_possible k (e # history) S = kv_possible k history (kv_may k e S)"
  by (simp_all add: kv_possible_def)

lemma kv_effect_at: "kv_effect c st k = kv_at k c (st k)"
  by (cases c) (auto simp: kv_at_def)

lemma kv_step_may:
  assumes "kv_step st c v st'" "st k \<in> S"
  shows "st' k \<in> kv_may k (c, v \<noteq> None) S"
  using assms by (cases rule: kv_step.cases) (auto simp: kv_may_def kv_effect_at)

text \<open>After an acknowledged write, and only other keys since, the value is known.\<close>
lemma kv_may_acknowledged: "S \<noteq> {} \<Longrightarrow> kv_may k (SetKey k v, True) S = {Some v}"
  by (auto simp: kv_may_def kv_at_def)

section \<open>The backend implements it\<close>

text \<open>What Redis documents of its commands, through a view of the world as a store that nobody else writes to: \<^verbatim>\<open>GET\<close>
  reads the binding and changes nothing, \<^verbatim>\<open>SET\<close> binds the key and \<^verbatim>\<open>DEL\<close> removes it and counts it, unless they fail, and
  neither connecting nor reading the clock changes anything.\<close>
definition redis_is_store :: "'w redis_lib \<Rightarrow> ('w \<Rightarrow> kv_store) \<Rightarrow> bool" where
  "redis_is_store E store \<longleftrightarrow>
     (\<forall>h k x w w1. rd_get E h k w = (x, w1) \<longrightarrow> store w1 = store w \<and> (\<forall>v. x = Inr v \<longrightarrow> v = store w k)) \<and>
     (\<forall>h k v x w w1. rd_set E h k v w = (x, w1) \<longrightarrow>
        store w1 = (store w)(k \<mapsto> v) \<or> \<not> is_ok x \<and> store w1 = store w) \<and>
     (\<forall>h k x w w1. rd_del E h k w = (x, w1) \<longrightarrow>
        (store w1 = (store w)(k := None) \<or> \<not> is_ok x \<and> store w1 = store w) \<and>
        (\<forall>n. x = Inr n \<longrightarrow> n = (if store w k = None then 0 else 1))) \<and>
     (\<forall>url x w w1. rd_open E url w = (x, w1) \<longrightarrow> store w1 = store w) \<and>
     (\<forall>h x w w1. rd_get_connection E h w = (x, w1) \<longrightarrow> store w1 = store w) \<and>
     (\<forall>h d x w w1. rd_set_read_timeout E h d w = (x, w1) \<longrightarrow> store w1 = store w) \<and>
     (\<forall>h d x w w1. rd_set_write_timeout E h d w = (x, w1) \<longrightarrow> store w1 = store w) \<and>
     (\<forall>t w w1. rd_clock E w = (t, w1) \<longrightarrow> store w1 = store w)"

lemma redis_is_storeD:
  assumes "redis_is_store E store"
  shows "rd_get E h k w = (x, w1) \<Longrightarrow> store w1 = store w"
    and "rd_get E h k w = (Inr found, w1) \<Longrightarrow> found = store w k"
    and "rd_set E h k v w = (Inr (), w1) \<Longrightarrow> store w1 = (store w)(k \<mapsto> v)"
    and "rd_set E h k v w = (Inl e, w1) \<Longrightarrow> store w1 = (store w)(k \<mapsto> v) \<or> store w1 = store w"
    and "rd_del E h k w = (Inr n, w1) \<Longrightarrow> store w1 = (store w)(k := None) \<and> n = (if store w k = None then 0 else 1)"
    and "rd_del E h k w = (Inl e, w1) \<Longrightarrow> store w1 = (store w)(k := None) \<or> store w1 = store w"
    and "rd_open E url w = (y, w1) \<Longrightarrow> store w1 = store w"
    and "rd_get_connection E h w = (y, w1) \<Longrightarrow> store w1 = store w"
    and "rd_set_read_timeout E h d w = (z, w1) \<Longrightarrow> store w1 = store w"
    and "rd_set_write_timeout E h d w = (z, w1) \<Longrightarrow> store w1 = store w"
    and "rd_clock E w = (t, w1) \<Longrightarrow> store w1 = store w"
  using assms by (simp_all add: redis_is_store_def, (fastforce | metis)+)

text \<open>The command of a call: reads, writes without expiry and deletions, with a payload that parses.\<close>
definition kv_command_of :: "'w redis_lib \<Rightarrow> string \<times> string \<Rightarrow> kv_command option" where
  "kv_command_of E q =
     (if fst q = ''get'' then (case de_key_payload E (snd q) of Inr p \<Rightarrow> Some (GetKey (kp_key p)) | Inl _ \<Rightarrow> None)
      else if fst q = ''set'' then
        (case de_set_payload E (snd q) of
           Inr p \<Rightarrow> if sp_ttl p = None then Some (SetKey (sp_key p) (sp_value p)) else None
         | Inl _ \<Rightarrow> None)
      else if fst q = ''delete'' then (case de_key_payload E (snd q) of Inr p \<Rightarrow> Some (DeleteKey (kp_key p)) | Inl _ \<Rightarrow> None)
      else None)"

text \<open>A reply text is an answer of the service when it is its JSON; an error is a failure of the service.\<close>
definition reply_of :: "json_lib \<Rightarrow> ('e, string) result \<Rightarrow> json_value option \<Rightarrow> bool" where
  "reply_of J r v = (case v of Some x \<Rightarrow> (\<exists>txt. r = Inr txt \<and> to_string J x = Inr txt) | None \<Rightarrow> \<not> is_ok r)"

definition kv_spec ::
    "'w redis_lib \<Rightarrow> kv_store \<Rightarrow> string \<times> string \<Rightarrow> ('e, string) result \<Rightarrow> kv_store \<Rightarrow> bool" where
  "kv_spec E st q r st' \<longleftrightarrow> (\<exists>c v. kv_command_of E q = Some c \<and> kv_step st c v st' \<and> reply_of (rd_json E) r v)"

text \<open>One command under the lock, then its reply.\<close>
lemma redis_op_cases:
  assumes "redis_op E de b cmd render pj w = (r, w')" "de pj = Inr p"
  obtains (locked) e where "r = Inl e" "w' = w"
  | (failed) err where "cmd (rb_conn b) p w = (Inl err, w')" "\<not> is_ok r"
  | (replied) x where "cmd (rb_conn b) p w = (Inr x, w')" "r = redis_encode E (render x)"
  using assms by (auto simp: redis_op_def redis_parse_def lock_conn_def split: result_splits option.splits)

text \<open>The two ways to show that a command was simulated.\<close>
lemma kv_failedI:
  "\<not> is_ok r \<Longrightarrow> st' = st \<or> st' = kv_effect c st \<Longrightarrow> \<exists>v. kv_step st c v st' \<and> reply_of J r v"
  by (rule exI [of _ None]) (auto simp: reply_of_def kv_step_failure)

lemma kv_answeredI:
  assumes "r = redis_encode E (kv_answer c st)" "st' = kv_effect c st"
  shows "\<exists>v. kv_step st c v st' \<and> reply_of (rd_json E) r v"
proof (cases "to_string (rd_json E) (kv_answer c st)")
  case (Inl e)
  with assms show ?thesis by (intro kv_failedI) (simp_all add: redis_encode_def)
next
  case (Inr t)
  with assms show ?thesis
    by (intro exI [of _ "Some (kv_answer c st)"]) (simp add: reply_of_def redis_encode_def kv_step_answer)
qed

lemma redis_get_simulated:
  assumes law: "redis_is_store E store" and p: "de_key_payload E pj = Inr p"
    and op: "redis_do_get E b pj w = (r, w')"
  shows "\<exists>v. kv_step (store w) (GetKey (kp_key p)) v (store w') \<and> reply_of (rd_json E) r v"
  using op [unfolded redis_do_get_def] p
proof (cases rule: redis_op_cases)
  case (failed err)
  then show ?thesis using redis_is_storeD(1) [OF law failed(1)] by (intro kv_failedI) simp_all
next
  case (replied x)
  then show ?thesis using redis_is_storeD(1,2) [OF law replied(1)] by (intro kv_answeredI) simp_all
qed (auto intro: kv_failedI)

lemma redis_set_simulated:
  assumes law: "redis_is_store E store" and p: "de_set_payload E pj = Inr p" "sp_ttl p = None"
    and op: "redis_do_set E b pj w = (r, w')"
  shows "\<exists>v. kv_step (store w) (SetKey (sp_key p) (sp_value p)) v (store w') \<and> reply_of (rd_json E) r v"
  using op [unfolded redis_do_set_def] p(1)
proof (cases rule: redis_op_cases)
  case (failed err)
  with p(2) have "rd_set E (rb_conn b) (sp_key p) (sp_value p) w = (Inl err, w')" by simp
  from redis_is_storeD(4) [OF law this] failed(2) show ?thesis by (intro kv_failedI) auto
next
  case (replied x)
  with p(2) have "rd_set E (rb_conn b) (sp_key p) (sp_value p) w = (Inr (), w')" by simp
  from redis_is_storeD(3) [OF law this] replied(2) show ?thesis by (intro kv_answeredI) simp_all
qed (auto intro: kv_failedI)

lemma redis_delete_simulated:
  assumes law: "redis_is_store E store" and p: "de_key_payload E pj = Inr p"
    and op: "redis_do_delete E b pj w = (r, w')"
  shows "\<exists>v. kv_step (store w) (DeleteKey (kp_key p)) v (store w') \<and> reply_of (rd_json E) r v"
  using op [unfolded redis_do_delete_def] p
proof (cases rule: redis_op_cases)
  case (failed err)
  from redis_is_storeD(6) [OF law failed(1)] failed(2) show ?thesis by (intro kv_failedI) auto
next
  case (replied n)
  from redis_is_storeD(5) [OF law replied(1)] replied(2) show ?thesis by (intro kv_answeredI) simp_all
qed (auto intro: kv_failedI)

lemma redis_build_metric_store:
  "redis_is_store E store \<Longrightarrow> redis_build_metric E action r start w = (m, w') \<Longrightarrow> store w' = store w"
  by (auto simp: redis_build_metric_def redis_is_storeD split: prod.splits)

lemma redis_call_simulated:
  assumes law: "redis_is_store E store" and c: "kv_command_of E q \<noteq> None" and call: "redis_call E q b w = (r, b', w')"
  shows "kv_spec E (store w) q r (store w')"
proof -
  obtain action pj where q: "q = (action, pj)" by (cases q)
  from call [unfolded q] obtain start w1 w2 m where u: "rd_clock E w = (start, w1)"
      "redis_dispatch E b action pj w1 = (r, w2)" "redis_build_metric E action r start w2 = (m, w')"
    by (rule redis_call_unfold)
  have st: "store w1 = store w" "store w' = store w2"
    using redis_is_storeD(11) [OF law u(1)] redis_build_metric_store [OF law u(3)] by simp_all
  from u(2) c show ?thesis
    using redis_get_simulated [OF law] redis_set_simulated [OF law] redis_delete_simulated [OF law]
    by (fastforce simp: st [symmetric] kv_spec_def q redis_dispatch_def kv_command_of_def split: sum.splits if_splits)
qed

interpretation kv: simulation "redis_call E" "\<lambda>_. store" "kv_spec E" "\<lambda>q. redis_is_store E store \<and> kv_command_of E q \<noteq> None"
    "\<lambda>_. True"
  for E :: "'w redis_lib" and store :: "'w \<Rightarrow> kv_store"
  by unfold_locales (auto dest: redis_call_simulated)

text \<open>Connecting leaves the store alone.\<close>
lemma redis_connect_store:
  assumes "redis_is_store E store" "redis_connect_resource E c w = (r, w')"
  shows "store w' = store w"
  using assms(2)
  by (auto simp: redis_connect_resource_def redis_connect_def Let_def split: result_splits dest!: redis_is_storeD(7-10) [OF assms(1)])

end
