(* ===== verification/Kv_Session.thy ===== *)
theory Kv_Session
  imports Session_Effects Kv_Store
begin

text \<open>
  What a client of the \<^verbatim>\<open>redis\<close> capability may rely on through the whole stack: frames, dispatch, the lazily connected slot
  and the backend together implement the store of theory \<^verbatim>\<open>Kv_Store\<close>, as an interpretation of the locale
  \<open>simulation\<close> on the request loop of the daemon.
\<close>

section \<open>The capability in a session\<close>

text \<open>The command of a frame; the reply to it; whether the client knows that it was carried out.\<close>
definition kv_request :: "'w redis_lib \<Rightarrow> wire_request \<Rightarrow> kv_command option" where
  "kv_request E req =
     (case req of
        Call c \<Rightarrow> if wc_name c = ''redis'' then kv_command_of E (wc_action c, wc_payload c) else None
      | _ \<Rightarrow> None)"

definition response_of :: "json_lib \<Rightarrow> wire_response \<Rightarrow> json_value option \<Rightarrow> bool" where
  "response_of J response v =
     (case response of Reply r \<Rightarrow> reply_of J r v | ProtocolError _ \<Rightarrow> v = None | _ \<Rightarrow> False)"

lemma response_of_acknowledged: "response_of J response v \<Longrightarrow> v \<noteq> None \<longleftrightarrow> acknowledged response"
  by (auto simp: response_of_def reply_of_def acknowledged_def is_ok_def split: wire_response.splits option.splits sum.splits)

text \<open>The service a session offers: frames that are no commands to it leave the store alone.\<close>
definition kv_frame_spec :: "'w redis_lib \<Rightarrow> kv_store \<Rightarrow> wire_request \<Rightarrow> wire_response \<Rightarrow> kv_store \<Rightarrow> bool" where
  "kv_frame_spec E st req response st' =
     (case kv_request E req of
        None \<Rightarrow> st' = st
      | Some c \<Rightarrow> (\<exists>v. kv_step st c v st' \<and> response_of (rd_json E) response v))"

text \<open>A task that dies did so before or after its command, if it was one.\<close>
definition tasks_keep_store :: "'w daemon_lib \<Rightarrow> 'w redis_lib \<Rightarrow> ('w \<Rightarrow> kv_store) \<Rightarrow> bool" where
  "tasks_keep_store D E store \<longleftrightarrow>
     (\<forall>call s w e s1 w1. dl_panic D call s w = Some (e, s1, w1) \<longrightarrow>
        store w1 = store w \<or> (\<exists>c. kv_request E (Call call) = Some c \<and> store w1 = kv_effect c (store w)))"

text \<open>What a client may send: commands to the store, and calls to capabilities that leave the store alone.\<close>
definition kv_served :: "'w fabric_env \<Rightarrow> ('w \<Rightarrow> kv_store) \<Rightarrow> wire_request \<Rightarrow> bool" where
  "kv_served F store req =
     (case req of Call call \<Rightarrow> kv_request (fe_redis F) req \<noteq> None \<or> leaves_alone F store (wc_name call) | _ \<Rightarrow> True)"

lemma set_call_redis_simulated:
  assumes law: "redis_is_store (fe_redis F) store" and c: "kv_command_of (fe_redis F) q = Some c"
    and call: "set_call F (''redis'', q) s w = (r, s', w')"
  shows "\<exists>v. kv_step (store w) c v (store w') \<and> reply_of (rd_json (fe_redis F)) r v"
proof -
  have run: "\<exists>v. kv_step (store u) c v (store u') \<and> reply_of (rd_json (fe_redis F)) (map_err f x) v"
    if "redis_call (fe_redis F) q b u = (x, b', u')" for b u x b' u' and f :: "redis_error \<Rightarrow> egress_error"
    using redis_call_simulated [OF law _ that] c
    by (cases x) (auto simp: kv_spec_def reply_of_def split: option.splits)
  have connect: "store u' = store u" if "redis_slot_connect F cfg u = (x, u')" for cfg u x u'
    using redis_connect_store [OF law] that by (simp add: redis_slot_connect_def)
  show ?thesis
  proof (cases "bs_redis s")
    case None
    with call show ?thesis by (intro kv_failedI) (auto simp: set_call_routes call_redis_def lazy_call_def)
  next
    case (Some sl)
    with call obtain sl' where sl': "slot_call (redis_slot_connect F) (run_redis F) q sl w = (r, sl', w')"
      by (auto simp: set_call_routes call_redis_def lazy_call_def split: prod.splits)
    obtain y sl1 w1 where y: "slot_backend (redis_slot_connect F) sl w = (y, sl1, w1)" by (metis prod_cases3)
    then have w1: "store w1 = store w" by (auto simp: slot_backend_def connect split: option.splits prod.splits)
    show ?thesis
    proof (cases y)
      case (Inl e)
      with sl' y w1 show ?thesis by (intro kv_failedI) (auto simp: slot_call_def)
    next
      case (Inr b)
      with sl' y obtain x b' where "redis_call (fe_redis F) q b w1 = (x, b', w')" "r = map_err redis_into_resource_error x"
        by (auto simp: slot_call_def run_redis_def split: prod.splits)
      with run w1 show ?thesis by metis
    qed
  qed
qed

lemma answer_frame_simulated:
  assumes law: "redis_is_store (fe_redis F) store" "writes_leave_alone D store" "tasks_keep_store D (fe_redis F) store"
    and served: "kv_served F store req"
    and ans: "answer_frame D F req s w = (response, s', w')"
  shows "kv_frame_spec (fe_redis F) (store w) req response (store w')"
  using ans law(2)
proof (cases rule: answer_frame_effect)
  case no_call
  then show ?thesis by (auto simp: kv_frame_spec_def kv_request_def split: wire_request.split)
next
  case (answered call r w1)
  show ?thesis
  proof (cases "kv_request (fe_redis F) req")
    case None
    with served answered(1) have "leaves_alone F store (wc_name call)" by (simp add: kv_served_def)
    with answered(3,4) None show ?thesis unfolding leaves_alone_def kv_frame_spec_def by fastforce
  next
    case (Some c)
    with answered(1) have q: "wc_name call = ''redis''" "kv_command_of (fe_redis F) (wc_action call, wc_payload call) = Some c"
      by (auto simp: kv_request_def split: if_splits)
    from set_call_redis_simulated [OF law(1) q(2) answered(4) [unfolded q(1)]] answered(2,3) Some show ?thesis
      by (simp add: kv_frame_spec_def response_of_def)
  qed
next
  case (died call e w1)
  with law(3) have "store w' = store w \<or> (\<exists>c. kv_request (fe_redis F) req = Some c \<and> store w' = kv_effect c (store w))"
    unfolding tasks_keep_store_def by auto
  then show ?thesis
    using kv_step_failure by (auto simp: kv_frame_spec_def response_of_def died(2) split: option.split intro!: exI [of _ None])
qed

interpretation kv_frames: simulation "answer_frame D F" "\<lambda>_. store" "kv_frame_spec (fe_redis F)"
    "\<lambda>req. redis_is_store (fe_redis F) store \<and> writes_leave_alone D store \<and> tasks_keep_store D (fe_redis F) store \<and>
       kv_served F store req"
    "\<lambda>_. True"
  for D :: "'w daemon_lib" and F :: "'w fabric_env" and store :: "'w \<Rightarrow> kv_store"
  by unfold_locales (auto dest: answer_frame_simulated)

section \<open>What the client knows\<close>

text \<open>The client's own history: its commands, each with whether it was acknowledged.\<close>
definition kv_history :: "'w redis_lib \<Rightarrow> wire_request list \<Rightarrow> wire_response list \<Rightarrow> (kv_command \<times> bool) list" where
  "kv_history E reqs responses =
     List.map_filter (\<lambda>(req, response). map_option (\<lambda>c. (c, acknowledged response)) (kv_request E req)) (zip reqs responses)"

lemma kv_frame_run_possible:
  assumes "spec_run (kv_frame_spec E) st reqs responses st'" "st k \<in> S"
  shows "st' k \<in> kv_possible k (kv_history E reqs responses) S"
  using assms
proof (induction "kv_frame_spec E" st reqs responses st' arbitrary: S rule: spec_run.induct)
  case (2 st req reqs response responses st')
  then obtain st1 where st1: "kv_frame_spec E st req response st1" "spec_run (kv_frame_spec E) st1 reqs responses st'" by auto
  show ?case
  proof (cases "kv_request E req")
    case None
    with st1 "2.hyps" "2.prems"(2) show ?thesis by (simp add: kv_frame_spec_def kv_history_def map_filter_simps)
  next
    case (Some c)
    with st1(1) obtain v where v: "kv_step st c v st1" "response_of (rd_json E) response v"
      by (auto simp: kv_frame_spec_def)
    from kv_step_may [OF v(1) "2.prems"(2)] response_of_acknowledged [OF v(2)]
    have "st1 k \<in> kv_may k (c, acknowledged response) S" by simp
    from "2.hyps" [OF st1(2) this] Some show ?thesis by (simp add: kv_history_def map_filter_simps)
  qed
qed (simp_all add: kv_history_def map_filter_simps)

section \<open>A concrete outside for witnesses\<close>

text \<open>A Redis that holds at most the value \<^verbatim>\<open>v\<close> under the key \<^verbatim>\<open>k\<close>; the world is zero while it is empty.\<close>
definition cell_view :: "nat \<Rightarrow> kv_store" where
  "cell_view w = (if w = 0 then Map.empty else [''k'' \<mapsto> ''v''])"

definition redis_cell :: "nat redis_lib" where
  "redis_cell = redis_down
     \<lparr>rd_json := json_ref\<lparr>to_string := \<lambda>v. case value_get ''value'' v of Some (VString s) \<Rightarrow> Inr s | _ \<Rightarrow> Inr ''json''\<rparr>,
      rd_get_connection := (\<lambda>_ w. (Inr 2, w)), rd_set_read_timeout := (\<lambda>_ _ w. (Inr (), w)),
      rd_set_write_timeout := (\<lambda>_ _ w. (Inr (), w)), rd_get := (\<lambda>_ k w. (Inr (cell_view w k), w)),
      rd_set := (\<lambda>_ k v w. if k = ''k'' \<and> v = ''v'' then (Inr (), 1)
        else (Inl \<lparr>rde_is_timeout = False, rde_is_io = False, rde_text = ''full''\<rparr>, w)),
      rd_del := (\<lambda>_ k w. if k = ''k'' then (Inr (if w = 0 then 0 else 1), 0) else (Inr 0, w)),
      de_key_payload := (\<lambda>s. Inr \<lparr>kp_key = s\<rparr>),
      de_set_payload := (\<lambda>s. Inr \<lparr>sp_key = [hd s], sp_value = tl s, sp_ttl = None\<rparr>)\<rparr>"

definition fabric_cell :: "nat fabric_env" where "fabric_cell = fabric_ref\<lparr>fe_redis := redis_cell\<rparr>"

definition daemon_cell :: "nat daemon_lib" where "daemon_cell = daemon_ref\<lparr>dl_write := (\<lambda>_ w. (Inr (), w))\<rparr>"

lemma redis_cell_is_store: "redis_is_store redis_cell cell_view"
  by (auto simp: redis_is_store_def redis_cell_def redis_down_def cell_view_def Let_def split: if_splits)

lemma daemon_cell_keeps_store: "writes_leave_alone daemon_cell view" "tasks_keep_store daemon_cell E view"
  by (simp_all add: writes_leave_alone_def tasks_keep_store_def daemon_cell_def daemon_ref_def)

abbreviation cell_call :: "string \<Rightarrow> string \<Rightarrow> wire_request" where
  "cell_call action payload \<equiv> Call \<lparr>wc_name = ''redis'', wc_action = action, wc_payload = payload\<rparr>"

section \<open>Properties\<close>

text \<open>C20: a session reads its own writes: whatever sequence of reads, writes without expiry, deletions, drains and repeated
  handshakes a client sends, between any calls to capabilities that leave the store alone, every value it is told is one that its own history allows, where an acknowledged command
  took effect and an unacknowledged one may have.  This holds through the frame loop, the blocking task that may die, the
  slot that connects lazily and may remember a failure, and the backend, over a server that nobody else writes to.\<close>
theorem session_reads_own_writes:
  assumes law: "redis_is_store (fe_redis F) store" "writes_leave_alone D store" "tasks_keep_store D (fe_redis F) store"
    and run: "serve D F L a sh (Inr (Init init) # rest) w = (r, Ack # out, sh', w')"
    and answered: "take (length out) rest = map Inr reqs"
    and calls: "list_all (kv_served F store) reqs"
    and i: "i < length out" "kv_request (fe_redis F) (reqs ! i) = Some (GetKey k)" "out ! i = Reply (Inr text)"
  shows "\<exists>v \<in> kv_possible k (kv_history (fe_redis F) (take i reqs) (take i out)) {store w k}.
    to_string (rd_json (fe_redis F)) (json_object [(''value'', opt_string_value v)]) = Inr text"
proof (cases rule: serve_accepted [OF run])
  case (1 R deps w1 s')
  from serve_loop_run_calls [OF 1(3)] answered
  have rc: "run_calls (answer_frame D F) reqs (from_configs (clamp_db_statement_timeout (sh_max_statement_timeout_ms sh) R) deps) w1 =
      (out, s', w')" by (metis inj_Inr inj_map_eq_map)
  have w1: "store w1 = store w" using 1(4) law(2) unfolding writes_leave_alone_def by blast
  have "list_all (\<lambda>req. redis_is_store (fe_redis F) store \<and> writes_leave_alone D store \<and> tasks_keep_store D (fe_redis F) store \<and>
      kv_served F store req) reqs" using law calls by (simp add: list_all_iff)
  from kv_frames.run_simulated [OF rc this TrueI]
  have sr: "spec_run (kv_frame_spec (fe_redis F)) (store w) reqs out (store w')" unfolding w1 .
  have "length reqs = length out" using run_calls_length [OF rc] by simp
  with spec_run_nth [OF sr] i(1) obtain st1 st2 where
    st: "spec_run (kv_frame_spec (fe_redis F)) (store w) (take i reqs) (take i out) st1"
      "kv_frame_spec (fe_redis F) st1 (reqs ! i) (out ! i) st2" by metis
  from kv_frame_run_possible [OF st(1), of k "{store w k}"]
  have "st1 k \<in> kv_possible k (kv_history (fe_redis F) (take i reqs) (take i out)) {store w k}" by simp
  moreover from st(2) i(2,3)
  have "to_string (rd_json (fe_redis F)) (json_object [(''value'', opt_string_value (st1 k))]) = Inr text"
    by (auto simp: kv_frame_spec_def response_of_def reply_of_def kv_step_answer split: option.splits)
  ultimately show ?thesis by blast
qed (use i in simp)

text \<open>A client writes, and reads back what it wrote.\<close>
lemma cell_backend:
  "redis_connect_resource redis_cell redis_config_ref w = (Inr \<lparr>rb_conn = 2, rb_poison = None, rb_history = []\<rparr>, w)"
  "rb_poison b = None \<Longrightarrow> \<exists>b'. redis_call redis_cell (''set'', ''kv'') b w = (Inr ''json'', b', 1) \<and> rb_poison b' = None"
  "rb_poison b = None \<Longrightarrow> \<exists>b'. redis_call redis_cell (''get'', ''k'') b 1 = (Inr ''v'', b', 1) \<and> rb_poison b' = None"
  by (simp_all add: redis_connect_resource_def redis_connect_def redis_call_def redis_dispatch_def redis_do_set_def redis_do_get_def
      redis_op_def redis_parse_def lock_conn_def redis_encode_def redis_build_metric_def redis_cell_def redis_down_def
      opt_string_value_def cell_view_def Let_def split: prod.splits)

lemma cell_serve:
  "\<exists>sh' w'. serve daemon_cell fabric_cell jwks_down static_ref shared_ref
       (Inr (Init (init_ref\<lparr>wi_token := Some ''old''\<rparr>)) # map Inr [cell_call ''set'' ''kv'', cell_call ''get'' ''k'']) 0 =
     (Inr (), Ack # [Reply (Inr ''json''), Reply (Inr ''v'')], sh', w')"
proof -
  let ?i = "init_ref\<lparr>wi_token := Some ''old''\<rparr>"
  have e: "fe_wire fabric_cell = fe_wire fabric_ref" "fe_redis fabric_cell = redis_cell" by (simp_all add: fabric_cell_def)
  have a: "authenticate (fe_wire fabric_ref) jwks_down static_ref (0 :: nat) (Some ''old'') = Inr ()" by (rule static_ref_auth)
  obtain R where R: "resolve (sh_table shared_ref) ?i = Inr R" "rc_redis R = Some redis_config_ref"
    by (simp add: shared_ref_def resolve_eval)
  define deps where "deps = \<lparr>ad_breaker = sh_breaker shared_ref, ad_timeout = duration_from_millis (wi_timeout_ms ?i)\<rparr>"
  define s where "s = from_configs (clamp_db_statement_timeout (sh_max_statement_timeout_ms shared_ref) R) deps"
  have s: "bs_redis s = Some \<lparr>slot_config = redis_config_ref, slot_cell = None\<rparr>"
    by (simp add: s_def from_configs_slots clamp_keeps R(2))
  obtain b1 where b1: "redis_call redis_cell (''set'', ''kv'') \<lparr>rb_conn = 2, rb_poison = None, rb_history = []\<rparr> (0 :: nat) =
      (Inr ''json'', b1, 1)" "rb_poison b1 = None"
    using cell_backend(2) [of "\<lparr>rb_conn = 2, rb_poison = None, rb_history = []\<rparr>" 0] by auto
  obtain b2 where b2: "redis_call redis_cell (''get'', ''k'') b1 1 = (Inr ''v'', b2, 1)" using cell_backend(3) [OF b1(2)] by blast
  have "open_session (fe_wire fabric_cell) jwks_down static_ref shared_ref ?i (0 :: nat) = (Ack, Some s, shared_ref)"
    by (simp add: open_session_def e a R(1) s_def deps_def)
  then show ?thesis
    by (simp add: serve_def daemon_cell_def daemon_ref_def respond_def dispatch_call_def set_call_routes call_redis_def
        lazy_call_def slot_call_def slot_backend_def redis_slot_connect_def run_redis_def e s cell_backend(1) b1(1) b2 [simplified])
qed

theorem session_reads_own_writes_witness:
  "\<exists>sh' w'. serve daemon_cell fabric_cell jwks_down static_ref shared_ref
       (Inr (Init (init_ref\<lparr>wi_token := Some ''old''\<rparr>)) # map Inr [cell_call ''set'' ''kv'', cell_call ''get'' ''k'']) 0 =
     (Inr (), Ack # [Reply (Inr ''json''), Reply (Inr ''v'')], sh', w') \<and>
   (\<exists>v \<in> {Some ''v''}. to_string (rd_json redis_cell) (json_object [(''value'', opt_string_value v)]) = Inr ''v'')"
proof -
  let ?reqs = "[cell_call ''set'' ''kv'', cell_call ''get'' ''k'']"
  have e: "fe_redis fabric_cell = redis_cell" by (simp add: fabric_cell_def)
  have c: "kv_request redis_cell (cell_call ''set'' ''kv'') = Some (SetKey ''k'' ''v'')"
    "kv_request redis_cell (cell_call ''get'' ''k'') = Some (GetKey ''k'')"
    by (simp_all add: kv_request_def kv_command_of_def redis_cell_def)
  have h: "kv_possible ''k'' (kv_history redis_cell (take 1 ?reqs) (take 1 [Reply (Inr ''json''), Reply (Inr ''v'')])) {cell_view 0 ''k''} =
      {Some ''v''}"
    by (simp add: kv_history_def c map_filter_simps acknowledged_def kv_may_acknowledged)
  from cell_serve obtain sh' w' where s: "serve daemon_cell fabric_cell jwks_down static_ref shared_ref
       (Inr (Init (init_ref\<lparr>wi_token := Some ''old''\<rparr>)) # map Inr ?reqs) 0 =
     (Inr (), Ack # [Reply (Inr ''json''), Reply (Inr ''v'')], sh', w')" by blast
  from session_reads_own_writes [where store = cell_view, OF _ daemon_cell_keeps_store s, of ?reqs 1 "''k''" "''v''"]
  have "\<exists>v \<in> {Some ''v''}. to_string (rd_json redis_cell) (json_object [(''value'', opt_string_value v)]) = Inr ''v''"
    unfolding e h using redis_cell_is_store c by (simp add: kv_served_def e)
  with s show ?thesis by blast
qed

end
