(* ===== verification/Mail_Session.thy ===== *)
theory Mail_Session
  imports Session_Effects
begin

text \<open>
  What a client can make the operator's mail relay send: through the frame loop, the lazily built transport and the backend,
  every message handed to the relay is within the policy of the resource that the handshake named, and there are
  no more of them than the resource allows.
\<close>

section \<open>The relay\<close>

text \<open>The messages a relay was handed, with the transport they came over: sending appends one, or none when it fails.\<close>
definition relay_is_log :: "'w mail_lib \<Rightarrow> ('w \<Rightarrow> (smtp_transport \<times> handle) list) \<Rightarrow> bool" where
  "relay_is_log E log \<longleftrightarrow>
     (\<forall>t m x w w1. ml_send E t m w = (x, w1) \<longrightarrow> log w1 = log w @ [(t, m)] \<or> \<not> is_ok x \<and> log w1 = log w) \<and>
     (\<forall>t w w1. ml_clock E w = (t, w1) \<longrightarrow> log w1 = log w)"

lemma relay_is_logD:
  assumes "relay_is_log E log"
  shows "ml_send E t m w = (x, w1) \<Longrightarrow> log w1 = log w @ [(t, m)] \<or> log w1 = log w"
    and "ml_clock E w = (d, w1) \<Longrightarrow> log w1 = log w"
  using assms unfolding relay_is_log_def by blast+

text \<open>The policy of a mail resource: the message goes over the resource's own relay and credentials, and is built from a
  payload with at least one and at most \<open>max_recipients\<close> recipients, all of an allowed domain.\<close>
definition within_policy :: "'w mail_lib \<Rightarrow> mail_config \<Rightarrow> smtp_transport \<times> handle \<Rightarrow> bool" where
  "within_policy E c tm \<longleftrightarrow>
     mail_build_transport E c = Inr (fst tm) \<and>
     (\<exists>p. mail_build_message E p (mlc_from c) = Inr (snd tm) \<and>
        0 < count_recipients p \<and> count_recipients p \<le> mlc_max_recipients c \<and>
        (mlc_allowed_recipient_domains c = [] \<or>
          (\<forall>a \<in> set (snd_to p @ snd_cc p @ snd_bcc p). domain_allowed E (mlc_allowed_recipient_domains c) a)))"

text \<open>A backend that was built from a configuration.\<close>
definition built_from :: "'w mail_lib \<Rightarrow> mail_config \<Rightarrow> mail_backend \<Rightarrow> bool" where
  "built_from E c b \<longleftrightarrow>
     mail_build_transport E c = Inr (mlb_transport b) \<and> mlb_default_from b = mlc_from c \<and>
     mlb_max_recipients b = mlc_max_recipients c \<and> mlb_allowed_domains b = mlc_allowed_recipient_domains c \<and>
     mlb_max_sends b = mlc_max_sends c"

lemma mail_do_send_log:
  assumes "relay_is_log E log" "built_from E c b" "mail_do_send E (mail_send_ctx b) pj w = (r, w')"
  shows "\<exists>sent. log w' = log w @ sent \<and> length sent \<le> 1 \<and> list_all (within_policy E c) sent"
proof (cases "log w' = log w")
  case False
  with assms(1,3) obtain p m x where p: "count_recipients p \<noteq> 0" "\<not> sc_max_recipients (mail_send_ctx b) < count_recipients p"
      "is_ok (enforce_recipient_domains E p (sc_allowed_domains (mail_send_ctx b)))"
      "mail_build_message E p (sc_default_from (mail_send_ctx b)) = Inr m"
      "ml_send E (sc_transport (mail_send_ctx b)) m w = (x, w')"
    by (auto simp: mail_do_send_def Let_def split: result_splits if_splits)
  from relay_is_logD(1) [OF assms(1) p(5)] False have "log w' = log w @ [(mlb_transport b, m)]"
    by (simp add: mail_send_ctx_def)
  moreover from p(1-4) assms(2) have "within_policy E c (mlb_transport b, m)"
    by (auto simp: within_policy_def built_from_def mail_send_ctx_def enforce_recipient_domains_ok_iff)
  ultimately show ?thesis by simp
qed simp

text \<open>Each call that hands a message over is one more recorded operation.\<close>
lemma mail_call_log:
  assumes law: "relay_is_log E log" "built_from E c b" and call: "mail_call W E q b w = (r, b', w')"
  shows "\<exists>sent. log w' = log w @ sent \<and> length (mlb_history b') \<ge> length (mlb_history b) + length sent \<and>
    list_all (within_policy E c) sent"
proof (cases "mail_limit_reached W b")
  case True
  with call mail_call_limit [OF True, of E q w] show ?thesis by simp
next
  case False
  obtain action pj where q: "q = (action, pj)" by (cases q)
  from call [unfolded q] False obtain start w1 res w2 m where u: "ml_clock E w = (start, w1)"
      "mail_dispatch E (mail_send_ctx b) action pj w1 = (res, w2)"
      "mail_build_metric E action (result_ok res) start w2 = (m, w')" "b' = b\<lparr>mlb_history := mlb_history b @ [m]\<rparr>"
    by (rule mail_call_unfold)
  have "log w1 = log w" "log w' = log w2"
    using u(1,3) relay_is_logD(2) [OF law(1)] by (auto simp: mail_build_metric_def split: prod.splits)
  moreover have "\<exists>sent. log w2 = log w1 @ sent \<and> length sent \<le> 1 \<and> list_all (within_policy E c) sent"
    using u(2) mail_do_send_log [OF law, of pj w1] by (auto simp: mail_dispatch_def split: if_splits)
  ultimately show ?thesis using u(4) by auto
qed

section \<open>The capability in a session\<close>

text \<open>The state of the mail slot after the messages \<open>sent\<close>: nothing was sent before the transport was built, and each message
  counts against the cap.\<close>
definition slot_budget :: "'w mail_lib \<Rightarrow> mail_slot \<Rightarrow> (smtp_transport \<times> handle) list \<Rightarrow> bool" where
  "slot_budget E sl sent \<longleftrightarrow>
     list_all (within_policy E (slot_config sl)) sent \<and>
     (case slot_cell sl of
        Some (Inr b) \<Rightarrow>
          built_from E (slot_config sl) b \<and> length sent \<le> length (mlb_history b) \<and>
          (mlc_max_sends (slot_config sl) \<noteq> 0 \<longrightarrow> length (mlb_history b) \<le> mlc_max_sends (slot_config sl))
      | _ \<Rightarrow> sent = [])"

definition mail_budget ::
    "'w mail_lib \<Rightarrow> mail_config option \<Rightarrow> mail_slot option \<Rightarrow> (smtp_transport \<times> handle) list \<Rightarrow> bool" where
  "mail_budget E c slot sent \<longleftrightarrow>
     map_option slot_config slot = c \<and> (case slot of None \<Rightarrow> sent = [] | Some sl \<Rightarrow> slot_budget E sl sent)"

lemma mail_connect_built:
  "mail_connect_resource E c = Inr b \<Longrightarrow> built_from E c b \<and> mlb_history b = []"
  by (auto simp: mail_connect_resource_def built_from_def split: result_splits)

lemma built_from_fixed: "mail_fixed b' = mail_fixed b \<Longrightarrow> built_from E c b' \<longleftrightarrow> built_from E c b"
  by (simp add: built_from_def)

text \<open>One call through the slot.\<close>
lemma slot_call_budget:
  assumes law: "relay_is_log (fe_mail F) log" "\<forall>h :: mail_metric list. op_count (fe_wire F) h = length h"
    and budget: "slot_budget (fe_mail F) sl sent"
    and call: "slot_call (mail_slot_connect F) (run_mail F) q sl w = (r, sl', w')"
  shows "slot_config sl' = slot_config sl \<and> (\<exists>more. log w' = log w @ more \<and> slot_budget (fe_mail F) sl' (sent @ more))"
proof -
  have run: "\<exists>more. log w' = log w @ more \<and> slot_budget (fe_mail F) (sl\<lparr>slot_cell := Some (Inr b')\<rparr>) (sent @ more)"
    if b: "built_from (fe_mail F) (slot_config sl) b" "length sent \<le> length (mlb_history b)"
      "mlc_max_sends (slot_config sl) \<noteq> 0 \<longrightarrow> length (mlb_history b) \<le> mlc_max_sends (slot_config sl)"
      and r: "run_mail F q b w = (y, b', w')" for b y b'
  proof -
    from r obtain x where c: "mail_call (fe_wire F) (fe_mail F) q b w = (x, b', w')"
      by (auto simp: run_mail_def split: prod.splits)
    from mail_call_log [OF law(1) b(1) c] obtain more where more: "log w' = log w @ more"
        "length (mlb_history b) + length more \<le> length (mlb_history b')" "list_all (within_policy (fe_mail F) (slot_config sl)) more"
      by blast
    have "mlc_max_sends (slot_config sl) \<noteq> 0 \<longrightarrow> length (mlb_history b') \<le> mlc_max_sends (slot_config sl)"
      using mail_call_within_cap [OF law(2) _ _ c] b(1,3) mail.call_fixed [OF c] by (auto simp: built_from_def)
    with more b budget built_from_fixed [OF mail.call_fixed [OF c], of "fe_mail F" "slot_config sl"] show ?thesis
      by (intro exI [of _ more]) (simp add: slot_budget_def)
  qed
  show ?thesis
  proof (cases "slot_cell sl")
    case None
    with budget have sent: "sent = []" by (simp add: slot_budget_def)
    show ?thesis
    proof (cases "mail_connect_resource (fe_mail F) (slot_config sl)")
      case (Inl e)
      with call None sent show ?thesis
        by (auto simp: slot_call_def slot_backend_def mail_slot_connect_def slot_budget_def)
    next
      case (Inr b)
      with call None obtain y b' where "run_mail F q b w = (y, b', w')" "sl' = sl\<lparr>slot_cell := Some (Inr b')\<rparr>"
        by (auto simp: slot_call_def slot_backend_def mail_slot_connect_def split: prod.splits)
      with run [of b y b'] mail_connect_built [OF Inr] sent show ?thesis by simp
    qed
  next
    case (Some x)
    show ?thesis
    proof (cases x)
      case (Inl e)
      with call Some budget show ?thesis by (simp add: slot_call_def slot_backend_def)
    next
      case (Inr b)
      with call Some obtain y b' where "run_mail F q b w = (y, b', w')" "sl' = sl\<lparr>slot_cell := Some (Inr b')\<rparr>"
        by (auto simp: slot_call_def slot_backend_def split: prod.splits)
      with run [of b y b'] budget Some Inr show ?thesis by (simp add: slot_budget_def)
    qed
  qed
qed

lemma call_mail_budget:
  assumes "relay_is_log (fe_mail F) log" "\<forall>h :: mail_metric list. op_count (fe_wire F) h = length h"
    and "mail_budget (fe_mail F) c (bs_mail s) sent" and "set_call F (''mail'', q) s w = (r, s', w')"
  shows "\<exists>more. log w' = log w @ more \<and> mail_budget (fe_mail F) c (bs_mail s') (sent @ more)"
proof (cases "bs_mail s")
  case None
  with assms(3,4) show ?thesis by (auto simp: set_call_routes call_mail_def lazy_call_def)
next
  case (Some sl)
  with assms(4) obtain sl' where "slot_call (mail_slot_connect F) (run_mail F) q sl w = (r, sl', w')" "bs_mail s' = Some sl'"
    by (auto simp: set_call_routes call_mail_def lazy_call_def split: prod.splits)
  with slot_call_budget [OF assms(1,2) _ this(1), of sent] assms(3) Some show ?thesis by (auto simp: mail_budget_def)
qed

section \<open>Frames\<close>

text \<open>A task that dies leaves the mail slot and the relay as they were before its call or as they are after it.\<close>
definition tasks_account_mail :: "'w daemon_lib \<Rightarrow> 'w fabric_env \<Rightarrow> ('w \<Rightarrow> (smtp_transport \<times> handle) list) \<Rightarrow> bool" where
  "tasks_account_mail D F log \<longleftrightarrow>
     (\<forall>call s w e s1 w1. dl_panic D call s w = Some (e, s1, w1) \<longrightarrow>
        bs_mail s1 = bs_mail s \<and> log w1 = log w \<or>
        (\<exists>r s2 w2. set_call F (wc_name call, wc_action call, wc_payload call) s w = (r, s2, w2) \<and>
           bs_mail s1 = bs_mail s2 \<and> log w1 = log w2))"

lemma set_call_budget:
  assumes law: "relay_is_log (fe_mail F) log" "\<forall>h :: mail_metric list. op_count (fe_wire F) h = length h"
    and name: "name = ''mail'' \<or> leaves_alone F log name"
    and budget: "mail_budget (fe_mail F) c (bs_mail s) sent" and call: "set_call F (name, q) s w = (r, s', w')"
  shows "\<exists>more. log w' = log w @ more \<and> mail_budget (fe_mail F) c (bs_mail s') (sent @ more)"
proof (cases "name = ''mail''")
  case True
  with call_mail_budget [OF law budget] call show ?thesis by simp
next
  case False
  with name call have "log w' = log w" unfolding leaves_alone_def by blast
  with budget set_call_frame(3) [OF call False] show ?thesis by simp
qed

lemma answer_frame_budget:
  assumes law: "relay_is_log (fe_mail F) log" "\<forall>h :: mail_metric list. op_count (fe_wire F) h = length h"
    and tasks: "writes_leave_alone D log" "tasks_account_mail D F log"
    and name: "\<And>call. req = Call call \<Longrightarrow> wc_name call = ''mail'' \<or> leaves_alone F log (wc_name call)"
    and budget: "mail_budget (fe_mail F) c (bs_mail s) sent" and ans: "answer_frame D F req s w = (response, s', w')"
  shows "\<exists>more. log w' = log w @ more \<and> mail_budget (fe_mail F) c (bs_mail s') (sent @ more)"
  using ans tasks(1)
proof (cases rule: answer_frame_effect)
  case no_call
  with budget show ?thesis by simp
next
  case (answered call r w1)
  with set_call_budget [OF law name [OF answered(1)] budget answered(4)] show ?thesis by simp
next
  case (died call e w1)
  with tasks(2) have "bs_mail s' = bs_mail s \<and> log w1 = log w \<or>
      (\<exists>r s2 w2. set_call F (wc_name call, wc_action call, wc_payload call) s w = (r, s2, w2) \<and>
         bs_mail s' = bs_mail s2 \<and> log w1 = log w2)" unfolding tasks_account_mail_def by blast
  with set_call_budget [OF law name [OF died(1)] budget] died(3) budget show ?thesis by (metis append_Nil2)
qed

section \<open>Properties\<close>

text \<open>C36: a session cannot make the daemon send more mail, or other mail, than the operator allows.  Whatever frames a
  client sends, the relay is handed nothing when the handshake named no mail resource, and otherwise only messages over that
  resource's own relay and credentials, each built from a payload with between one and \<open>max_recipients\<close> recipients of allowed
  domains, and at most \<open>max_sends\<close> of them when that is set, failed sends included.\<close>
theorem session_mail_within_policy:
  assumes law: "relay_is_log (fe_mail F) log" "\<forall>h :: mail_metric list. op_count (fe_wire F) h = length h"
    and tasks: "writes_leave_alone D log" "tasks_account_mail D F log"
    and others: "\<forall>call. Inr (Call call) \<in> set rest \<longrightarrow> wc_name call = ''mail'' \<or> leaves_alone F log (wc_name call)"
    and R: "resolve (sh_table sh) init = Inr R"
    and run: "serve D F L a sh (Inr (Init init) # rest) w = (r, Ack # out, sh', w')"
  shows "\<exists>sent. log w' = log w @ sent \<and>
    (case rc_mail R of
       None \<Rightarrow> sent = []
     | Some c \<Rightarrow> list_all (within_policy (fe_mail F) c) sent \<and> (mlc_max_sends c \<noteq> 0 \<longrightarrow> length sent \<le> mlc_max_sends c))"
  using run R
proof (rule serve_accepted_run)
  fix x w1 reqs s'
  let ?s = "from_configs (clamp_db_statement_timeout (sh_max_statement_timeout_ms sh) R)
      \<lparr>ad_breaker = sh_breaker sh, ad_timeout = duration_from_millis (wi_timeout_ms init)\<rparr>"
  let ?I = "\<lambda>(s :: backend_set) v. \<exists>sent. log v = log w @ sent \<and> mail_budget (fe_mail F) (rc_mail R) (bs_mail s) sent"
  assume wr: "dl_write D Ack w = (x, w1)" and reqs: "take (length out) rest = map Inr reqs"
    and rc: "run_calls (answer_frame D F) reqs ?s w1 = (out, s', w')"
  from wr tasks(1) have "log w1 = log w" unfolding writes_leave_alone_def by blast
  then have start: "?I ?s w1"
    by (auto simp: from_configs_slots clamp_keeps mail_budget_def slot_budget_def split: option.split)
  from others answered_frames [OF reqs] have "wc_name call = ''mail'' \<or> leaves_alone F log (wc_name call)" if "Call call \<in> set reqs" for call
    using that by blast
  then have "?I s' w'"
    by (intro run_calls_invariant [OF rc, of ?I, OF start])
      (metis answer_frame_budget [OF law tasks] append.assoc)
  then show ?thesis
    by (fastforce simp: mail_budget_def slot_budget_def split: option.splits result_splits)
qed

text \<open>A relay that counts the messages it takes, all of which are the same.\<close>
definition mail_config_ref :: mail_config where
  "mail_config_ref =
     \<lparr>mlc_host = ''relay'', mlc_port = mail_default_port, mlc_user = [], mlc_password = [], mlc_tls = NoTls,
      mlc_from = ''ops@example.com'', mlc_max_recipients = mail_default_max_recipients,
      mlc_allowed_recipient_domains = [''example.com''], mlc_max_sends = 1, mlc_timeout_ms = mail_default_timeout\<rparr>"

definition counted_mail :: "smtp_transport \<times> handle" where
  "counted_mail = (\<lparr>st_base = 3, st_port = mail_default_port,
     st_timeout = Some (duration_from_millis mail_default_timeout), st_credentials = None\<rparr>, 12)"

definition mail_counter :: "nat mail_lib" where
  "mail_counter = mail_down
     \<lparr>ml_builder_dangerous := (\<lambda>_. 3), ml_parse_mailbox := (\<lambda>a. Inr \<lparr>mb_address = a, mb_domain = ''example.com''\<rparr>),
      ml_plain_body := (\<lambda>_ _. Inr 12),
      ml_send := (\<lambda>t m w. if (t, m) = counted_mail then (Inr \<lparr>sr_is_positive = True, sr_first_line = None\<rparr>, Suc w)
        else (Inl \<lparr>sme_is_transient = True, sme_is_permanent = False, sme_text = ''down''\<rparr>, w)),
      de_send_payload := (\<lambda>s. Inr \<lparr>snd_from = [], snd_to = [s], snd_cc = [], snd_bcc = [], snd_reply_to = [],
          snd_subject = [], snd_text = ''hi'', snd_html = []\<rparr>)\<rparr>"

definition counted_log :: "nat \<Rightarrow> (smtp_transport \<times> handle) list" where "counted_log n = replicate n counted_mail"

lemma mail_counter_is_log: "relay_is_log mail_counter counted_log"
  by (auto simp: relay_is_log_def mail_counter_def mail_down_def counted_log_def replicate_append_same split: if_splits)

theorem session_mail_within_policy_witness:
  "\<exists>r out sh' w'. serve (daemon_ref\<lparr>dl_write := (\<lambda>_ w. (Inr (), w))\<rparr>) (fabric_ref\<lparr>fe_mail := mail_counter\<rparr>) jwks_down static_ref
       (shared_ref\<lparr>sh_table := [''relay'' \<mapsto> \<lparr>trb_tenant = None, trb_binding = Mail mail_config_ref\<rparr>]\<rparr>)
       (Inr (Init (init_none\<lparr>wi_mail := Some ''relay'', wi_token := Some ''old''\<rparr>)) #
        map (\<lambda>to. Inr (Call \<lparr>wc_name = ''mail'', wc_action = ''send'', wc_payload = to\<rparr>)) [''a@example.com'', ''b@example.com'']) 0 =
     (r, Ack # out, sh', w') \<and> w' \<le> 1"
proof -
  let ?D = "daemon_ref\<lparr>dl_write := (\<lambda>_ w. (Inr (), w))\<rparr>" and ?F = "fabric_ref\<lparr>fe_mail := mail_counter\<rparr>"
  let ?sh = "shared_ref\<lparr>sh_table := [''relay'' \<mapsto> \<lparr>trb_tenant = None, trb_binding = Mail mail_config_ref\<rparr>]\<rparr>"
  let ?i = "init_none\<lparr>wi_mail := Some ''relay'', wi_token := Some ''old''\<rparr>"
  let ?rest = "map (\<lambda>to. Inr (Call \<lparr>wc_name = ''mail'', wc_action = ''send'', wc_payload = to\<rparr>)) [''a@example.com'', ''b@example.com'']"
  have a: "authenticate (fe_wire fabric_ref) jwks_down static_ref (0 :: nat) (Some ''old'') = Inr ()" by (rule static_ref_auth)
  obtain R where R: "resolve (sh_table ?sh) ?i = Inr R" "rc_mail R = Some mail_config_ref" by (simp add: resolve_eval)
  have "\<exists>session sh1. open_session (fe_wire ?F) jwks_down static_ref ?sh ?i (0 :: nat) = (Ack, Some session, sh1)"
    using R(1) by (simp add: open_session_def a)
  then obtain session sh1 where o: "open_session (fe_wire ?F) jwks_down static_ref ?sh ?i (0 :: nat) = (Ack, Some session, sh1)"
    by blast
  obtain r out s' w' where "serve_loop ?D ?F session ?rest 0 = (r, out, s', w')" by (metis prod_cases4)
  with o have run: "serve ?D ?F jwks_down static_ref ?sh (Inr (Init ?i) # ?rest) 0 = (r, Ack # out, sh1, w')"
    by (simp add: serve_def del: serve_loop.simps)
  have law: "relay_is_log (fe_mail ?F) counted_log" "\<forall>h :: mail_metric list. op_count (fe_wire ?F) h = length h"
    by (simp_all add: mail_counter_is_log fabric_ref_def wire_ref_def)
  have tasks: "writes_leave_alone ?D counted_log" "tasks_account_mail ?D ?F counted_log"
    by (simp_all add: writes_leave_alone_def tasks_account_mail_def daemon_ref_def)
  from session_mail_within_policy [OF law tasks _ R(1) run] R(2)
  obtain sent where "counted_log w' = counted_log 0 @ sent" "length sent \<le> 1" by (fastforce simp: mail_config_ref_def)
  then have "w' \<le> 1" by (metis counted_log_def append_Nil length_replicate replicate_0)
  with run show ?thesis by blast
qed

end
