(* ===== verification/Amq_Session.thy ===== *)
theory Amq_Session
  imports Session_Effects
begin

text \<open>
  Delivery to the message broker through the whole stack: a session is an interpretation of the locale \<open>simulation\<close> for a
  service that appends to the broker's queue all messages of a call it acknowledges, and the first few messages of a call
  that it does not.
\<close>

section \<open>The broker\<close>

text \<open>The messages a broker was handed.  A publish or a request appends its message, or may append nothing when it fails.\<close>
definition amq_is_queue :: "'w amq_lib \<Rightarrow> ('w \<Rightarrow> amq_message list) \<Rightarrow> bool" where
  "amq_is_queue E log \<longleftrightarrow>
     (\<forall>h body ex k x w w1. aq_basic_publish E h body ex k w = (x, w1) \<longrightarrow>
        log w1 = log w @ [\<lparr>aqg_key = k, aqg_payload = body\<rparr>] \<or> \<not> is_ok x \<and> log w1 = log w) \<and>
     (\<forall>h k body x w w1. aq_nats_publish E h k body w = (x, w1) \<longrightarrow>
        log w1 = log w @ [\<lparr>aqg_key = k, aqg_payload = body\<rparr>] \<or> \<not> is_ok x \<and> log w1 = log w) \<and>
     (\<forall>h k body x w w1. aq_nats_request E h k body w = (x, w1) \<longrightarrow>
        log w1 = log w @ [\<lparr>aqg_key = k, aqg_payload = body\<rparr>] \<or> \<not> is_ok x \<and> log w1 = log w) \<and>
     (\<forall>w. log (snd (aq_clock E w)) = log w) \<and> (\<forall>w. log (snd (aq_build_runtime E w)) = log w) \<and>
     (\<forall>ca host w. log (snd (aq_tls E ca host w)) = log w) \<and> (\<forall>a w. log (snd (aq_open E a w)) = log w) \<and>
     (\<forall>h w. log (snd (aq_open_channel E h w)) = log w) \<and> (\<forall>h w. log (snd (aq_close_channel E h w)) = log w) \<and>
     (\<forall>h w. log (snd (aq_close_connection E h w)) = log w) \<and>
     (\<forall>a opts w. log (snd (aq_nats_connect E a opts w)) = log w) \<and> (\<forall>h w. log (snd (aq_nats_flush E h w)) = log w)"

lemma amq_is_queue_send:
  assumes "amq_is_queue E log"
  shows "aq_basic_publish E h (aqg_payload m) ex (aqg_key m) w = (x, w1) \<Longrightarrow>
      log w1 = log w @ [m] \<or> \<not> is_ok x \<and> log w1 = log w"
    and "aq_nats_publish E h (aqg_key m) (aqg_payload m) w = (x, w1) \<Longrightarrow> log w1 = log w @ [m] \<or> \<not> is_ok x \<and> log w1 = log w"
    and "aq_nats_request E h k body w = (y, w1) \<Longrightarrow>
      log w1 = log w @ [\<lparr>aqg_key = k, aqg_payload = body\<rparr>] \<or> \<not> is_ok y \<and> log w1 = log w"
  using assms unfolding amq_is_queue_def by (metis amq_message.surjective unit.exhaust)+

lemma amq_is_queue_keep:
  assumes "amq_is_queue E log"
  shows "aq_clock E w = (t, w1) \<Longrightarrow> log w1 = log w"
    and "aq_build_runtime E w = (r, w1) \<Longrightarrow> log w1 = log w"
    and "aq_tls E ca host w = (x, w1) \<Longrightarrow> log w1 = log w"
    and "aq_open E a w = (y, w1) \<Longrightarrow> log w1 = log w"
    and "aq_open_channel E h w = (y, w1) \<Longrightarrow> log w1 = log w"
    and "aq_close_channel E h w = (z, w1) \<Longrightarrow> log w1 = log w"
    and "aq_close_connection E h w = (z, w1) \<Longrightarrow> log w1 = log w"
    and "aq_nats_connect E s opts w = (y, w1) \<Longrightarrow> log w1 = log w"
    and "aq_nats_flush E h w = (z, w1) \<Longrightarrow> log w1 = log w"
  using assms unfolding amq_is_queue_def by (metis snd_conv)+

section \<open>What a call delivers\<close>

text \<open>The messages that a call asks to be delivered.\<close>
definition amq_messages :: "'w amq_lib \<Rightarrow> string \<times> string \<Rightarrow> amq_message list" where
  "amq_messages E q =
     (case q of (action, pj) \<Rightarrow>
        if action = ''send'' then (case amq_parse_send E pj of Inl _ \<Rightarrow> [] | Inr ms \<Rightarrow> ms)
        else if action = ''request'' then
          (case de_amq_request E pj of
             Inl _ \<Rightarrow> []
           | Inr raw \<Rightarrow> [\<lparr>aqg_key = arq_subject (amq_fill_request raw), aqg_payload = arq_payload (amq_fill_request raw)\<rparr>])
        else [])"

text \<open>What became of them: all were delivered if the call succeeded, and else the first few, none at all of a batch over the
  limit.\<close>
definition delivery :: "'w amq_lib \<Rightarrow> amq_config \<Rightarrow> string \<times> string \<Rightarrow> bool \<Rightarrow> amq_message list \<Rightarrow> bool" where
  "delivery E c q success part \<longleftrightarrow>
     prefix part (amq_messages E q) \<and> (success \<longrightarrow> part = amq_messages E q \<and> part \<noteq> []) \<and>
     (fst q = ''send'' \<longrightarrow> part \<noteq> [] \<longrightarrow> length (amq_messages E q) \<le> aqc_max_batch c)"

lemma amq_publish_each_delivers:
  assumes pub: "\<And>m w x w1. publish m w = (x, w1) \<Longrightarrow> log w1 = log w @ [m] \<or> \<not> is_ok x \<and> log w1 = log w"
    and run: "amq_publish_each publish what n ms w = (r, w')"
  shows "\<exists>part. log w' = log w @ part \<and> prefix part ms \<and> (is_ok r \<longrightarrow> part = ms)"
  using run
proof (induction ms arbitrary: n w)
  case Nil
  then show ?case by simp
next
  case (Cons m ms)
  obtain x w1 where p: "publish m w = (x, w1)" by (metis surj_pair)
  show ?case
  proof (cases x)
    case (Inl err)
    with Cons.prems p have "w' = w1" "r = Inl (amq_fallback (what @ '' publish failed: '' @ err))" by (simp_all add: Let_def)
    with pub [OF p] show ?thesis by (auto intro: exI [of _ "[m]"])
  next
    case (Inr u)
    with Cons.prems p have "amq_publish_each publish what (usize_saturating_add n (length (aqg_payload m))) ms w1 = (r, w')"
      by (simp add: Let_def)
    from Cons.IH [OF this] obtain part where "log w' = log w1 @ part" "prefix part ms" "is_ok r \<longrightarrow> part = ms" by blast
    with pub [OF p] Inr show ?thesis by (intro exI [of _ "m # part"]) auto
  qed
qed

lemma amq_publish_batch_delivers:
  assumes law: "amq_is_queue E log" and run: "amq_publish_batch E c ms w = (r, w')"
  shows "\<exists>part. log w' = log w @ part \<and> prefix part ms \<and> (is_ok r \<longrightarrow> part = ms)"
proof -
  obtain ad w1 where u1: "amq_tls_adaptor E c w = (ad, w1)" by (metis surj_pair)
  have l1: "log w1 = log w" using u1 amq_is_queue_keep(3) [OF law] by (auto simp: amq_tls_adaptor_def split: result_splits if_splits)
  show ?thesis
  proof (cases ad)
    case (Inl e)
    with run u1 l1 show ?thesis by (auto simp: amq_publish_batch_def)
  next
    case (Inr adaptor)
    obtain cn w2 where u2: "aq_open E (amq_open_args c adaptor) w1 = (cn, w2)" by (metis surj_pair)
    note l2 = amq_is_queue_keep(4) [OF law u2]
    show ?thesis
    proof (cases cn)
      case (Inl e)
      with run u1 u2 l1 l2 \<open>ad = _\<close> show ?thesis by (auto simp: amq_publish_batch_def)
    next
      case (Inr connection)
      obtain ch w3 where u3: "aq_open_channel E connection w2 = (ch, w3)" by (metis surj_pair)
      note l3 = amq_is_queue_keep(5) [OF law u3]
      show ?thesis
      proof (cases ch)
        case (Inl e)
        with run u1 u2 u3 l1 l2 l3 \<open>ad = _\<close> \<open>cn = _\<close> show ?thesis by (auto simp: amq_publish_batch_def)
      next
        case (Inr channel)
        obtain y w4 where u4: "amq_publish_each (\<lambda>m. aq_basic_publish E channel (aqg_payload m) (aqc_exchange c) (aqg_key m))
            ''amq'' 0 ms w3 = (y, w4)" by (metis surj_pair)
        from run u1 u2 u3 u4 \<open>ad = _\<close> \<open>cn = _\<close> Inr have "r = y" "log w' = log w4"
          by (auto simp: amq_publish_batch_def split: sum.splits prod.splits
              dest!: amq_is_queue_keep(6) [OF law] amq_is_queue_keep(7) [OF law])
        moreover obtain part where "log w4 = log w3 @ part \<and> prefix part ms \<and> (is_ok y \<longrightarrow> part = ms)"
          using amq_publish_each_delivers [OF _ u4, of log] amq_is_queue_send(1) [OF law] by blast
        ultimately show ?thesis using l1 l2 l3 by auto
      qed
    qed
  qed
qed

lemma nats_publish_delivers:
  assumes law: "amq_is_queue E log" and run: "nats_publish E c ms w = (r, w')"
  shows "\<exists>part. log w' = log w @ part \<and> prefix part ms \<and> (is_ok r \<longrightarrow> part = ms)"
proof -
  obtain x w1 where u1: "nats_connect E c w = (x, w1)" by (metis surj_pair)
  have l1: "log w1 = log w" using u1 amq_is_queue_keep(8) [OF law] by (auto simp: nats_connect_def split: prod.splits)
  show ?thesis
  proof (cases x)
    case (Inl e)
    with run u1 l1 show ?thesis by (auto simp: nats_publish_def)
  next
    case (Inr client)
    obtain y w2 where u2: "amq_publish_each (\<lambda>m. aq_nats_publish E client (aqg_key m) (aqg_payload m)) ''nats'' 0 ms w1 = (y, w2)"
      by (metis surj_pair)
    from run u1 u2 Inr have "is_ok r \<longrightarrow> is_ok y" "log w' = log w2"
      by (auto simp: nats_publish_def split: sum.splits prod.splits dest!: amq_is_queue_keep(9) [OF law])
    moreover obtain part where "log w2 = log w1 @ part \<and> prefix part ms \<and> (is_ok y \<longrightarrow> part = ms)"
      using amq_publish_each_delivers [OF _ u2, of log] amq_is_queue_send(2) [OF law] by blast
    ultimately show ?thesis using l1 by auto
  qed
qed

lemma amq_do_send_delivers:
  assumes law: "amq_is_queue E log" and run: "amq_do_send E c pj w = (r, w')"
  shows "\<exists>part. log w' = log w @ part \<and> delivery E c (''send'', pj) (is_ok r) part"
proof (cases "amq_parse_send E pj")
  case (Inl e)
  with run show ?thesis by (auto simp: amq_do_send_def delivery_def)
next
  case (Inr ms)
  show ?thesis
  proof (cases "ms = [] \<or> aqc_max_batch c < length ms")
    case True
    with run Inr show ?thesis
      by (intro exI [of _ "[]"]) (auto simp: amq_do_send_def delivery_def Let_def split: if_splits)
  next
    case False
    obtain x w1 where u1: "amq_build_runtime E w = (x, w1)" by (metis surj_pair)
    have l1: "log w1 = log w" using u1 amq_is_queue_keep(2) [OF law] by (auto simp: amq_build_runtime_def split: prod.splits)
    show ?thesis
    proof (cases x)
      case (Inl e)
      with run \<open>amq_parse_send E pj = Inr ms\<close> False u1 l1 show ?thesis by (auto simp: amq_do_send_def delivery_def Let_def)
    next
      case (Inr u)
      obtain y w2 where u2: "(case aqc_backend c of Rabbitmq \<Rightarrow> amq_publish_batch E c ms w1 | Nats \<Rightarrow> nats_publish E c ms w1) =
          (y, w2)" by (metis surj_pair)
      from run \<open>amq_parse_send E pj = Inr ms\<close> False u1 u2 Inr have "w' = w2" "is_ok r \<longleftrightarrow> is_ok y"
        by (auto simp: amq_do_send_def Let_def split: sum.splits)
      moreover obtain part where "log w2 = log w1 @ part \<and> prefix part ms \<and> (is_ok y \<longrightarrow> part = ms)"
        using u2 amq_publish_batch_delivers [OF law] nats_publish_delivers [OF law] by (cases "aqc_backend c") fastforce+
      ultimately show ?thesis using \<open>amq_parse_send E pj = Inr ms\<close> False l1
        by (intro exI [of _ part]) (auto simp: delivery_def amq_messages_def)
    qed
  qed
qed

lemma amq_do_request_delivers:
  assumes law: "amq_is_queue E log" and run: "amq_do_request E c pj w = (r, w')"
  shows "\<exists>part. log w' = log w @ part \<and> delivery E c (''request'', pj) (is_ok r) part"
proof (cases "aqc_backend c = Nats \<and> (\<exists>raw. de_amq_request E pj = Inr raw)")
  case False
  with run show ?thesis
    by (intro exI [of _ "[]"]) (cases "de_amq_request E pj"; auto simp: amq_do_request_def delivery_def split: if_splits)
next
  case True
  then obtain raw where raw: "aqc_backend c = Nats" "de_amq_request E pj = Inr raw" by blast
  obtain x w1 where u1: "amq_build_runtime E w = (x, w1)" by (metis surj_pair)
  have l1: "log w1 = log w" using u1 amq_is_queue_keep(2) [OF law] by (auto simp: amq_build_runtime_def split: prod.splits)
  show ?thesis
  proof (cases x)
    case (Inl e)
    with run raw u1 l1 show ?thesis by (auto simp: amq_do_request_def delivery_def Let_def)
  next
    case (Inr u)
    let ?m = "\<lparr>aqg_key = arq_subject (amq_fill_request raw), aqg_payload = arq_payload (amq_fill_request raw)\<rparr>"
    obtain y w2 where u2: "nats_request E c (arq_subject (amq_fill_request raw)) (arq_payload (amq_fill_request raw)) w1 = (y, w2)"
      by (metis surj_pair)
    from run raw u1 u2 Inr have r: "w' = w2" "is_ok r \<longleftrightarrow> is_ok y"
      by (auto simp: amq_do_request_def Let_def split: sum.splits)
    have "log w2 = log w1 @ [?m] \<or> \<not> is_ok y \<and> log w2 = log w1"
      using u2 by (auto simp: nats_request_def nats_connect_def split: sum.splits prod.splits
          dest!: amq_is_queue_keep(8) [OF law] amq_is_queue_send(3) [OF law])
    with r l1 raw show ?thesis
      by (elim disjE) (auto simp: delivery_def amq_messages_def intro: exI [of _ "[?m]"])
  qed
qed

lemma amq_call_delivers:
  assumes law: "amq_is_queue E log" and call: "amq_call E q b w = (r, b', w')"
  shows "\<exists>part. log w' = log w @ part \<and> delivery E (aqp_config b) q (is_ok r) part"
proof -
  obtain action pj where q: "q = (action, pj)" by (cases q)
  from call [unfolded q] obtain start w1 res w2 m where u: "aq_clock E w = (start, w1)"
      "amq_dispatch E (aqp_config b) action pj w1 = (res, w2)"
      "amq_build_metric E action (result_ok res) start w2 = (m, w')" "r = map_ok aqo_json res" by (rule amq_call_unfold)
  have "log w1 = log w" "log w' = log w2"
    using u(1,3) amq_is_queue_keep(1) [OF law] by (auto simp: amq_build_metric_def split: prod.splits)
  moreover have "\<exists>part. log w2 = log w1 @ part \<and> delivery E (aqp_config b) q (is_ok res) part"
    using u(2) amq_do_send_delivers [OF law, of "aqp_config b" pj w1] amq_do_request_delivers [OF law, of "aqp_config b" pj w1] q
    by (auto simp: amq_dispatch_def delivery_def split: if_splits)
  moreover have "is_ok r = is_ok res" using u(4) by (cases res) (simp_all add: is_ok_def)
  ultimately show ?thesis by simp
qed

section \<open>The capability in a session\<close>

text \<open>What the broker gets because of a frame, given the resource that the handshake named.\<close>
definition frame_delivery ::
    "'w amq_lib \<Rightarrow> amq_config option \<Rightarrow> wire_request \<Rightarrow> wire_response \<Rightarrow> amq_message list \<Rightarrow> bool" where
  "frame_delivery E c req response part \<longleftrightarrow>
     (case (req, c) of
        (Call call, Some k) \<Rightarrow>
          if wc_name call = ''amq'' then delivery E k (wc_action call, wc_payload call) (acknowledged response) part else part = []
      | _ \<Rightarrow> part = [])"

definition amq_frame_spec ::
    "'w amq_lib \<Rightarrow> amq_config option \<Rightarrow> amq_message list \<Rightarrow> wire_request \<Rightarrow> wire_response \<Rightarrow> amq_message list \<Rightarrow> bool" where
  "amq_frame_spec E c log req response log' \<longleftrightarrow> (\<exists>part. log' = log @ part \<and> frame_delivery E c req response part)"

text \<open>A task that dies keeps the configuration of the capability and has delivered the first few messages of its own call.\<close>
definition tasks_deliver :: "'w daemon_lib \<Rightarrow> 'w amq_lib \<Rightarrow> ('w \<Rightarrow> amq_message list) \<Rightarrow> bool" where
  "tasks_deliver D E log \<longleftrightarrow>
     (\<forall>call s w e s1 w1. dl_panic D call s w = Some (e, s1, w1) \<longrightarrow>
        map_option aqp_config (bs_amq s1) = map_option aqp_config (bs_amq s) \<and>
        amq_frame_spec E (map_option aqp_config (bs_amq s)) (log w) (Call call) (ProtocolError (''backend task failed: '' @ e)) (log w1))"

lemma set_call_delivers:
  assumes law: "amq_is_queue (fe_amq F) log" and call: "set_call F (''amq'', q) s w = (r, s', w')"
  shows "map_option aqp_config (bs_amq s') = map_option aqp_config (bs_amq s) \<and>
    (\<exists>part. log w' = log w @ part \<and>
      (case bs_amq s of None \<Rightarrow> part = [] | Some b \<Rightarrow> delivery (fe_amq F) (aqp_config b) q (is_ok r) part))"
proof (cases "bs_amq s")
  case None
  with call show ?thesis by (auto simp: set_call_routes call_amq_def)
next
  case (Some b)
  with call obtain x b' where c: "amq_call (fe_amq F) q b w = (x, b', w')" "r = map_err amq_into_resource_error x" "bs_amq s' = Some b'"
    by (auto simp: set_call_routes call_amq_def run_amq_def split: prod.splits)
  have "is_ok r = is_ok x" using c(2) by (cases x) (simp_all add: is_ok_def)
  with amq_call_delivers [OF law c(1)] amq.call_fixed [OF c(1)] Some c(3) show ?thesis by simp
qed

lemma answer_frame_delivers:
  assumes law: "amq_is_queue (fe_amq F) log" "writes_leave_alone D log" "tasks_deliver D (fe_amq F) log"
    and others: "\<And>call. req = Call call \<Longrightarrow> wc_name call = ''amq'' \<or> leaves_alone F log (wc_name call)"
    and ans: "answer_frame D F req s w = (response, s', w')"
  shows "amq_frame_spec (fe_amq F) (map_option aqp_config (bs_amq s)) (log w) req response (log w') \<and>
    map_option aqp_config (bs_amq s') = map_option aqp_config (bs_amq s)"
  using ans law(2)
proof (cases rule: answer_frame_effect)
  case no_call
  then show ?thesis by (auto simp: amq_frame_spec_def frame_delivery_def split: wire_request.split)
next
  case (answered call r w1)
  show ?thesis
  proof (cases "wc_name call = ''amq''")
    case True
    with answered(4) have c: "set_call F (''amq'', wc_action call, wc_payload call) s w = (r, s', w1)" by simp
    from set_call_delivers [OF law(1) c] obtain part where part: "log w1 = log w @ part"
        "case bs_amq s of None \<Rightarrow> part = [] | Some b \<Rightarrow> delivery (fe_amq F) (aqp_config b) (wc_action call, wc_payload call) (is_ok r) part"
        "map_option aqp_config (bs_amq s') = map_option aqp_config (bs_amq s)" by blast
    with answered(1-3) True show ?thesis
      by (cases "bs_amq s") (simp_all add: amq_frame_spec_def frame_delivery_def acknowledged_def)
  next
    case False
    with others [OF answered(1)] answered(4) have "log w1 = log w" unfolding leaves_alone_def by blast
    with False answered set_call_frame(5) [OF answered(4) False] show ?thesis
      by (auto simp: amq_frame_spec_def frame_delivery_def split: option.split)
  qed
next
  case (died call e w1)
  with law(3) show ?thesis unfolding tasks_deliver_def by auto
qed

interpretation amq_frames: simulation "answer_frame D F" "\<lambda>_. log" "amq_frame_spec (fe_amq F) c"
    "\<lambda>req. amq_is_queue (fe_amq F) log \<and> writes_leave_alone D log \<and> tasks_deliver D (fe_amq F) log \<and>
       (\<forall>call. req = Call call \<longrightarrow> wc_name call = ''amq'' \<or> leaves_alone F log (wc_name call))"
    "\<lambda>s. map_option aqp_config (bs_amq s) = c"
  for D :: "'w daemon_lib" and F :: "'w fabric_env" and log :: "'w \<Rightarrow> amq_message list" and c :: "amq_config option"
proof unfold_locales
  fix s req and w :: 'w and response s' w'
  assume s: "map_option aqp_config (bs_amq s) = c"
    and req: "amq_is_queue (fe_amq F) log \<and> writes_leave_alone D log \<and> tasks_deliver D (fe_amq F) log \<and>
       (\<forall>call. req = Call call \<longrightarrow> wc_name call = ''amq'' \<or> leaves_alone F log (wc_name call))"
    and ans: "answer_frame D F req s w = (response, s', w')"
  from answer_frame_delivers [OF _ _ _ _ ans, of log] req s
  show "amq_frame_spec (fe_amq F) c (log w) req response (log w') \<and> map_option aqp_config (bs_amq s') = c" by simp
qed

lemma spec_run_parts:
  assumes "spec_run (amq_frame_spec E c) log reqs out log'"
  shows "\<exists>parts. log' = log @ concat parts \<and> length parts = length out \<and> length reqs = length out \<and>
    (\<forall>i < length out. frame_delivery E c (reqs ! i) (out ! i) (parts ! i))"
  using assms
proof (induction "amq_frame_spec E c" log reqs out log' rule: spec_run.induct)
  case (2 log req reqs response out log')
  then obtain log1 part where log1: "log1 = log @ part" "frame_delivery E c req response part"
      "spec_run (amq_frame_spec E c) log1 reqs out log'"
    by (auto simp: amq_frame_spec_def)
  from "2.hyps" [OF log1(3)] obtain parts where "log' = log1 @ concat parts" "length parts = length out" "length reqs = length out"
      "\<forall>i < length out. frame_delivery E c (reqs ! i) (out ! i) (parts ! i)" by blast
  moreover from this log1(2) have "\<forall>i < length (response # out). frame_delivery E c ((req # reqs) ! i) ((response # out) ! i) ((part # parts) ! i)"
    by (simp add: All_less_Suc2)
  ultimately show ?case using log1(1) by (intro exI [of _ "part # parts"]) simp
qed simp_all

section \<open>Properties\<close>


text \<open>A broker that counts the one message it knows; a \<^verbatim>\<open>send\<close> asks for it twice.\<close>
definition known_message :: amq_message where "known_message = \<lparr>aqg_key = ''jobs'', aqg_payload = ''42''\<rparr>"

definition amq_counter :: "nat amq_lib" where
  "amq_counter = amq_down
     \<lparr>aq_clock := (\<lambda>w. (0, w)), aq_build_runtime := (\<lambda>w. (Inr (), w)), aq_nats_connect := (\<lambda>_ _ w. (Inr 4, w)),
      aq_nats_publish := (\<lambda>_ k body w. if \<lparr>aqg_key = k, aqg_payload = body\<rparr> = known_message then (Inr (), Suc w) else (Inl ''full'', w)),
      aq_nats_flush := (\<lambda>_ w. (Inr (), w)),
      de_amq_send := (\<lambda>_. Inr (Some (replicate 2 \<lparr>arw_key = Some ''jobs'', arw_payload = Some ''42''\<rparr>)))\<rparr>"

definition known_log :: "nat \<Rightarrow> amq_message list" where "known_log n = replicate n known_message"

lemma amq_counter_is_queue: "amq_is_queue amq_counter known_log"
  by (auto simp: amq_is_queue_def amq_counter_def amq_down_def known_log_def replicate_append_same split: if_splits)

lemma amq_counter_send:
  "\<exists>t b' w'. amq_call amq_counter (''send'', pj) (amq_new (amq_config_ref Nats)) w = (Inr t, b', w')"
  by (simp add: amq_call_def amq_dispatch_def amq_do_send_def amq_parse_send_def amq_fill_message_def amq_build_runtime_def
      nats_publish_def nats_connect_def amq_new_def amq_counter_def known_message_def amq_config_ref_def
      amq_default_max_batch_def numeral_2_eq_2 Let_def split: prod.split)


end
