(* ===== verification/Db_Session.thy ===== *)
theory Db_Session
  imports Session_Effects
begin

text \<open>
  What a session makes the database server receive: the handshake of its own connection, and then the statements of its
  own calls, each at most once and in order, over that one connection.  The phases of the connection and the log of the server are
  the abstract state that the request loop is shown to implement, as an interpretation of the locale \<open>simulation\<close>.
\<close>

section \<open>The server\<close>

text \<open>A statement with its parameters apart from its text, or plain SQL.\<close>
datatype db_statement = Prepared string "param_value list" | Plain string

text \<open>A connection asked for, with TLS or without; a statement that came in over a connection.\<close>
datatype db_event = Opened bool pg_config | Received handle db_statement

text \<open>A driver call that sends one thing: the server gets it, or the call fails and it does not.\<close>
definition sends_one :: "('w \<Rightarrow> db_event list) \<Rightarrow> ('r \<Rightarrow> bool) \<Rightarrow> db_event \<Rightarrow> ('w \<Rightarrow> 'r \<times> 'w) \<Rightarrow> bool" where
  "sends_one log succeeded event action \<longleftrightarrow>
     (\<forall>w r w1. action w = (r, w1) \<longrightarrow> log w1 = log w @ [event] \<or> \<not> succeeded r \<and> log w1 = log w)"

definition in_time :: "('e, 'a) result timed \<Rightarrow> bool" where
  "in_time x = (case x of Done r \<Rightarrow> is_ok r | Elapsed \<Rightarrow> False)"

definition database_is_log :: "'w pg_lib \<Rightarrow> ('w \<Rightarrow> db_event list) \<Rightarrow> bool" where
  "database_is_log E log \<longleftrightarrow>
     (\<forall>c. sends_one log is_ok (Opened True c) (pg_connect_tls E c)) \<and>
     (\<forall>c. sends_one log is_ok (Opened False c) (pg_connect_notls E c)) \<and>
     (\<forall>h cmd. sends_one log is_ok (Received h (Plain cmd)) (pg_batch_execute E h cmd)) \<and>
     (\<forall>h sql ps d. sends_one log in_time (Received h (Prepared sql ps)) (pg_query E h sql ps d)) \<and>
     (\<forall>h sql ps d. sends_one log in_time (Received h (Prepared sql ps)) (pg_execute E h sql ps d)) \<and>
     (\<forall>h cmd d. sends_one log in_time (Received h (Plain cmd)) (pg_batch E h cmd d)) \<and>
     (\<forall>w t w1. pg_clock E w = (t, w1) \<longrightarrow> log w1 = log w) \<and>
     (\<forall>h w. log (pg_spawn_connection E h w) = log w) \<and>
     (\<forall>g target w ok w1. breaker_allow E g target w = (ok, w1) \<longrightarrow> log w1 = log w) \<and>
     (\<forall>g target ok w. log (breaker_record E g target ok w) = log w)"

lemma sends_oneD:
  "sends_one log succeeded event action \<Longrightarrow> action w = (r, w1) \<Longrightarrow>
     log w1 = log w @ [event] \<or> \<not> succeeded r \<and> log w1 = log w"
  unfolding sends_one_def by blast

lemma database_is_logD:
  assumes "database_is_log E log"
  shows "sends_one log is_ok (Opened ssl c) ((if ssl then pg_connect_tls E else pg_connect_notls E) c)"
    "sends_one log is_ok (Received h (Plain cmd)) (pg_batch_execute E h cmd)"
    "sends_one log in_time (Received h (Prepared sql ps)) (pg_query E h sql ps d)"
    "sends_one log in_time (Received h (Prepared sql ps)) (pg_execute E h sql ps d)"
    "sends_one log in_time (Received h (Plain cmd)) (pg_batch E h cmd d)"
    "pg_clock E w = (t, w1) \<Longrightarrow> log w1 = log w"
    "log (pg_spawn_connection E h w) = log w"
    "breaker_allow E g target w = (ok, w1) \<Longrightarrow> log w1 = log w"
    "log (breaker_record E g target ok w) = log w"
  using assms unfolding database_is_log_def by (cases ssl; simp)+

section \<open>One call\<close>

text \<open>The statement of a call: its own SQL with its own parameters, or one of the three fixed commands.\<close>
definition client_statement :: "'w fabric_env \<Rightarrow> string \<times> string \<Rightarrow> db_statement option" where
  "client_statement F q =
     (case parse_db_payload F (snd q) of
        Inl _ \<Rightarrow> None
      | Inr args \<Rightarrow>
          if fst q \<in> {''query'', ''execute''} then
            (case parse_params (pg_json (fe_pg F)) (da_params_json args) of
               Inl _ \<Rightarrow> None
             | Inr ps \<Rightarrow> Some (Prepared (da_sql args) ps))
          else if fst q = ''begin'' then Some (Plain ''BEGIN'')
          else if fst q = ''commit'' then Some (Plain ''COMMIT'')
          else if fst q = ''rollback'' then Some (Plain ''ROLLBACK'')
          else None)"

text \<open>What the server receives over the connection because of a call: at most its statement, and that when it succeeds.\<close>
definition sql_part :: "db_statement option \<Rightarrow> handle \<Rightarrow> bool \<Rightarrow> db_event list \<Rightarrow> bool" where
  "sql_part stmt h ok part \<longleftrightarrow>
     (case stmt of
        None \<Rightarrow> part = [] \<and> \<not> ok
      | Some s \<Rightarrow> part = [Received h s] \<or> part = [] \<and> \<not> ok)"

lemma sql_part_simps [simp]:
  "sql_part None h ok part \<longleftrightarrow> part = [] \<and> \<not> ok"
  "sql_part (Some s) h ok part \<longleftrightarrow> part = [Received h s] \<or> part = [] \<and> \<not> ok"
  "sql_part stmt h False []"
  by (simp_all add: sql_part_def split: option.split)

lemma block_on_db_log:
  assumes law: "database_is_log E log" and fut: "\<And>d. sends_one log in_time event (fut d)"
    and run: "block_on_db E call fut w = (r, w')"
  shows "log w' = log w @ [event] \<or> \<not> is_ok r \<and> log w' = log w"
proof -
  obtain t w1 where t: "pg_clock E w = (t, w1)" by (metis surj_pair)
  obtain x where x: "fut (saturating_duration_since (dcc_deadline call) t) w1 = (x, w')" "is_ok r \<longleftrightarrow> in_time x"
    using run by (auto simp: block_on_db_def Let_def t in_time_def is_ok_def split: prod.splits timed.splits sum.splits)
  from sends_oneD [OF fut x(1)] x(2) database_is_logD(6) [OF law t] show ?thesis by simp
qed

lemma db_dispatch_log:
  assumes law: "database_is_log (fe_pg F) log" and args: "parse_db_payload F pj = Inr args"
    and op: "db_dispatch (fe_pg F) call action (da_sql args) (da_params_json args) n w = (r, w')"
  shows "\<exists>part. log w' = log w @ part \<and> sql_part (client_statement F (action, pj)) (dcc_client call) (is_ok r) part"
proof -
  note laws = block_on_db_log [OF law database_is_logD(3) [OF law]] block_on_db_log [OF law database_is_logD(4) [OF law]]
    block_on_db_log [OF law database_is_logD(5) [OF law]]
  from op show ?thesis
    by (auto simp: db_dispatch_def db_do_query_def db_do_execute_def db_do_simple_def client_statement_def args is_ok_def map_err_def
        split: if_splits result_splits dest!: laws)
qed

lemma run_db_log:
  assumes law: "database_is_log (fe_pg F) log" and run: "run_db F q b w = (r, b', w')"
  shows "db_client b' = db_client b \<and>
    (\<exists>part. log w' = log w @ part \<and> sql_part (client_statement F q) (db_client b) (is_ok r) part)"
proof (cases "parse_db_payload F (snd q)")
  case (Inl e)
  with run show ?thesis by (auto simp: run_db_def client_statement_def is_ok_def)
next
  case (Inr args)
  with run obtain x where c: "db_call (fe_pg F) (fst q, da_sql args, da_params_json args) b w = (x, b', w')"
      "r = map_err db_into_resource_error x"
    by (auto simp: run_db_def split: prod.splits)
  from c(1) obtain start w1 w2 m where u: "pg_clock (fe_pg F) w = (start, w1)"
      "db_dispatch (fe_pg F) \<lparr>dcc_client = db_client b, dcc_deadline = db_deadline b\<rparr> (fst q) (da_sql args) (da_params_json args)
         (db_max_rows b) w1 = (x, w2)"
      "db_build_metric (fe_pg F) (fst q) x start w2 = (m, w')" "b' = b\<lparr>db_history := db_history b @ [m]\<rparr>"
    by (rule db_call_unfold)
  have "log w1 = log w" "log w' = log w2"
    using database_is_logD(6) [OF law] u(1,3) by (auto simp: db_build_metric_def split: prod.splits)
  moreover have "is_ok r = is_ok x" using c(2) by (cases x) (simp_all add: is_ok_def)
  ultimately show ?thesis using db_dispatch_log [OF law Inr u(2)] u(4) by simp
qed

section \<open>Connecting\<close>

text \<open>The handshake of a connection: it is opened as the resource says, and the statement timeout comes first.\<close>
definition db_opening :: "db_config \<Rightarrow> handle \<Rightarrow> db_event list" where
  "db_opening c h = [Opened (dbc_ssl c) (db_pg_config c), Received h (Plain (db_statement_timeout_cmd c))]"

lemma db_connect_raw_log:
  assumes law: "database_is_log E log" and run: "db_connect_raw E c w = (r, w')"
  shows "\<exists>part h. log w' = log w @ part \<and> prefix part (db_opening c h) \<and> (\<forall>client. r = Inr client \<longrightarrow> part = db_opening c client)"
proof -
  obtain x w1 where x: "(if dbc_ssl c then pg_connect_tls E else pg_connect_notls E) (db_pg_config c) w = (x, w1)" by (metis surj_pair)
  note opened = sends_oneD [OF database_is_logD(1) [OF law] x]
  show ?thesis
  proof (cases x)
    case (Inl e)
    with run x opened show ?thesis by (auto simp: db_connect_raw_def db_opening_def)
  next
    case (Inr p)
    obtain client connection where p: "p = (client, connection)" by (cases p)
    obtain y where y: "pg_batch_execute E client (db_statement_timeout_cmd c) (pg_spawn_connection E connection w1) = (y, w')"
        "r = (case y of Inl e \<Rightarrow> Inl e | Inr _ \<Rightarrow> Inr client)"
      using run by (auto simp: db_connect_raw_def x Inr p Let_def split: prod.splits sum.splits)
    from opened Inr have "log w1 = log w @ [Opened (dbc_ssl c) (db_pg_config c)]" by (simp add: is_ok_def)
    with sends_oneD [OF database_is_logD(2) [OF law] y(1)] database_is_logD(7) [OF law] y(2) show ?thesis
      by (intro exI [of _ "drop (length (log w)) (log w')"] exI [of _ client])
        (auto simp: db_opening_def is_ok_def split: sum.splits)
  qed
qed

lemma deadline_after_log:
  "database_is_log E log \<Longrightarrow> deadline_after (pg_clock E) d w = (t, w') \<Longrightarrow> log w' = log w"
  by (auto simp: deadline_after_def database_is_logD(6) split: prod.splits option.splits)

lemma db_slot_connect_log:
  assumes law: "database_is_log (fe_pg F) log" and run: "db_slot_connect F (c, deps) w = (r, w')"
  shows "\<exists>part h. log w' = log w @ part \<and> prefix part (db_opening c h) \<and> (\<forall>b. r = Inr b \<longrightarrow> part = db_opening c (db_client b))"
proof -
  let ?E = "fe_pg F"
  obtain x w1 where x: "connect_through_breaker ?E c (ad_breaker deps) w = (x, w1)" by (metis surj_pair)
  have "\<exists>part h. log w1 = log w @ part \<and> prefix part (db_opening c h) \<and> (\<forall>client. x = Inr client \<longrightarrow> part = db_opening c client)"
  proof (cases "ad_breaker deps")
    case None
    with x obtain y where "db_connect_raw ?E c w = (y, w1)" "x = map_err ConnectFailed y"
      by (auto simp: connect_through_breaker_def split: prod.splits)
    with db_connect_raw_log [OF law this(1)] show ?thesis by (auto simp: map_err_Inr_iff)
  next
    case (Some g)
    obtain ok v where v: "breaker_allow ?E g (db_breaker_target c) w = (ok, v)" by (metis surj_pair)
    obtain y u where u: "db_connect_raw ?E c v = (y, u)" by (metis surj_pair)
    have "log v = log w" by (rule database_is_logD(8) [OF law v])
    with db_connect_raw_log [OF law u] x Some v u database_is_logD(9) [OF law] show ?thesis
      by (cases ok) (auto simp: connect_through_breaker_def map_err_Inr_iff)
  qed
  moreover have "log w' = log w1 \<and> (\<forall>b. r = Inr b \<longrightarrow> x = Inr (db_client b))"
    using run deadline_after_log [OF law]
    by (auto simp: db_slot_connect_def db_connect_resource_def db_connect_def x map_err_Inr_iff split: result_splits)
  ultimately show ?thesis by metis
qed

section \<open>The connection of a session\<close>

datatype db_phase = Untried | Unavailable | Connected handle

definition db_phase_of :: "backend_set \<Rightarrow> db_phase" where
  "db_phase_of s =
     (case bs_db s of
        None \<Rightarrow> Unavailable
      | Some sl \<Rightarrow> (case slot_cell sl of None \<Rightarrow> Untried | Some (Inl _) \<Rightarrow> Unavailable | Some (Inr b) \<Rightarrow> Connected (db_client b)))"

definition db_config_of :: "backend_set \<Rightarrow> db_config option" where
  "db_config_of s = map_option (\<lambda>sl. fst (slot_config sl)) (bs_db s)"

definition is_protocol_error :: "wire_response \<Rightarrow> bool" where
  "is_protocol_error response = (case response of ProtocolError _ \<Rightarrow> True | _ \<Rightarrow> False)"

text \<open>An attempt to connect: it ends in a connection after its whole handshake, in the failure that the session remembers, or, when
  the task dies, in no outcome.\<close>
definition db_attempt :: "db_config option \<Rightarrow> db_phase \<Rightarrow> wire_response \<Rightarrow> db_event list \<Rightarrow> db_phase \<Rightarrow> bool" where
  "db_attempt c ph response events ph' \<longleftrightarrow>
     ph = Untried \<and> (\<exists>k h. c = Some k \<and> prefix events (db_opening k h) \<and>
       (case ph' of
          Untried \<Rightarrow> is_protocol_error response
        | Unavailable \<Rightarrow> True
        | Connected client \<Rightarrow> events = db_opening k client))"

text \<open>What the server receives over the connection \<open>h\<close> because of a frame.\<close>
definition frame_sql :: "'w fabric_env \<Rightarrow> handle \<Rightarrow> wire_request \<Rightarrow> wire_response \<Rightarrow> db_event list \<Rightarrow> bool" where
  "frame_sql F h req response part \<longleftrightarrow>
     (case req of
        Call call \<Rightarrow>
          if wc_name call = ''db'' then sql_part (client_statement F (wc_action call, wc_payload call)) h (acknowledged response) part
          else part = []
      | _ \<Rightarrow> part = [])"

definition db_frame_spec ::
    "'w fabric_env \<Rightarrow> db_config option \<Rightarrow> db_phase \<times> db_event list \<Rightarrow> wire_request \<Rightarrow> wire_response \<Rightarrow>
     db_phase \<times> db_event list \<Rightarrow> bool" where
  "db_frame_spec F c st req response st' \<longleftrightarrow>
     (\<exists>events part. snd st' = snd st @ events @ part \<and>
        (fst st' = fst st \<and> events = [] \<or> db_attempt c (fst st) response events (fst st')) \<and>
        (case fst st' of
           Connected h \<Rightarrow> frame_sql F h req response part
         | _ \<Rightarrow> part = [] \<and> (\<forall>h. frame_sql F h req response [])))"

lemma db_frame_specI:
  assumes "log' = log @ events @ part" "ph' = ph \<and> events = [] \<or> db_attempt c ph response events ph'"
    "\<And>h. ph' = Connected h \<Longrightarrow> frame_sql F h req response part"
    "\<And>h. (\<forall>h'. ph' \<noteq> Connected h') \<Longrightarrow> part = [] \<and> frame_sql F h req response []"
  shows "db_frame_spec F c (ph, log) req response (ph', log')"
  using assms unfolding db_frame_spec_def
  by (intro exI [of _ events] exI [of _ part]) (auto split: db_phase.split)

text \<open>A frame that does nothing to the database of the session.\<close>
lemma db_frame_idle: "(\<And>h. frame_sql F h req response []) \<Longrightarrow> db_frame_spec F c (ph, log) req response (ph, log)"
  by (rule db_frame_specI [of _ _ "[]" "[]"]) simp_all

text \<open>A task that dies leaves its call cut off somewhere.\<close>
definition tasks_query :: "'w daemon_lib \<Rightarrow> 'w fabric_env \<Rightarrow> ('w \<Rightarrow> db_event list) \<Rightarrow> bool" where
  "tasks_query D F log \<longleftrightarrow>
     (\<forall>call s w e s1 w1. dl_panic D call s w = Some (e, s1, w1) \<longrightarrow>
        db_config_of s1 = db_config_of s \<and>
        db_frame_spec F (db_config_of s) (db_phase_of s, log w) (Call call) (ProtocolError (''backend task failed: '' @ e))
          (db_phase_of s1, log w1))"

lemma set_call_db_spec:
  assumes law: "database_is_log (fe_pg F) log" and call: "set_call F (''db'', q) s w = (r, s', w')"
    and req: "req = Call call'" "wc_name call' = ''db''" "(wc_action call', wc_payload call') = q"
  shows "db_config_of s' = db_config_of s \<and>
    db_frame_spec F (db_config_of s) (db_phase_of s, log w) req (Reply r) (db_phase_of s', log w')"
proof -
  have fr: "frame_sql F h req (Reply r) part \<longleftrightarrow> sql_part (client_statement F q) h (is_ok r) part" for h part
    using req by (simp add: frame_sql_def acknowledged_def)
  show ?thesis
  proof (cases "bs_db s")
    case None
    with call have "s' = s" "w' = w" "\<not> is_ok r" by (auto simp: set_call_routes call_db_def lazy_call_def is_ok_def)
    then show ?thesis by (auto simp: fr intro!: db_frame_idle)
  next
    case (Some sl)
    obtain c deps where c: "slot_config sl = (c, deps)" by (metis surj_pair)
    from Some call obtain sl' where sl': "slot_call (db_slot_connect F) (run_db F) q sl w = (r, sl', w')" "s' = s\<lparr>bs_db := Some sl'\<rparr>"
      by (auto simp: set_call_routes call_db_def lazy_call_def split: prod.splits)
    obtain y sl1 w1 where y: "slot_backend (db_slot_connect F) sl w = (y, sl1, w1)" by (metis prod_cases3)
    have cfg: "slot_config sl1 = slot_config sl" "slot_cell sl1 = Some y"
      using y by (auto simp: slot_backend_def split: option.splits prod.splits)
    have "\<exists>events. log w1 = log w @ events \<and>
        (db_phase_of (s\<lparr>bs_db := Some sl1\<rparr>) = db_phase_of s \<and> events = [] \<or>
         db_attempt (Some c) (db_phase_of s) (Reply r) events (db_phase_of (s\<lparr>bs_db := Some sl1\<rparr>)))"
    proof (cases "slot_cell sl")
      case None
      with y c have "db_slot_connect F (c, deps) w = (y, w1)" by (auto simp: slot_backend_def split: prod.splits)
      from db_slot_connect_log [OF law this] None Some cfg(2) show ?thesis
        by (cases y) (fastforce simp: db_attempt_def db_phase_of_def)+
    next
      case (Some z)
      with y \<open>bs_db s = Some sl\<close> show ?thesis by (auto simp: slot_backend_def db_phase_of_def)
    qed
    then obtain events where events: "log w1 = log w @ events"
        "db_phase_of (s\<lparr>bs_db := Some sl1\<rparr>) = db_phase_of s \<and> events = [] \<or>
         db_attempt (Some c) (db_phase_of s) (Reply r) events (db_phase_of (s\<lparr>bs_db := Some sl1\<rparr>))" by blast
    show ?thesis
    proof (cases y)
      case (Inl e)
      with sl'(1) y have "r = Inl e" "sl' = sl1" "w' = w1" by (simp_all add: slot_call_def)
      then have ph: "db_phase_of s' = Unavailable" "s' = s\<lparr>bs_db := Some sl1\<rparr>" "\<not> is_ok r"
        using sl'(2) cfg(2) Inl by (simp_all add: db_phase_of_def is_ok_def)
      have "db_frame_spec F (Some c) (db_phase_of s, log w) req (Reply r) (db_phase_of s', log w')"
        by (rule db_frame_specI [of _ _ events "[]"]) (use events ph \<open>w' = w1\<close> in \<open>simp_all add: fr\<close>)
      with ph(2) cfg(1) Some c show ?thesis by (simp add: db_config_of_def)
    next
      case (Inr b)
      with sl'(1) y obtain b' where b': "run_db F q b w1 = (r, b', w')" "sl' = sl1\<lparr>slot_cell := Some (Inr b')\<rparr>"
        by (auto simp: slot_call_def split: prod.splits)
      from run_db_log [OF law b'(1)] obtain part where part: "db_client b' = db_client b" "log w' = log w1 @ part"
        "sql_part (client_statement F q) (db_client b) (is_ok r) part" by blast
      have ph: "db_phase_of s' = Connected (db_client b)" "db_phase_of (s\<lparr>bs_db := Some sl1\<rparr>) = Connected (db_client b)"
        using sl'(2) b'(2) part(1) cfg(2) Inr by (simp_all add: db_phase_of_def)
      have "db_frame_spec F (Some c) (db_phase_of s, log w) req (Reply r) (db_phase_of s', log w')"
        by (rule db_frame_specI [of _ _ events part]) (use events part ph in \<open>simp_all add: fr\<close>)
      with sl'(2) b'(2) cfg(1) Some c show ?thesis by (simp add: db_config_of_def)
    qed
  qed
qed

lemma answer_frame_db:
  assumes law: "database_is_log (fe_pg F) log" "writes_leave_alone D log" "tasks_query D F log"
    and others: "\<And>call. req = Call call \<Longrightarrow> wc_name call = ''db'' \<or> leaves_alone F log (wc_name call)"
    and ans: "answer_frame D F req s w = (response, s', w')"
  shows "db_config_of s' = db_config_of s \<and>
    db_frame_spec F (db_config_of s) (db_phase_of s, log w) req response (db_phase_of s', log w')"
  using ans law(2)
proof (cases rule: answer_frame_effect)
  case no_call
  then show ?thesis by (auto intro!: db_frame_idle simp: frame_sql_def split: wire_request.split)
next
  case (answered call r w1)
  show ?thesis
  proof (cases "wc_name call = ''db''")
    case True
    with answered(4) have "set_call F (''db'', wc_action call, wc_payload call) s w = (r, s', w1)" by simp
    from set_call_db_spec [OF law(1) this answered(1) True refl] answered(2,3) show ?thesis by simp
  next
    case False
    with others [OF answered(1)] answered(4) have "log w1 = log w" unfolding leaves_alone_def by blast
    moreover have "bs_db s' = bs_db s" by (rule set_call_frame(1) [OF answered(4) False])
    ultimately show ?thesis using False answered(1,3)
      by (auto simp: db_phase_of_def db_config_of_def frame_sql_def intro!: db_frame_idle)
  qed
next
  case (died call e w1)
  with law(3) show ?thesis unfolding tasks_query_def by simp
qed

interpretation db_frames: simulation "answer_frame D F" "\<lambda>s w. (db_phase_of s, log w)" "db_frame_spec F c"
    "\<lambda>req. database_is_log (fe_pg F) log \<and> writes_leave_alone D log \<and> tasks_query D F log \<and>
       (\<forall>call. req = Call call \<longrightarrow> wc_name call = ''db'' \<or> leaves_alone F log (wc_name call))"
    "\<lambda>s. db_config_of s = c"
  for D :: "'w daemon_lib" and F :: "'w fabric_env" and log :: "'w \<Rightarrow> db_event list" and c :: "db_config option"
proof unfold_locales
  fix s req and w :: 'w and response s' w'
  assume s: "db_config_of s = c"
    and req: "database_is_log (fe_pg F) log \<and> writes_leave_alone D log \<and> tasks_query D F log \<and>
       (\<forall>call. req = Call call \<longrightarrow> wc_name call = ''db'' \<or> leaves_alone F log (wc_name call))"
    and ans: "answer_frame D F req s w = (response, s', w')"
  from answer_frame_db [OF _ _ _ _ ans, of log] req s
  show "db_frame_spec F c (db_phase_of s, log w) req response (db_phase_of s', log w') \<and> db_config_of s' = c" by simp
qed

text \<open>The attempts of a session to connect, and the connection that its statements go over.\<close>
definition db_attempts :: "db_config option \<Rightarrow> db_phase \<Rightarrow> handle \<Rightarrow> db_event list list \<Rightarrow> bool \<Rightarrow> nat \<Rightarrow> bool" where
  "db_attempts c ph h openings used deaths \<longleftrightarrow>
     (\<forall>o' \<in> set openings. \<exists>k h'. c = Some k \<and> prefix o' (db_opening k h')) \<and>
     (case ph of
        Untried \<Rightarrow> length openings \<le> Suc deaths \<and>
          (used \<longrightarrow> openings \<noteq> [] \<and> (\<exists>k. c = Some k \<and> last openings = db_opening k h))
      | Unavailable \<Rightarrow> openings = [] \<and> \<not> used
      | Connected client \<Rightarrow> openings = [] \<and> h = client)"

lemma db_spec_run:
  assumes "spec_run (db_frame_spec F c) st reqs out st'"
  shows "\<exists>h openings parts. snd st' = snd st @ concat openings @ concat parts \<and>
    length parts = length out \<and> length reqs = length out \<and>
    (\<forall>i < length out. frame_sql F h (reqs ! i) (out ! i) (parts ! i)) \<and>
    db_attempts c (fst st) h openings (concat parts \<noteq> []) (length (filter is_protocol_error out))"
  using assms
proof (induction "db_frame_spec F c" st reqs out st' rule: spec_run.induct)
  case (1 st st')
  then show ?case
    by (intro exI [of _ "case fst st of Connected h \<Rightarrow> h | _ \<Rightarrow> undefined"] exI [of _ "[]"])
      (auto simp: db_attempts_def split: db_phase.split)
next
  case (2 st req reqs response out st')
  then obtain st1 events part where st1: "snd st1 = snd st @ events @ part"
      "fst st1 = fst st \<and> events = [] \<or> db_attempt c (fst st) response events (fst st1)"
      "case fst st1 of Connected h \<Rightarrow> frame_sql F h req response part | _ \<Rightarrow> part = [] \<and> (\<forall>h. frame_sql F h req response [])"
      "spec_run (db_frame_spec F c) st1 reqs out st'"
    unfolding spec_run.simps db_frame_spec_def by blast
  from "2.hyps" [OF st1(4)] obtain h openings parts where ih: "snd st' = snd st1 @ concat openings @ concat parts"
      "length parts = length out" "length reqs = length out"
      "\<forall>i < length out. frame_sql F h (reqs ! i) (out ! i) (parts ! i)"
      "db_attempts c (fst st1) h openings (concat parts \<noteq> []) (length (filter is_protocol_error out))" by blast
  have fr: "frame_sql F h req response part"
    using st1(3) ih(5) by (auto simp: db_attempts_def split: db_phase.splits)
  have all: "\<forall>i < length (response # out). frame_sql F h ((req # reqs) ! i) ((response # out) ! i) ((part # parts) ! i)"
    using fr ih(4) by (simp add: All_less_Suc2)
  let ?openings = "if fst st1 = fst st \<and> events = [] then openings else events # openings"
  have "snd st' = snd st @ concat ?openings @ concat (part # parts)"
    using st1(1,3) ih(1,5) st1(2) by (auto simp: db_attempts_def split: db_phase.splits)
  moreover have "db_attempts c (fst st) h ?openings (concat (part # parts) \<noteq> []) (length (filter is_protocol_error (response # out)))"
    using st1(2,3) ih(5) by (auto simp: db_attempts_def db_attempt_def split: db_phase.splits)
  ultimately show ?case using all ih(2,3) by (intro exI [of _ h] exI [of _ ?openings] exI [of _ "part # parts"]) simp
qed simp_all

section \<open>Properties\<close>

text \<open>C23: the database server receives the client's own statements and nothing else.  What a session sends to it is, first, the
  handshake of the connection that the resource describes (TLS or not, credentials, then the statement timeout within the operator's
  ceiling), with a new attempt only after a task died; and then, over the one connection of the session, for each call in the order of
  the frames at most its own statement: the SQL text exactly as the client wrote it, with its parameters bound apart from the text,
  or the fixed command of its action.  A call answered with success was received exactly once, no statement is received
  before the handshake is complete, and other frames send nothing.\<close>
theorem session_sql_is_clients_own:
  assumes law: "database_is_log (fe_pg F) log" "writes_leave_alone D log" "tasks_query D F log"
    and others: "\<forall>call. Inr (Call call) \<in> set rest \<longrightarrow> wc_name call = ''db'' \<or> leaves_alone F log (wc_name call)"
    and R: "resolve (sh_table sh) init = Inr R"
    and run: "serve D F L a sh (Inr (Init init) # rest) w = (r, Ack # out, sh', w')"
  shows "\<exists>reqs h openings parts. take (length out) rest = map Inr reqs \<and> length reqs = length out \<and> length parts = length out \<and>
    log w' = log w @ concat openings @ concat parts \<and>
    (\<forall>i < length out. frame_sql F h (reqs ! i) (out ! i) (parts ! i)) \<and>
    (\<forall>opening \<in> set openings. \<exists>c h'. rc_db (clamp_db_statement_timeout (sh_max_statement_timeout_ms sh) R) = Some c \<and>
       prefix opening (db_opening c h')) \<and>
    length openings \<le> Suc (length (filter is_protocol_error out)) \<and>
    (concat parts \<noteq> [] \<longrightarrow> openings \<noteq> [] \<and>
       (\<exists>c. rc_db (clamp_db_statement_timeout (sh_max_statement_timeout_ms sh) R) = Some c \<and> last openings = db_opening c h))"
  using run R
proof (rule serve_accepted_run)
  fix x w1 reqs s'
  let ?R = "clamp_db_statement_timeout (sh_max_statement_timeout_ms sh) R"
  let ?s = "from_configs ?R \<lparr>ad_breaker = sh_breaker sh, ad_timeout = duration_from_millis (wi_timeout_ms init)\<rparr>"
  assume w1: "dl_write D Ack w = (x, w1)" and reqs: "take (length out) rest = map Inr reqs"
    and rc: "run_calls (answer_frame D F) reqs ?s w1 = (out, s', w')"
  from others law answered_frames [OF reqs] have served: "list_all (\<lambda>req. database_is_log (fe_pg F) log \<and> writes_leave_alone D log \<and>
      tasks_query D F log \<and> (\<forall>call. req = Call call \<longrightarrow> wc_name call = ''db'' \<or> leaves_alone F log (wc_name call))) reqs"
    by (auto simp: list_all_iff)
  have start: "db_config_of ?s = rc_db ?R" "db_phase_of ?s = (case rc_db ?R of None \<Rightarrow> Unavailable | Some _ \<Rightarrow> Untried)"
    by (auto simp: db_config_of_def db_phase_of_def from_configs_slots option.map_comp comp_def option.map_ident split: option.split)
  have "log w1 = log w" using w1 law(2) unfolding writes_leave_alone_def by blast
  with db_spec_run [OF db_frames.run_simulated [OF rc served start(1)]] obtain h openings parts where
    run: "log w' = log w @ concat openings @ concat parts" "length parts = length out" "length reqs = length out"
      "\<forall>i < length out. frame_sql F h (reqs ! i) (out ! i) (parts ! i)"
    and att: "db_attempts (rc_db ?R) (db_phase_of ?s) h openings (concat parts \<noteq> []) (length (filter is_protocol_error out))"
    by auto
  have "(\<forall>opening \<in> set openings. \<exists>c h'. rc_db ?R = Some c \<and> prefix opening (db_opening c h')) \<and>
      length openings \<le> Suc (length (filter is_protocol_error out)) \<and>
      (concat parts \<noteq> [] \<longrightarrow> openings \<noteq> [] \<and> (\<exists>c. rc_db ?R = Some c \<and> last openings = db_opening c h))"
    using att by (cases "rc_db ?R") (simp_all add: db_attempts_def start(2))
  with run reqs show ?thesis by blast
qed

text \<open>A server that lets exactly one conversation happen; the world counts its events.\<close>
definition known_events :: "db_event list" where
  "known_events = db_opening db_config_ref 1 @ [Received 1 (Prepared ''SELECT'' [])]"

definition known_events_log :: "nat \<Rightarrow> db_event list" where "known_events_log n = take n known_events"

definition in_turn :: "db_event \<Rightarrow> 'a \<Rightarrow> nat \<Rightarrow> (pg_error, 'a) result \<times> nat" where
  "in_turn event x n =
     (if n < length known_events \<and> known_events ! n = event then (Inr x, Suc n) else (Inl \<lparr>pge_code = None, pge_text = ''no''\<rparr>, n))"

definition timed_in_turn :: "db_event \<Rightarrow> 'a \<Rightarrow> nat \<Rightarrow> (pg_error, 'a) result timed \<times> nat" where
  "timed_in_turn event x n = (case in_turn event x n of (r, n1) \<Rightarrow> (Done r, n1))"

definition pg_scripted :: "nat pg_lib" where
  "pg_scripted = pg_ref
     \<lparr>pg_clock := (\<lambda>w. (0, w)), pg_connect_tls := (\<lambda>c. in_turn (Opened True c) (1, 2)),
      pg_connect_notls := (\<lambda>c. in_turn (Opened False c) (1, 2)),
      pg_batch_execute := (\<lambda>h cmd. in_turn (Received h (Plain cmd)) ()),
      pg_query := (\<lambda>h sql ps d. timed_in_turn (Received h (Prepared sql ps)) []),
      pg_execute := (\<lambda>h sql ps d. timed_in_turn (Received h (Prepared sql ps)) 0),
      pg_batch := (\<lambda>h cmd d. timed_in_turn (Received h (Plain cmd)) ()), breaker_record := (\<lambda>_ _ _ w. w)\<rparr>"

lemma in_turn_sends_one:
  "sends_one known_events_log is_ok event (in_turn event x)" "sends_one known_events_log in_time event (timed_in_turn event x)"
  by (auto simp: sends_one_def in_turn_def timed_in_turn_def known_events_log_def take_Suc_conv_app_nth is_ok_def in_time_def
      split: if_splits)

lemma pg_scripted_is_log: "database_is_log pg_scripted known_events_log"
  by (simp add: database_is_log_def pg_scripted_def pg_ref_def in_turn_sends_one)

abbreviation fabric_scripted :: "nat fabric_env" where "fabric_scripted \<equiv> fabric_ref\<lparr>fe_pg := pg_scripted\<rparr>"

lemma scripted_connect:
  "db_slot_connect fabric_scripted (db_config_ref, \<lparr>ad_breaker = None, ad_timeout = t\<rparr>) 0 =
     (Inr \<lparr>db_client = 1, db_deadline = fst (deadline_after (pg_clock pg_scripted) t 0), db_max_rows = db_default_max_rows, db_history = []\<rparr>, 2)"
  by (simp add: db_slot_connect_def db_connect_resource_def db_connect_def connect_through_breaker_def db_connect_raw_def
      pg_scripted_def pg_ref_def in_turn_def known_events_def db_opening_def deadline_after_def Let_def
      db_config_ref_def split: option.split)

lemma scripted_query:
  "db_client b = 1 \<Longrightarrow> \<exists>b'. run_db fabric_scripted (''query'', ''SELECT'') b 2 = (Inr ''json'', b', 3)"
  by (simp add: run_db_def parse_db_payload_def fabric_ref_def db_call_def db_dispatch_def db_do_query_def parse_params_def
      pg_scripted_def pg_ref_def json_ref_def block_on_db_def timed_in_turn_def in_turn_def known_events_def db_opening_def
      db_build_metric_def Let_def split: prod.split)

theorem session_sql_is_clients_own_witness:
  "\<exists>sh' w'. serve (daemon_ref\<lparr>dl_write := (\<lambda>_ w. (Inr (), w))\<rparr>) fabric_scripted jwks_down static_ref shared_ref
       [Inr (Init (init_none\<lparr>wi_db := Some ''global'', wi_token := Some ''old''\<rparr>)),
        Inr (Call \<lparr>wc_name = ''db'', wc_action = ''query'', wc_payload = ''SELECT''\<rparr>)] 0 =
     (Inr (), [Ack, Reply (Inr ''json'')], sh', w') \<and>
     (\<exists>openings h. known_events_log w' = concat openings @ [Received h (Prepared ''SELECT'' [])] \<and>
        last openings = db_opening db_config_ref h)"
proof -
  let ?D = "daemon_ref\<lparr>dl_write := (\<lambda>_ w. (Inr (), w))\<rparr>" and ?i = "init_none\<lparr>wi_db := Some ''global'', wi_token := Some ''old''\<rparr>"
  let ?c = "\<lparr>wc_name = ''db'', wc_action = ''query'', wc_payload = ''SELECT''\<rparr>"
  have a: "authenticate (fe_wire fabric_ref) jwks_down static_ref (0 :: nat) (Some ''old'') = Inr ()" by (rule static_ref_auth)
  obtain R where R: "resolve (sh_table shared_ref) ?i = Inr R" "rc_db R = Some db_config_ref"
    by (simp add: shared_ref_def resolve_eval)
  define deps where "deps = \<lparr>ad_breaker = sh_breaker shared_ref, ad_timeout = duration_from_millis (wi_timeout_ms ?i)\<rparr>"
  define s where "s = from_configs (clamp_db_statement_timeout (sh_max_statement_timeout_ms shared_ref) R) deps"
  have c: "rc_db (clamp_db_statement_timeout (sh_max_statement_timeout_ms shared_ref) R) = Some db_config_ref"
    by (simp add: clamp_db_statement_timeout_def shared_ref_def R(2))
  have o: "open_session (fe_wire fabric_scripted) jwks_down static_ref shared_ref ?i (0 :: nat) = (Ack, Some s, shared_ref)"
    using R(1) by (simp add: open_session_def a s_def deps_def)
  have d: "bs_db s = Some \<lparr>slot_config = (db_config_ref, deps), slot_cell = None\<rparr>" "ad_breaker deps = None"
    by (simp_all add: s_def from_configs_slots c) (simp add: deps_def shared_ref_def)
  then obtain b where b: "db_slot_connect fabric_scripted (db_config_ref, deps) 0 = (Inr b, 2)" "db_client b = 1"
    using scripted_connect [of "ad_timeout deps"] by (cases deps) auto
  then obtain b' where b': "run_db fabric_scripted (''query'', ''SELECT'') b 2 = (Inr ''json'', b', 3)" using scripted_query by blast
  have s: "serve ?D fabric_scripted jwks_down static_ref shared_ref [Inr (Init ?i), Inr (Call ?c)] 0 =
      (Inr (), Ack # [Reply (Inr ''json'')], shared_ref, 3)"
    using o by (simp add: serve_def daemon_ref_def respond_def dispatch_call_def set_call_routes call_db_def lazy_call_def
        slot_call_def slot_backend_def d(1) b(1) b')
  have law: "database_is_log (fe_pg fabric_scripted) known_events_log" "writes_leave_alone ?D known_events_log"
      "tasks_query ?D fabric_scripted known_events_log"
    by (simp_all add: pg_scripted_is_log writes_leave_alone_def tasks_query_def daemon_ref_def)
  have m: "client_statement fabric_scripted (''query'', ''SELECT'') = Some (Prepared ''SELECT'' [])"
    by (simp add: client_statement_def parse_db_payload_def parse_params_def fabric_ref_def pg_scripted_def pg_ref_def json_ref_def)
  have "\<forall>call. Inr (Call call) \<in> set [Inr (Call ?c)] \<longrightarrow> wc_name call = ''db'' \<or> leaves_alone fabric_scripted known_events_log (wc_name call)"
    by simp
  from session_sql_is_clients_own [OF law this R(1) s, unfolded c] obtain reqs h openings parts where
    "take (length [Reply (Inr ''json'')]) ([Inr (Call ?c)] :: inbound) = map Inr reqs" "length parts = length [Reply (Inr ''json'')]"
    "known_events_log 3 = known_events_log 0 @ concat openings @ concat parts"
    "\<forall>i < length [Reply (Inr ''json'')]. frame_sql fabric_scripted h (reqs ! i) ([Reply (Inr ''json'')] ! i) (parts ! i)"
    "concat parts \<noteq> [] \<longrightarrow> openings \<noteq> [] \<and> (\<exists>c. Some db_config_ref = Some c \<and> last openings = db_opening c h)" by blast
  then have q: "([Inr (Call ?c)] :: inbound) = map Inr reqs" "length parts = 1"
      "known_events_log 3 = known_events_log 0 @ concat openings @ concat parts"
      "frame_sql fabric_scripted h (reqs ! 0) (Reply (Inr ''json'')) (parts ! 0)"
      "concat parts \<noteq> [] \<longrightarrow> last openings = db_opening db_config_ref h"
    by simp_all
  from q(1) have "reqs = [Call ?c]" by (cases reqs) auto
  with q(4) m have "parts ! 0 = [Received h (Prepared ''SELECT'' [])]" by (simp add: frame_sql_def acknowledged_def is_ok_def)
  with q(2,3,5) have "known_events_log 3 = concat openings @ [Received h (Prepared ''SELECT'' [])] \<and>
      last openings = db_opening db_config_ref h"
    by (cases parts) (auto simp: known_events_log_def)
  with s show ?thesis by blast
qed

end
