(* ===== verification/Auth_Traffic.thy ===== *)
theory Auth_Traffic
  imports Oidc
begin

text \<open>
  What the identity provider and everybody else on the network gets to see of the \<^verbatim>\<open>auth\<close> capability: the requests that
  a sequence of calls sends, and where the tokens and the client secret in them go.
\<close>

section \<open>Requests\<close>

text \<open>The requests handed to the HTTP client: a send appends its request, or nothing when it fails.\<close>
definition http_is_log :: "'w auth_lib \<Rightarrow> ('w \<Rightarrow> http_request list) \<Rightarrow> bool" where
  "http_is_log E log \<longleftrightarrow>
     (\<forall>h r x w w1. au_send E h r w = (x, w1) \<longrightarrow> log w1 = log w @ [r] \<or> \<not> is_ok x \<and> log w1 = log w) \<and>
     (\<forall>h x w w1. au_text E h w = (x, w1) \<longrightarrow> log w1 = log w) \<and>
     (\<forall>t w w1. au_clock E w = (t, w1) \<longrightarrow> log w1 = log w)"

lemma http_is_logD:
  assumes "http_is_log E log"
  shows "au_send E h r w = (x, w1) \<Longrightarrow> log w1 = log w @ [r] \<or> log w1 = log w"
    and "au_text E h w = (y, w1) \<Longrightarrow> log w1 = log w"
    and "au_clock E w = (t, w1) \<Longrightarrow> log w1 = log w"
  using assms unfolding http_is_log_def by blast+

lemma auth_send_log:
  assumes "http_is_log E log" "auth_send E client r w = (x, w')"
  shows "log w' = log w \<or> log w' = log w @ [r]"
  using assms(2) by (auto simp: auth_send_def split: result_splits dest!: http_is_logD [OF assms(1)])

definition discovery_request :: "auth_config \<Rightarrow> http_request" where
  "discovery_request c = http_get (discovery_url (auc_issuer c))"

text \<open>The request that carries the token of a call, given what discovery found: to the configured endpoint if there is one,
  else to the discovered one.\<close>
definition token_request :: "'w auth_lib \<Rightarrow> auth_config \<Rightarrow> endpoints option \<Rightarrow> string \<times> string \<Rightarrow> http_request option" where
  "token_request E c memo q =
     (case q of (action, token) \<Rightarrow>
        if action = ''user_info''
        then map_option (\<lambda>url. user_info_request url token)
          (case auc_userinfo_url c of Some url \<Rightarrow> Some url | None \<Rightarrow> Option.bind memo ep_userinfo)
        else if action = ''introspect'' \<and> auc_client_id c \<noteq> []
        then map_option (\<lambda>url. introspect_request E c url token)
          (case auc_introspect_url c of Some url \<Rightarrow> Some url | None \<Rightarrow> Option.bind memo ep_introspect)
        else None)"

lemma token_request_not_discovery: "token_request E c memo q = Some r \<Longrightarrow> r \<noteq> discovery_request c"
  by (cases q) (auto simp: token_request_def discovery_request_def user_info_request_def introspect_request_def http_get_def
      split: if_splits)

text \<open>What is known stays known.\<close>
lemma token_request_mono:
  "token_request E c None q = Some r \<Longrightarrow> token_request E c memo q = Some r"
  by (cases q) (auto simp: token_request_def split: if_splits option.splits)

lemma auth_resolve_log:
  assumes "http_is_log E log" "\<not> aub_poisoned b" "auth_resolve E ov fld msg b w = (x, b', w')"
  obtains ds where "log w' = log w @ ds" "ds = [] \<or> ds = [discovery_request (aub_config b)] \<and> aub_discovery b = None"
    "\<And>url. x = Inr url \<Longrightarrow> (case ov of Some u \<Rightarrow> Some u | None \<Rightarrow> Option.bind (aub_discovery b') fld) = Some url \<and>
       (ov = None \<longrightarrow> aub_discovery b' \<noteq> None)"
proof (cases ov)
  case (Some u)
  with assms(3) show thesis by (intro that [of "[]"]) (auto simp: auth_resolve_def)
next
  case None
  show thesis
  proof (cases "aub_discovery b")
    case (Some ep)
    with assms(2,3) None show thesis
      by (intro that [of "[]"]) (auto simp: auth_resolve_def discover_endpoints_def ok_or_def split: option.splits)
  next
    case (None)
    obtain y w1 where y: "fetch_discovery E b w = (y, w1)" by (metis surj_pair)
    have "log w1 = log w \<or> log w1 = log w @ [discovery_request (aub_config b)]"
      using y by (auto simp: fetch_discovery_def discovery_request_def split: result_splits if_splits
          dest!: auth_send_log [OF assms(1)])
    then obtain ds where ds: "log w1 = log w @ ds" "ds = [] \<or> ds = [discovery_request (aub_config b)]" by auto
    from y None \<open>ov = None\<close> assms(2,3) have "w' = w1"
      by (auto simp: auth_resolve_def discover_endpoints_def split: result_splits)
    with ds None y \<open>ov = None\<close> assms(2,3) show thesis
      by (intro that [of ds])
        (auto simp: auth_resolve_def discover_endpoints_def ok_or_def split: result_splits option.splits)
  qed
qed

section \<open>Calls\<close>

text \<open>What a call sends: at most a discovery request, unless discovery is done, and then at most the request with its token;
  a call that succeeds without a configured endpoint leaves discovery done.\<close>
definition call_sends ::
    "'w auth_lib \<Rightarrow> string \<times> string \<Rightarrow> auth_backend \<Rightarrow> auth_backend \<Rightarrow> bool \<Rightarrow> http_request list \<Rightarrow> http_request list \<Rightarrow> bool" where
  "call_sends E q b b' success ds ts \<longleftrightarrow>
     (ds = [] \<or> ds = [discovery_request (aub_config b)] \<and> aub_discovery b = None) \<and>
     (ts = [] \<or> (\<exists>r. token_request E (aub_config b) (aub_discovery b') q = Some r \<and> ts = [r])) \<and>
     (success \<longrightarrow> token_request E (aub_config b) None q = None \<longrightarrow> aub_discovery b' \<noteq> None)"

lemma do_user_info_log:
  assumes law: "http_is_log E log" and b: "\<not> aub_poisoned b" and run: "do_user_info E token b w = (x, b', w')"
  shows "\<exists>ds ts. log w' = log w @ ds @ ts \<and> call_sends E (''user_info'', token) b b' (is_ok x) ds ts"
proof -
  obtain y b1 w1 where y: "resolve_userinfo E b w = (y, b1, w1)" by (metis prod_cases3)
  from run y have b': "b' = b1" by (auto simp: do_user_info_def split: result_splits)
  from auth_resolve_log [OF law b y [unfolded resolve_userinfo_def]] obtain ds where
    ds: "log w1 = log w @ ds" "ds = [] \<or> ds = [discovery_request (aub_config b)] \<and> aub_discovery b = None"
      "\<And>url. y = Inr url \<Longrightarrow> (case auc_userinfo_url (aub_config b) of Some u \<Rightarrow> Some u | None \<Rightarrow> Option.bind (aub_discovery b1) ep_userinfo) =
         Some url \<and> (auc_userinfo_url (aub_config b) = None \<longrightarrow> aub_discovery b1 \<noteq> None)" by metis
  show ?thesis
  proof (cases y)
    case (Inl e)
    with run y ds(1,2) show ?thesis by (intro exI [of _ ds] exI [of _ "[]"]) (auto simp: do_user_info_def call_sends_def)
  next
    case (Inr url)
    with run y obtain z where "auth_send E (aub_client b1) (user_info_request url token) w1 = (z, w')"
      by (auto simp: do_user_info_def split: result_splits)
    from auth_send_log [OF law this] obtain ts where
      "log w' = log w1 @ ts" "ts = [] \<or> ts = [user_info_request url token]" by auto
    with ds(1,2) ds(3) [OF Inr] b' show ?thesis
      by (intro exI [of _ ds] exI [of _ ts]) (auto simp: call_sends_def token_request_def split: option.splits)
  qed
qed

lemma do_introspect_log:
  assumes law: "http_is_log E log" and b: "\<not> aub_poisoned b" and run: "do_introspect E token b w = (x, b', w')"
  shows "\<exists>ds ts. log w' = log w @ ds @ ts \<and> call_sends E (''introspect'', token) b b' (is_ok x) ds ts"
proof (cases "auc_client_id (aub_config b) = []")
  case True
  with run show ?thesis by (auto simp: do_introspect_def call_sends_def)
next
  case False
  obtain y b1 w1 where y: "resolve_introspect E b w = (y, b1, w1)" by (metis prod_cases3)
  from run y False have b': "b' = b1" by (auto simp: do_introspect_def split: result_splits)
  have c: "aub_config b1 = aub_config b"
    by (rule memo_step_keeps(2) [OF auth_resolve_memo [OF y [unfolded resolve_introspect_def]]])
  from auth_resolve_log [OF law b y [unfolded resolve_introspect_def]] obtain ds where
    ds: "log w1 = log w @ ds" "ds = [] \<or> ds = [discovery_request (aub_config b)] \<and> aub_discovery b = None"
      "\<And>url. y = Inr url \<Longrightarrow> (case auc_introspect_url (aub_config b) of Some u \<Rightarrow> Some u | None \<Rightarrow> Option.bind (aub_discovery b1) ep_introspect) =
         Some url \<and> (auc_introspect_url (aub_config b) = None \<longrightarrow> aub_discovery b1 \<noteq> None)" by metis
  show ?thesis
  proof (cases y)
    case (Inl e)
    with run y ds(1,2) False show ?thesis by (intro exI [of _ ds] exI [of _ "[]"]) (auto simp: do_introspect_def call_sends_def)
  next
    case (Inr url)
    with run y False c obtain z where "auth_send E (aub_client b1) (introspect_request E (aub_config b) url token) w1 = (z, w')"
      by (auto simp: do_introspect_def split: result_splits)
    from auth_send_log [OF law this] obtain ts where
      "log w' = log w1 @ ts" "ts = [] \<or> ts = [introspect_request E (aub_config b) url token]" by auto
    with ds(1,2) ds(3) [OF Inr] b' False show ?thesis
      by (intro exI [of _ ds] exI [of _ ts]) (auto simp: call_sends_def token_request_def split: option.splits)
  qed
qed

lemma auth_call_log:
  assumes law: "http_is_log E log" and b: "\<not> aub_poisoned b" and call: "auth_call E q b w = (x, b', w')"
  obtains ds ts where "log w' = log w @ ds @ ts" "call_sends E q b b' (is_ok x) ds ts"
proof -
  obtain action token where q: "q = (action, token)" by (cases q)
  from call [unfolded q] obtain start w1 res b1 w2 m where u: "au_clock E w = (start, w1)"
      "auth_dispatch E action token b w1 = (res, b1, w2)"
      "auth_build_metric E action (aub_host b1) (case res of Inl _ \<Rightarrow> 0 | Inr o1 \<Rightarrow> auo_status o1) start w2 = (m, w')"
      "x = map_err auth_into_resource_error (map_ok auo_json res)" "b' = b1\<lparr>aub_history := aub_history b @ [m]\<rparr>"
    by (rule auth_call_unfold)
  have w: "log w1 = log w" "log w' = log w2"
    using u(1,3) http_is_logD(3) [OF law] by (auto simp: auth_build_metric_def split: prod.splits)
  have "\<exists>ds ts. log w2 = log w1 @ ds @ ts \<and> call_sends E q b b1 (is_ok res) ds ts"
  proof (cases "action = ''user_info'' \<or> action = ''introspect''")
    case True
    with u(2) do_user_info_log [OF law b, of token w1 res b1 w2] do_introspect_log [OF law b, of token w1 res b1 w2] q
    show ?thesis by (elim disjE) (simp_all add: auth_dispatch_def)
  next
    case False
    with u(2) show ?thesis by (intro exI [of _ "[]"]) (auto simp: auth_dispatch_def call_sends_def)
  qed
  then obtain ds ts where "log w2 = log w1 @ ds @ ts" "call_sends E q b b1 (is_ok res) ds ts" by blast
  moreover have "is_ok x = is_ok res" using u(4) by (cases res) (simp_all add: is_ok_def)
  ultimately show thesis using w u(5) by (intro that [of ds ts]) (simp_all add: call_sends_def)
qed

section \<open>Sequences of calls\<close>

lemma auth_memo_call: "auth_call E q b w = (x, b', w') \<Longrightarrow> aub_discovery b = Some ep \<Longrightarrow> aub_discovery b' = Some ep"
  using auth_memo_run [of E "[q]" b w] by simp

lemma auth_run_log:
  assumes law: "http_is_log E log" and b: "\<not> aub_poisoned b" and run: "run_calls (auth_call E) qs b w = (rs, b', w')"
  shows "\<exists>sent. log w' = log w @ sent \<and>
    subseq (filter (\<lambda>r. r \<noteq> discovery_request (aub_config b)) sent)
      (List.map_filter (token_request E (aub_config b) (aub_discovery b')) qs) \<and>
    (aub_discovery b \<noteq> None \<longrightarrow> discovery_request (aub_config b) \<notin> set sent)"
  using b run
proof (induction qs arbitrary: b w rs)
  case Nil
  then show ?case by simp
next
  case (Cons q qs)
  obtain x b1 w1 where c: "auth_call E q b w = (x, b1, w1)" by (metis prod_cases3)
  with Cons.prems(2) obtain rs1 where r: "run_calls (auth_call E) qs b1 w1 = (rs1, b', w')" by (auto split: prod.splits)
  note f = auth.call_fixed [OF c]
  from auth_call_log [OF law Cons.prems(1) c] obtain ds ts where
    one: "log w1 = log w @ ds @ ts" "call_sends E q b b1 (is_ok x) ds ts" .
  from Cons.IH [OF _ r] Cons.prems(1) f obtain sent where sent: "log w' = log w1 @ sent"
      "subseq (filter (\<lambda>r. r \<noteq> discovery_request (aub_config b)) sent)
        (List.map_filter (token_request E (aub_config b) (aub_discovery b')) qs)"
      "aub_discovery b1 \<noteq> None \<longrightarrow> discovery_request (aub_config b) \<notin> set sent" by auto
  have later: "token_request E (aub_config b) (aub_discovery b') q = Some t"
    if "token_request E (aub_config b) (aub_discovery b1) q = Some t" for t
    using that auth_memo_run [OF r] token_request_mono [of E "aub_config b" q t] by (cases "aub_discovery b1") auto
  have tok: "filter (\<lambda>r. r \<noteq> discovery_request (aub_config b)) (ds @ ts @ sent) =
        ts @ filter (\<lambda>r. r \<noteq> discovery_request (aub_config b)) sent"
      "discovery_request (aub_config b) \<notin> set ts"
    using one(2) token_request_not_discovery [of E "aub_config b" "aub_discovery b1" q] by (auto simp: call_sends_def)
  have "subseq (ts @ filter (\<lambda>r. r \<noteq> discovery_request (aub_config b)) sent)
      (List.map_filter (token_request E (aub_config b) (aub_discovery b')) (q # qs))"
    using one(2) sent(2) later by (auto simp: call_sends_def map_filter_simps split: option.split)
  moreover have "discovery_request (aub_config b) \<notin> set (ds @ ts @ sent)" if "aub_discovery b \<noteq> None"
    using that one(2) tok(2) sent(3) auth_memo_call [OF c] by (auto simp: call_sends_def)
  moreover have "log w' = log w @ ds @ ts @ sent" using one(1) sent(1) by simp
  ultimately show ?case using tok(1) by (intro exI [of _ "ds @ ts @ sent"] conjI impI) (assumption | simp only:)+
qed

section \<open>A concrete issuer for witnesses\<close>

text \<open>The world is the list of requests sent; every answer is a document that names an introspection endpoint.\<close>
definition auth_issuer :: "http_request list auth_lib" where
  "auth_issuer =
     \<lparr>au_json = (au_json auth_ref)\<lparr>from_str := (\<lambda>_. Inr (json_object [(''introspection_endpoint'', VString ''https://iam/i'')]))\<rparr>,
      au_clock = (\<lambda>w. (0, w)), au_build_client = (\<lambda>_ w. (Inr 1, w)), au_send = (\<lambda>_ req w. (Inr (200, 7), w @ [req])),
      au_text = (\<lambda>_ w. (Inr ''body'', w)), au_parse_url = (\<lambda>s. Inr (Some s)), au_percent_encode = percent_encode_ref\<rparr>"

lemma auth_issuer_is_log: "http_is_log auth_issuer (\<lambda>w. w)"
  by (simp add: http_is_log_def auth_issuer_def)

lemma auth_issuer_connect:
  "\<exists>b. auth_connect_resource auth_issuer auth_config_ref [] = (Inr b, []) \<and> aub_config b = auth_config_ref \<and>
     aub_discovery b = None \<and> \<not> aub_poisoned b"
  by (simp add: auth_connect_resource_def auth_issuer_def)

section \<open>Properties\<close>



text \<open>C38: discovery happens once: after a call has succeeded over a discovered endpoint, no later call on the same backend
  sends a discovery request again, and each of them sends at most one request.\<close>
theorem discovery_sent_once:
  assumes law: "http_is_log E log" and connected: "auth_connect_resource E c w0 = (Inr b, w)"
    and before: "run_calls (auth_call E) (qs @ [q]) b w = (rs @ [Inr reply], b1, w1)"
    and discovered: "token_request E c None q = None"
    and after: "run_calls (auth_call E) qs' b1 w1 = (rs', b2, w2)"
  shows "\<exists>sent. log w2 = log w1 @ sent \<and> discovery_request c \<notin> set sent \<and> length sent \<le> length qs'"
proof -
  from connected have b: "\<not> aub_poisoned b" "aub_config b = c"
    by (auto simp: auth_connect_resource_def split: result_splits)
  obtain rs0 b0 v where 0: "run_calls (auth_call E) qs b w = (rs0, b0, v)" by (metis prod_cases3)
  obtain x b3 v3 where 1: "auth_call E q b0 v = (x, b3, v3)" by (metis prod_cases3)
  from before 0 1 have last: "x = Inr reply" "b3 = b1" by (auto simp: run_calls_append)
  have f: "\<not> aub_poisoned b0" "aub_config b0 = c" "\<not> aub_poisoned b1" "aub_config b1 = c"
    using auth.run_fixed [OF 0] auth.call_fixed [OF 1] b last(2) by auto
  from auth_call_log [OF law f(1) 1] obtain ds ts where "call_sends E q b0 b3 (is_ok x) ds ts" by metis
  with discovered last f(2) have "aub_discovery b1 \<noteq> None" by (simp add: call_sends_def is_ok_def)
  with auth_run_log [OF law f(3) after] f(4) obtain sent where sent: "log w2 = log w1 @ sent"
      "subseq (filter (\<lambda>r. r \<noteq> discovery_request c) sent) (List.map_filter (token_request E c (aub_discovery b2)) qs')"
      "discovery_request c \<notin> set sent" by auto
  from sent(3) have "filter (\<lambda>r. r \<noteq> discovery_request c) sent = sent" by (auto simp: filter_id_conv)
  with list_emb_length [OF sent(2)] have "length sent \<le> length (List.map_filter (token_request E c (aub_discovery b2)) qs')" by simp
  also have "\<dots> \<le> length qs'" by (simp add: List.map_filter_def)
  finally show ?thesis using sent by blast
qed

theorem discovery_sent_once_witness:
  "\<exists>b reply b1 w1 rs' b2 w2. auth_connect_resource auth_issuer auth_config_ref [] = (Inr b, []) \<and>
     run_calls (auth_call auth_issuer) [(''introspect'', ''t1'')] b [] = ([Inr reply], b1, w1) \<and> length w1 = 2 \<and>
     run_calls (auth_call auth_issuer) [(''introspect'', ''t2'')] b1 w1 = (rs', b2, w2) \<and> length w2 \<le> 3"
proof -
  from auth_issuer_connect obtain b where b: "auth_connect_resource auth_issuer auth_config_ref [] = (Inr b, [])"
    "aub_config b = auth_config_ref" "aub_discovery b = None" "\<not> aub_poisoned b" by blast
  have d: "value_get ''introspection_endpoint'' (json_object [(''introspection_endpoint'', VString ''https://iam/i'')]) =
      Some (VString ''https://iam/i'')" by code_simp
  have "\<exists>reply b1 w1. auth_call auth_issuer (''introspect'', ''t1'') b [] = (Inr reply, b1, w1) \<and> length w1 = 2"
    using b(2-4)
    by (simp add: auth_call_def auth_dispatch_def do_introspect_def resolve_introspect_def auth_resolve_def
        discover_endpoints_def fetch_discovery_def auth_send_def auth_issuer_def auth_config_ref_def auth_string_field_def d
        introspect_outcome_def auth_parse_claims_def auth_build_metric_def non_empty_def Let_def)
  then obtain reply b1 w1 where c: "run_calls (auth_call auth_issuer) ([] @ [(''introspect'', ''t1'')]) b [] = ([] @ [Inr reply], b1, w1)"
    "length w1 = 2" by auto
  obtain rs' b2 w2 where a: "run_calls (auth_call auth_issuer) [(''introspect'', ''t2'')] b1 w1 = (rs', b2, w2)"
    by (metis prod_cases3)
  have n: "token_request auth_issuer auth_config_ref None (''introspect'', ''t1'') = None"
    by (simp add: token_request_def auth_config_ref_def)
  from discovery_sent_once [OF auth_issuer_is_log b(1) c(1) n a] c(2) have "length w2 \<le> 3" by auto
  with b(1) c a show ?thesis by auto
qed

end
