(* ===== verification/Statement_Ceiling.thy ===== *)
theory Statement_Ceiling
  imports Listeners
begin

text \<open>
  The operator's ceiling on the statement timeout, from the configuration of the daemon to the command that a session's
  database connection receives before anything else.
\<close>

section \<open>What connecting sends first\<close>

text \<open>A connection is handed out only after the server has accepted the statement timeout on it.\<close>
lemma db_connect_raw_limits:
  assumes "db_connect_raw E c w = (Inr client, w')"
  obtains u where "pg_batch_execute E client (db_statement_timeout_cmd c) u = (Inr (), w')"
  using assms by (auto simp: db_connect_raw_def Let_def split: result_splits)

lemma db_slot_connect_limits:
  assumes "db_slot_connect F cd w = (Inr b, w')"
  obtains u u' where "pg_batch_execute (fe_pg F) (db_client b) (db_statement_timeout_cmd (fst cd)) u = (Inr (), u')"
proof -
  from assms obtain breaker w1 where "connect_through_breaker (fe_pg F) (fst cd) breaker w = (Inr (db_client b), w1)"
    by (auto simp: db_slot_connect_def db_connect_resource_def db_connect_def map_err_Inr_iff split: result_splits)
  then obtain v v' where "db_connect_raw (fe_pg F) (fst cd) v = (Inr (db_client b), v')"
    by (auto simp: connect_through_breaker_def Let_def map_err_Inr_iff split: option.splits prod.splits bool.splits)
  then show thesis by (rule db_connect_raw_limits) (rule that)
qed

text \<open>The timeout that a session of the daemon gets.\<close>
definition effective_timeout :: "u64 \<Rightarrow> u64 \<Rightarrow> u64" where
  "effective_timeout cap t = (if t = 0 then cap else min t cap)"

lemma effective_timeout_bounds: "cap \<noteq> 0 \<Longrightarrow> 0 < effective_timeout cap t \<and> effective_timeout cap t \<le> cap"
  by (auto simp: effective_timeout_def word_gt_0 min_def)

lemma clamp_effective:
  "cap \<noteq> 0 \<Longrightarrow> rc_db (clamp_db_statement_timeout cap R) =
     map_option (\<lambda>c. c\<lparr>dbc_statement_timeout_ms := effective_timeout cap (dbc_statement_timeout_ms c)\<rparr>) (rc_db R)"
  by (simp add: clamp_db_statement_timeout_def effective_timeout_def split: option.split)

section \<open>Properties\<close>

text \<open>C24: under an operator ceiling no session works on an unlimited or overlong database connection.  In every reachable
  state of the daemon, whenever a served session connects to its database, the server has accepted
  \<^verbatim>\<open>SET statement_timeout\<close> on that very connection before the session can use it, with a number of milliseconds that is
  positive and at most the ceiling; it is the resource's own setting when that is set and within the ceiling.\<close>
theorem session_statements_limited:
  assumes D: "panic_keeps_configs D"
    and ceiling: "sh_max_statement_timeout_ms (dp_shared plan) = cap" "cap \<noteq> 0"
    and run: "daemon_run D F L (initial_state plan, w0) evs (st, w1)"
    and serving: "ds_sessions st i = Some (t, Serving init s)"
    and connect: "bs_db s = Some sl" "slot_cell sl = None" "slot_backend (db_slot_connect F) sl v = (Inr b, sl', v')"
  shows "\<exists>R c ms. resolve (sh_table (dp_shared plan)) init = Inr R \<and> rc_db R = Some c \<and>
    0 < ms \<and> ms \<le> cap \<and> (0 < dbc_statement_timeout_ms c \<and> dbc_statement_timeout_ms c \<le> cap \<longrightarrow> ms = dbc_statement_timeout_ms c) \<and>
    (\<exists>u u'. pg_batch_execute (fe_pg F) (db_client b)
      (''SET statement_timeout = '' @ [CHR 0x27] @ show_nat (unat ms) @ [CHR 0x27]) u = (Inr (), u'))"
proof -
  have "ds_sessions (initial_state plan) = Map.empty" by (simp add: initial_state_def)
  from daemon_run_sessions [OF run D this] serving
  have "session_ok (fe_wire F) L (initial_state plan) t (Serving init s)" by simp
  then obtain R where R: "resolve (sh_table (dp_shared plan)) init = Inr R" "set_configs s = clamp_db_statement_timeout cap R"
    by (auto simp: session_ok_def initial_state_def ceiling(1))
  from arg_cong [OF R(2), of rc_db] connect(1) clamp_effective [OF ceiling(2), of R] obtain c where
    c: "rc_db R = Some c"
      "fst (slot_config sl) = c\<lparr>dbc_statement_timeout_ms := effective_timeout cap (dbc_statement_timeout_ms c)\<rparr>"
    by (cases "rc_db R") (auto simp: set_configs_def)
  from connect(2,3) have "db_slot_connect F (slot_config sl) v = (Inr b, v')"
    by (auto simp: slot_backend_def split: prod.splits)
  then obtain u u' where "pg_batch_execute (fe_pg F) (db_client b) (db_statement_timeout_cmd (fst (slot_config sl))) u = (Inr (), u')"
    by (rule db_slot_connect_limits)
  then have "\<exists>u u'. pg_batch_execute (fe_pg F) (db_client b) (''SET statement_timeout = '' @ [CHR 0x27] @
      show_nat (unat (effective_timeout cap (dbc_statement_timeout_ms c))) @ [CHR 0x27]) u = (Inr (), u')"
    unfolding c(2) by (auto simp: db_statement_timeout_cmd_def)
  with R(1) c(1) effective_timeout_bounds [OF ceiling(2), of "dbc_statement_timeout_ms c"] show ?thesis
    by (intro exI [of _ R] exI [of _ c] exI [of _ "effective_timeout cap (dbc_statement_timeout_ms c)"])
      (auto simp: effective_timeout_def word_gt_0 min_def)
qed

text \<open>A local client of the global database, whose own timeout is above the ceiling.\<close>
definition capped_plan :: daemon_plan where
  "capped_plan =
     \<lparr>dp_shared = shared_ref\<lparr>sh_max_statement_timeout_ms := 50\<rparr>, dp_uds = Some (''socket'', 1), dp_uds_auth = NoneAuthenticator,
      dp_quic = None, dp_metrics = None\<rparr>"

theorem session_statements_limited_witness:
  "\<exists>st s sl b sl' v' ms. daemon_run daemon_ref fabric_ref jwks_down (initial_state capped_plan, 0) [Accepted 0 Uds, Frame 0 Ack] (st, 1) \<and>
     ds_sessions st 0 = Some (Uds, Serving (init_none\<lparr>wi_db := Some ''global''\<rparr>) s) \<and> bs_db s = Some sl \<and>
     slot_backend (db_slot_connect fabric_ref) sl 1 = (Inr b, sl', v') \<and> 0 < ms \<and> ms \<le> (50 :: u64) \<and>
     (\<exists>u u'. pg_batch_execute pg_ref (db_client b)
       (''SET statement_timeout = '' @ [CHR 0x27] @ show_nat (unat ms) @ [CHR 0x27]) u = (Inr (), u'))"
proof -
  let ?i = "init_none\<lparr>wi_db := Some ''global''\<rparr>" and ?st = "set_session (initial_state capped_plan) 0 Uds AwaitInit"
  obtain R where R: "resolve table_ref ?i = Inr R" "rc_db R = Some db_config_ref" by (simp add: resolve_eval)
  let ?s = "from_configs (clamp_db_statement_timeout 50 R) \<lparr>ad_breaker = None, ad_timeout = duration_from_millis 1000\<rparr>"
  have o: "open_session (fe_wire fabric_ref) jwks_down NoneAuthenticator (ds_shared ?st) ?i (0 :: nat) = (Ack, Some ?s, ds_shared ?st)"
    by (simp add: open_session_def authenticate_def none_authenticate_def initial_state_def capped_plan_def shared_ref_def R(1))
      (simp add: init_none_def)
  have 1: "daemon_step daemon_ref fabric_ref jwks_down (initial_state capped_plan, 0) (Accepted 0 Uds) (?st, 0)"
    by (rule daemon_step.accept_uds) (simp_all add: initial_state_def capped_plan_def)
  have 2: "daemon_step daemon_ref fabric_ref jwks_down (?st, 0) (Frame 0 Ack)
      (set_session (?st\<lparr>ds_shared := ds_shared ?st\<rparr>) 0 Uds (after_init (Inr ()) ?i (Some ?s)), 1)"
    by (rule daemon_step.first_init [OF _ _ o]) (simp_all add: auth_of_def initial_state_def capped_plan_def daemon_ref_def)
  obtain st where st: "daemon_run daemon_ref fabric_ref jwks_down (initial_state capped_plan, 0) [Accepted 0 Uds, Frame 0 Ack] (st, 1)"
      "ds_sessions st 0 = Some (Uds, Serving ?i ?s)"
    using daemon_run_Cons [OF 1 daemon_run_step [OF 2]] by (auto simp: after_init_def)
  obtain sl where sl: "bs_db ?s = Some sl" "slot_cell sl = None" "ad_breaker (snd (slot_config sl)) = None"
    by (simp add: from_configs_slots R(2) clamp_db_statement_timeout_def)
  have p: "fe_pg fabric_ref = pg_ref" by (simp add: fabric_ref_def)
  have raw: "db_connect_raw pg_ref c (Suc 0) = (Inr 1, Suc 0)" for c by (simp add: db_connect_raw_def pg_ref_def)
  have "\<exists>b v'. db_slot_connect fabric_ref (slot_config sl) 1 = (Inr b, v')"
    by (subst db_slot_connect_def, simp add: db_connect_resource_def db_connect_def connect_through_breaker_def sl(3) raw p case_prod_beta)
  then obtain b sl' v' where b: "slot_backend (db_slot_connect fabric_ref) sl 1 = (Inr b, sl', v')"
    using sl(2) by (auto simp: slot_backend_def)
  have cap: "sh_max_statement_timeout_ms (dp_shared capped_plan) = 50" by (simp add: capped_plan_def)
  have "(50 :: u64) \<noteq> 0" by simp
  from session_statements_limited [OF daemon_ref_panic cap this st sl(1,2) b] obtain ms where
    "0 < ms \<and> ms \<le> (50 :: u64) \<and> (\<exists>u u'. pg_batch_execute pg_ref (db_client b)
       (''SET statement_timeout = '' @ [CHR 0x27] @ show_nat (unat ms) @ [CHR 0x27]) u = (Inr (), u'))"
    unfolding p by blast
  with st sl(1) b show ?thesis by blast
qed

end
