(* ===== verification/Db_Params.thy ===== *)
theory Db_Params
  imports Db
begin

text \<open>
  The way of a parameter from the client's JSON to the bytes of the bind message, and which integer the server reads there.
\<close>

section \<open>Integers on the wire\<close>

text \<open>The binary format of PostgreSQL's integer types: two's complement, most significant byte first.\<close>
fun be_bytes :: "nat \<Rightarrow> nat \<Rightarrow> string" where
  "be_bytes 0 k = []"
| "be_bytes (Suc n) k = be_bytes n (k div 256) @ [char_of k]"

definition be_value :: "string \<Rightarrow> nat" where
  "be_value bs = foldl (\<lambda>a c. a * 256 + of_char c) 0 bs"

text \<open>What the server reads for a parameter of an integer type of \<open>n\<close> bytes: a value of another length is refused.\<close>
definition int_receive :: "nat \<Rightarrow> string \<Rightarrow> int option" where
  "int_receive n bs =
     (if length bs = n
      then Some (if 2 * be_value bs < 256 ^ n then int (be_value bs) else int (be_value bs) - 256 ^ n) else None)"

text \<open>The documented encoders of the driver: the width follows the Rust type, not the type of the parameter.\<close>
definition encodes_integers :: "sql_encode \<Rightarrow> bool" where
  "encodes_integers X \<longleftrightarrow>
     (\<forall>v ty out. enc_i32 X v ty out = (Inr IsNullNo, out @ be_bytes 4 (unat v))) \<and>
     (\<forall>v ty out. enc_i64 X v ty out = (Inr IsNullNo, out @ be_bytes 8 (unat v)))"

text \<open>A text is encoded as its bytes, whatever the type of the parameter.\<close>
definition encodes_text :: "sql_encode \<Rightarrow> bool" where
  "encodes_text X \<longleftrightarrow> (\<forall>t ty out. enc_text X t ty out = (Inr IsNullNo, out @ t))"

lemma length_be_bytes [simp]: "length (be_bytes n k) = n"
  by (induction n arbitrary: k) simp_all

lemma be_value_append [simp]: "be_value (bs @ [c]) = be_value bs * 256 + of_char c"
  by (simp add: be_value_def)

lemma be_value_bytes: "be_value (be_bytes n k) = k mod 256 ^ n"
proof (induction n arbitrary: k)
  case 0
  then show ?case by (simp add: be_value_def)
next
  case (Suc n)
  have "k mod (256 * 256 ^ n) = 256 * (k div 256 mod 256 ^ n) + k mod 256" by (rule mod_mult2_eq)
  with Suc show ?case by simp
qed

text \<open>A word of \<open>n\<close> bytes is read back as its signed value.\<close>
lemma int_receive_word:
  fixes v :: "'a::len word"
  assumes "LENGTH('a) = 8 * n"
  shows "int_receive n (be_bytes n (unat v)) = Some (sint v)"
proof -
  have p: "(2 :: int) ^ LENGTH('a) = 256 ^ n" "(2 :: nat) ^ LENGTH('a) = 256 ^ n"
    by (simp_all add: assms power_mult)
  have "unat v < 256 ^ n" using unsigned_less [of v, where ?'a = nat] by (simp add: p)
  then have b: "be_value (be_bytes n (unat v)) = unat v" by (simp add: be_value_bytes)
  have h: "(256 :: int) ^ n = 2 * 2 ^ (LENGTH('a) - 1)"
    unfolding p(1) [symmetric] by (metis One_nat_def Suc_pred len_gt_0 power_Suc)
  have s: "- (2 ^ (LENGTH('a) - 1)) \<le> sint v" "sint v < 2 ^ (LENGTH('a) - 1)"
    by (rule sint_ge, rule sint_lt)
  have u: "int (unat v) = sint v mod 256 ^ n"
    unfolding p(1) [symmetric] by (simp add: uint_sint take_bit_eq_mod)
  have v: "int (unat v) = (if 0 \<le> sint v then sint v else sint v + 256 ^ n)"
  proof (cases "0 \<le> sint v")
    case True
    with u s h show ?thesis by (simp add: mod_pos_pos_trivial)
  next
    case False
    have "sint v mod 256 ^ n = (sint v + 256 ^ n) mod 256 ^ n" by simp
    also have "\<dots> = sint v + 256 ^ n" using False s h by (intro mod_pos_pos_trivial) simp_all
    finally show ?thesis using u False by simp
  qed
  have "2 * unat v < 256 ^ n \<longleftrightarrow> 2 * int (unat v) < 256 ^ n"
    by (metis (mono_tags) of_nat_less_iff of_nat_mult of_nat_numeral of_nat_power)
  also have "\<dots> \<longleftrightarrow> 0 \<le> sint v" using v s h by auto
  finally show ?thesis using v by (simp add: int_receive_def b)
qed

section \<open>Decimal text read as binary\<close>

lemma show_nat_bound: "n < 10 ^ length (show_nat n)"
proof (induction n rule: show_nat.induct)
  case (1 n)
  then show ?case by (cases "n < 10") (auto simp: show_nat.simps [of n])
qed

lemma show_int_text:
  "show_int i \<noteq> [] \<and> (\<forall>c \<in> set (show_int i). 45 \<le> (of_char c :: nat) \<and> (of_char c :: nat) \<le> 57)"
  using show_nat_digits [of "nat i"] show_nat_digits [of "nat (- i)"]
  by (auto simp: show_int_def is_digit_def list_all_iff)

lemma show_int_bound: "\<bar>i\<bar> < 10 ^ length (show_int i)"
proof (cases "i < 0")
  case True
  have "- i < 10 ^ length (show_nat (nat (- i)))" using show_nat_bound [of "nat (- i)"] True
    by (metis nat_less_iff of_nat_numeral of_nat_power zero_le_imp_eq_int le_minus_iff less_imp_le minus_zero)
  also have "\<dots> \<le> 10 ^ Suc (length (show_nat (nat (- i))))" by simp
  finally show ?thesis using True by (simp add: show_int_def)
next
  case False
  then show ?thesis using show_nat_bound [of "nat i"] by (simp add: show_int_def nat_less_iff)
qed

text \<open>Eight characters of a decimal number, read as a binary integer, give a number of nineteen digits.\<close>
lemma decimal_as_binary:
  assumes "length t = 8" "\<forall>c \<in> set t. 45 \<le> (of_char c :: nat) \<and> (of_char c :: nat) \<le> 57"
  shows "\<exists>j. int_receive 8 t = Some j \<and> 10 ^ 18 < j"
proof -
  from assms(1) obtain a b c d e f g h where t: "t = [a, b, c, d, e, f, g, h]"
    by (auto simp: length_Suc_conv eval_nat_numeral)
  have v: "be_value t = of_char a * 256 ^ 7 + of_char b * 256 ^ 6 + of_char c * 256 ^ 5 + of_char d * 256 ^ 4 +
      of_char e * 256 ^ 3 + of_char f * 256 ^ 2 + of_char g * 256 + of_char h"
    by (simp add: be_value_def t algebra_simps)
  from assms(2) have "(45 :: nat) \<le> of_char a" "of_char a \<le> (57 :: nat)" "of_char b \<le> (57 :: nat)" "of_char c \<le> (57 :: nat)"
      "of_char d \<le> (57 :: nat)" "of_char e \<le> (57 :: nat)" "of_char f \<le> (57 :: nat)" "of_char g \<le> (57 :: nat)"
      "of_char h \<le> (57 :: nat)" by (simp_all add: t)
  then have "10 ^ 18 < be_value t" "2 * be_value t < 256 ^ 8" unfolding v by simp_all
  with assms(1) show ?thesis by (auto simp: int_receive_def)
qed

section \<open>Properties\<close>

text \<open>C30: an integer parameter reaches the server exactly, and only where its width is asked for.  The bytes that an integer of
  the client's JSON is encoded to are read back as the same integer by a parameter of the width that the code chose from the
  value (four bytes when it fits 32 bits, eight otherwise), and are refused by every other width, because the type that the
  server inferred for the parameter plays no part in the choice; a small integer for a \<^verbatim>\<open>bigint\<close> or \<^verbatim>\<open>smallint\<close> parameter
  is always refused.\<close>
theorem db_integer_params_by_value_width:
  assumes law: "encodes_integers X" and num: "number_as_i64 J num = Some i"
    and n: "n = (if - (2 ^ 31) \<le> sint i \<and> sint i < 2 ^ 31 then 4 else 8)"
  shows "\<exists>bs. param_to_sql X (param_from_value J (VNumber num)) ty out = (Inr IsNullNo, out @ bs) \<and>
    int_receive n bs = Some (sint i) \<and> (\<forall>m. m \<noteq> n \<longrightarrow> int_receive m bs = None)"
proof (cases "- (2 ^ 31) \<le> sint i \<and> sint i < 2 ^ 31")
  case True
  let ?v = "word_of_int (sint i) :: i32"
  have "sint ?v = sint i" using True unfolding sint_sbintrunc' by (intro signed_take_bit_int_eq_self) simp_all
  with int_receive_word [of 4 ?v] have "int_receive 4 (be_bytes 4 (unat ?v)) = Some (sint i)" by simp
  with True law num n show ?thesis
    by (intro exI [of _ "be_bytes 4 (unat ?v)"]) (simp add: param_from_value_def encodes_integers_def int_receive_def)
next
  case False
  from int_receive_word [of 8 i] have "int_receive 8 (be_bytes 8 (unat i)) = Some (sint i)" by simp
  with False law num n show ?thesis
    by (intro exI [of _ "be_bytes 8 (unat i)"]) (auto simp: param_from_value_def encodes_integers_def int_receive_def)
qed

text \<open>The driver's encoders, for the integer types; a \<^verbatim>\<open>bigint\<close> parameter refuses the number seven.\<close>
definition sql_encode_ref :: sql_encode where
  "sql_encode_ref =
     \<lparr>enc_bool = (\<lambda>v _ out. (Inr IsNullNo, out @ [if v then char_of (1 :: nat) else char_of (0 :: nat)])),
      enc_i32 = (\<lambda>v _ out. (Inr IsNullNo, out @ be_bytes 4 (unat v))), enc_i64 = (\<lambda>v _ out. (Inr IsNullNo, out @ be_bytes 8 (unat v))),
      enc_f64 = (\<lambda>_ _ out. (Inl ''float'', out)), enc_text = (\<lambda>t _ out. (Inr IsNullNo, out @ t))\<rparr>"

theorem db_integer_params_by_value_width_witness:
  "\<exists>bs. param_to_sql sql_encode_ref (param_from_value json_ref (VNumber (NumInt 7))) INT8 [] = (Inr IsNullNo, bs) \<and>
     int_receive 4 bs = Some 7 \<and> int_receive 8 bs = None"
proof -
  have l: "encodes_integers sql_encode_ref" by (simp add: encodes_integers_def sql_encode_ref_def)
  have i: "number_as_i64 json_ref (NumInt 7) = Some 7" by (simp add: json_ref_def)
  have "(4 :: nat) = (if - (2 ^ 31) \<le> sint (7 :: i64) \<and> sint (7 :: i64) < 2 ^ 31 then 4 else 8)" by simp
  from db_integer_params_by_value_width [OF l i this, of INT8 "[]"] show ?thesis by auto
qed

text \<open>C28: a \<^verbatim>\<open>bigint\<close> that was read cannot be written back.  A query returns an \<^verbatim>\<open>INT8\<close> column as decimal text; given back
  as a parameter, that text is encoded as its characters even where the server expects an \<^verbatim>\<open>INT8\<close>.  The server refuses
  it unless the text has exactly eight characters, and then it silently reads a different number, above ten to the
  eighteenth: no number at all survives the round trip.\<close>
theorem db_bigint_text_not_read_back:
  assumes law: "encodes_text X" and cell: "try_i64 E row idx = Inr (Some i)"
  shows "\<exists>t. column_to_json E row idx INT8 = VString t \<and>
    param_to_sql X (param_from_value J (VString t)) INT8 out = (Inr IsNullNo, out @ t) \<and>
    (if length t = 8 then \<exists>j. int_receive 8 t = Some j \<and> 10 ^ 18 < j \<and> j \<noteq> sint i else int_receive 8 t = None)"
proof -
  let ?t = "show_int (sint i)"
  have "\<exists>j. int_receive 8 ?t = Some j \<and> 10 ^ 18 < j \<and> j \<noteq> sint i" if "length ?t = 8"
  proof -
    from decimal_as_binary [OF that] show_int_text obtain j where j: "int_receive 8 ?t = Some j" "10 ^ 18 < j" by blast
    moreover have "\<bar>sint i\<bar> < 10 ^ 8" using show_int_bound [of "sint i"] unfolding that .
    ultimately show ?thesis by auto
  qed
  with law cell show ?thesis
    by (intro exI [of _ ?t])
      (simp add: column_to_json_def get_or_null_def param_from_value_def encodes_text_def int_receive_def Let_def)
qed

text \<open>The key 12345678 comes back as 3544952156018063160.\<close>
definition bigint_row :: pg_row where
  "bigint_row = \<lparr>row_columns = [(''id'', INT8)], row_cells = [Some ''12345678'']\<rparr>"

theorem db_bigint_text_not_read_back_witness:
  "\<exists>t. column_to_json (pg_ref\<lparr>try_i64 := (\<lambda>_ _. Inr (Some 12345678))\<rparr>) bigint_row 0 INT8 = VString t \<and>
     param_to_sql sql_encode_ref (param_from_value json_ref (VString t)) INT8 [] = (Inr IsNullNo, t) \<and>
     t = ''12345678'' \<and> int_receive 8 t = Some 3544952156018063160 \<and> int_receive 8 t \<noteq> Some 12345678"
proof -
  have l: "encodes_text sql_encode_ref" by (simp add: encodes_text_def sql_encode_ref_def)
  have c: "try_i64 (pg_ref\<lparr>try_i64 := (\<lambda>_ _. Inr (Some 12345678))\<rparr>) bigint_row 0 = Inr (Some 12345678)" by simp
  have "sint (12345678 :: i64) = 12345678" by simp
  moreover have "show_int 12345678 = ''12345678''" by (simp add: show_int_def show_nat.simps char_of_def bit_Suc_0_iff)
  ultimately have s: "show_int (sint (12345678 :: i64)) = ''12345678''" by simp
  have n: "int_receive 8 ''12345678'' = Some 3544952156018063160" by (simp add: int_receive_def be_value_def)
  from db_bigint_text_not_read_back [OF l c, of json_ref "[]"] obtain t where
    t: "column_to_json (pg_ref\<lparr>try_i64 := (\<lambda>_ _. Inr (Some 12345678))\<rparr>) bigint_row 0 INT8 = VString t"
      "param_to_sql sql_encode_ref (param_from_value json_ref (VString t)) INT8 [] = (Inr IsNullNo, t)" by auto
  from t(1) s have "t = ''12345678''"
    by (simp add: column_to_json_def get_or_null_def Let_def)
  with t n show ?thesis by auto
qed

end
