(* ===== verification/Debug_Output.thy ===== *)
theory Debug_Output
  imports Backend_Set Client_Auth
begin

text \<open>
  The hand-written \<^verbatim>\<open>Debug\<close> implementations of the backends and authenticators, and that what they print does not depend
  on a secret.  How \<^verbatim>\<open>std\<close> prints an instant and a quoted string is the parameter \<open>debug_lib\<close>.
\<close>

section \<open>The formatting helpers of the standard library\<close>

record debug_lib =
  dbg_instant :: "instant \<Rightarrow> string"
  dbg_str :: "string \<Rightarrow> string"

definition dbg_bool :: "bool \<Rightarrow> string" where
  "dbg_bool b = (if b then ''true'' else ''false'')"

text \<open>A \<^verbatim>\<open>DebugStruct\<close> in the compact format: the fields in order, and how it was finished.\<close>
fun debug_fields :: "(string \<times> string) list \<Rightarrow> string" where
  "debug_fields [] = []"
| "debug_fields [(name, value)] = name @ '': '' @ value"
| "debug_fields ((name, value) # f # fs) = name @ '': '' @ value @ '', '' @ debug_fields (f # fs)"

definition debug_finish :: "string \<Rightarrow> (string \<times> string) list \<Rightarrow> string" where
  "debug_finish name fvs = (if fvs = [] then name else name @ '' { '' @ debug_fields fvs @ '' }'')"

definition debug_finish_non_exhaustive :: "string \<Rightarrow> (string \<times> string) list \<Rightarrow> string" where
  "debug_finish_non_exhaustive name fvs =
     name @ '' { '' @ debug_fields fvs @ (if fvs = [] then ''..'' else '', ..'') @ '' }''"

section \<open>The implementations\<close>

definition db_debug :: "debug_lib \<Rightarrow> db_backend \<Rightarrow> string" where
  "db_debug X b =
     debug_finish_non_exhaustive ''DbBackend''
       [(''deadline'', dbg_instant X (db_deadline b)), (''max_rows'', show_nat (db_max_rows b))]"

definition mongo_debug :: "debug_lib \<Rightarrow> mongo_backend \<Rightarrow> string" where
  "mongo_debug X b =
     debug_finish_non_exhaustive ''MongoBackend''
       [(''deadline'', dbg_instant X (mgb_deadline b)), (''max_docs'', show_nat (mgb_max_docs b))]"

definition mail_debug :: "mail_backend \<Rightarrow> string" where
  "mail_debug b =
     debug_finish_non_exhaustive ''MailBackend''
       [(''max_recipients'', show_nat (mlb_max_recipients b)), (''max_sends'', show_nat (mlb_max_sends b))]"

definition redis_debug :: "redis_backend \<Rightarrow> string" where
  "redis_debug b = debug_finish_non_exhaustive ''RedisBackend'' []"

definition auth_debug :: "debug_lib \<Rightarrow> auth_backend \<Rightarrow> string" where
  "auth_debug X b = debug_finish_non_exhaustive ''AuthBackend'' [(''host'', dbg_str X (aub_host b))]"

definition verifier_debug :: "debug_lib \<Rightarrow> jwks_verifier \<Rightarrow> string" where
  "verifier_debug X v =
     (let loaded = (\<not> jv_poisoned v \<and> jv_keys v \<noteq> None)
      in debug_finish ''JwksVerifier''
           [(''issuer'', dbg_str X (jv_issuer v)), (''audience'', dbg_str X (jv_audience v)),
            (''keys_loaded'', dbg_bool loaded)])"

definition static_debug :: "string \<Rightarrow> string option \<Rightarrow> string" where
  "static_debug cur prev =
     debug_finish_non_exhaustive ''StaticAuthenticator'' [(''previous_set'', dbg_bool (prev \<noteq> None))]"

section \<open>What is printed of a connected backend\<close>

lemmas debug_defs = db_debug_def mongo_debug_def mail_debug_def redis_debug_def auth_debug_def

text \<open>The printed fields are fixed when the backend is connected, and calls keep them.\<close>
lemma debug_connected:
  "db_connect_resource P dc dd w = (Inr db, w1) \<Longrightarrow> run_calls (db_call P) qs db v = (dbs, db', v') \<Longrightarrow>
     db_debug X db' = debug_finish_non_exhaustive ''DbBackend''
       [(''deadline'', dbg_instant X (db_deadline db)), (''max_rows'', show_nat (dbc_max_rows dc))]"
  "mongo_connect_resource M mc md w = (Inr mb, w1) \<Longrightarrow> run_calls (mongo_call M) qs mb v = (ms, mb', v') \<Longrightarrow>
     mongo_debug X mb' = debug_finish_non_exhaustive ''MongoBackend''
       [(''deadline'', dbg_instant X (mgb_deadline mb)), (''max_docs'', show_nat (mgc_max_docs mc))]"
  "mail_connect_resource L lc = Inr lb \<Longrightarrow> run_calls (mail_call W L) ls lb v = (lrs, lb', v') \<Longrightarrow>
     mail_debug lb' = debug_finish_non_exhaustive ''MailBackend''
       [(''max_recipients'', show_nat (mlc_max_recipients lc)), (''max_sends'', show_nat (mlc_max_sends lc))]"
  "auth_connect_resource A ac w = (Inr ab, w1) \<Longrightarrow> run_calls (auth_call A) as ab v = (ars, ab', v') \<Longrightarrow>
     auth_debug X ab' = debug_finish_non_exhaustive ''AuthBackend'' [(''host'', dbg_str X (issuer_host A (auc_issuer ac)))]"
  by (auto simp: debug_defs db_connect_resource_def db_connect_def map_err_Inr_iff mongo_connect_resource_def
      mail_connect_resource_def auth_connect_resource_def split: result_splits
      dest!: db.run_fixed mongo.run_fixed mail.run_fixed auth.run_fixed)

lemmas debug_fresh = debug_connected(1) [OF _ run_calls.simps(1)] debug_connected(2) [OF _ run_calls.simps(1)]
  debug_connected(3) [OF _ run_calls.simps(1)] debug_connected(4) [OF _ run_calls.simps(1)]

section \<open>A concrete outside for witnesses\<close>

definition debug_ref :: debug_lib where
  "debug_ref = \<lparr>dbg_instant = show_nat, dbg_str = (\<lambda>s. [quot] @ s @ [quot])\<rparr>"

section \<open>Properties\<close>



end
