(* ===== verification/Spec2Isabelle.thy ===== *)
theory Spec2Isabelle
  imports Isolation Lifecycle Mongo_Uri Connections Drain_Report Kv_Session Mail_Session Amq_Session Db_Session
    Auth_Traffic Statement_Ceiling Db_Params Debug_Output
begin

text \<open>
  Verification of \<^verbatim>\<open>fabricd\<close>, a daemon that runs database, mail, messaging, key-value and identity calls on behalf of
  sandboxed clients which never see a credential.  A client opens a session over a local socket or over QUIC, presents
  a token, names the resources it wants, and then sends calls; the daemon authenticates it, resolves the names in the
  operator's table within the session's tenant, builds one backend per named capability, and answers.  All source
  paths are under \<^verbatim>\<open>src/crates/\<close>.

  \<^bold>\<open>Parts of the program and the theories that model them.\<close>
  \<^item> \<^verbatim>\<open>Fabric_Prelude\<close>: machine integers, instants and durations in nanoseconds, results as sums, effects as functions of an
    abstract world, number printing, line splitting, percent encoding, and the collections of rewrite and split
    rules that the component proofs use.
  \<^item> \<^verbatim>\<open>Wire\<close>: what the sources use of the wire crate (frames, errors, metrics) and of \<^verbatim>\<open>serde_json\<close>.
  \<^item> \<^verbatim>\<open>Metering\<close>: the contract of a backend that records one metric per call, as the locales \<open>metered\<close> and
    \<open>fully_metered\<close>, and the locales \<open>recorder\<close> and \<open>simulation\<close> of calls that record or implement something, with the
    consequences for sequences of calls proved once.
  \<^item> \<^verbatim>\<open>Db\<close>, \<^verbatim>\<open>Mongo\<close>, \<^verbatim>\<open>Mail\<close>, \<^verbatim>\<open>Kv\<close>, \<^verbatim>\<open>Amq\<close>, \<^verbatim>\<open>Oidc\<close>: the backends \<^verbatim>\<open>db.rs\<close>, \<^verbatim>\<open>mongo.rs\<close>, \<^verbatim>\<open>mail.rs\<close>, \<^verbatim>\<open>kv.rs\<close>, \<^verbatim>\<open>amq.rs\<close> and
    \<^verbatim>\<open>auth.rs\<close> of \<^verbatim>\<open>fabric-backends/src\<close>.  Each has its configuration and backend records, its fault table, one
    definition per Rust function down to the driver call, and the entry point \<open>*_call\<close>.  Each interprets a
    metering locale on its own entry point.
  \<^item> \<^verbatim>\<open>Mongo_Uri\<close>: a reader of the connection URI that \<^verbatim>\<open>mongo.rs\<close> prints, and the round trip.
  \<^item> \<^verbatim>\<open>Kv_Store\<close>: the abstract key-value store that the Redis backend implements (relation \<open>kv_step\<close>, with failures before or
    after the effect), as an interpretation of the locale \<open>simulation\<close>; \<^verbatim>\<open>Kv_Session\<close>: the same for the whole session, from
    the frame to the driver call.
  \<^item> \<^verbatim>\<open>Session_Effects\<close>: an accepted session as a run on its set of backends, and the effect of one of its frames, shared by the
    theories on what sessions do to the outside; \<^verbatim>\<open>Mail_Session\<close>: what a session makes the mail relay send, and
    \<^verbatim>\<open>Amq_Session\<close> what it makes the broker deliver and \<^verbatim>\<open>Db_Session\<close> what it makes the database receive, from the frames to the
    server; \<^verbatim>\<open>Auth_Traffic\<close>: the HTTP
    requests of the \<^verbatim>\<open>auth\<close> capability and where tokens and the client secret go; \<^verbatim>\<open>Statement_Ceiling\<close>: the operator's
    ceiling on the statement timeout, from the configuration to the command on the connection; \<^verbatim>\<open>Db_Params\<close>: the integer
    and text parameters of a query, from the client's JSON to what the server reads.
  \<^item> \<^verbatim>\<open>Resources\<close>: \<^verbatim>\<open>resources.rs\<close>, the operator's table and name resolution.  The locale \<open>binding_kind\<close> states what a
    kind of binding must satisfy and is interpreted for the six kinds.
  \<^item> \<^verbatim>\<open>Backend_Set\<close>: \<^verbatim>\<open>backendset.rs\<close>, lazy slots and the routing of calls.  The locale \<open>lazy_slot\<close> is interpreted for the
    five slots.
  \<^item> \<^verbatim>\<open>Connections\<close>: when the backends of a set are connected, by the state of their slots, and what a refusal of the circuit
    breaker does to a session.
  \<^item> \<^verbatim>\<open>Session_Metrics\<close>: what a whole session reports when its set is drained, from the locale \<open>metered_slot\<close> of a slot and
    the locale \<open>recorder\<close> of a state that records what it was asked; \<^verbatim>\<open>Drain_Report\<close>: the same from the frames of a
    session, in which tasks may die, to the metrics frame that answers a drain.
  \<^item> \<^verbatim>\<open>Sa_Token\<close>: \<^verbatim>\<open>sa_token.rs\<close>, offline verification against a key cache that a background task refreshes; the
    interleaving of the task with sessions is the relation \<open>verifier_step\<close>.
  \<^item> \<^verbatim>\<open>Client_Auth\<close>: \<^verbatim>\<open>fabricd/src/auth.rs\<close>, the authenticators behind one interface (locales
    \<open>client_authenticator\<close> and \<open>token_required\<close>).
  \<^item> \<^verbatim>\<open>Daemon\<close>: \<^verbatim>\<open>fabricd/src/main.rs\<close>, start-up, the session code \<open>serve\<close>, the metrics endpoint.
  \<^item> \<^verbatim>\<open>Listeners\<close>: the accept loops of \<^verbatim>\<open>main.rs\<close> with any number of interleaved sessions, as the relation
    \<open>daemon_step\<close>; \<open>serve\<close> is shown to be a run of it.  \<^verbatim>\<open>Isolation\<close>: each session of such a run is a run on its own;
    \<^verbatim>\<open>Lifecycle\<close>: the phases of a session, with their preorder, only move forward.
  \<^item> \<^verbatim>\<open>Debug_Output\<close>: the hand-written \<^verbatim>\<open>Debug\<close> implementations of backends and authenticators, which print no secret.
  \<^item> this theory: the properties that need the session code and the backends together.

  \<^bold>\<open>Modelling.\<close>  A function of the sources that performs I/O takes the world last and returns it changed; the world is a type
  parameter and nothing is assumed of it.  Code outside the repository (drivers, HTTP, TLS, JWT, the wire crate, the
  breaker, the clock, the file system) is a field of one record of functions per component (\<open>pg_lib\<close>, \<open>mongo_lib\<close>,
  \<open>mail_lib\<close>, \<open>redis_lib\<close>, \<open>amq_lib\<close>, \<open>auth_lib\<close>, \<open>jwks_lib\<close>, \<open>daemon_lib\<close>, \<open>wire_lib\<close>, \<open>json_lib\<close>); what a property needs of it
  is a named hypothesis (\<open>egress_builder_ok\<close>, \<open>ct_eq_ok\<close>, \<open>percent_codec_ok\<close>, \<open>redis_is_store\<close>, \<open>relay_is_log\<close>, \<open>amq_is_queue\<close>, \<open>database_is_log\<close>, \<open>http_is_log\<close>, ...), and its
  witness runs on a concrete instance.  Errors are values: every early return and every \<^verbatim>\<open>map_err\<close> of the sources is a
  branch.  Deserialised payloads arrive from a parser parameter at the record type that the source declares.  Rust
  strings are byte lists.  Fixed-width integers are words; \<^verbatim>\<open>usize\<close> is a natural number with its saturation written
  out.  A panic inside a backend call is the parameter \<open>dl_panic\<close>.  No fuel is used: every loop is recursion over its
  input or, for the cursor of \<^verbatim>\<open>mongo.rs\<close>, has a termination proof from the document cap; the endless loops (accept,
  refresh) are step relations.

  \<^bold>\<open>What is shown.\<close>  Tenant isolation and non-interference of resolution; fail-closed authentication, including key rotation
  and outage; the handshake and request protocol with one answer per frame; the invariant of all reachable states of
  the running daemon and the isolation of its concurrent sessions; least privilege of calls; refinement of an abstract
  key-value store, of a message queue and of a connection's conversation by a session; what the circuit breaker and a failed connect mean
  for a session; classification of every error a session can see; limits (rows, documents, recipients, sends, batch size,
  deadlines, connections); fidelity of data conversion; and the metrics.

  \<^bold>\<open>Not modelled.\<close>  Logging and the derived \<^verbatim>\<open>Debug\<close> implementations, the test modules, the crate root \<^verbatim>\<open>lib.rs\<close> (module declarations only), the
  non-Unix branches of \<^verbatim>\<open>main\<close>, and the set-up of the tracing subscriber and of the TLS provider.
\<close>

section \<open>What the error frames of a served session say\<close>

text \<open>A backend task that dies caches no foreign error: whatever it leaves in the slots is an outcome of that
  slot's own connect.\<close>
definition panic_keeps_good :: "'w fabric_env \<Rightarrow> 'w daemon_lib \<Rightarrow> bool" where
  "panic_keeps_good F D \<longleftrightarrow>
     (\<forall>call s w e s' w'. dl_panic D call s w = Some (e, s', w') \<longrightarrow> set_good F s \<longrightarrow> set_good F s')"

text \<open>The errors a session may see in the reply to a call, by the name called.\<close>
definition classified :: "'w fabric_env \<Rightarrow> wire_request \<Rightarrow> wire_response \<Rightarrow> bool" where
  "classified F request response =
     (case (request, response) of
        (Call c, Reply (Inl e)) \<Rightarrow>
          (if wc_name c \<in> set capability_names then cap_error (wc_name c) e
           else e = unknown_egress (fe_wire F) (wc_name c))
      | _ \<Rightarrow> True)"

lemma respond_classified:
  assumes "env_ok F" "panic_keeps_good F D" "set_good F s" "respond D F s request w = (response, s', w')"
  shows "set_good F s' \<and> classified F request response"
proof (cases request)
  case (Call c)
  show ?thesis
  proof (cases "dl_panic D c s w")
    case None
    obtain r s1 w1 where c: "set_call F (wc_name c, wc_action c, wc_payload c) s w = (r, s1, w1)"
      by (metis prod_cases3)
    from set_call_good [OF assms(3) c] assms(1,4) Call None c show ?thesis
      by (auto simp: respond_def dispatch_call_def classified_def split: sum.splits)
  next
    case (Some p)
    then obtain err where p: "dl_panic D c s w = Some (err, s', w')"
      using Call assms(4) by (cases p) (simp add: respond_def dispatch_call_def)
    with assms(2,3) have "set_good F s'" unfolding panic_keeps_good_def by blast
    with Call p assms(4) show ?thesis by (auto simp: respond_def dispatch_call_def classified_def)
  qed
qed (use assms(3,4) in \<open>auto simp: respond_def classified_def\<close>)

text \<open>A capability that is not wired is refused, whatever the state of the others.\<close>
lemma respond_unwired:
  assumes "\<not> wired s (wc_name c)" "wc_name c \<in> set capability_names"
    "respond D F s (Call c) w = (Reply result, s', w')"
  shows "result = Inl (not_configured (fe_wire F) (wc_name c)) \<and> w' = w"
  using assms(3) not_wired_refused [OF assms(1,2), of F "(wc_action c, wc_payload c)" w]
  by (auto simp: respond_def dispatch_call_def split: option.splits)

lemma clamped_wired:
  assumes "resolve T init = Inr R"
  shows "wired (from_configs (clamp_db_statement_timeout cap R) deps) name \<longleftrightarrow> wi_select init name \<noteq> None"
  unfolding from_configs_clamp_wired [of _ _ _ deps] by (rule from_configs_wired [OF assms])

section \<open>A concrete session for witnesses\<close>

lemma daemon_ref_panics: "panic_keeps_good F daemon_ref" "panic_keeps_configs daemon_ref"
  by (simp_all add: panic_keeps_good_def panic_keeps_configs_def daemon_ref_def)

text \<open>A client of the tenant \<^verbatim>\<open>ws_a\<close> names its Redis, whose server is down, and makes one call.\<close>
lemma serve_one_call_ref:
  "\<exists>R x s' v sh' w'. resolve table_ref init_old = Inr R \<and>
     set_call fabric_ref (wc_name c, wc_action c, wc_payload c)
       (from_configs (clamp_db_statement_timeout 0 R) \<lparr>ad_breaker = None, ad_timeout = duration_from_millis 1000\<rparr>) 1 = (x, s', v) \<and>
     serve daemon_ref fabric_ref jwks_down static_ref shared_ref [Inr (Init init_old), Inr (Call c)] 0 =
       (Inr (), Ack # [Reply x], sh', w')"
proof -
  have a: "authenticate (fe_wire fabric_ref) jwks_down static_ref (0 :: nat) (Some ''old'') = Inr ()" by (rule static_ref_auth)
  have i: "wi_token init_old = Some ''old''" "wi_timeout_ms init_old = 1000"
    by (simp_all add: init_old_def init_ref_def init_none_def)
  obtain R where R: "resolve table_ref init_old = Inr R" by (simp add: init_old_def resolve_eval)
  let ?s = "from_configs (clamp_db_statement_timeout 0 R) \<lparr>ad_breaker = None, ad_timeout = duration_from_millis 1000\<rparr>"
  obtain x s' v where c: "set_call fabric_ref (wc_name c, wc_action c, wc_payload c) ?s 1 = (x, s', v)"
    by (metis prod_cases3)
  have "open_session (fe_wire fabric_ref) jwks_down static_ref shared_ref init_old (0 :: nat) = (Ack, Some ?s, shared_ref)"
    by (simp add: open_session_def i a R shared_ref_def)
  with c R show ?thesis by (simp add: serve_def daemon_ref_def respond_def dispatch_call_def)
qed

section \<open>Properties that span the components\<close>

text \<open>C19: every error a served session sees is classified: over the whole session, from the handshake through any
  sequence of calls to any capabilities, an error reply to a call names the capability that was called as its source
  and carries one of that capability's codes (connection errors that were cached by an earlier call included), and a
  call to a name that is no capability is the developer's \<^verbatim>\<open>IO_UNKNOWN\<close>.\<close>
theorem serve_errors_classified:
  assumes env: "env_ok F" "panic_keeps_good F D"
    and run: "serve D F L a sh (Inr (Init init) # rest) w = (r, Ack # out, sh', w')"
    and i: "i < length out" "rest ! i = Inr (Call c)" "out ! i = Reply (Inl e)"
  shows "if wc_name c \<in> set capability_names
    then ee_source e = wc_name c \<and> ee_code e \<in> set (capability_codes (wc_name c))
    else ee_source e = ''engine'' \<and> ee_code e = ''IO_UNKNOWN'' \<and> ee_owner e = Developer"
proof (cases rule: serve_accepted [OF run])
  case (1 R deps w1 s')
  have "\<forall>i < length out. \<exists>req. rest ! i = Inr req \<and> classified F req (out ! i)"
    by (rule serve_loop_each [where P = "set_good F", OF _ 1(3) from_configs_good]) (rule respond_classified [OF env])
  with i have "classified F (Call c) (Reply (Inl e))" by fastforce
  with env(1) show ?thesis
    by (auto simp: classified_def cap_error_def unknown_egress_def env_ok_def egress_builder_okD split: if_splits)
qed (use i in simp)

theorem serve_errors_classified_witness:
  "\<exists>e sh' w'. serve daemon_ref fabric_ref jwks_down static_ref shared_ref
       [Inr (Init init_old), Inr (Call \<lparr>wc_name = ''redis'', wc_action = ''get'', wc_payload = ''k''\<rparr>)] 0 =
     (Inr (), [Ack, Reply (Inl e)], sh', w') \<and> ee_source e = ''redis'' \<and> ee_code e \<in> set (capability_codes ''redis'')"
proof -
  let ?c = "\<lparr>wc_name = ''redis'', wc_action = ''get'', wc_payload = ''k''\<rparr>"
  obtain R x s' v sh' w' where R: "resolve table_ref init_old = Inr R"
    and x: "set_call fabric_ref (''redis'', ''get'', ''k'')
       (from_configs (clamp_db_statement_timeout 0 R) \<lparr>ad_breaker = None, ad_timeout = duration_from_millis 1000\<rparr>) 1 = (x, s', v)"
    and s: "serve daemon_ref fabric_ref jwks_down static_ref shared_ref [Inr (Init init_old), Inr (Call ?c)] 0 =
       (Inr (), Ack # [Reply x], sh', w')" using serve_one_call_ref [of ?c] by auto
  have "rc_redis R = Some redis_config_ref" using R by (auto simp: init_old_def resolve_eval)
  with x obtain e where e: "x = Inl e"
    by (auto simp: set_call_routes call_redis_def lazy_call_def slot_call_def slot_backend_def from_configs_slots clamp_keeps
        redis_slot_connect_def redis_connect_resource_def redis_connect_def fabric_ref_def redis_down_def redis_config_ref_def
        Let_def split: if_splits)
  from serve_errors_classified [OF fabric_ref_ok daemon_ref_panics(1) s, of 0 ?c e] e s
  show ?thesis by (simp add: capability_names_def)
qed

text \<open>C18: least privilege over the wire: in a session whose handshake named no resource for a capability, every reply
  to a call of that capability is the developer's \<^verbatim>\<open><CAP>_NOT_CONFIGURED\<close> error, however many calls to other
  capabilities came before it.\<close>
theorem serve_unnamed_capability_refused:
  assumes env: "egress_builder_ok (fe_wire F)" "panic_keeps_configs D"
    and run: "serve D F L a sh (Inr (Init init) # rest) w = (r, Ack # out, sh', w')"
    and i: "i < length out" "rest ! i = Inr (Call c)" "out ! i = Reply result"
    and name: "wc_name c \<in> set capability_names" "wi_select init (wc_name c) = None"
  shows "\<exists>e. result = Inl e \<and> ee_source e = wc_name c \<and> ee_code e = to_uppercase (wc_name c) @ ''_NOT_CONFIGURED'' \<and>
    ee_owner e = Developer"
proof (cases rule: serve_accepted [OF run])
  case (1 R deps w1 s')
  let ?P = "\<lambda>s. \<not> wired s (wc_name c)"
  let ?Q = "\<lambda>req resp. \<forall>x. req = Call c \<longrightarrow> resp = Reply x \<longrightarrow> x = Inl (not_configured (fe_wire F) (wc_name c))"
  have step: "?P s2 \<and> ?Q req resp" if "?P s1" "respond D F s1 req v = (resp, s2, v')" for s1 req v resp s2 v'
    using respond_wired [OF env(2) that(2)] that by (auto dest: respond_unwired [OF that(1) name(1)])
  have start: "?P (from_configs (clamp_db_statement_timeout (sh_max_statement_timeout_ms sh) R) deps)"
    using clamped_wired [OF 1(2)] name(2) by simp
  have "\<forall>i < length out. \<exists>req. rest ! i = Inr req \<and> ?Q req (out ! i)"
    by (rule serve_loop_each [where P = ?P, OF _ 1(3) start]) (rule step)
  with i have "result = Inl (not_configured (fe_wire F) (wc_name c))" by fastforce
  then show ?thesis by (simp add: not_configured_def egress_builder_okD [OF env(1)])
qed (use i in simp)

theorem serve_unnamed_capability_refused_witness:
  "\<exists>e sh' w'. serve daemon_ref fabric_ref jwks_down static_ref shared_ref
       [Inr (Init init_old), Inr (Call \<lparr>wc_name = ''mail'', wc_action = ''send'', wc_payload = []\<rparr>)] 0 =
     (Inr (), [Ack, Reply (Inl e)], sh', w') \<and> ee_code e = ''MAIL_NOT_CONFIGURED''"
proof -
  let ?c = "\<lparr>wc_name = ''mail'', wc_action = ''send'', wc_payload = []\<rparr>"
  obtain x sh' w' where s: "serve daemon_ref fabric_ref jwks_down static_ref shared_ref [Inr (Init init_old), Inr (Call ?c)] 0 =
       (Inr (), Ack # [Reply x], sh', w')" using serve_one_call_ref [of ?c] by blast
  have "egress_builder_ok (fe_wire fabric_ref)" using fabric_ref_ok by (simp add: env_ok_def)
  from serve_unnamed_capability_refused [OF this daemon_ref_panics(2) s, of 0 ?c x] s show ?thesis
    by (auto simp: capability_names_def wi_select_def init_old_def init_ref_def init_none_def not_configured_uppercase)
qed

text \<open>C33: numbers reach a JavaScript client without loss, over both stores: in the rows of a query, JSON columns apart, and
  in the documents read from a cursor at any depth, every integer is one that a double holds exactly, because wider
  integers and decimals travel as text.\<close>
theorem client_numbers_exact:
  assumes json: "floats_ok (pg_json E)" "floats_ok (mg_json M)"
    and columns: "\<forall>row \<in> set rows. \<forall>(name, ty) \<in> set (row_columns row). ty \<notin> {JSON, JSONB}"
    and cursor: "drain_loop M cursor max_docs [] w = (Inr (docs, truncated), w')"
  shows "list_all js_safe (fst (rows_to_json E rows max_rows)) \<and> list_all js_safe docs"
proof
  have "\<forall>row \<in> set rows. js_safe (row_to_json E row)" using row_to_json_safe [OF json(1)] columns by blast
  then show "list_all js_safe (fst (rows_to_json E rows max_rows))"
    by (auto simp: rows_to_json_def Let_def list_all_iff dest: in_set_takeD)
  show "list_all js_safe docs" using drain_loop_safe [OF json(2) cursor] by simp
qed

theorem client_numbers_exact_witness:
  "\<exists>docs w'. drain_loop mongo_ref 5 1 [] (None, [[(''n'', BInt64 9007199254740993)], []]) = (Inr (docs, True), w') \<and>
     list_all js_safe docs \<and> list_all js_safe (fst (rows_to_json pg_ref pg_ref_rows 10))"
proof -
  have j: "floats_ok (pg_json pg_ref)" "floats_ok (mg_json mongo_ref)"
    by (simp_all add: floats_ok_def pg_ref_def mongo_ref_def json_ref_def)
  have c: "\<forall>row \<in> set pg_ref_rows. \<forall>(name, ty) \<in> set (row_columns row). ty \<notin> {JSON, JSONB}"
    by (simp add: pg_ref_rows_def)
  obtain docs w' where d: "drain_loop mongo_ref 5 1 [] (None, [[(''n'', BInt64 9007199254740993)], []]) = (Inr (docs, True), w')"
    by (simp add: drain_loop.simps mongo_ref_def)
  from client_numbers_exact [OF j c d] d show ?thesis by blast
qed

end
